(* ===== verification/Prelude.thy ===== *)
theory Prelude
  imports Complex_Main "HOL-Library.Word"
begin

text \<open>
  Shared vocabulary of the development: the named collections the component theories feed,
  the types for bytes and thrown exceptions, and the generic facts on lists and words that
  several components use.

  Conventions.  A JavaScript \<^verbatim>\<open>string\<close> is represented by the list of bytes of its (generalised)
  UTF-8 encoding, one \<^typ>\<open>char\<close> per byte, so that ASCII text is written as a literal; the
  number of UTF-16 code units that \<^verbatim>\<open>s.length\<close> counts is computed by \<open>js_length\<close> of the theory
  JsValue.  A \<^verbatim>\<open>Uint8Array\<close> is a list of 8-bit words.  A thrown exception is a value of
  \<open>exn\<close>, and a function that may throw returns \<open>exn + 'a\<close> with \<open>Inl\<close> for the exception.
\<close>

subsection \<open>Collections\<close>

named_theorems codec_simps \<open>round-trip equations of the encoders and decoders\<close>
named_theorems relay_defs \<open>the handlers of the relay channel\<close>
named_theorems frame_simps \<open>fields an operation leaves alone\<close>

subsection \<open>Types\<close>

type_synonym byte = "8 word"
type_synonym bytes = "byte list"

datatype exn =
    Error string          \<comment> \<open>\<^verbatim>\<open>throw new Error(message)\<close> of the source\<close>
  | TypeError             \<comment> \<open>raised by the language, e.g. a method call on a non-string\<close>
  | DOMException string   \<comment> \<open>raised by the platform, e.g. \<^verbatim>\<open>atob\<close>\<close>
  | SyntaxError           \<comment> \<open>raised by \<^verbatim>\<open>JSON.parse\<close>\<close>
  | URIError              \<comment> \<open>raised by \<^verbatim>\<open>encodeURIComponent\<close>\<close>
  | RangeError            \<comment> \<open>raised by the language, e.g. a \<^verbatim>\<open>DataView\<close> out of bounds\<close>
  | LibError              \<comment> \<open>raised inside a third-party package\<close>

type_synonym 'a res = "exn + 'a"

text \<open>Sequencing of computations that may throw, and the conversion of an optional result.\<close>

definition res_bind :: "'a res \<Rightarrow> ('a \<Rightarrow> 'b res) \<Rightarrow> 'b res" where
  "res_bind m f = (case m of Inl e \<Rightarrow> Inl e | Inr x \<Rightarrow> f x)"

definition of_lib :: "'a option \<Rightarrow> 'a res" where
  "of_lib x = (case x of None \<Rightarrow> Inl LibError | Some y \<Rightarrow> Inr y)"

lemma res_bind_simps [simp]: "res_bind (Inl e) f = Inl e" "res_bind (Inr x) f = f x"
  by (simp_all add: res_bind_def)

lemma res_bind_Inr: "res_bind m f = Inr y \<longleftrightarrow> (\<exists>x. m = Inr x \<and> f x = Inr y)"
  by (cases m) auto

lemma of_lib_simps [simp]: "of_lib None = Inl LibError" "of_lib (Some x) = Inr x"
  by (simp_all add: of_lib_def)

lemma of_lib_Inr [simp]: "of_lib x = Inr y \<longleftrightarrow> x = Some y"
  by (cases x) auto

definition byte_of_char :: "char \<Rightarrow> byte" where
  "byte_of_char c = word_of_nat (of_char c)"

definition char_of_byte :: "byte \<Rightarrow> char" where
  "char_of_byte b = char_of (unat b)"

subsection \<open>Bytes and characters\<close>

lemma char_of_byte_of_char [simp, codec_simps]: "char_of_byte (byte_of_char c) = c"
  by (simp add: char_of_byte_def byte_of_char_def unat_of_nat)

lemma byte_of_char_of_byte [simp, codec_simps]: "byte_of_char (char_of_byte b) = b"
proof -
  have "unat b < 256" using unsigned_less [of b, where 'a = nat] by simp
  then show ?thesis
    by (simp add: char_of_byte_def byte_of_char_def)
qed

lemma char_byte_comp [simp, codec_simps]:
  "char_of_byte \<circ> byte_of_char = id" "byte_of_char \<circ> char_of_byte = id"
  by (simp_all add: fun_eq_iff)

lemma byte_of_char_inj [simp]: "byte_of_char c = byte_of_char d \<longleftrightarrow> c = d"
  by (metis char_of_byte_of_char)

subsection \<open>Lists\<close>

lemma take_append_exact [simp]: "length xs = n \<Longrightarrow> take n (xs @ ys) = xs"
  by simp

lemma drop_append_exact [simp]: "length xs = n \<Longrightarrow> drop n (xs @ ys) = ys"
  by simp

lemma append_eq_same_length:
  "length xs = length us \<Longrightarrow> (xs @ ys = us @ vs) = (xs = us \<and> ys = vs)"
  by simp

lemma distinct_map_fst_filter: "distinct (map fst m) \<Longrightarrow> distinct (map fst (filter P m))"
  by (induction m) auto

end
