(* ===== verification/JsMap.thy ===== *)
theory JsMap
  imports Prelude
begin

text \<open>
  The insertion-ordered dictionary of JavaScript (\<^verbatim>\<open>Map\<close>, \<^verbatim>\<open>Set\<close> and plain objects): an
  association list, oldest entry first.  Setting an existing key keeps its position, setting
  a new key appends, deleting removes the entry.  The interface the sessions and the relay
  rely on is the locale \<open>ordered_map\<close>; it is interpreted on the association lists at the end.
\<close>

type_synonym ('k, 'v) jsmap = "('k \<times> 'v) list"

definition js_get :: "('k, 'v) jsmap \<Rightarrow> 'k \<Rightarrow> 'v option" where
  "js_get m k = map_of m k"

fun js_set :: "('k, 'v) jsmap \<Rightarrow> 'k \<Rightarrow> 'v \<Rightarrow> ('k, 'v) jsmap" where
  "js_set [] k v = [(k, v)]"
| "js_set ((k', v') # m) k v = (if k' = k then (k, v) # m else (k', v') # js_set m k v)"

definition js_delete :: "('k, 'v) jsmap \<Rightarrow> 'k \<Rightarrow> ('k, 'v) jsmap" where
  "js_delete m k = filter (\<lambda>e. fst e \<noteq> k) m"

definition js_size :: "('k, 'v) jsmap \<Rightarrow> nat" where
  "js_size m = length m"

definition js_keys :: "('k, 'v) jsmap \<Rightarrow> 'k list" where
  "js_keys m = map fst m"

definition js_map_ok :: "('k, 'v) jsmap \<Rightarrow> bool" where
  "js_map_ok m \<longleftrightarrow> distinct (map fst m)"

text \<open>A \<^verbatim>\<open>Set\<close> is kept as the list of its elements in insertion order.\<close>

definition js_add :: "'a list \<Rightarrow> 'a \<Rightarrow> 'a list" where
  "js_add xs x = (if x \<in> set xs then xs else xs @ [x])"

definition js_remove :: "'a list \<Rightarrow> 'a \<Rightarrow> 'a list" where
  "js_remove xs x = filter (\<lambda>y. y \<noteq> x) xs"

subsection \<open>Laws of the association lists\<close>

lemma js_get_simps [simp]:
  "js_get [] k = None"
  "js_get ((k', v) # m) k = (if k' = k then Some v else js_get m k)"
  by (simp_all add: js_get_def)

lemma js_get_set [simp]: "js_get (js_set m k v) k' = (if k' = k then Some v else js_get m k')"
  by (induction m k v rule: js_set.induct) auto

lemma js_get_delete [simp]: "js_get (js_delete m k) k' = (if k' = k then None else js_get m k')"
  by (induction m) (auto simp: js_delete_def)

lemma js_keys_set: "set (js_keys (js_set m k v)) = insert k (set (js_keys m))"
  by (induction m k v rule: js_set.induct) (auto simp: js_keys_def)

lemma js_map_ok_set [simp]: "js_map_ok m \<Longrightarrow> js_map_ok (js_set m k v)"
proof (induction m k v rule: js_set.induct)
  case (2 k' v' m k v)
  have "fst ` set (js_set m k v) = insert k (fst ` set m)"
    using js_keys_set [of m k v] by (simp add: js_keys_def)
  with 2 show ?case by (auto simp: js_map_ok_def)
qed (simp add: js_map_ok_def)

lemma js_map_ok_delete [simp]: "js_map_ok m \<Longrightarrow> js_map_ok (js_delete m k)"
  by (simp add: js_map_ok_def js_delete_def distinct_map_fst_filter)

lemma js_map_ok_Nil [simp]: "js_map_ok []"
  by (simp add: js_map_ok_def)

lemma js_set_new: "js_get m k = None \<Longrightarrow> js_set m k v = m @ [(k, v)]"
  by (induction m k v rule: js_set.induct) (auto split: if_splits)

lemma js_size_simps [simp]: "js_size [] = 0" "js_size (m @ n) = js_size m + js_size n"
  by (simp_all add: js_size_def)

lemma js_size_set: "js_size (js_set m k v) = (if js_get m k = None then Suc (js_size m) else js_size m)"
  by (induction m k v rule: js_set.induct) (auto simp: js_size_def)

lemma js_get_None_iff: "js_get m k = None \<longleftrightarrow> k \<notin> set (js_keys m)"
  by (simp add: js_get_def js_keys_def map_of_eq_None_iff)

lemma js_delete_absent [simp]: "js_get m k = None \<Longrightarrow> js_delete m k = m"
  by (auto simp: js_get_None_iff js_keys_def js_delete_def filter_id_conv)

lemma js_size_delete_le: "js_size (js_delete m k) \<le> js_size m"
  by (simp add: js_size_def js_delete_def)

lemma js_size_delete_less: "js_get m k \<noteq> None \<Longrightarrow> js_size (js_delete m k) < js_size m"
  by (induction m) (auto simp: js_size_def js_delete_def le_imp_less_Suc split: if_splits)

lemma js_delete_hd: "js_map_ok ((k, v) # m) \<Longrightarrow> js_delete ((k, v) # m) k = m"
  by (auto simp: js_delete_def js_map_ok_def filter_id_conv)

lemma js_add_distinct [simp]: "distinct xs \<Longrightarrow> distinct (js_add xs x)"
  by (simp add: js_add_def)

lemma js_remove_distinct [simp]: "distinct xs \<Longrightarrow> distinct (js_remove xs x)"
  by (simp add: js_remove_def)

lemma set_js_add [simp]: "set (js_add xs x) = insert x (set xs)"
  by (auto simp: js_add_def)

lemma set_js_remove [simp]: "set (js_remove xs x) = set xs - {x}"
  by (auto simp: js_remove_def)

lemma length_js_add_le: "length (js_add xs x) \<le> Suc (length xs)"
  by (simp add: js_add_def)

lemma length_js_remove_le: "length (js_remove xs x) \<le> length xs"
  by (simp add: js_remove_def)

subsection \<open>The dictionary interface\<close>

locale ordered_map =
  fixes empty :: "'m"
    and get :: "'m \<Rightarrow> 'k \<Rightarrow> 'v option"
    and put :: "'m \<Rightarrow> 'k \<Rightarrow> 'v \<Rightarrow> 'm"
    and del :: "'m \<Rightarrow> 'k \<Rightarrow> 'm"
    and size_of :: "'m \<Rightarrow> nat"
    and invar :: "'m \<Rightarrow> bool"
  assumes get_empty: "get empty k = None"
    and get_put: "get (put m k v) k' = (if k' = k then Some v else get m k')"
    and get_del: "get (del m k) k' = (if k' = k then None else get m k')"
    and size_empty: "size_of empty = 0"
    and size_put: "size_of (put m k v) = (if get m k = None then Suc (size_of m) else size_of m)"
    and size_del: "size_of (del m k) \<le> size_of m"
    and size_del_present: "get m k \<noteq> None \<Longrightarrow> size_of (del m k) < size_of m"
    and invar_empty: "invar empty"
    and invar_put: "invar m \<Longrightarrow> invar (put m k v)"
    and invar_del: "invar m \<Longrightarrow> invar (del m k)"
begin

text \<open>Moving an entry (delete, then set: how an LRU touch is written) keeps the size bound
  and the contents.\<close>

lemma move_get: "get m k = Some v \<Longrightarrow> get (put (del m k) k v) k' = get m k'"
  by (simp add: get_put get_del)

lemma move_size: "get m k \<noteq> None \<Longrightarrow> size_of (put (del m k) k v) \<le> size_of m"
  using size_del_present [of m k] by (simp add: size_put get_del)

lemma move_invar: "invar m \<Longrightarrow> invar (put (del m k) k v)"
  by (simp add: invar_put invar_del)

text \<open>A guarded insert never passes the limit its guard tests.\<close>

lemma guarded_put_bound: "size_of m < n \<Longrightarrow> size_of (put m k v) \<le> n"
  by (simp add: size_put)

end

interpretation js: ordered_map "[]" js_get js_set js_delete js_size js_map_ok
  by unfold_locales
    (simp_all add: js_size_set js_size_delete_le js_size_delete_less)

end
