(* ===== verification/JsValue.thy ===== *)
theory JsValue
  imports JsMap
begin

text \<open>
  The values of JavaScript the protocol code inspects dynamically (\<^verbatim>\<open>unknown\<close>, decrypted
  JSON, message bodies) and the parts of the standard library it uses on them: property
  access, truthiness, spread, string length and slicing, decimal printing, and the platform
  text codecs \<^verbatim>\<open>TextEncoder\<close> and \<^verbatim>\<open>TextDecoder\<close>.  Numbers are exact rationals: rounding to
  IEEE doubles is not modelled (every number the protocol itself writes is a small integer).
\<close>

datatype jsval =
    JUndef
  | JNull
  | JBool bool
  | JNum rat
  | JStr string
  | JArr "jsval list"
  | JObj "(string \<times> jsval) list"

subsection \<open>Property access and truthiness\<close>

definition jget :: "jsval \<Rightarrow> string \<Rightarrow> jsval" where
  "jget v k = (case v of JObj ps \<Rightarrow> (case js_get ps k of Some x \<Rightarrow> x | None \<Rightarrow> JUndef) | _ \<Rightarrow> JUndef)"

definition jhas :: "jsval \<Rightarrow> string \<Rightarrow> bool" where
  "jhas v k = (case v of JObj ps \<Rightarrow> js_get ps k \<noteq> None | _ \<Rightarrow> False)"

definition truthy :: "jsval \<Rightarrow> bool" where
  "truthy v = (case v of JUndef \<Rightarrow> False | JNull \<Rightarrow> False | JBool b \<Rightarrow> b | JNum q \<Rightarrow> q \<noteq> 0
     | JStr s \<Rightarrow> s \<noteq> [] | _ \<Rightarrow> True)"

definition nullish :: "jsval \<Rightarrow> bool" where
  "nullish v \<longleftrightarrow> v = JUndef \<or> v = JNull"

text \<open>\<^verbatim>\<open>v ?? d\<close>\<close>

definition coalesce :: "jsval \<Rightarrow> jsval \<Rightarrow> jsval" where
  "coalesce v d = (if nullish v then d else v)"

text \<open>\<^verbatim>\<open>typeof v === 'object' && v !== null\<close>\<close>

definition is_object :: "jsval \<Rightarrow> bool" where
  "is_object v = (case v of JArr _ \<Rightarrow> True | JObj _ \<Rightarrow> True | _ \<Rightarrow> False)"

definition is_array :: "jsval \<Rightarrow> bool" where
  "is_array v = (case v of JArr _ \<Rightarrow> True | _ \<Rightarrow> False)"

definition is_string :: "jsval \<Rightarrow> bool" where
  "is_string v = (case v of JStr _ \<Rightarrow> True | _ \<Rightarrow> False)"

definition jstr :: "jsval \<Rightarrow> string option" where
  "jstr v = (case v of JStr s \<Rightarrow> Some s | _ \<Rightarrow> None)"

definition jelems :: "jsval \<Rightarrow> jsval list" where
  "jelems v = (case v of JArr vs \<Rightarrow> vs | _ \<Rightarrow> [])"

subsection \<open>Strings\<close>

fun dec_digits :: "nat \<Rightarrow> string" where
  "dec_digits n = (if n < 10 then [char_of (48 + n)] else dec_digits (n div 10) @ [char_of (48 + n mod 10)])"

declare dec_digits.simps [simp del]

text \<open>\<^verbatim>\<open>`${n}`\<close> for an integer below \<open>10^21\<close> (beyond it the language switches to exponents).\<close>

definition int_to_string :: "int \<Rightarrow> string" where
  "int_to_string i = (if i < 0 then ''-'' @ dec_digits (nat (- i)) else dec_digits (nat i))"

text \<open>UTF-16 code units contributed by one byte of the UTF-8 encoding.\<close>

definition utf16_width :: "char \<Rightarrow> nat" where
  "utf16_width c = (let n = (of_char c :: nat) in
     if n < 128 then 1 else if n < 192 then 0 else if n < 240 then 1 else 2)"

definition js_length :: "string \<Rightarrow> nat" where
  "js_length s = sum_list (map utf16_width s)"

text \<open>\<^verbatim>\<open>s.slice(n)\<close> at a character boundary.\<close>

fun js_drop :: "nat \<Rightarrow> string \<Rightarrow> string" where
  "js_drop n [] = []"
| "js_drop n (c # s) =
     (if n = 0 \<and> utf16_width c \<noteq> 0 then c # s else js_drop (n - utf16_width c) s)"

definition is_ascii :: "string \<Rightarrow> bool" where
  "is_ascii s = list_all (\<lambda>c. (of_char c :: nat) < 128) s"

fun starts_with :: "string \<Rightarrow> string \<Rightarrow> bool" where
  "starts_with s [] = True"
| "starts_with [] (p # ps) = False"
| "starts_with (c # s) (p # ps) = (c = p \<and> starts_with s ps)"

text \<open>\<^verbatim>\<open>s.includes(p)\<close>\<close>

fun js_includes :: "string \<Rightarrow> string \<Rightarrow> bool" where
  "js_includes [] p = (p = [])"
| "js_includes (c # s) p = (starts_with (c # s) p \<or> js_includes s p)"

text \<open>\<^verbatim>\<open>s.split(sep)\<close> with a one-character separator, and its inverse \<^verbatim>\<open>xs.join(sep)\<close>.\<close>

fun js_split :: "char \<Rightarrow> string \<Rightarrow> string list" where
  "js_split d [] = [[]]"
| "js_split d (c # s) =
     (if c = d then [] # js_split d s
      else (case js_split d s of [] \<Rightarrow> [[c]] | w # ws \<Rightarrow> (c # w) # ws))"

fun js_join :: "string \<Rightarrow> string list \<Rightarrow> string" where
  "js_join d [] = []"
| "js_join d [w] = w"
| "js_join d (w # v # ws) = w @ d @ js_join d (v # ws)"

text \<open>\<^verbatim>\<open>{...o}\<close>: the own enumerable properties that a spread copies.\<close>

definition own_props :: "jsval \<Rightarrow> (string \<times> jsval) list" where
  "own_props v = (case v of JObj ps \<Rightarrow> ps
     | JArr vs \<Rightarrow> zip (map dec_digits [0..<length vs]) vs
     | _ \<Rightarrow> [])"

fun spread :: "(string \<times> jsval) list \<Rightarrow> (string \<times> jsval) list \<Rightarrow> (string \<times> jsval) list" where
  "spread ps [] = ps"
| "spread ps ((k, v) # qs) = spread (js_set ps k v) qs"

subsection \<open>TextEncoder and TextDecoder\<close>

definition replacement :: string where
  "replacement = map char_of [239, 191, 189::nat]"

text \<open>State of the UTF-8 decoder: the bytes of the character read so far, how many are still
  missing, and the range the next one must lie in.\<close>

type_synonym utf8_state = "string \<times> nat \<times> nat \<times> nat"

definition utf8_init :: utf8_state where
  "utf8_init = ([], 0, 128, 191)"

definition utf8_start :: "char \<Rightarrow> string \<times> utf8_state" where
  "utf8_start c = (let n = (of_char c :: nat) in
     if n < 128 then ([c], utf8_init)
     else if 194 \<le> n \<and> n \<le> 223 then ([], ([c], 1, 128, 191))
     else if n = 224 then ([], ([c], 2, 160, 191))
     else if n = 237 then ([], ([c], 2, 128, 159))
     else if 225 \<le> n \<and> n \<le> 239 then ([], ([c], 2, 128, 191))
     else if n = 240 then ([], ([c], 3, 144, 191))
     else if 241 \<le> n \<and> n \<le> 243 then ([], ([c], 3, 128, 191))
     else if n = 244 then ([], ([c], 3, 128, 143))
     else (replacement, utf8_init))"

fun utf8_step :: "utf8_state \<Rightarrow> char \<Rightarrow> string \<times> utf8_state" where
  "utf8_step (acc, need, lo, hi) c =
     (if need = 0 then utf8_start c
      else if lo \<le> (of_char c :: nat) \<and> (of_char c :: nat) \<le> hi then
        (if need = 1 then (acc @ [c], utf8_init) else ([], (acc @ [c], need - 1, 128, 191)))
      else (replacement @ fst (utf8_start c), snd (utf8_start c)))"

fun utf8_decode :: "utf8_state \<Rightarrow> string \<Rightarrow> string" where
  "utf8_decode (acc, need, lo, hi) [] = (if need = 0 then [] else replacement)"
| "utf8_decode st (c # s) = fst (utf8_step st c) @ utf8_decode (snd (utf8_step st c)) s"

text \<open>Whether the decoder reads \<open>s\<close> without a replacement.\<close>

fun utf8_accepts :: "utf8_state \<Rightarrow> string \<Rightarrow> bool" where
  "utf8_accepts (acc, need, lo, hi) [] = (need = 0)"
| "utf8_accepts (acc, need, lo, hi) (c # s) =
     ((if need = 0 then (of_char c :: nat) < 128 \<or> (194 \<le> (of_char c :: nat) \<and> (of_char c :: nat) \<le> 244)
       else lo \<le> (of_char c :: nat) \<and> (of_char c :: nat) \<le> hi)
      \<and> utf8_accepts (snd (utf8_step (acc, need, lo, hi) c)) s)"

definition utf8_ok :: "string \<Rightarrow> bool" where
  "utf8_ok s = utf8_accepts utf8_init s"

definition strip_bom :: "string \<Rightarrow> string" where
  "strip_bom s = (if starts_with s (map char_of [239, 187, 191::nat]) then drop 3 s else s)"

text \<open>\<^verbatim>\<open>new TextDecoder().decode(b)\<close>\<close>

definition text_decode :: "bytes \<Rightarrow> string" where
  "text_decode b = strip_bom (utf8_decode utf8_init (map char_of_byte b))"

text \<open>\<^verbatim>\<open>new TextEncoder().encode(s)\<close>: the identity on the representation, except that a lone
  surrogate becomes the replacement character.\<close>

fun replace_surrogates :: "string \<Rightarrow> string" where
  "replace_surrogates (a # b # c # s) =
     (if (of_char a :: nat) = 237 \<and> 160 \<le> (of_char b :: nat)
      then replacement @ replace_surrogates s
      else a # replace_surrogates (b # c # s))"
| "replace_surrogates s = s"

definition text_encode :: "string \<Rightarrow> bytes" where
  "text_encode s = map byte_of_char (replace_surrogates s)"

subsection \<open>Lemmas\<close>

lemma jget_simps [simp]:
  "jget JUndef k = JUndef" "jget JNull k = JUndef" "jget (JStr s) k = JUndef"
  "jget (JArr vs) k = JUndef" "jget (JNum q) k = JUndef" "jget (JBool b) k = JUndef"
  "jget (JObj []) k = JUndef"
  "jget (JObj ((k', v) # ps)) k = (if k' = k then v else jget (JObj ps) k)"
  by (simp_all add: jget_def)

lemma jhas_simps [simp]:
  "jhas (JObj []) k = False"
  "jhas (JObj ((k', v) # ps)) k = (k' = k \<or> jhas (JObj ps) k)"
  by (simp_all add: jhas_def)

lemma truthy_simps [simp]:
  "\<not> truthy JUndef" "\<not> truthy JNull" "truthy (JBool b) = b" "truthy (JNum q) = (q \<noteq> 0)"
  "truthy (JStr s) = (s \<noteq> [])" "truthy (JArr vs)" "truthy (JObj ps)"
  by (simp_all add: truthy_def)

lemma nullish_simps [simp]:
  "nullish JUndef" "nullish JNull" "\<not> nullish (JBool b)" "\<not> nullish (JNum q)"
  "\<not> nullish (JStr s)" "\<not> nullish (JArr vs)" "\<not> nullish (JObj ps)"
  by (simp_all add: nullish_def)

lemma coalesce_idem [simp]: "coalesce (coalesce v JNull) JNull = coalesce v JNull"
  by (simp add: coalesce_def)

lemma is_object_simps [simp]:
  "\<not> is_object JUndef" "\<not> is_object JNull" "\<not> is_object (JBool b)" "\<not> is_object (JNum q)"
  "\<not> is_object (JStr s)" "is_object (JArr vs)" "is_object (JObj ps)"
  by (simp_all add: is_object_def)

lemma js_length_Cons [simp]: "js_length [] = 0" "js_length (c # s) = utf16_width c + js_length s"
  by (simp_all add: js_length_def)

lemma js_length_append [simp]: "js_length (s @ t) = js_length s + js_length t"
  by (simp add: js_length_def)

lemma is_ascii_simps [simp]:
  "is_ascii []" "is_ascii (c # s) = ((of_char c :: nat) < 128 \<and> is_ascii s)"
  "is_ascii (s @ t) = (is_ascii s \<and> is_ascii t)"
  by (simp_all add: is_ascii_def)

lemma js_length_ascii: "is_ascii s \<Longrightarrow> js_length s = length s"
  by (induction s) (auto simp: utf16_width_def Let_def)

lemma js_drop_ascii_prefix:
  "is_ascii s \<Longrightarrow> t = [] \<or> utf16_width (hd t) \<noteq> 0 \<Longrightarrow> js_drop (length s) (s @ t) = t"
proof (induction s)
  case Nil
  then show ?case by (cases t) auto
next
  case (Cons c s)
  then have "utf16_width c = 1" by (simp add: utf16_width_def)
  with Cons show ?case by simp
qed

lemma starts_with_append [simp]: "starts_with (p @ s) p"
  by (induction p) auto

lemma starts_with_iff: "starts_with s p \<longleftrightarrow> (\<exists>t. s = p @ t)"
  by (induction s p rule: starts_with.induct) auto

lemma js_split_nonempty [simp]: "js_split d s \<noteq> []"
  by (induction s) (auto split: list.splits)

lemma js_split_no_sep: "d \<notin> set s \<Longrightarrow> js_split d s = [s]"
  by (induction s) auto

lemma js_split_append: "d \<notin> set w \<Longrightarrow> js_split d (w @ d # s) = w # js_split d s"
  by (induction w) auto

lemma js_split_join [codec_simps]:
  "ws \<noteq> [] \<Longrightarrow> list_all (\<lambda>w. d \<notin> set w) ws \<Longrightarrow> js_split d (js_join [d] ws) = ws"
  by (induction "[d]" ws rule: js_join.induct) (auto simp: js_split_no_sep js_split_append)

lemma utf8_decode_accepted:
  "utf8_accepts (acc, need, lo, hi) s \<Longrightarrow>
     utf8_decode (acc, need, lo, hi) s = (if need = 0 then [] else acc) @ s"
proof (induction s arbitrary: acc need lo hi)
  case Nil
  then show ?case by (simp split: if_splits)
next
  case (Cons c s)
  obtain out acc' need' lo' hi' where st: "utf8_step (acc, need, lo, hi) c = (out, acc', need', lo', hi')"
    by (metis prod_cases5)
  from Cons.prems st have "utf8_accepts (acc', need', lo', hi') s" by simp
  from Cons.IH [OF this] have IH: "utf8_decode (acc', need', lo', hi') s = (if need' = 0 then [] else acc') @ s" .
  have "out @ (if need' = 0 then [] else acc') = (if need = 0 then [] else acc) @ [c]"
    using Cons.prems st
    by (auto simp: utf8_start_def utf8_init_def Let_def split: if_splits)
  with IH st show ?case
    by (metis append.assoc append_Cons append_Nil fst_conv snd_conv utf8_decode.simps(2))
qed

lemma utf8_decode_ok: "utf8_ok s \<Longrightarrow> utf8_decode utf8_init s = s"
  by (simp add: utf8_ok_def utf8_init_def utf8_decode_accepted)

lemma utf8_ok_ascii: "is_ascii s \<Longrightarrow> utf8_ok s"
  unfolding utf8_ok_def
  by (induction s) (auto simp: utf8_init_def utf8_start_def)

lemma utf8_step_hi:
  "hi \<le> 191 \<Longrightarrow> snd (snd (snd (snd (utf8_step (acc, need, lo, hi) c)))) \<le> 191"
  by (auto simp: utf8_start_def utf8_init_def Let_def)

lemma accepted_no_surrogates:
  "utf8_accepts (acc, need, lo, hi) s \<Longrightarrow> hi \<le> 191 \<Longrightarrow> replace_surrogates s = s"
proof (induction s arbitrary: acc need lo hi rule: replace_surrogates.induct)
  case (1 a b c s)
  obtain acc' need' lo' hi' where st: "snd (utf8_step (acc, need, lo, hi) a) = (acc', need', lo', hi')"
    by (metis prod_cases4)
  from "1.prems"(1) st have next_ok: "utf8_accepts (acc', need', lo', hi') (b # c # s)" by simp
  from utf8_step_hi [OF "1.prems"(2), of acc need lo a] st have hi': "hi' \<le> 191" by simp
  have "\<not> ((of_char a :: nat) = 237 \<and> 160 \<le> (of_char b :: nat))"
  proof
    assume sur: "(of_char a :: nat) = 237 \<and> 160 \<le> (of_char b :: nat)"
    with "1.prems" have "need = 0" by (auto split: if_splits)
    with st sur have "need' = 2" "lo' = 128" "hi' = 159" by (auto simp: utf8_start_def)
    with next_ok sur show False by simp
  qed
  with "1.IH"(2) next_ok hi' show ?case by auto
qed auto

lemma utf8_ok_no_surrogates: "utf8_ok s \<Longrightarrow> replace_surrogates s = s"
  by (simp add: utf8_ok_def utf8_init_def accepted_no_surrogates)

lemma text_encode_ok: "utf8_ok s \<Longrightarrow> text_encode s = map byte_of_char s"
  by (simp add: text_encode_def utf8_ok_no_surrogates)

lemmas text_encode_ascii = text_encode_ok [OF utf8_ok_ascii]

lemma strip_bom_ascii: "is_ascii s \<Longrightarrow> strip_bom s = s"
  by (cases s) (auto simp: strip_bom_def)

text \<open>An encoded string is decoded to itself, unless it starts with a byte order mark.\<close>

lemma text_decode_encode [codec_simps]:
  "utf8_ok s \<Longrightarrow> strip_bom s = s \<Longrightarrow> text_decode (text_encode s) = s"
  by (simp add: text_decode_def text_encode_ok utf8_decode_ok)

lemma text_decode_encode_ascii: "is_ascii s \<Longrightarrow> text_decode (text_encode s) = s"
  by (simp add: text_decode_encode utf8_ok_ascii strip_bom_ascii)

end
