(* ===== verification/JsJson.thy ===== *)
theory JsJson
  imports JsValue
begin

text \<open>
  \<^verbatim>\<open>JSON.stringify\<close> and \<^verbatim>\<open>JSON.parse\<close> of the language's standard library, as the SDK and the
  relay use them: a printer over \<open>jsval\<close> and a recursive-descent parser with fuel.  The fuel of
  \<open>JSON_parse\<close> is twice the length of the text plus two, which the round-trip lemma shows to be
  enough for every printed value.  Not modelled: lone surrogates (printed as they are).
\<close>

subsection \<open>Printing\<close>

definition hex_digit :: "nat \<Rightarrow> char" where
  "hex_digit n = (if n < 10 then char_of (48 + n) else char_of (87 + n))"

definition json_escape :: "char \<Rightarrow> string" where
  "json_escape c = (let n = (of_char c :: nat) in
     if n = 34 then [char_of (92::nat), c]
     else if n = 92 then [c, c]
     else if n = 8 then [char_of (92::nat), CHR ''b'']
     else if n = 9 then [char_of (92::nat), CHR ''t'']
     else if n = 10 then [char_of (92::nat), CHR ''n'']
     else if n = 12 then [char_of (92::nat), CHR ''f'']
     else if n = 13 then [char_of (92::nat), CHR ''r'']
     else if n < 32 then [char_of (92::nat)] @ ''u00'' @ [hex_digit (n div 16), hex_digit (n mod 16)]
     else [c])"

definition json_quote :: "string \<Rightarrow> string" where
  "json_quote s = [CHR 0x22] @ concat (map json_escape s) @ [CHR 0x22]"

text \<open>\<^verbatim>\<open>Number.prototype.toString\<close>: the shortest decimal \<open>s \<sdot> 10^(n - k)\<close> with \<open>k\<close> digits.\<close>

fun scale10 :: "nat \<Rightarrow> rat \<Rightarrow> nat \<Rightarrow> nat" where
  "scale10 0 q k = k"
| "scale10 (Suc f) q k = (if snd (quotient_of (q * 10 ^ k)) = 1 then k else scale10 f q (Suc k))"

fun strip_zeros :: "string \<Rightarrow> string" where
  "strip_zeros s = (if s \<noteq> [] \<and> last s = CHR ''0'' then strip_zeros (butlast s) else s)"

declare strip_zeros.simps [simp del]

definition num_to_string :: "rat \<Rightarrow> string" where
  "num_to_string q =
     (let i = \<lfloor>q\<rfloor> in
      if of_int i = q \<and> \<bar>i\<bar> < 10 ^ 21 then int_to_string i
      else
        let e = scale10 400 \<bar>q\<bar> 0;
            all = dec_digits (nat \<lfloor>\<bar>q\<bar> * 10 ^ e\<rfloor>);
            ds = strip_zeros all;
            k = length ds;
            n = int (length all) - int e;
            sign = (if q < 0 then ''-'' else [])
        in sign @
          (if 0 < n \<and> n \<le> 21 then take (nat n) ds @ ''.'' @ drop (nat n) ds
           else if - 6 < n \<and> n \<le> 0 then ''0.'' @ replicate (nat (- n)) (CHR ''0'') @ ds
           else (if k = 1 then ds else take 1 ds @ ''.'' @ drop 1 ds) @ ''e'' @
                (if n - 1 < 0 then ''-'' else ''+'') @ dec_digits (nat \<bar>n - 1\<bar>)))"

fun json_text :: "jsval \<Rightarrow> string"
  and json_elems :: "jsval list \<Rightarrow> string"
  and json_members :: "(string \<times> jsval) list \<Rightarrow> string" where
  "json_text JUndef = ''null''"
| "json_text JNull = ''null''"
| "json_text (JBool b) = (if b then ''true'' else ''false'')"
| "json_text (JNum q) = num_to_string q"
| "json_text (JStr s) = json_quote s"
| "json_text (JArr vs) = ''['' @ json_elems vs @ '']''"
| "json_text (JObj ps) = ''{'' @ json_members ps @ ''}''"
| "json_elems [] = []"
| "json_elems (v # vs) = json_text v @ (if vs = [] then [] else '','' @ json_elems vs)"
| "json_members [] = []"
| "json_members ((k, v) # ps) =
     (if v = JUndef then json_members ps
      else json_quote k @ '':'' @ json_text v @
        (if json_members ps = [] then [] else '','' @ json_members ps))"

text \<open>\<^verbatim>\<open>JSON.stringify(v)\<close>; the source never passes \<^verbatim>\<open>undefined\<close> at the top.\<close>

definition JSON_stringify :: "jsval \<Rightarrow> string" where
  "JSON_stringify v = json_text v"

subsection \<open>Parsing\<close>

definition is_ws :: "char \<Rightarrow> bool" where
  "is_ws c = ((of_char c :: nat) \<in> {9, 10, 13, 32})"

definition skip_ws :: "string \<Rightarrow> string" where
  "skip_ws s = dropWhile is_ws s"

definition is_digit :: "char \<Rightarrow> bool" where
  "is_digit c = (48 \<le> (of_char c :: nat) \<and> (of_char c :: nat) \<le> 57)"

definition digit_val :: "char \<Rightarrow> nat" where
  "digit_val c = of_char c - 48"

definition digits_val :: "string \<Rightarrow> nat" where
  "digits_val s = foldl (\<lambda>n c. 10 * n + digit_val c) 0 s"

definition hex_val :: "char \<Rightarrow> nat option" where
  "hex_val c = (let n = (of_char c :: nat) in
     if 48 \<le> n \<and> n \<le> 57 then Some (n - 48)
     else if 97 \<le> n \<and> n \<le> 102 then Some (n - 87)
     else if 65 \<le> n \<and> n \<le> 70 then Some (n - 55)
     else None)"

definition hex4 :: "char \<Rightarrow> char \<Rightarrow> char \<Rightarrow> char \<Rightarrow> nat option" where
  "hex4 a b c d = (case (hex_val a, hex_val b, hex_val c, hex_val d) of
     (Some i, Some j, Some k, Some l) \<Rightarrow> Some (((i * 16 + j) * 16 + k) * 16 + l)
   | _ \<Rightarrow> None)"

text \<open>UTF-8 bytes of a code point (a surrogate keeps its three-byte form).\<close>

definition code_point :: "nat \<Rightarrow> string" where
  "code_point n =
     (if n < 128 then [char_of n]
      else if n < 2048 then [char_of (192 + n div 64), char_of (128 + n mod 64)]
      else if n < 65536 then
        [char_of (224 + n div 4096), char_of (128 + n div 64 mod 64), char_of (128 + n mod 64)]
      else [char_of (240 + n div 262144), char_of (128 + n div 4096 mod 64),
            char_of (128 + n div 64 mod 64), char_of (128 + n mod 64)])"

definition unescape :: "char \<Rightarrow> string option" where
  "unescape c = (let n = (of_char c :: nat) in
     if n = 34 \<or> n = 92 \<or> n = 47 then Some [c]
     else if n = 98 then Some [char_of (8::nat)]
     else if n = 116 then Some [char_of (9::nat)]
     else if n = 110 then Some [char_of (10::nat)]
     else if n = 102 then Some [char_of (12::nat)]
     else if n = 114 then Some [char_of (13::nat)]
     else None)"

text \<open>A second \<^verbatim>\<open>\\u\<close> escape that completes a surrogate pair: the code point and the rest.\<close>

fun low_surrogate :: "nat \<Rightarrow> string \<Rightarrow> (nat \<times> string) option" where
  "low_surrogate h (x # u # a # b # c # d # s) =
     (if (of_char x :: nat) = 92 \<and> u = CHR ''u'' then
        (case hex4 a b c d of
           Some l \<Rightarrow> (if 55296 \<le> h \<and> h < 56320 \<and> 56320 \<le> l \<and> l < 57344
                      then Some (65536 + (h - 55296) * 1024 + (l - 56320), s) else None)
         | None \<Rightarrow> None)
      else None)"
| "low_surrogate h s = None"

definition prepend :: "string \<Rightarrow> (string \<times> string) option \<Rightarrow> (string \<times> string) option" where
  "prepend p r = map_option (\<lambda>(s, t). (p @ s, t)) r"

lemma low_surrogate_shorter: "low_surrogate h s = Some (n, t) \<Longrightarrow> length t < length s"
  by (induction h s rule: low_surrogate.induct) (auto split: if_splits option.splits)

function parse_string :: "string \<Rightarrow> (string \<times> string) option" where
  "parse_string s = (case s of
     [] \<Rightarrow> None
   | c # s1 \<Rightarrow>
       if (of_char c :: nat) = 34 then Some ([], s1)
       else if (of_char c :: nat) = 92 then
         (case s1 of
            [] \<Rightarrow> None
          | e # s2 \<Rightarrow>
              if e = CHR ''u'' then
                (case s2 of
                   w # x # y # z # s3 \<Rightarrow>
                     (case hex4 w x y z of
                        None \<Rightarrow> None
                      | Some n \<Rightarrow>
                          (case low_surrogate n s3 of
                             Some (cp, s4) \<Rightarrow> prepend (code_point cp) (parse_string s4)
                           | None \<Rightarrow> prepend (code_point n) (parse_string s3)))
                 | _ \<Rightarrow> None)
              else
                (case unescape e of
                   None \<Rightarrow> None
                 | Some u \<Rightarrow> prepend u (parse_string s2)))
       else if (of_char c :: nat) < 32 then None
       else prepend [c] (parse_string s1))"
  by pat_completeness auto
termination
  by (relation "measure length") (auto dest: low_surrogate_shorter)

declare parse_string.simps [simp del]

text \<open>Fraction and exponent of a number, after its integer digits.\<close>

definition parse_frac :: "string \<Rightarrow> (string \<times> string) option" where
  "parse_frac s = (case s of
     c # s1 \<Rightarrow>
       if c = CHR ''.'' then
         (if takeWhile is_digit s1 = [] then None
          else Some (takeWhile is_digit s1, dropWhile is_digit s1))
       else Some ([], s)
   | [] \<Rightarrow> Some ([], s))"

definition parse_exp :: "string \<Rightarrow> (int \<times> string) option" where
  "parse_exp s = (case s of
     c # s1 \<Rightarrow>
       if c = CHR ''e'' \<or> c = CHR ''E'' then
         (let neg = (s1 \<noteq> [] \<and> hd s1 = CHR ''-'');
              s2 = (if s1 \<noteq> [] \<and> (hd s1 = CHR ''-'' \<or> hd s1 = CHR ''+'') then tl s1 else s1);
              ds = takeWhile is_digit s2
          in if ds = [] then None
             else Some ((if neg then - int (digits_val ds) else int (digits_val ds)), dropWhile is_digit s2))
       else Some (0, s)
   | [] \<Rightarrow> Some (0, s))"

definition parse_number :: "string \<Rightarrow> (rat \<times> string) option" where
  "parse_number s =
     (let neg = (s \<noteq> [] \<and> hd s = CHR ''-''); s1 = (if neg then tl s else s);
          ds = takeWhile is_digit s1; s2 = dropWhile is_digit s1
      in if ds = [] \<or> (hd ds = CHR ''0'' \<and> length ds > 1) then None
         else (case parse_frac s2 of
             None \<Rightarrow> None
           | Some (fs, s3) \<Rightarrow>
               (case parse_exp s3 of
                  None \<Rightarrow> None
                | Some (e, s4) \<Rightarrow>
                    let m = (of_nat (digits_val (ds @ fs)) :: rat) / 10 ^ length fs;
                        v = (if e < 0 then m / 10 ^ nat (- e) else m * 10 ^ nat e)
                    in Some ((if neg then - v else v), s4))))"

definition parse_word :: "string \<Rightarrow> jsval \<Rightarrow> string \<Rightarrow> (jsval \<times> string) option" where
  "parse_word w v s = (if starts_with s w then Some (v, drop (length w) s) else None)"

fun parse_value :: "nat \<Rightarrow> string \<Rightarrow> (jsval \<times> string) option"
  and parse_elems :: "nat \<Rightarrow> string \<Rightarrow> (jsval list \<times> string) option"
  and parse_members :: "nat \<Rightarrow> string \<Rightarrow> ((string \<times> jsval) list \<times> string) option" where
  "parse_value 0 s = None"
| "parse_value (Suc f) s = (case skip_ws s of
     [] \<Rightarrow> None
   | c # s1 \<Rightarrow>
       if (of_char c :: nat) = 34 then map_option (\<lambda>(t, r). (JStr t, r)) (parse_string s1)
       else if c = CHR ''['' then
         (if skip_ws s1 \<noteq> [] \<and> hd (skip_ws s1) = CHR '']'' then Some (JArr [], tl (skip_ws s1))
          else map_option (\<lambda>(vs, r). (JArr vs, r)) (parse_elems f s1))
       else if c = CHR ''{'' then
         (if skip_ws s1 \<noteq> [] \<and> hd (skip_ws s1) = CHR ''}'' then Some (JObj [], tl (skip_ws s1))
          else map_option (\<lambda>(ps, r). (JObj (spread [] ps), r)) (parse_members f s1))
       else if c = CHR ''t'' then parse_word ''true'' (JBool True) (c # s1)
       else if c = CHR ''f'' then parse_word ''false'' (JBool False) (c # s1)
       else if c = CHR ''n'' then parse_word ''null'' JNull (c # s1)
       else map_option (\<lambda>(q, r). (JNum q, r)) (parse_number (c # s1)))"
| "parse_elems 0 s = None"
| "parse_elems (Suc f) s = (case parse_value f s of
     None \<Rightarrow> None
   | Some (v, r) \<Rightarrow>
       (case skip_ws r of
          [] \<Rightarrow> None
        | c # r1 \<Rightarrow>
            if c = CHR '']'' then Some ([v], r1)
            else if c = CHR '','' then map_option (\<lambda>(vs, t). (v # vs, t)) (parse_elems f r1)
            else None))"
| "parse_members 0 s = None"
| "parse_members (Suc f) s = (case skip_ws s of
     [] \<Rightarrow> None
   | c # s1 \<Rightarrow>
       if (of_char c :: nat) \<noteq> 34 then None
       else (case parse_string s1 of
           None \<Rightarrow> None
         | Some (k, r) \<Rightarrow>
             (case skip_ws r of
                [] \<Rightarrow> None
              | d # r1 \<Rightarrow>
                  if d \<noteq> CHR '':'' then None
                  else (case parse_value f r1 of
                      None \<Rightarrow> None
                    | Some (v, r2) \<Rightarrow>
                        (case skip_ws r2 of
                           [] \<Rightarrow> None
                         | e # r3 \<Rightarrow>
                             if e = CHR ''}'' then Some ([(k, v)], r3)
                             else if e = CHR '','' then
                               map_option (\<lambda>(ps, t). ((k, v) # ps, t)) (parse_members f r3)
                             else None)))))"

text \<open>\<^verbatim>\<open>JSON.parse(s)\<close>; \<open>None\<close> is the \<^verbatim>\<open>SyntaxError\<close>.\<close>

definition JSON_parse :: "string \<Rightarrow> jsval option" where
  "JSON_parse s = (case parse_value (2 * length s + 2) s of
     Some (v, r) \<Rightarrow> (if skip_ws r = [] then Some v else None)
   | None \<Rightarrow> None)"

subsection \<open>Printing then parsing\<close>

text \<open>The values \<^verbatim>\<open>JSON.parse\<close> gives back from their text: no \<^verbatim>\<open>undefined\<close>, integers below
  \<open>10^21\<close>, no duplicate key.\<close>

fun json_ok :: "jsval \<Rightarrow> bool"
  and json_oks :: "jsval list \<Rightarrow> bool"
  and json_okm :: "(string \<times> jsval) list \<Rightarrow> bool" where
  "json_ok JUndef = False"
| "json_ok JNull = True"
| "json_ok (JBool b) = True"
| "json_ok (JNum q) = (of_int \<lfloor>q\<rfloor> = q \<and> \<bar>\<lfloor>q\<rfloor>\<bar> < 10 ^ 21)"
| "json_ok (JStr s) = True"
| "json_ok (JArr vs) = json_oks vs"
| "json_ok (JObj ps) = (distinct (map fst ps) \<and> json_okm ps)"
| "json_oks [] = True"
| "json_oks (v # vs) = (json_ok v \<and> json_oks vs)"
| "json_okm [] = True"
| "json_okm ((k, v) # ps) = (json_ok v \<and> json_okm ps)"

definition json_stop :: "string \<Rightarrow> bool" where
  "json_stop r \<longleftrightarrow> r = [] \<or> hd r \<in> {CHR '','', CHR '']'', CHR ''}''}"

lemma hex_val_digit: "n < 16 \<Longrightarrow> hex_val (hex_digit n) = Some n"
  by (auto simp: hex_val_def hex_digit_def Let_def)

lemma escape_chars:
  "char_of (34::nat) = CHR 0x22" "char_of (92::nat) = CHR 0x5C" "char_of (8::nat) = CHR 0x08"
  "char_of (9::nat) = CHR 0x09" "char_of (10::nat) = CHR 0x0A" "char_of (12::nat) = CHR 0x0C"
  "char_of (13::nat) = CHR 0x0D"
  by code_simp+

lemma zero_hex: "hex_val (CHR ''0'') = Some 0"
  by (simp add: hex_val_def)

lemma low_surrogate_small: "h < 55296 \<Longrightarrow> low_surrogate h s = None"
  by (induction h s rule: low_surrogate.induct) (auto split: option.splits)

lemma parse_string_escape: "parse_string (json_escape c @ t) = prepend [c] (parse_string t)"
proof -
  define n where "n = (of_char c :: nat)"
  have c: "c = char_of n" by (simp add: n_def)
  have n: "n < 256" by (simp add: n_def)
  have u: "parse_string ([char_of (92::nat)] @ ''u00'' @ [hex_digit (n div 16), hex_digit (n mod 16)] @ t)
     = prepend [c] (parse_string t)" if "n < 32"
  proof -
    have "hex4 (CHR ''0'') (CHR ''0'') (hex_digit (n div 16)) (hex_digit (n mod 16)) = Some n"
      using that zero_hex by (simp add: hex4_def hex_val_digit)
    with that show ?thesis
      by (subst parse_string.simps) (simp add: low_surrogate_small code_point_def c)
  qed
  consider "n = 34" | "n = 92" | "n = 8" | "n = 9" | "n = 10" | "n = 12" | "n = 13"
    | "n < 32" "n \<notin> {8, 9, 10, 12, 13}" | "32 \<le> n" "n \<noteq> 34" "n \<noteq> 92"
    by fastforce
  then show ?thesis
  proof cases
    case 8
    with u show ?thesis by (simp add: json_escape_def Let_def flip: n_def)
  next
    case 9
    then have "json_escape c = [c]" by (simp add: json_escape_def Let_def flip: n_def)
    with 9 show ?thesis by (subst parse_string.simps) (simp flip: n_def)
  qed (subst parse_string.simps, simp add: json_escape_def c unescape_def escape_chars)+
qed

lemma parse_string_quoted [codec_simps]:
  "parse_string (concat (map json_escape s) @ CHR 0x22 # r) = Some (s, r)"
proof (induction s)
  case Nil
  show ?case by (subst parse_string.simps) simp
next
  case (Cons c s)
  then show ?case by (simp add: parse_string_escape prepend_def)
qed

lemma is_digit_char: "n < (10::nat) \<Longrightarrow> is_digit (char_of (48 + n))"
  by (simp add: is_digit_def)

lemma digit_val_char: "n < 10 \<Longrightarrow> digit_val (char_of (48 + n)) = n"
  by (simp add: digit_val_def)

lemma digits_val_snoc: "digits_val (s @ [c]) = 10 * digits_val s + digit_val c"
  by (simp add: digits_val_def)

lemma dec_digits_digits: "list_all is_digit (dec_digits n)"
  by (induction n rule: dec_digits.induct) (subst dec_digits.simps, simp add: is_digit_char)

lemma digits_val_dec [codec_simps]: "digits_val (dec_digits n) = n"
proof (induction n rule: dec_digits.induct)
  case (1 n)
  show ?case
  proof (cases "n < 10")
    case True
    then show ?thesis by (subst dec_digits.simps) (simp add: digits_val_def digit_val_char)
  next
    case False
    with 1 show ?thesis
      by (subst dec_digits.simps) (simp add: digits_val_snoc digit_val_char)
  qed
qed

lemma dec_digits_nonempty [simp]: "dec_digits n \<noteq> []"
  by (subst dec_digits.simps) simp

lemma dec_digits_hd: "0 < n \<Longrightarrow> hd (dec_digits n) \<noteq> CHR ''0''"
proof (induction n rule: dec_digits.induct)
  case (1 n)
  show ?case
  proof (cases "n < 10")
    case True
    have "digit_val (CHR ''0'') = 0" by (simp add: digit_val_def)
    with 1 True have "char_of (48 + n) \<noteq> (CHR ''0'' :: char)"
      using digit_val_char [of n] by auto
    with True show ?thesis by (subst dec_digits.simps) simp
  next
    case False
    with 1 show ?thesis by (subst dec_digits.simps) simp
  qed
qed

lemma dec_digits_zero: "dec_digits 0 = ''0''"
  by code_simp

lemma dec_digits_ascii [simp]: "is_ascii (dec_digits n)"
  using dec_digits_digits [of n] by (auto simp: is_ascii_def is_digit_def list_all_iff)

lemma takeWhile_digits:
  "json_stop r \<Longrightarrow> takeWhile is_digit (dec_digits n @ r) = dec_digits n
     \<and> dropWhile is_digit (dec_digits n @ r) = r"
proof -
  assume "json_stop r"
  then have "takeWhile is_digit r = []" "dropWhile is_digit r = r"
    by (cases r; auto simp: json_stop_def is_digit_def)+
  moreover have "\<forall>c \<in> set (dec_digits n). is_digit c"
    using dec_digits_digits by (simp add: list_all_iff)
  ultimately show ?thesis by (simp add: takeWhile_append2 dropWhile_append2)
qed

lemma dec_digits_no_leading_zero: "\<not> (hd (dec_digits n) = CHR ''0'' \<and> 1 < length (dec_digits n))"
  using dec_digits_hd [of n] by (cases "n = 0") (auto simp: dec_digits_zero)

lemma frac_exp_stop: "json_stop r \<Longrightarrow> parse_frac r = Some ([], r) \<and> parse_exp r = Some (0, r)"
  by (cases r) (auto simp: json_stop_def parse_frac_def parse_exp_def)

lemma parse_number_nat:
  "json_stop r \<Longrightarrow> hd (dec_digits n @ r) \<noteq> CHR ''-'' \<Longrightarrow>
    parse_number (dec_digits n @ r) = Some (of_nat n, r)"
  using dec_digits_no_leading_zero [of n]
  by (simp add: parse_number_def Let_def takeWhile_digits frac_exp_stop digits_val_dec)

lemma hd_dec_digits_not_minus: "hd (dec_digits n @ r) \<noteq> CHR ''-''"
proof -
  have "is_digit (hd (dec_digits n))"
    using dec_digits_digits [of n] by (cases "dec_digits n") auto
  then show ?thesis by (auto simp: is_digit_def)
qed

lemma parse_number_int [codec_simps]:
  "json_stop r \<Longrightarrow> parse_number (int_to_string i @ r) = Some (of_int i, r)"
proof (cases "i < 0")
  case True
  assume r: "json_stop r"
  have "(of_nat (nat (- i)) :: rat) = of_int (- i)" using True by simp
  with True r dec_digits_no_leading_zero [of "nat (- i)"] show ?thesis
    by (simp add: int_to_string_def parse_number_def Let_def takeWhile_digits frac_exp_stop digits_val_dec)
next
  case False
  assume "json_stop r"
  then have "parse_number (dec_digits (nat i) @ r) = Some (of_nat (nat i), r)"
    by (rule parse_number_nat) (rule hd_dec_digits_not_minus)
  moreover have "(of_nat (nat i) :: rat) = of_int i" using False by simp
  ultimately show ?thesis using False by (simp add: int_to_string_def)
qed

lemma spread_distinct: "distinct (map fst (ps @ qs)) \<Longrightarrow> spread ps qs = ps @ qs"
proof (induction ps qs rule: spread.induct)
  case (2 ps k v qs)
  then have "js_get ps k = None" by (auto simp: js_get_def map_of_eq_None_iff)
  with 2 show ?case by (simp add: js_set_new)
qed simp

lemma json_ok_defined: "json_ok v \<Longrightarrow> v \<noteq> JUndef"
  by auto

lemma json_members_Nil_iff: "json_okm ps \<Longrightarrow> json_members ps = [] \<longleftrightarrow> ps = []"
  by (cases ps) (auto simp: json_quote_def dest!: json_ok_defined)

text \<open>A printed value starts with a character that is neither white space nor a closing
  bracket, so the parser takes the branch the printer meant.\<close>

definition value_start :: "char \<Rightarrow> bool" where
  "value_start c \<longleftrightarrow> \<not> is_ws c \<and> c \<noteq> CHR '']'' \<and> c \<noteq> CHR ''}''"

lemma digit_value_start: "is_digit c \<Longrightarrow> value_start c"
  by (auto simp: value_start_def is_digit_def is_ws_def)

lemma hd_dec_digits_start: "value_start (hd (dec_digits n))"
  using dec_digits_digits [of n] by (cases "dec_digits n") (auto intro: digit_value_start)

lemma json_text_start: "json_ok v \<Longrightarrow> json_text v \<noteq> [] \<and> value_start (hd (json_text v))"
proof (cases v)
  case (JNum q)
  assume "json_ok v"
  with JNum have "json_text v = int_to_string \<lfloor>q\<rfloor>" by (simp add: num_to_string_def)
  moreover have "value_start (CHR ''-'')" by (simp add: value_start_def is_ws_def)
  ultimately show ?thesis by (simp add: int_to_string_def hd_dec_digits_start)
qed (auto simp: json_quote_def value_start_def is_ws_def)

lemma skip_ws_value: "json_ok v \<Longrightarrow> skip_ws (json_text v @ r) = json_text v @ r"
  using json_text_start [of v] by (cases "json_text v") (auto simp: skip_ws_def value_start_def)

lemma skip_ws_quote [simp]: "skip_ws (json_quote k @ r) = json_quote k @ r"
  by (simp add: json_quote_def skip_ws_def is_ws_def)

lemma skip_ws_punct [simp]:
  "skip_ws (CHR '','' # r) = CHR '','' # r" "skip_ws (CHR '']'' # r) = CHR '']'' # r"
  "skip_ws (CHR ''}'' # r) = CHR ''}'' # r" "skip_ws (CHR '':'' # r) = CHR '':'' # r"
  "skip_ws (CHR ''['' # r) = CHR ''['' # r" "skip_ws (CHR ''{'' # r) = CHR ''{'' # r"
  by (simp_all add: skip_ws_def is_ws_def)

lemma json_stop_simps [simp]:
  "json_stop []" "json_stop (CHR '','' # r)" "json_stop (CHR '']'' # r)" "json_stop (CHR ''}'' # r)"
  by (simp_all add: json_stop_def)

lemma parse_value_num:
  assumes "json_ok (JNum q)" "json_stop r" "0 < f"
  shows "parse_value f (json_text (JNum q) @ r) = Some (JNum q, r)"
proof -
  obtain g where f: "f = Suc g" using assms(3) by (cases f) auto
  let ?s = "int_to_string \<lfloor>q\<rfloor>"
  have as_int: "json_text (JNum q) = ?s" using assms(1) by (simp add: num_to_string_def)
  obtain c s where s: "?s = c # s"
    by (cases ?s) (auto simp: int_to_string_def split: if_splits)
  have "c = CHR ''-'' \<or> is_digit c"
    using s dec_digits_digits [of "nat \<lfloor>q\<rfloor>"] by (auto simp: int_to_string_def split: if_splits)
  then have "\<not> is_ws c" "(of_char c :: nat) \<noteq> 34" "c \<notin> {CHR ''['', CHR ''{'', CHR ''t'', CHR ''f'', CHR ''n''}"
    by (auto simp: is_ws_def is_digit_def)
  then show ?thesis
    using parse_number_int [OF assms(2), of "\<lfloor>q\<rfloor>"] assms(1) f as_int s by (simp add: skip_ws_def)
qed

lemma parse_value_str: "parse_value (Suc f) (json_quote s @ r) = Some (JStr s, r)"
  by (simp add: json_quote_def skip_ws_def is_ws_def parse_string_quoted)

lemma skip_ws_members:
  "json_okm ps \<Longrightarrow> ps \<noteq> [] \<Longrightarrow> skip_ws (json_members ps @ r) = json_members ps @ r
     \<and> json_members ps \<noteq> [] \<and> hd (json_members ps) \<noteq> CHR ''}''"
  by (cases ps) (auto simp: json_quote_def skip_ws_def is_ws_def dest!: json_ok_defined)

lemma skip_ws_elems:
  "json_oks vs \<Longrightarrow> vs \<noteq> [] \<Longrightarrow> skip_ws (json_elems vs @ r) = json_elems vs @ r
     \<and> json_elems vs \<noteq> [] \<and> hd (json_elems vs) \<noteq> CHR '']''"
  using json_text_start [of "hd vs"]
  by (cases vs) (auto simp: skip_ws_value value_start_def hd_append)

lemma parse_printed:
  "json_ok v \<Longrightarrow> json_stop r \<Longrightarrow> 2 * length (json_text v) + 1 \<le> f \<Longrightarrow>
     parse_value f (json_text v @ r) = Some (v, r)"
  "json_oks vs \<Longrightarrow> vs \<noteq> [] \<Longrightarrow> 2 * length (json_elems vs) + 2 \<le> f \<Longrightarrow>
     parse_elems f (json_elems vs @ CHR '']'' # r) = Some (vs, r)"
  "json_okm ps \<Longrightarrow> ps \<noteq> [] \<Longrightarrow> 2 * length (json_members ps) + 2 \<le> f \<Longrightarrow>
     parse_members f (json_members ps @ CHR ''}'' # r) = Some (ps, r)"
proof (induction v and vs and ps arbitrary: f r and f r and f r
    rule: json_text_json_elems_json_members.induct)
  case 1
  then show ?case by simp
next
  case 2
  then show ?case by (cases f) (auto simp: skip_ws_def is_ws_def parse_word_def)
next
  case (3 b)
  then show ?case by (cases f) (auto simp: skip_ws_def is_ws_def parse_word_def)
next
  case (4 q)
  then show ?case using parse_value_num by simp
next
  case (5 s)
  then show ?case using parse_value_str by (cases f) auto
next
  case (6 vs)
  then obtain g where f: "f = Suc g" by (cases f) auto
  show ?case
  proof (cases "vs = []")
    case True
    with f show ?thesis by simp
  next
    case False
    with 6 f have "parse_elems g (json_elems vs @ CHR '']'' # r) = Some (vs, r)" by simp
    with False f 6 skip_ws_elems [of vs "CHR '']'' # r"] show ?thesis by simp
  qed
next
  case (7 ps)
  then obtain g where f: "f = Suc g" by (cases f) auto
  show ?case
  proof (cases "ps = []")
    case True
    with f show ?thesis by simp
  next
    case False
    with 7 f have "parse_members g (json_members ps @ CHR ''}'' # r) = Some (ps, r)" by simp
    with False f 7 skip_ws_members [of ps "CHR ''}'' # r"] spread_distinct [of "[]" ps]
    show ?thesis by simp
  qed
next
  case 8
  then show ?case by simp
next
  case (9 v vs)
  then obtain g where f: "f = Suc g" by (cases f) auto
  show ?case
  proof (cases "vs = []")
    case True
    with 9 f show ?thesis by simp
  next
    case False
    with 9 f have "parse_value g (json_text v @ CHR '','' # json_elems vs @ CHR '']'' # r)
        = Some (v, CHR '','' # json_elems vs @ CHR '']'' # r)" by simp
    moreover from False 9 f have "parse_elems g (json_elems vs @ CHR '']'' # r) = Some (vs, r)" by simp
    ultimately show ?thesis using False f by simp
  qed
next
  case 10
  then show ?case by simp
next
  case (11 k v ps)
  then obtain g where f: "f = Suc g" by (cases f) auto
  from 11 have v: "v \<noteq> JUndef" by auto
  have key: "parse_string (concat (map json_escape k) @ CHR 0x22 # t) = Some (k, t)" for t
    by (rule parse_string_quoted)
  show ?case
  proof (cases "ps = []")
    case True
    with 11 f v have "parse_value g (json_text v @ CHR ''}'' # r) = Some (v, CHR ''}'' # r)" by simp
    with True f v key show ?thesis by (simp add: json_quote_def skip_ws_def is_ws_def)
  next
    case False
    with 11 have ne: "json_members ps \<noteq> []" by (simp add: json_members_Nil_iff)
    with 11 f v have "parse_value g (json_text v @ CHR '','' # json_members ps @ CHR ''}'' # r)
        = Some (v, CHR '','' # json_members ps @ CHR ''}'' # r)" by simp
    moreover from ne False 11 f v have "parse_members g (json_members ps @ CHR ''}'' # r) = Some (ps, r)" by simp
    ultimately show ?thesis using ne f v key by (simp add: json_quote_def skip_ws_def is_ws_def)
  qed
qed

text \<open>The two library functions are inverse on JSON values.\<close>

lemma JSON_parse_stringify [codec_simps]: "json_ok v \<Longrightarrow> JSON_parse (JSON_stringify v) = Some v"
  using parse_printed(1) [of v "[]" "2 * length (json_text v) + 2"]
  by (simp add: JSON_parse_def JSON_stringify_def skip_ws_def)

end
