(* ===== verification/Base64url.thy ===== *)
theory Base64url
  imports JsJson
begin

text \<open>
  \<^verbatim>\<open>b64urlEncode\<close> and \<^verbatim>\<open>b64urlDecode\<close> of \<^verbatim>\<open>walletpair-sdk/src/crypto.ts\<close> over the platform's
  \<^verbatim>\<open>btoa\<close> and \<^verbatim>\<open>atob\<close> (the forgiving-base64 decoder: white space is dropped, up to two padding
  characters are stripped, left-over bits are discarded).  The interface a byte codec promises
  is the locale \<open>codec\<close>, interpreted here on the pair of functions.
\<close>

subsection \<open>btoa and atob\<close>

definition b64_char :: "nat \<Rightarrow> char" where
  "b64_char n = (if n < 26 then char_of (65 + n) else if n < 52 then char_of (71 + n)
     else if n < 62 then char_of (n - 4) else if n = 62 then CHR ''+'' else CHR ''/'')"

definition b64_val :: "char \<Rightarrow> nat option" where
  "b64_val c = (let n = (of_char c :: nat) in
     if 65 \<le> n \<and> n \<le> 90 then Some (n - 65)
     else if 97 \<le> n \<and> n \<le> 122 then Some (n - 71)
     else if 48 \<le> n \<and> n \<le> 57 then Some (n + 4)
     else if c = CHR ''+'' then Some 62
     else if c = CHR ''/'' then Some 63
     else None)"

fun btoa :: "bytes \<Rightarrow> string" where
  "btoa [] = []"
| "btoa [a] = (let x = unat a in [b64_char (x div 4), b64_char (x mod 4 * 16), CHR ''='', CHR ''=''])"
| "btoa [a, b] = (let x = unat a; y = unat b in
     [b64_char (x div 4), b64_char (x mod 4 * 16 + y div 16), b64_char (y mod 16 * 4), CHR ''=''])"
| "btoa (a # b # c # bs) = (let x = unat a; y = unat b; z = unat c in
     [b64_char (x div 4), b64_char (x mod 4 * 16 + y div 16), b64_char (y mod 16 * 4 + z div 64),
      b64_char (z mod 64)] @ btoa bs)"

definition is_b64_ws :: "char \<Rightarrow> bool" where
  "is_b64_ws c = ((of_char c :: nat) \<in> {9, 10, 12, 13, 32})"

text \<open>Six-bit groups to bytes; a remainder of two or three groups gives one or two bytes.\<close>

fun b64_bytes :: "nat list \<Rightarrow> bytes" where
  "b64_bytes (p # q # r # s # ns) =
     [word_of_nat (p * 4 + q div 16), word_of_nat (q mod 16 * 16 + r div 4),
      word_of_nat (r mod 4 * 64 + s)] @ b64_bytes ns"
| "b64_bytes [p, q, r] = [word_of_nat (p * 4 + q div 16), word_of_nat (q mod 16 * 16 + r div 4)]"
| "b64_bytes [p, q] = [word_of_nat (p * 4 + q div 16)]"
| "b64_bytes _ = []"

fun b64_vals :: "string \<Rightarrow> nat list option" where
  "b64_vals [] = Some []"
| "b64_vals (c # s) = (case b64_val c of None \<Rightarrow> None | Some n \<Rightarrow> map_option ((#) n) (b64_vals s))"

definition strip_padding :: "string \<Rightarrow> string" where
  "strip_padding s =
     (if length s mod 4 = 0 \<and> s \<noteq> [] \<and> last s = CHR ''='' then
        (let t = butlast s in if t \<noteq> [] \<and> last t = CHR ''='' then butlast t else t)
      else s)"

definition atob :: "string \<Rightarrow> bytes res" where
  "atob s =
     (let t = strip_padding (filter (\<lambda>c. \<not> is_b64_ws c) s) in
      if length t mod 4 = 1 then Inl (DOMException ''InvalidCharacterError'')
      else (case b64_vals t of
          None \<Rightarrow> Inl (DOMException ''InvalidCharacterError'')
        | Some ns \<Rightarrow> Inr (b64_bytes ns)))"

subsection \<open>The SDK's functions\<close>

text \<open>\<^verbatim>\<open>btoa(binary).replace(/\+/g, '-').replace(/\//g, '_').replace(/=/g, '')\<close>\<close>

definition b64urlEncode :: "bytes \<Rightarrow> string" where
  "b64urlEncode bs =
     filter (\<lambda>c. c \<noteq> CHR ''='')
       (map (\<lambda>c. if c = CHR ''/'' then CHR ''_'' else c)
         (map (\<lambda>c. if c = CHR ''+'' then CHR ''-'' else c) (btoa bs)))"

definition b64urlDecode :: "string \<Rightarrow> bytes res" where
  "b64urlDecode str =
     (let b64 = map (\<lambda>c. if c = CHR ''_'' then CHR ''/'' else c)
                  (map (\<lambda>c. if c = CHR ''-'' then CHR ''+'' else c) str);
          padded = b64 @ replicate ((4 - js_length b64 mod 4) mod 4) (CHR ''='')
      in atob padded)"

text \<open>The alphabet of the encoding.\<close>

definition b64url_alphabet :: "char \<Rightarrow> bool" where
  "b64url_alphabet c = (let n = (of_char c :: nat) in
     (65 \<le> n \<and> n \<le> 90) \<or> (97 \<le> n \<and> n \<le> 122) \<or> (48 \<le> n \<and> n \<le> 57) \<or> c = CHR ''-'' \<or> c = CHR ''_'')"

subsection \<open>The interface of a codec\<close>

locale codec =
  fixes enc :: "'a \<Rightarrow> 'b" and dec :: "'b \<Rightarrow> exn + 'a" and valid :: "'a \<Rightarrow> bool"
  assumes dec_enc: "valid x \<Longrightarrow> dec (enc x) = Inr x"
begin

lemma enc_inj: "valid x \<Longrightarrow> valid y \<Longrightarrow> enc x = enc y \<longleftrightarrow> x = y"
  by (metis dec_enc sum.inject(2))

lemma dec_enc_total: "valid x \<Longrightarrow> \<exists>y. dec (enc x) = Inr y \<and> enc y = enc x"
  by (simp add: dec_enc)

end

subsection \<open>Lemmas\<close>

lemma b64_char_code:
  "n < 64 \<Longrightarrow> (of_char (b64_char n) :: nat) =
     (if n < 26 then 65 + n else if n < 52 then 71 + n else if n < 62 then n - 4
      else if n = 62 then 43 else 47)"
  by (simp add: b64_char_def)

lemma b64_val_char: "n < 64 \<Longrightarrow> b64_val (b64_char n) = Some n"
proof -
  assume n: "n < 64"
  consider "n < 62" | "n = 62" | "n = 63" using n by linarith
  then show ?thesis
    using n by cases (auto simp: b64_val_def b64_char_code Let_def, simp_all add: b64_char_def)
qed

definition b64url_swap :: "char \<Rightarrow> char" where
  "b64url_swap c = (if c = CHR ''+'' then CHR ''-'' else if c = CHR ''/'' then CHR ''_'' else c)"

definition b64url_back :: "char \<Rightarrow> char" where
  "b64url_back c = (if c = CHR ''-'' then CHR ''+'' else if c = CHR ''_'' then CHR ''/'' else c)"

lemma b64_char_facts:
  assumes "n < 64"
  shows "b64url_back (b64url_swap (b64_char n)) = b64_char n" (is ?A)
    and "b64url_swap (b64_char n) \<noteq> CHR ''=''" (is ?B)
    and "\<not> is_b64_ws (b64_char n)" (is ?C)
    and "b64url_alphabet (b64url_swap (b64_char n))" (is ?D)
    and "b64_char n \<noteq> CHR ''=''" (is ?E)
proof -
  consider "n < 62" | "n = 62" | "n = 63" using assms by linarith
  then have "?A \<and> ?B \<and> ?C \<and> ?D \<and> ?E"
  proof cases
    case 1
    then have code: "(of_char (b64_char n) :: nat) = (if n < 26 then 65 + n else if n < 52 then 71 + n else n - 4)"
      using b64_char_code [of n] by simp
    have "b64_char n \<noteq> CHR ''+''" "b64_char n \<noteq> CHR ''/''" "b64_char n \<noteq> CHR ''-''"
      "b64_char n \<noteq> CHR ''_''" "b64_char n \<noteq> CHR ''=''"
      using code 1 by (auto split: if_splits)
    with code 1 show ?thesis
      by (auto simp: b64url_swap_def b64url_back_def is_b64_ws_def b64url_alphabet_def Let_def)
  qed (auto simp: b64_char_def b64url_swap_def b64url_back_def is_b64_ws_def b64url_alphabet_def)
  then show ?A ?B ?C ?D ?E by blast+
qed

text \<open>The six-bit groups of a byte string, without padding.\<close>

fun b64_groups :: "bytes \<Rightarrow> nat list" where
  "b64_groups [] = []"
| "b64_groups [a] = [unat a div 4, unat a mod 4 * 16]"
| "b64_groups [a, b] = [unat a div 4, unat a mod 4 * 16 + unat b div 16, unat b mod 16 * 4]"
| "b64_groups (a # b # c # bs) =
     [unat a div 4, unat a mod 4 * 16 + unat b div 16, unat b mod 16 * 4 + unat c div 64, unat c mod 64]
       @ b64_groups bs"

lemma unat_byte [simp]: "unat (b :: byte) < 256"
  using unsigned_less [of b, where 'a = nat] by simp

lemma unat_byte_divs [simp]:
  "unat (b :: byte) div 4 < 64" "unat b div 16 < 16" "unat b div 64 < 4"
  using unat_byte [of b] by (simp_all add: less_mult_imp_div_less)

lemma unat_byte_split [simp]:
  "unat (b :: byte) div 16 div 16 = 0" "unat b div 16 mod 16 * 16 + unat b mod 16 = unat b"
  "unat b div 64 div 4 = 0" "unat b div 64 mod 4 * 64 + unat b mod 64 = unat b"
  by (simp_all add: div_less mod_less)

lemma sextet_bounds [simp]:
  "unat (a :: byte) mod 4 * 16 + unat (b :: byte) div 16 < 64"
  "unat a mod 16 * 4 + unat b div 64 < 64"
proof -
  have "unat a mod 4 < 4" "unat b div 16 < 16" by simp_all
  then show "unat a mod 4 * 16 + unat b div 16 < 64" by linarith
  have "unat a mod 16 < 16" "unat b div 64 < 4" by simp_all
  then show "unat a mod 16 * 4 + unat b div 64 < 64" by linarith
qed

lemma b64_groups_bound: "list_all (\<lambda>n. n < 64) (b64_groups bs)"
  by (induction bs rule: b64_groups.induct) simp_all

lemma b64_groups_length: "length (b64_groups bs) = (4 * length bs + 2) div 3"
  by (induction bs rule: b64_groups.induct) auto

lemma btoa_groups:
  "btoa bs = map b64_char (b64_groups bs) @ replicate ((4 - length (b64_groups bs) mod 4) mod 4) (CHR ''='')"
  by (induction bs rule: btoa.induct) (auto simp: Let_def numeral_2_eq_2)

lemma b64_bytes_groups: "b64_bytes (b64_groups bs) = bs"
proof (induction bs rule: b64_groups.induct)
  case (2 a)
  have "unat a div 4 * 4 + unat a mod 4 * 16 div 16 = unat a" by simp
  then show ?case by simp
next
  case (3 a b)
  have "unat a div 4 * 4 + (unat a mod 4 * 16 + unat b div 16) div 16 = unat a"
    "(unat a mod 4 * 16 + unat b div 16) mod 16 * 16 + unat b mod 16 * 4 div 4 = unat b"
    by simp_all
  then show ?case by simp
next
  case (4 a b c bs)
  have "unat a div 4 * 4 + (unat a mod 4 * 16 + unat b div 16) div 16 = unat a"
    "(unat a mod 4 * 16 + unat b div 16) mod 16 * 16 + (unat b mod 16 * 4 + unat c div 64) div 4 = unat b"
    "(unat b mod 16 * 4 + unat c div 64) mod 4 * 64 + unat c mod 64 = unat c"
    by (simp_all add: mod_less div_less)
  with 4 show ?case by simp
qed simp

lemma b64urlEncode_groups: "b64urlEncode bs = map (\<lambda>n. b64url_swap (b64_char n)) (b64_groups bs)"
proof -
  let ?f = "\<lambda>c. if (if c = CHR ''+'' then CHR ''-'' else c) = CHR ''/'' then CHR ''_''
      else (if c = CHR ''+'' then CHR ''-'' else c)"
  have "?f = b64url_swap" by (auto simp: b64url_swap_def)
  then have f': "map (\<lambda>c. if c = CHR ''/'' then CHR ''_'' else c)
      (map (\<lambda>c. if c = CHR ''+'' then CHR ''-'' else c) s) = map b64url_swap s" for s
    by (simp only: map_map comp_def)
  have "filter (\<lambda>c. c \<noteq> CHR ''='') (map b64url_swap (map b64_char ns)) = map b64url_swap (map b64_char ns)"
    if "list_all (\<lambda>n. n < 64) ns" for ns
    using that by (induction ns) (auto simp: b64_char_facts)
  moreover have "b64url_swap (CHR ''='') = CHR ''=''" by (simp add: b64url_swap_def)
  ultimately show ?thesis
    using b64_groups_bound [of bs]
    by (simp add: b64urlEncode_def btoa_groups map_map [symmetric] f' del: map_map) (simp add: comp_def)
qed

lemma b64_vals_map: "list_all (\<lambda>n. n < 64) ns \<Longrightarrow> b64_vals (map b64_char ns) = Some ns"
  by (induction ns) (auto simp: b64_val_char)

lemma b64_groups_mod: "length (b64_groups bs) mod 4 \<noteq> 1"
  by (induction bs rule: b64_groups.induct) auto

lemma strip_padding_pad:
  assumes "CHR ''='' \<notin> set s" "length s mod 4 \<noteq> 1"
  shows "strip_padding (s @ replicate ((4 - length s mod 4) mod 4) (CHR ''='')) = s"
proof -
  consider "length s mod 4 = 0" | "length s mod 4 = 2" | "length s mod 4 = 3"
    using assms(2) mod_less_divisor [of 4 "length s"] by fastforce
  then show ?thesis
  proof cases
    case 1
    then have "s = [] \<or> last s \<noteq> CHR ''=''" using assms(1) last_in_set by metis
    with 1 show ?thesis by (auto simp: strip_padding_def)
  next
    case 2
    then have "(length s + 2) mod 4 = 0" by presburger
    with 2 show ?thesis by (simp add: strip_padding_def numeral_2_eq_2 butlast_append)
  next
    case 3
    then have "(length s + 1) mod 4 = 0" "s \<noteq> []" by (presburger, auto)
    moreover from this assms(1) have "last s \<noteq> CHR ''=''" using last_in_set by metis
    ultimately show ?thesis using 3 by (simp add: strip_padding_def)
  qed
qed

lemma b64_char_width: "n < 64 \<Longrightarrow> utf16_width (b64_char n) = 1"
  by (auto simp: utf16_width_def b64_char_code Let_def)

text \<open>Decoding an encoding gives the bytes back, for every byte string.\<close>

lemma b64url_roundtrip [simp, codec_simps]: "b64urlDecode (b64urlEncode bs) = Inr bs"
proof -
  let ?ns = "b64_groups bs"
  have bnd: "list_all (\<lambda>n. n < 64) ?ns" by (rule b64_groups_bound)
  let ?g = "\<lambda>c. if (if c = CHR ''-'' then CHR ''+'' else c) = CHR ''_'' then CHR ''/''
      else (if c = CHR ''-'' then CHR ''+'' else c)"
  have "?g = b64url_back" by (auto simp: b64url_back_def)
  then have g': "map (\<lambda>c. if c = CHR ''_'' then CHR ''/'' else c)
      (map (\<lambda>c. if c = CHR ''-'' then CHR ''+'' else c) s) = map b64url_back s" for s
    by (simp only: map_map comp_def)
  have unswap: "map b64url_back (map (\<lambda>n. b64url_swap (b64_char n)) ns) = map b64_char ns"
    and len: "js_length (map b64_char ns) = length ns"
    and noeq: "CHR ''='' \<notin> set (map b64_char ns)"
    and nows: "filter (\<lambda>c. \<not> is_b64_ws c) (map b64_char ns) = map b64_char ns"
    if "list_all (\<lambda>n. n < 64) ns" for ns
    using that by (induction ns) (auto simp: b64_char_facts b64_char_facts(5) [symmetric] b64_char_width)
  let ?p = "replicate ((4 - length ?ns mod 4) mod 4) (CHR ''='')"
  have pad: "filter (\<lambda>c. \<not> is_b64_ws c) ?p = ?p" by (simp add: is_b64_ws_def)
  have "strip_padding (map b64_char ?ns @ ?p) = map b64_char ?ns"
    using strip_padding_pad [of "map b64_char ?ns"] noeq [OF bnd] b64_groups_mod [of bs] by simp
  then have "atob (map b64_char ?ns @ ?p) = Inr bs"
    using nows [OF bnd] pad b64_vals_map [OF bnd] b64_groups_mod [of bs]
    by (simp add: atob_def b64_bytes_groups)
  then show ?thesis
    using unswap [OF bnd] len [OF bnd] by (simp add: b64urlDecode_def b64urlEncode_groups g' del: map_map)
qed

lemma b64urlEncode_alphabet: "list_all b64url_alphabet (b64urlEncode bs)"
  using b64_groups_bound [of bs] by (auto simp: b64urlEncode_groups list_all_iff b64_char_facts)

lemma b64urlEncode_length: "length (b64urlEncode bs) = (4 * length bs + 2) div 3"
  by (simp add: b64urlEncode_groups b64_groups_length)

interpretation b64: codec b64urlEncode b64urlDecode "\<lambda>_. True"
  by unfold_locales simp

lemma b64urlEncode_inj [simp]: "b64urlEncode a = b64urlEncode b \<longleftrightarrow> a = b"
  using b64.enc_inj [of a b] by simp

end
