(* ===== verification/Protocol_Types.thy ===== *)
theory Protocol_Types
  imports Base64url
begin

text \<open>
  The shared vocabulary of \<^verbatim>\<open>walletpair-sdk/src/types.ts\<close> and of the relay's \<^verbatim>\<open>types.ts\<close>: roles,
  close reasons and which of them end a session for good, the wire message, and the CAIP-2
  chain identifiers.
\<close>

subsection \<open>Roles and close reasons\<close>

datatype role = Dapp | Wallet

definition role_string :: "role \<Rightarrow> string" where
  "role_string r = (case r of Dapp \<Rightarrow> ''dapp'' | Wallet \<Rightarrow> ''wallet'')"

definition other_role :: "role \<Rightarrow> role" where
  "other_role r = (case r of Dapp \<Rightarrow> Wallet | Wallet \<Rightarrow> Dapp)"

datatype close_reason =
    Normal | User_rejected | Unsupported_capability | Channel_not_found | Channel_exists
  | Already_connected | Invalid_state | Invalid_role | Timeout | Rate_limited
  | Payload_too_large | Protocol_error | Unsupported_version | Decryption_failed

definition reason_string :: "close_reason \<Rightarrow> string" where
  "reason_string r = (case r of
     Normal \<Rightarrow> ''normal''
   | User_rejected \<Rightarrow> ''user_rejected''
   | Unsupported_capability \<Rightarrow> ''unsupported_capability''
   | Channel_not_found \<Rightarrow> ''channel_not_found''
   | Channel_exists \<Rightarrow> ''channel_exists''
   | Already_connected \<Rightarrow> ''already_connected''
   | Invalid_state \<Rightarrow> ''invalid_state''
   | Invalid_role \<Rightarrow> ''invalid_role''
   | Timeout \<Rightarrow> ''timeout''
   | Rate_limited \<Rightarrow> ''rate_limited''
   | Payload_too_large \<Rightarrow> ''payload_too_large''
   | Protocol_error \<Rightarrow> ''protocol_error''
   | Unsupported_version \<Rightarrow> ''unsupported_version''
   | Decryption_failed \<Rightarrow> ''decryption_failed'')"

definition PERMANENT_CLOSE_REASONS :: "string list" where
  "PERMANENT_CLOSE_REASONS = map reason_string
     [Normal, User_rejected, Unsupported_capability, Unsupported_version, Already_connected,
      Decryption_failed]"

text \<open>\<^verbatim>\<open>isRecoverableCloseReason(reason: string | undefined)\<close>; the argument is the raw body field.\<close>

definition isRecoverableCloseReason :: "jsval \<Rightarrow> bool" where
  "isRecoverableCloseReason reason =
     (if \<not> truthy reason then True
      else \<not> (case reason of JStr s \<Rightarrow> s \<in> set PERMANENT_CLOSE_REASONS | _ \<Rightarrow> False))"

subsection \<open>Wire messages\<close>

record wmsg =
  m_v :: rat
  m_t :: string
  m_ch :: string
  m_ts :: jsval
  m_from :: string
  m_body :: jsval

definition wmsg_json :: "wmsg \<Rightarrow> jsval" where
  "wmsg_json m = JObj [(''v'', JNum (m_v m)), (''t'', JStr (m_t m)), (''ch'', JStr (m_ch m)),
     (''ts'', m_ts m), (''from'', JStr (m_from m)), (''body'', m_body m)]"

text \<open>\<^verbatim>\<open>{ v: 1, t, ch, ts: Date.now(), from, body }\<close>\<close>

definition peer_msg :: "string \<Rightarrow> string \<Rightarrow> int \<Rightarrow> string \<Rightarrow> (string \<times> jsval) list \<Rightarrow> wmsg" where
  "peer_msg t ch now from body =
     \<lparr>m_v = 1, m_t = t, m_ch = ch, m_ts = JNum (of_int now), m_from = from, m_body = JObj body\<rparr>"

subsection \<open>CAIP-2 chain identifiers\<close>

definition parseChainId :: "string \<Rightarrow> (string \<times> string) res" where
  "parseChainId caip2 =
     (let parts = js_split (CHR '':'') caip2;
          namespace = (case parts of n # _ \<Rightarrow> n | _ \<Rightarrow> []);
          reference = (case parts of _ # r # _ \<Rightarrow> r | _ \<Rightarrow> [])
      in if namespace = [] \<or> reference = []
         then Inl (Error (''Invalid CAIP-2 chain ID: '' @ caip2))
         else Inr (namespace, reference))"

definition formatChainId :: "string \<Rightarrow> string \<Rightarrow> string" where
  "formatChainId namespace reference = namespace @ '':'' @ reference"

definition evmChainId :: "int \<Rightarrow> string" where
  "evmChainId i = ''eip155:'' @ int_to_string i"

text \<open>The bytes of the white space or line terminator the text starts with, 0 when there is none, and
  the text without them.\<close>

definition ws_width :: "string \<Rightarrow> nat" where
  "ws_width s = (case map of_char s :: nat list of
     [] \<Rightarrow> 0
   | a # r \<Rightarrow>
       if a \<in> {9, 10, 11, 12, 13, 32} then 1
       else (case r of
           [] \<Rightarrow> 0
         | b # r \<Rightarrow>
             if a = 194 \<and> b = 160 then 2
             else (case r of
                 [] \<Rightarrow> 0
               | c # _ \<Rightarrow>
                   if (a, b, c) \<in> {(225, 154, 128), (226, 129, 159), (227, 128, 128), (239, 187, 191)}
                      \<or> a = 226 \<and> b = 128 \<and> (128 \<le> c \<and> c \<le> 138 \<or> c \<in> {168, 169, 175})
                   then 3 else 0)))"

lemma ws_width_Nil [simp]: "ws_width [] = 0"
  by (simp add: ws_width_def)

lemma ws_width_pos: "0 < ws_width s \<Longrightarrow> 0 < length s"
  by (cases s) auto

function trimStart :: "string \<Rightarrow> string" where
  "trimStart s = (if ws_width s = 0 then s else trimStart (drop (ws_width s) s))"
  by pat_completeness auto
termination
  by (relation "measure length") (auto dest: ws_width_pos intro!: diff_less)

declare trimStart.simps [simp del]

lemma trimStart_id: "s = [] \<or> (of_char (hd s) :: nat) \<in> {33..127} \<Longrightarrow> trimStart s = s"
proof -
  assume "s = [] \<or> (of_char (hd s) :: nat) \<in> {33..127}"
  then have "ws_width s = 0" by (cases s) (auto simp: ws_width_def split: list.split)
  then show ?thesis by (subst trimStart.simps) simp
qed

text \<open>\<^verbatim>\<open>Number.parseInt(s, 10)\<close>: an optional sign and the leading digits; \<open>None\<close> is \<^verbatim>\<open>NaN\<close>.\<close>

definition parseInt10 :: "string \<Rightarrow> int option" where
  "parseInt10 s =
     (let t = trimStart s;
          neg = (t \<noteq> [] \<and> hd t = CHR ''-'');
          u = (if t \<noteq> [] \<and> (hd t = CHR ''-'' \<or> hd t = CHR ''+'') then tl t else t);
          ds = takeWhile is_digit u
      in if ds = [] then None
         else Some (if neg then - int (digits_val ds) else int (digits_val ds)))"

text \<open>\<open>Inr None\<close> is \<^verbatim>\<open>null\<close>; \<open>Inr (Some None)\<close> is \<^verbatim>\<open>NaN\<close>.\<close>

definition evmNumericChainId :: "string \<Rightarrow> int option option res" where
  "evmNumericChainId caip2 = (case parseChainId caip2 of
     Inl e \<Rightarrow> Inl e
   | Inr (namespace, reference) \<Rightarrow>
       if namespace \<noteq> ''eip155'' then Inr None else Inr (Some (parseInt10 reference)))"

subsection \<open>Lemmas\<close>

lemma other_role_simps [simp]:
  "other_role Dapp = Wallet" "other_role Wallet = Dapp" "other_role (other_role r) = r"
  by (simp_all add: other_role_def split: role.split)

lemma reason_string_inj [simp]: "reason_string r = reason_string r' \<longleftrightarrow> r = r'"
  by (cases r; cases r') (simp_all add: reason_string_def)

lemma reason_string_nonempty [simp]: "reason_string r \<noteq> []"
  by (cases r) (simp_all add: reason_string_def)

lemma recoverable_reason_iff:
  "isRecoverableCloseReason (JStr (reason_string r)) \<longleftrightarrow>
     r \<notin> {Normal, User_rejected, Unsupported_capability, Unsupported_version, Already_connected,
          Decryption_failed}"
  by (auto simp: isRecoverableCloseReason_def PERMANENT_CLOSE_REASONS_def)

lemma parse_format_chain:
  "n \<noteq> [] \<Longrightarrow> r \<noteq> [] \<Longrightarrow> CHR '':'' \<notin> set n \<Longrightarrow> CHR '':'' \<notin> set r \<Longrightarrow>
     parseChainId (formatChainId n r) = Inr (n, r)"
  by (simp add: parseChainId_def formatChainId_def js_split_append js_split_no_sep)

lemma digits_not: "list_all is_digit s \<Longrightarrow> \<not> is_digit c \<Longrightarrow> c \<notin> set s"
  by (auto simp: list_all_iff)

lemma int_to_string_no_colon: "CHR '':'' \<notin> set (int_to_string i)"
proof -
  have "\<not> is_digit (CHR '':'')" by (simp add: is_digit_def)
  then have "CHR '':'' \<notin> set (dec_digits n)" for n
    using digits_not [OF dec_digits_digits] by blast
  then show ?thesis by (simp add: int_to_string_def)
qed

lemma parseInt10_int_to_string [codec_simps]: "parseInt10 (int_to_string i) = Some i"
proof -
  have hd: "(of_char (hd (dec_digits n)) :: nat) \<in> {33..127}" "hd (dec_digits n) \<noteq> CHR ''+''" for n
  proof -
    have "is_digit (hd (dec_digits n))" using dec_digits_digits [of n] by (cases "dec_digits n") auto
    then show "(of_char (hd (dec_digits n)) :: nat) \<in> {33..127}" "hd (dec_digits n) \<noteq> CHR ''+''"
      by (auto simp: is_digit_def)
  qed
  have dw: "trimStart (dec_digits n) = dec_digits n" "trimStart (CHR ''-'' # t) = CHR ''-'' # t" for n t
    using hd(1) [of n] by (auto intro: trimStart_id)
  have tw: "takeWhile is_digit (dec_digits n) = dec_digits n" for n
    using takeWhile_digits [of "[]" n] by simp
  show ?thesis
    using hd hd_dec_digits_not_minus [of _ "[]"]
    by (auto simp: parseInt10_def int_to_string_def dw tw digits_val_dec)
qed

lemma evm_chain_roundtrip [codec_simps]: "evmNumericChainId (evmChainId i) = Inr (Some (Some i))"
proof -
  have "evmChainId i = formatChainId ''eip155'' (int_to_string i)"
    by (simp add: evmChainId_def formatChainId_def)
  moreover have "int_to_string i \<noteq> []" by (simp add: int_to_string_def)
  ultimately have "parseChainId (evmChainId i) = Inr (''eip155'', int_to_string i)"
    using int_to_string_no_colon [of i] by (simp add: parse_format_chain)
  then show ?thesis by (simp add: evmNumericChainId_def parseInt10_int_to_string)
qed

end
