(* ===== verification/Relay_Protocol.thy ===== *)
theory Relay_Protocol
  imports Protocol_Types
begin

text \<open>
  \<^verbatim>\<open>walletpair-websocket-relay-cf-worker/src/protocol.ts\<close>: validation of channel and peer
  identifiers, parsing of client frames into typed messages, the builders of relay frames, and
  the table of message types a channel state allows.
\<close>

subsection \<open>Validation\<close>

text \<open>\<^verbatim>\<open>/^[0-9a-f]{64}$/\<close>\<close>

definition is_hex_lower :: "char \<Rightarrow> bool" where
  "is_hex_lower c = (let n = (of_char c :: nat) in (48 \<le> n \<and> n \<le> 57) \<or> (97 \<le> n \<and> n \<le> 102))"

definition validateChannelId :: "string \<Rightarrow> bool" where
  "validateChannelId ch \<longleftrightarrow> length ch = 64 \<and> list_all is_hex_lower ch"

text \<open>\<^verbatim>\<open>while (b64.length % 4 !== 0) b64 += "="\<close>\<close>

function pad4 :: "string \<Rightarrow> string" where
  "pad4 b64 = (if length b64 mod 4 \<noteq> 0 then pad4 (b64 @ ''='') else b64)"
  by pat_completeness auto
termination
proof (relation "measure (\<lambda>s. (4 - length s mod 4) mod 4)")
  fix b64 :: string
  assume "length b64 mod 4 \<noteq> 0"
  moreover have "length b64 mod 4 < 4" by simp
  ultimately consider "length b64 mod 4 = 1" | "length b64 mod 4 = 2" | "length b64 mod 4 = 3"
    by linarith
  then have "(4 - (length b64 + 1) mod 4) mod 4 < (4 - length b64 mod 4) mod 4"
    by cases (simp_all add: mod_Suc)
  then show "(b64 @ ''='', b64) \<in> measure (\<lambda>s. (4 - length s mod 4) mod 4)" by simp
qed simp

declare pad4.simps [simp del]

definition validatePeerId :: "string \<Rightarrow> bool" where
  "validatePeerId peerId =
     (if peerId = [] \<or> \<not> list_all b64url_alphabet peerId then False
      else
        (let b64 = map (\<lambda>c. if c = CHR ''_'' then CHR ''/'' else c)
                     (map (\<lambda>c. if c = CHR ''-'' then CHR ''+'' else c) peerId)
         in case atob (pad4 b64) of
              Inl _ \<Rightarrow> False
            | Inr binary \<Rightarrow> length binary = 32))"

subsection \<open>Parsed client messages\<close>

datatype client_message =
    CCreate string string            \<comment> \<open>ch, from\<close>
  | CJoin string string bool         \<comment> \<open>ch, from, sealedJoinNull\<close>
  | CAccept string string string     \<comment> \<open>ch, from, target\<close>
  | CReq string string string        \<comment> \<open>ch, from, id\<close>
  | CRes string string string
  | CEvt string string string
  | CPing string string
  | CPong string string
  | CClose string string string      \<comment> \<open>ch, from, reason\<close>

datatype parse_error =
    Invalid_json
  | Not_an_object
  | Missing_field string
  | Version_unsupported rat
  | Unknown_type string
  | Invalid_channel_id
  | Invalid_peer_id

definition parseErrorToCloseReason :: "parse_error \<Rightarrow> close_reason" where
  "parseErrorToCloseReason err = (case err of Version_unsupported _ \<Rightarrow> Unsupported_version | _ \<Rightarrow> Protocol_error)"

definition getStr :: "jsval \<Rightarrow> string \<Rightarrow> string option" where
  "getStr obj key = (case jget obj key of JStr s \<Rightarrow> Some s | _ \<Rightarrow> None)"

text \<open>\<^verbatim>\<open>typeof x !== "object" || x === null || Array.isArray(x)\<close>\<close>

definition plain_object :: "jsval \<Rightarrow> bool" where
  "plain_object v = (case v of JObj _ \<Rightarrow> True | _ \<Rightarrow> False)"

text \<open>The \<^verbatim>\<open>switch (t)\<close> over the type-specific body.\<close>

definition parseBody :: "string \<Rightarrow> string \<Rightarrow> string \<Rightarrow> jsval \<Rightarrow> parse_error + client_message" where
  "parseBody t ch from body =
     (if t = ''create'' then
        (if \<not> validatePeerId from then Inl Invalid_peer_id
         else if \<not> plain_object (jget body ''meta'') then Inl (Missing_field ''body.meta'')
         else Inr (CCreate ch from))
      else if t = ''join'' then
        (if \<not> validatePeerId from then Inl Invalid_peer_id
         else if \<not> jhas body ''sealed_join'' then Inl (Missing_field ''body.sealed_join'')
         else Inr (CJoin ch from (jget body ''sealed_join'' = JNull)))
      else if t = ''accept'' then
        (if \<not> validatePeerId from then Inl Invalid_peer_id
         else (case getStr body ''target'' of
             None \<Rightarrow> Inl (Missing_field ''body.target'')
           | Some target \<Rightarrow>
               if \<not> validatePeerId target then Inl Invalid_peer_id else Inr (CAccept ch from target)))
      else if t = ''req'' \<or> t = ''res'' \<or> t = ''evt'' then
        (if \<not> validatePeerId from then Inl Invalid_peer_id
         else (case getStr body ''id'' of
             None \<Rightarrow> Inl (Missing_field ''body.id'')
           | Some i \<Rightarrow>
               if \<not> jhas body ''sealed'' then Inl (Missing_field ''body.sealed'')
               else if t = ''req'' then Inr (CReq ch from i)
               else if t = ''res'' then Inr (CRes ch from i)
               else Inr (CEvt ch from i)))
      else if t = ''ping'' then
        (if \<not> validatePeerId from then Inl Invalid_peer_id else Inr (CPing ch from))
      else if t = ''pong'' then
        (if \<not> validatePeerId from then Inl Invalid_peer_id else Inr (CPong ch from))
      else if t = ''close'' then
        (if \<not> validatePeerId from then Inl Invalid_peer_id
         else (case getStr body ''reason'' of
             None \<Rightarrow> Inl (Missing_field ''body.reason'')
           | Some reason \<Rightarrow> Inr (CClose ch from reason)))
      else if t = ''ready'' \<or> t = ''terminate'' then
        Inl (Unknown_type (t @ '' (peers must not send '' @ t @ '')''))
      else Inl (Unknown_type t))"

text \<open>\<^verbatim>\<open>parseMessage\<close> up to the \<^verbatim>\<open>switch\<close>: the common envelope.\<close>

definition parseMessage :: "string \<Rightarrow> parse_error + client_message" where
  "parseMessage raw = (case JSON_parse raw of
     None \<Rightarrow> Inl Invalid_json
   | Some obj \<Rightarrow>
       if \<not> plain_object obj then Inl Not_an_object
       else (case jget obj ''v'' of
           JNum v \<Rightarrow>
             if of_int \<lfloor>v\<rfloor> \<noteq> v then Inl (Missing_field ''v'')
             else if v \<noteq> 1 then Inl (Version_unsupported v)
             else (case getStr obj ''t'' of
                 None \<Rightarrow> Inl (Missing_field ''t'')
               | Some t \<Rightarrow>
                   (case getStr obj ''ch'' of
                      None \<Rightarrow> Inl (Missing_field ''ch'')
                    | Some ch \<Rightarrow>
                        if \<not> validateChannelId ch then Inl Invalid_channel_id
                        else (case jget obj ''ts'' of
                            JNum _ \<Rightarrow>
                              (case getStr obj ''from'' of
                                 None \<Rightarrow> Inl (Missing_field ''from'')
                               | Some from \<Rightarrow>
                                   if \<not> plain_object (jget obj ''body'') then Inl (Missing_field ''body'')
                                   else parseBody t ch from (jget obj ''body''))
                          | _ \<Rightarrow> Inl (Missing_field ''ts''))))
         | _ \<Rightarrow> Inl (Missing_field ''v'')))"

subsection \<open>Outgoing message builders\<close>

definition buildReadyWaiting :: "int \<Rightarrow> string \<Rightarrow> role \<Rightarrow> string \<Rightarrow> bool \<Rightarrow> string" where
  "buildReadyWaiting now ch role peerId reconnect = JSON_stringify (JObj
     [(''v'', JNum 1), (''t'', JStr ''ready''), (''ch'', JStr ch), (''ts'', JNum (of_int now)),
      (''from'', JStr ''_adapter''),
      (''body'', JObj [(''state'', JStr ''waiting''), (''role'', JStr (role_string role)),
         (''self'', JStr peerId), (''remote'', JNull), (''reconnect'', JBool reconnect)])])"

definition buildReadyConnected :: "int \<Rightarrow> string \<Rightarrow> role \<Rightarrow> string \<Rightarrow> string \<Rightarrow> bool \<Rightarrow> string" where
  "buildReadyConnected now ch role selfId remoteId reconnect = JSON_stringify (JObj
     [(''v'', JNum 1), (''t'', JStr ''ready''), (''ch'', JStr ch), (''ts'', JNum (of_int now)),
      (''from'', JStr ''_adapter''),
      (''body'', JObj [(''state'', JStr ''connected''), (''role'', JStr (role_string role)),
         (''self'', JStr selfId), (''remote'', JStr remoteId), (''reconnect'', JBool reconnect)])])"

definition buildTerminate :: "int \<Rightarrow> string \<Rightarrow> close_reason \<Rightarrow> string" where
  "buildTerminate now ch reason = JSON_stringify (JObj
     [(''v'', JNum 1), (''t'', JStr ''terminate''), (''ch'', JStr ch), (''ts'', JNum (of_int now)),
      (''from'', JStr ''_adapter''), (''body'', JObj [(''reason'', JStr (reason_string reason))])])"

definition buildTerminateWithTarget :: "int \<Rightarrow> string \<Rightarrow> close_reason \<Rightarrow> string \<Rightarrow> string" where
  "buildTerminateWithTarget now ch reason target = JSON_stringify (JObj
     [(''v'', JNum 1), (''t'', JStr ''terminate''), (''ch'', JStr ch), (''ts'', JNum (of_int now)),
      (''from'', JStr ''_adapter''),
      (''body'', JObj [(''reason'', JStr (reason_string reason)), (''target'', JStr target)])])"

subsection \<open>State machine\<close>

datatype channel_state = NoChannel | Waiting | Pending_accept | Connected | Closed

datatype msg_type = TAccept | TReq | TRes | TEvt | TPing | TPong | TClose

definition stateAllowsMessage :: "channel_state \<Rightarrow> msg_type \<Rightarrow> role \<Rightarrow> bool" where
  "stateAllowsMessage state msgType role =
     (if state = Closed \<or> state = NoChannel then False
      else if msgType = TClose then True
      else if msgType = TPing \<or> msgType = TPong then True
      else (case state of
          Pending_accept \<Rightarrow> msgType = TAccept \<and> role = Dapp
        | Connected \<Rightarrow>
            (if msgType = TReq then role = Dapp
             else if msgType = TRes then role = Wallet
             else if msgType = TEvt then role = Wallet
             else False)
        | _ \<Rightarrow> False))"

subsection \<open>Lemmas\<close>

fun cm_ch :: "client_message \<Rightarrow> string" where
  "cm_ch (CCreate ch _) = ch" | "cm_ch (CJoin ch _ _) = ch" | "cm_ch (CAccept ch _ _) = ch"
| "cm_ch (CReq ch _ _) = ch" | "cm_ch (CRes ch _ _) = ch" | "cm_ch (CEvt ch _ _) = ch"
| "cm_ch (CPing ch _) = ch" | "cm_ch (CPong ch _) = ch" | "cm_ch (CClose ch _ _) = ch"

fun cm_from :: "client_message \<Rightarrow> string" where
  "cm_from (CCreate _ f) = f" | "cm_from (CJoin _ f _) = f" | "cm_from (CAccept _ f _) = f"
| "cm_from (CReq _ f _) = f" | "cm_from (CRes _ f _) = f" | "cm_from (CEvt _ f _) = f"
| "cm_from (CPing _ f) = f" | "cm_from (CPong _ f) = f" | "cm_from (CClose _ f _) = f"

lemma pad4_eq: "pad4 s = s @ replicate ((4 - length s mod 4) mod 4) (CHR ''='')"
proof (induction s rule: pad4.induct)
  case (1 s)
  show ?case
  proof (cases "length s mod 4 = 0")
    case True
    then show ?thesis by (subst pad4.simps) simp
  next
    case False
    then have n: "(4 - length s mod 4) mod 4 = Suc ((4 - length (s @ ''='') mod 4) mod 4)"
      by (simp add: mod_Suc) (presburger)
    show ?thesis using 1 False by (subst pad4.simps) (simp add: n del: length_append)
  qed
qed

text \<open>An accepted frame names a well-formed channel and a well-formed sender.\<close>

lemma parseBody_Inr:
  "parseBody t ch from body = Inr m \<Longrightarrow> cm_ch m = ch \<and> cm_from m = from \<and> validatePeerId from"
  by (auto simp: parseBody_def split: if_splits option.splits)

lemma parseMessage_Inr:
  "parseMessage raw = Inr m \<Longrightarrow> validateChannelId (cm_ch m) \<and> validatePeerId (cm_from m)"
  by (auto simp: parseMessage_def split: option.splits if_splits jsval.splits dest!: parseBody_Inr)

lemma validatePeerId_nonempty: "validatePeerId p \<Longrightarrow> p \<noteq> []"
  by (auto simp: validatePeerId_def)

end
