(* ===== verification/Event_System.thy ===== *)
theory Event_System
  imports Prelude
begin

text \<open>
  Labelled transition systems shared by the relay object and the two session objects: the
  reachable states, the traces of events, and the contract of an inductive invariant.  A
  component gives its transition relation and discharges the laws of the locales by
  interpretation.
\<close>

inductive reach :: "'s \<Rightarrow> ('s \<Rightarrow> 'e \<Rightarrow> 's \<Rightarrow> bool) \<Rightarrow> 's \<Rightarrow> bool" for init tr where
  reach_init: "reach init tr init"
| reach_step: "reach init tr s \<Longrightarrow> tr s e s' \<Longrightarrow> reach init tr s'"

inductive steps :: "('s \<Rightarrow> 'e \<Rightarrow> 's \<Rightarrow> bool) \<Rightarrow> 's \<Rightarrow> 'e list \<Rightarrow> 's \<Rightarrow> bool" for tr where
  steps_Nil: "steps tr s [] s"
| steps_Cons: "tr s e s' \<Longrightarrow> steps tr s' es s'' \<Longrightarrow> steps tr s (e # es) s''"

inductive_cases steps_NilE: "steps tr s [] s'"
inductive_cases steps_ConsE: "steps tr s (e # es) s'"

lemma reach_steps:
  assumes "steps tr s es s'" and "reach init tr s"
  shows "reach init tr s'"
  using assms by (induction rule: steps.induct) (auto intro: reach_step)

locale inductive_invariant =
  fixes init :: 's
    and tr :: "'s \<Rightarrow> 'e \<Rightarrow> 's \<Rightarrow> bool"
    and good :: "'s \<Rightarrow> bool"
  assumes inv_init: "good init"
    and inv_trans: "good s \<Longrightarrow> tr s e s' \<Longrightarrow> good s'"
begin

lemma inv_reach: "reach init tr s \<Longrightarrow> good s"
  by (induction rule: reach.induct) (auto intro: inv_init inv_trans)

lemma inv_steps: "steps tr s es s' \<Longrightarrow> good s \<Longrightarrow> good s'"
  by (induction rule: steps.induct) (auto intro: inv_trans)

end

text \<open>
  A system with a quantity that no step decreases: a counter, a position in a log.  A state set
  that no step leaves is the special case of a 0/1 quantity.
\<close>

locale monotone_system = inductive_invariant init tr good
  for init :: 's and tr :: "'s \<Rightarrow> 'e \<Rightarrow> 's \<Rightarrow> bool" and good :: "'s \<Rightarrow> bool" +
  fixes level :: "'s \<Rightarrow> nat"
  assumes level_trans: "good s \<Longrightarrow> tr s e s' \<Longrightarrow> level s \<le> level s'"
begin

lemma level_steps: "steps tr s es s' \<Longrightarrow> good s \<Longrightarrow> level s \<le> level s'"
proof (induction rule: steps.induct)
  case (steps_Cons s e s' es s'')
  then show ?case using inv_trans level_trans le_trans by metis
qed simp

lemma level_reach: "reach init tr s \<Longrightarrow> level init \<le> level s"
proof (induction rule: reach.induct)
  case (reach_step s e s')
  then show ?case using inv_reach level_trans le_trans by metis
qed simp

end

end
