(* ===== verification/Relay_Channel.thy ===== *)
theory Relay_Channel
  imports Relay_Protocol JsMap Event_System
begin

text \<open>
  \<^verbatim>\<open>walletpair-websocket-relay-cf-worker/src/channel.ts\<close> (the durable object of one channel)
  and the routing of \<^verbatim>\<open>index.ts\<close>.  The record \<open>relay\<close> holds the private fields of
  \<^verbatim>\<open>ChannelDO\<close>, the accepted sockets with their attachments, the stored state, the alarm and
  the trace of what the object sent and closed.  The runtime delivers one event at a time to a
  durable object and delivers none while a storage operation is awaited, so each handler is one
  atomic function; what a handler throws is the second component of its result.  Console
  logging is left out.
\<close>

subsection \<open>State\<close>

definition MAX_MESSAGE_BYTES :: nat where "MAX_MESSAGE_BYTES = 65536"
definition PENDING_REQUEST_LIMIT :: nat where "PENDING_REQUEST_LIMIT = 256"
definition UNPAIRED_TTL_MS :: int where "UNPAIRED_TTL_MS = 5 * 60 * 1000"
definition CONNECTED_TTL_MS :: int where "CONNECTED_TTL_MS = 24 * 60 * 60 * 1000"

record ws_attachment =
  a_role :: role
  a_peerId :: string
  a_channelId :: string

text \<open>
  An accepted socket: its identity, \<^verbatim>\<open>readyState\<close> (1 is OPEN), whether the transport below it
  has failed without the state having changed yet (a \<^verbatim>\<open>send\<close> then throws), and its
  serialized attachment.
\<close>

record sock =
  s_id :: nat
  s_readyState :: nat
  s_faulty :: bool
  s_att :: "ws_attachment option"

record persisted =
  p_state :: channel_state
  p_dappPeerId :: string
  p_walletPeerId :: "string option"
  p_isReconnect :: bool
  p_pendingRequests :: "string list"

datatype relay_out =
    Frame nat string          \<comment> \<open>\<^verbatim>\<open>ws.send(text)\<close> that did not throw\<close>
  | CloseWs nat string        \<comment> \<open>\<^verbatim>\<open>ws.close(1000, reason)\<close>\<close>

record relay =
  r_channelState :: channel_state
  r_channelId :: "string option"
  r_dappPeerId :: "string option"
  r_walletPeerId :: "string option"
  r_isReconnect :: bool
  r_pendingRequests :: "string list"
  r_initialized :: bool
  r_sockets :: "sock list"
  r_nextSid :: nat
  r_stored :: "persisted option"
  r_alarm :: "int option"
  r_out :: "relay_out list"

definition relay_init :: relay where
  "relay_init = \<lparr> r_channelState = NoChannel, r_channelId = None, r_dappPeerId = None,
     r_walletPeerId = None, r_isReconnect = False, r_pendingRequests = [], r_initialized = False,
     r_sockets = [], r_nextSid = 0, r_stored = None, r_alarm = None, r_out = [] \<rparr>"

subsection \<open>The socket and storage interface\<close>

definition find_sock :: "relay \<Rightarrow> nat \<Rightarrow> sock option" where
  "find_sock r i = find (\<lambda>s. s_id s = i) (r_sockets r)"

definition upd_sock :: "relay \<Rightarrow> nat \<Rightarrow> (sock \<Rightarrow> sock) \<Rightarrow> relay" where
  "upd_sock r i f = r\<lparr>r_sockets := map (\<lambda>s. if s_id s = i then f s else s) (r_sockets r)\<rparr>"

definition ws_send :: "relay \<Rightarrow> nat \<Rightarrow> string \<Rightarrow> relay res" where
  "ws_send r i m = (case find_sock r i of
     Some s \<Rightarrow> if s_readyState s = 1 \<and> \<not> s_faulty s then Inr (r\<lparr>r_out := r_out r @ [Frame i m]\<rparr>)
               else Inl TypeError
   | None \<Rightarrow> Inl TypeError)"

definition ws_close :: "relay \<Rightarrow> nat \<Rightarrow> string \<Rightarrow> relay" where
  "ws_close r i why =
     (upd_sock r i (\<lambda>s. s\<lparr>s_readyState := max 2 (s_readyState s)\<rparr>))\<lparr>r_out := r_out r @ [CloseWs i why]\<rparr>"

text \<open>\<^verbatim>\<open>try { ws.send(m); ws.close(1000, why); } catch {}\<close>\<close>

definition try_send_close :: "relay \<Rightarrow> nat \<Rightarrow> string \<Rightarrow> string \<Rightarrow> relay" where
  "try_send_close r i m why = (case ws_send r i m of Inl _ \<Rightarrow> r | Inr r' \<Rightarrow> ws_close r' i why)"

definition setAlarm :: "relay \<Rightarrow> int \<Rightarrow> relay" where
  "setAlarm r due = r\<lparr>r_alarm := Some due\<rparr>"

definition deleteAlarm :: "relay \<Rightarrow> relay" where
  "deleteAlarm r = r\<lparr>r_alarm := None\<rparr>"

subsection \<open>Helpers\<close>

definition getAttachment :: "relay \<Rightarrow> nat \<Rightarrow> ws_attachment option" where
  "getAttachment r i = (case find_sock r i of None \<Rightarrow> None | Some s \<Rightarrow> s_att s)"

definition setAttachment :: "relay \<Rightarrow> nat \<Rightarrow> ws_attachment \<Rightarrow> relay" where
  "setAttachment r i a = upd_sock r i (\<lambda>s. s\<lparr>s_att := Some a\<rparr>)"

text \<open>The first accepted socket that carries the role and is OPEN.\<close>

fun find_role :: "role \<Rightarrow> sock list \<Rightarrow> nat option" where
  "find_role role [] = None"
| "find_role role (s # ss) =
     (if map_option a_role (s_att s) = Some role \<and> s_readyState s = 1 then Some (s_id s)
      else find_role role ss)"

definition findPeerWs :: "relay \<Rightarrow> role \<Rightarrow> nat option" where
  "findPeerWs r role = find_role role (r_sockets r)"

definition sendAndClose :: "relay \<Rightarrow> nat \<Rightarrow> string \<Rightarrow> relay" where
  "sendAndClose r i m = try_send_close r i m ''rejected''"

definition persistState :: "relay \<Rightarrow> relay" where
  "persistState r = (case r_channelId r of
     None \<Rightarrow> r
   | Some ch \<Rightarrow> if ch = [] then r else
       r\<lparr>r_stored := Some \<lparr> p_state = r_channelState r,
           p_dappPeerId = (case r_dappPeerId r of None \<Rightarrow> [] | Some p \<Rightarrow> p),
           p_walletPeerId = r_walletPeerId r, p_isReconnect = r_isReconnect r,
           p_pendingRequests = r_pendingRequests r \<rparr>\<rparr>)"

text \<open>The \<^verbatim>\<open>for\<close> loop that rebuilds the channel id from the first attachment that has one.\<close>

fun first_channelId :: "sock list \<Rightarrow> string option" where
  "first_channelId [] = None"
| "first_channelId (s # ss) = (case s_att s of
     Some a \<Rightarrow> if a_channelId a \<noteq> [] then Some (a_channelId a) else first_channelId ss
   | None \<Rightarrow> first_channelId ss)"

definition load_stored :: "relay \<Rightarrow> relay" where
  "load_stored r = (case r_stored r of
     None \<Rightarrow> r
   | Some p \<Rightarrow> r\<lparr>r_channelState := p_state p,
         r_dappPeerId := (if p_dappPeerId p = [] then None else Some (p_dappPeerId p)),
         r_walletPeerId := p_walletPeerId p, r_isReconnect := p_isReconnect p,
         r_pendingRequests := remdups (p_pendingRequests p)\<rparr>)"

definition ensureInitialized :: "relay \<Rightarrow> relay" where
  "ensureInitialized r =
     (if r_initialized r then r
      else
        (let r = load_stored (r\<lparr>r_initialized := True\<rparr>)
         in if r_channelId r = None \<or> r_channelId r = Some []
            then (case first_channelId (r_sockets r) of
                    None \<Rightarrow> r
                  | Some ch \<Rightarrow> r\<lparr>r_channelId := Some ch\<rparr>)
            else r))"

subsection \<open>Create and join\<close>

type_synonym outcome = "relay \<times> exn option"

text \<open>The part of \<^verbatim>\<open>handleCreate\<close> after the \<^verbatim>\<open>switch\<close>.\<close>

definition create_channel :: "relay \<Rightarrow> nat \<Rightarrow> string \<Rightarrow> string \<Rightarrow> int \<Rightarrow> outcome" where
  "create_channel r ws ch from now =
     (let r = r\<lparr>r_channelState := Waiting, r_dappPeerId := Some from, r_walletPeerId := None,
                r_isReconnect := False, r_pendingRequests := []\<rparr>;
          r = setAttachment r ws \<lparr>a_role = Dapp, a_peerId = from, a_channelId = ch\<rparr>
      in case ws_send r ws (buildReadyWaiting now ch Dapp from False) of
           Inl e \<Rightarrow> (r, Some e)
         | Inr r \<Rightarrow> (persistState (setAlarm r (now + UNPAIRED_TTL_MS)), None))"

definition handleCreate :: "relay \<Rightarrow> nat \<Rightarrow> string \<Rightarrow> string \<Rightarrow> int \<Rightarrow> outcome" where
  "handleCreate r ws ch from now = (case r_channelState r of
     Waiting \<Rightarrow>
       (case findPeerWs r Dapp of
          Some oldDapp \<Rightarrow>
            create_channel (try_send_close r oldDapp (buildTerminate now ch Normal) ''replaced'') ws ch from now
        | None \<Rightarrow> create_channel r ws ch from now)
   | Connected \<Rightarrow>
       (case findPeerWs r Dapp of
          Some dappWs \<Rightarrow> (sendAndClose r ws (buildTerminate now ch Channel_exists), None)
        | None \<Rightarrow>
            (case findPeerWs r Wallet of
               Some walletWs \<Rightarrow>
                 create_channel (try_send_close r walletWs (buildTerminate now ch Normal) ''replaced'') ws ch from now
             | None \<Rightarrow> create_channel r ws ch from now))
   | Pending_accept \<Rightarrow> (sendAndClose r ws (buildTerminate now ch Channel_exists), None)
   | Closed \<Rightarrow> create_channel r ws ch from now
   | NoChannel \<Rightarrow> create_channel r ws ch from now)"

text \<open>The revert of \<^verbatim>\<open>handleJoin\<close> when the dApp cannot be reached.\<close>

definition join_revert :: "relay \<Rightarrow> nat \<Rightarrow> string \<Rightarrow> int \<Rightarrow> relay" where
  "join_revert r ws ch now =
     (let r = r\<lparr>r_walletPeerId := None, r_isReconnect := False, r_channelState := Waiting\<rparr>
      in persistState (sendAndClose r ws (buildTerminate now ch Channel_not_found)))"

definition handleJoin :: "relay \<Rightarrow> nat \<Rightarrow> string \<Rightarrow> string \<Rightarrow> bool \<Rightarrow> string \<Rightarrow> int \<Rightarrow> outcome" where
  "handleJoin r ws ch from sealedJoinNull rawText now =
     (if r_channelState r \<noteq> Waiting then
        (let reason = (if r_channelState r = Closed \<or> r_channelState r = NoChannel
                       then Channel_not_found else Already_connected)
         in (sendAndClose r ws (buildTerminate now ch reason), None))
      else
        (let r = r\<lparr>r_walletPeerId := Some from, r_isReconnect := sealedJoinNull,
                   r_channelState := Pending_accept\<rparr>;
             r = setAttachment r ws \<lparr>a_role = Wallet, a_peerId = from, a_channelId = ch\<rparr>
         in case findPeerWs r Dapp of
              Some dappWs \<Rightarrow>
                (case ws_send r dappWs rawText of
                   Inl _ \<Rightarrow> (join_revert r ws ch now, None)
                 | Inr r \<Rightarrow>
                     (case ws_send r ws (buildReadyWaiting now ch Wallet from sealedJoinNull) of
                        Inl e \<Rightarrow> (r, Some e)
                      | Inr r \<Rightarrow> (persistState r, None)))
            | None \<Rightarrow> (join_revert r ws ch now, None)))"

definition handleFirstMessage :: "relay \<Rightarrow> nat \<Rightarrow> client_message \<Rightarrow> string \<Rightarrow> int \<Rightarrow> outcome" where
  "handleFirstMessage r ws msg rawText now = (case msg of
     CCreate ch from \<Rightarrow> handleCreate r ws ch from now
   | CJoin ch from sealedJoinNull \<Rightarrow> handleJoin r ws ch from sealedJoinNull rawText now
   | _ \<Rightarrow> (sendAndClose r ws (buildTerminate now (cm_ch msg) Invalid_state), None))"

subsection \<open>Accept, data, close\<close>

definition try_send :: "relay \<Rightarrow> nat option \<Rightarrow> string \<Rightarrow> relay \<times> bool" where
  "try_send r i m = (case i of
     None \<Rightarrow> (r, False)
   | Some i \<Rightarrow> (case ws_send r i m of Inl _ \<Rightarrow> (r, False) | Inr r' \<Rightarrow> (r', True)))"

definition handleAccept :: "relay \<Rightarrow> nat \<Rightarrow> string \<Rightarrow> string \<Rightarrow> string \<Rightarrow> role \<Rightarrow> int \<Rightarrow> outcome" where
  "handleAccept r ws ch from target senderRole now =
     (if senderRole \<noteq> Dapp \<or> Some from \<noteq> r_dappPeerId r then
        (sendAndClose r ws (buildTerminate now ch Invalid_role), None)
      else if r_channelState r \<noteq> Pending_accept then
        (sendAndClose r ws (buildTerminate now ch Invalid_state), None)
      else if Some target \<noteq> r_walletPeerId r then
        (sendAndClose r ws (buildTerminateWithTarget now ch Protocol_error target), None)
      else
        (let walletId = the (r_walletPeerId r);
             reconnect = r_isReconnect r;
             dappWs = findPeerWs r Dapp;
             walletWs = findPeerWs r Wallet;
             (r, dappOk) = try_send r dappWs (buildReadyConnected now ch Dapp from walletId reconnect);
             (r, walletOk) = try_send r walletWs (buildReadyConnected now ch Wallet walletId from reconnect)
         in if \<not> dappOk \<and> \<not> walletOk then
              (deleteAlarm (persistState (r\<lparr>r_channelState := Closed\<rparr>)), None)
            else
              (persistState (setAlarm (r\<lparr>r_channelState := Connected\<rparr>) (now + CONNECTED_TTL_MS)), None)))"

definition expectedPeerId :: "relay \<Rightarrow> role \<Rightarrow> string option" where
  "expectedPeerId r senderRole = (if senderRole = Dapp then r_dappPeerId r else r_walletPeerId r)"

definition handleData ::
  "relay \<Rightarrow> nat \<Rightarrow> string \<Rightarrow> string \<Rightarrow> string \<Rightarrow> msg_type \<Rightarrow> string option \<Rightarrow> role \<Rightarrow> int \<Rightarrow> outcome" where
  "handleData r ws rawText ch from msgType reqId senderRole now =
     (if Some from \<noteq> expectedPeerId r senderRole then
        (sendAndClose r ws (buildTerminate now ch Invalid_role), None)
      else if \<not> stateAllowsMessage (r_channelState r) msgType senderRole then
        (let reason = (if msgType \<in> {TReq, TRes, TEvt} \<and> r_channelState r \<noteq> Connected
                       then Invalid_state else Invalid_role)
         in (sendAndClose r ws (buildTerminate now ch reason), None))
      else if msgType = TReq \<and> reqId \<noteq> None \<and> PENDING_REQUEST_LIMIT \<le> length (r_pendingRequests r) then
        (sendAndClose r ws (buildTerminate now ch Rate_limited), None)
      else
        (let r = (if msgType = TReq \<and> reqId \<noteq> None
                  then r\<lparr>r_pendingRequests := js_add (r_pendingRequests r) (the reqId)\<rparr> else r);
             r = (if msgType = TRes \<and> reqId \<noteq> None
                  then r\<lparr>r_pendingRequests := js_remove (r_pendingRequests r) (the reqId)\<rparr> else r);
             otherRole = (if senderRole = Dapp then Wallet else Dapp);
             r = fst (try_send r (findPeerWs r otherRole) rawText)
         in (if msgType = TReq \<or> msgType = TRes then persistState r else r, None)))"

definition handleClose :: "relay \<Rightarrow> nat \<Rightarrow> string \<Rightarrow> string \<Rightarrow> string \<Rightarrow> role \<Rightarrow> int \<Rightarrow> outcome" where
  "handleClose r ws rawText ch from senderRole now =
     (if Some from \<noteq> expectedPeerId r senderRole then
        (sendAndClose r ws (buildTerminate now ch Invalid_role), None)
      else
        (let otherRole = (if senderRole = Dapp then Wallet else Dapp);
             r = (case findPeerWs r otherRole of
                    Some otherWs \<Rightarrow> try_send_close r otherWs rawText ''peer_closed''
                  | None \<Rightarrow> r);
             r = ws_close r ws ''closed''
         in (deleteAlarm (persistState (r\<lparr>r_channelState := Closed\<rparr>)), None)))"

definition handleMessage :: "relay \<Rightarrow> nat \<Rightarrow> ws_attachment \<Rightarrow> client_message \<Rightarrow> string \<Rightarrow> int \<Rightarrow> outcome" where
  "handleMessage r ws att msg rawText now =
     (let role = a_role att in case msg of
        CCreate ch from \<Rightarrow>
          (if (case r_dappPeerId r of Some p \<Rightarrow> p \<noteq> [] \<and> from \<noteq> p | None \<Rightarrow> False) then
             (sendAndClose r ws (buildTerminate now ch Invalid_role), None)
           else handleCreate r ws ch from now)
      | CJoin ch from _ \<Rightarrow> (sendAndClose r ws (buildTerminate now ch Invalid_state), None)
      | CAccept ch from target \<Rightarrow> handleAccept r ws ch from target role now
      | CReq ch from i \<Rightarrow> handleData r ws rawText ch from TReq (Some i) role now
      | CRes ch from i \<Rightarrow> handleData r ws rawText ch from TRes (Some i) role now
      | CEvt ch from i \<Rightarrow> handleData r ws rawText ch from TEvt (Some i) role now
      | CPing ch from \<Rightarrow> handleData r ws rawText ch from TPing None role now
      | CPong ch from \<Rightarrow> handleData r ws rawText ch from TPong None role now
      | CClose ch from _ \<Rightarrow> handleClose r ws rawText ch from role now)"

subsection \<open>Callbacks of the runtime\<close>

datatype ws_payload = TextFrame string | BinaryFrame bytes

definition webSocketMessage :: "relay \<Rightarrow> nat \<Rightarrow> ws_payload \<Rightarrow> int \<Rightarrow> outcome" where
  "webSocketMessage r ws payload now =
     (let r = ensureInitialized r;
          own = (case r_channelId r of None \<Rightarrow> ''unknown'' | Some ch \<Rightarrow> ch)
      in case payload of
           BinaryFrame _ \<Rightarrow> (sendAndClose r ws (buildTerminate now own Protocol_error), None)
         | TextFrame message \<Rightarrow>
             if MAX_MESSAGE_BYTES < js_length message then
               (sendAndClose r ws (buildTerminate now own Payload_too_large), None)
             else (case parseMessage message of
                 Inl e \<Rightarrow> (sendAndClose r ws (buildTerminate now own (parseErrorToCloseReason e)), None)
               | Inr msg \<Rightarrow>
                   if Some (cm_ch msg) \<noteq> r_channelId r then
                     (sendAndClose r ws (buildTerminate now (cm_ch msg) Protocol_error), None)
                   else (case getAttachment r ws of
                       None \<Rightarrow> handleFirstMessage r ws msg message now
                     | Some att \<Rightarrow> handleMessage r ws att msg message now)))"

definition handleDisconnect :: "relay \<Rightarrow> nat \<Rightarrow> int \<Rightarrow> relay" where
  "handleDisconnect r ws now = (case getAttachment r ws of
     None \<Rightarrow> r
   | Some att \<Rightarrow> (case r_channelId r of
       None \<Rightarrow> r
     | Some ch \<Rightarrow>
         if ch = [] then r
         else if r_channelState r = Waiting \<or> r_channelState r = Pending_accept then
           (let r = (if a_role att = Dapp then
                       (let r = (case findPeerWs r Wallet of
                                   Some walletWs \<Rightarrow>
                                     try_send_close r walletWs (buildTerminate now ch Channel_not_found) ''dapp_disconnected''
                                 | None \<Rightarrow> r)
                        in deleteAlarm (persistState (r\<lparr>r_channelState := Closed\<rparr>)))
                     else r)
            in if a_role att = Wallet \<and> r_channelState r = Pending_accept then
                 persistState (setAlarm
                   (r\<lparr>r_walletPeerId := None, r_isReconnect := False, r_channelState := Waiting\<rparr>)
                   (now + UNPAIRED_TTL_MS))
               else r)
         else r))"

definition webSocketClose :: "relay \<Rightarrow> nat \<Rightarrow> int \<Rightarrow> outcome" where
  "webSocketClose r ws now = (handleDisconnect (ensureInitialized r) ws now, None)"

definition webSocketError :: "relay \<Rightarrow> nat \<Rightarrow> int \<Rightarrow> outcome" where
  "webSocketError r ws now = (handleDisconnect (ensureInitialized r) ws now, None)"

definition alarm :: "relay \<Rightarrow> int \<Rightarrow> outcome" where
  "alarm r now =
     (let r = ensureInitialized r in case r_channelId r of
        None \<Rightarrow> (r, None)
      | Some ch \<Rightarrow>
          if ch = [] then (r, None)
          else
            (let r = foldl (\<lambda>r ws. try_send_close r ws (buildTerminate now ch Timeout) ''timeout'') r
                       (map s_id (r_sockets r))
             in (persistState (r\<lparr>r_channelState := Closed\<rparr>), None)))"

subsection \<open>WebSocket upgrade\<close>

text \<open>
  What the handlers read of a request: the \<^verbatim>\<open>Upgrade\<close> and \<^verbatim>\<open>Sec-WebSocket-Protocol\<close> headers,
  the method, the path and the \<^verbatim>\<open>ch\<close> query parameter.
\<close>

record request =
  q_method :: string
  q_path :: string
  q_upgrade :: "string option"
  q_ch :: "string option"
  q_protocols :: "string option"

record response =
  rs_status :: nat
  rs_body :: "string option"
  rs_protocol :: "string option"
  rs_webSocket :: "nat option"

definition ascii_lower :: "string \<Rightarrow> string" where
  "ascii_lower = map (\<lambda>c. let n = (of_char c :: nat) in if 65 \<le> n \<and> n \<le> 90 then char_of (n + 32) else c)"

definition js_trim :: "string \<Rightarrow> string" where
  "js_trim s = rev (dropWhile is_ws (rev (dropWhile is_ws s)))"

definition plain_response :: "nat \<Rightarrow> string \<Rightarrow> response" where
  "plain_response st b = \<lparr>rs_status = st, rs_body = Some b, rs_protocol = None, rs_webSocket = None\<rparr>"

definition is_upgrade :: "request \<Rightarrow> bool" where
  "is_upgrade q = (case q_upgrade q of None \<Rightarrow> False | Some u \<Rightarrow> u \<noteq> [] \<and> ascii_lower u = ''websocket'')"

definition fetch :: "relay \<Rightarrow> request \<Rightarrow> relay \<times> response" where
  "fetch r q =
     (if \<not> is_upgrade q then (r, plain_response 426 ''Expected WebSocket upgrade'')
      else (case q_ch q of
          None \<Rightarrow> (r, plain_response 400 ''Invalid channel ID'')
        | Some ch \<Rightarrow>
            if ch = [] \<or> \<not> validateChannelId ch then (r, plain_response 400 ''Invalid channel ID'')
            else
              (let hasWalletPairProtocol = (case q_protocols q of
                       None \<Rightarrow> False
                     | Some ps \<Rightarrow> list_ex (\<lambda>p. js_trim p = ''walletpair.v1'') (js_split (CHR '','') ps));
                   server = r_nextSid r;
                   r = r\<lparr>r_nextSid := Suc server, r_sockets := r_sockets r @
                          [\<lparr>s_id = server, s_readyState = 1, s_faulty = False, s_att = None\<rparr>]\<rparr>;
                   r = ensureInitialized r;
                   r = (if r_channelId r = None then r\<lparr>r_channelId := Some ch\<rparr> else r)
               in (r, \<lparr>rs_status = 101, rs_body = None,
                       rs_protocol = (if hasWalletPairProtocol then Some ''walletpair.v1'' else None),
                       rs_webSocket = Some server\<rparr>))))"

text \<open>
  \<^verbatim>\<open>index.ts\<close>: the worker in front of the objects.  \<open>Inl\<close> is a response of its own, \<open>Inr ch\<close>
  the name of the object the request is forwarded to.
\<close>

definition handleWebSocket :: "request \<Rightarrow> response + string" where
  "handleWebSocket q =
     (if \<not> is_upgrade q then Inl (plain_response 426 ''Expected WebSocket upgrade'')
      else (case q_ch q of
          None \<Rightarrow> Inl (plain_response 400 ''Missing required query parameter: ch'')
        | Some ch \<Rightarrow>
            if ch = [] then Inl (plain_response 400 ''Missing required query parameter: ch'')
            else if \<not> validateChannelId ch then
              Inl (plain_response 400 ''Invalid channel ID: must be 64 lowercase hex characters'')
            else Inr ch))"

definition worker_fetch :: "request \<Rightarrow> response + string" where
  "worker_fetch q =
     (if q_method q = ''OPTIONS'' then
        Inl \<lparr>rs_status = 204, rs_body = None, rs_protocol = None, rs_webSocket = None\<rparr>
      else if q_path q = ''/healthz'' then Inl (plain_response 200 ''ok'')
      else if q_path q = ''/v1'' then handleWebSocket q
      else Inl (plain_response 404 ''Not found''))"

subsection \<open>Events and reachable states\<close>

text \<open>
  Eviction from memory: the instance is rebuilt with its initial fields; the sockets with their
  attachments, the storage and the alarm survive.
\<close>

definition hibernate :: "relay \<Rightarrow> relay" where
  "hibernate r = relay_init\<lparr>r_sockets := r_sockets r, r_nextSid := r_nextSid r,
     r_stored := r_stored r, r_alarm := r_alarm r, r_out := r_out r\<rparr>"

definition drop_sock :: "relay \<Rightarrow> nat \<Rightarrow> relay" where
  "drop_sock r i = r\<lparr>r_sockets := filter (\<lambda>s. s_id s \<noteq> i) (r_sockets r)\<rparr>"

datatype relay_event =
    EvFetch request
  | EvMessage nat ws_payload int
  | EvClose nat int
  | EvError nat int
  | EvAlarm int
  | EvFault nat
  | EvClosing nat
  | EvHibernate

text \<open>
  The runtime around the object of channel \<open>C\<close>.  The worker addresses an object by the \<^verbatim>\<open>ch\<close>
  parameter, so every upgrade the object sees names the same channel.
\<close>

inductive relay_trans :: "string \<Rightarrow> relay \<Rightarrow> relay_event \<Rightarrow> relay \<Rightarrow> bool" for C where
  rt_fetch: "worker_fetch q = Inr C \<Longrightarrow> relay_trans C r (EvFetch q) (fst (fetch r q))"
| rt_message: "find_sock r i \<noteq> None \<Longrightarrow> relay_trans C r (EvMessage i p now) (fst (webSocketMessage r i p now))"
| rt_close: "find_sock r i \<noteq> None \<Longrightarrow> relay_trans C r (EvClose i now)
     (drop_sock (fst (webSocketClose (upd_sock r i (\<lambda>s. s\<lparr>s_readyState := 3\<rparr>)) i now)) i)"
| rt_error: "find_sock r i \<noteq> None \<Longrightarrow> relay_trans C r (EvError i now)
     (drop_sock (fst (webSocketError (upd_sock r i (\<lambda>s. s\<lparr>s_readyState := 3\<rparr>)) i now)) i)"
| rt_alarm: "r_alarm r = Some due \<Longrightarrow> due \<le> now \<Longrightarrow>
     relay_trans C r (EvAlarm now) (fst (alarm (r\<lparr>r_alarm := None\<rparr>) now))"
| rt_fault: "relay_trans C r (EvFault i) (upd_sock r i (\<lambda>s. s\<lparr>s_faulty := True\<rparr>))"
| rt_closing: "relay_trans C r (EvClosing i) (upd_sock r i (\<lambda>s. s\<lparr>s_readyState := max 2 (s_readyState s)\<rparr>))"
| rt_hibernate: "relay_trans C r EvHibernate (hibernate r)"

subsection \<open>Frame lemmas\<close>

text \<open>What no socket operation changes: everything but the sockets' link state and the trace.\<close>

definition atts :: "relay \<Rightarrow> (nat \<times> ws_attachment option) list" where
  "atts r = map (\<lambda>s. (s_id s, s_att s)) (r_sockets r)"

definition same_core :: "relay \<Rightarrow> relay \<Rightarrow> bool" where
  "same_core r r' \<longleftrightarrow>
     r_channelState r' = r_channelState r \<and> r_channelId r' = r_channelId r \<and>
     r_dappPeerId r' = r_dappPeerId r \<and> r_walletPeerId r' = r_walletPeerId r \<and>
     r_isReconnect r' = r_isReconnect r \<and> r_pendingRequests r' = r_pendingRequests r \<and>
     r_initialized r' = r_initialized r \<and> r_nextSid r' = r_nextSid r \<and>
     r_stored r' = r_stored r \<and> r_alarm r' = r_alarm r \<and> atts r' = atts r"

lemma same_core_refl [simp]: "same_core r r"
  by (simp add: same_core_def)

lemma same_core_trans: "same_core r r' \<Longrightarrow> same_core r' r'' \<Longrightarrow> same_core r r''"
  by (simp add: same_core_def)

lemma ws_send_Inr: "ws_send r i m = Inr r' \<Longrightarrow> r' = r\<lparr>r_out := r_out r @ [Frame i m]\<rparr>"
  by (auto simp: ws_send_def split: option.splits if_splits)

lemma ws_send_core: "ws_send r i m = Inr r' \<Longrightarrow> same_core r r'"
  by (auto dest!: ws_send_Inr simp: same_core_def atts_def)

lemma upd_sock_core: "(\<And>s. s_id (f s) = s_id s \<and> s_att (f s) = s_att s) \<Longrightarrow> same_core r (upd_sock r i f)"
  by (auto simp: same_core_def upd_sock_def atts_def)

lemma ws_close_core: "same_core r (ws_close r i why)"
  by (auto simp: same_core_def ws_close_def upd_sock_def atts_def)

lemma try_send_close_core: "same_core r (try_send_close r i m why)"
  by (auto simp: try_send_close_def split: sum.splits
      intro: same_core_trans ws_close_core dest!: ws_send_core)

lemma sendAndClose_core: "same_core r (sendAndClose r i m)"
  by (simp add: sendAndClose_def try_send_close_core)

lemma try_send_core: "same_core r (fst (try_send r i m))"
  by (auto simp: try_send_def split: option.splits sum.splits dest: ws_send_core)

lemma alarm_loop_core: "same_core r (foldl (\<lambda>r ws. try_send_close r ws m why) r is)"
proof (induction "is" arbitrary: r)
  case (Cons i "is")
  have "same_core r (try_send_close r i m why)" by (rule try_send_close_core)
  then show ?case using Cons [of "try_send_close r i m why"] same_core_trans by auto
qed simp

lemmas core_frames = ws_close_core try_send_close_core sendAndClose_core try_send_core alarm_loop_core

lemma core_sel:
  assumes "same_core r r'"
  shows "r_channelState r' = r_channelState r" "r_channelId r' = r_channelId r"
    "r_dappPeerId r' = r_dappPeerId r" "r_walletPeerId r' = r_walletPeerId r"
    "r_isReconnect r' = r_isReconnect r" "r_pendingRequests r' = r_pendingRequests r"
    "r_initialized r' = r_initialized r" "r_nextSid r' = r_nextSid r"
    "r_stored r' = r_stored r" "r_alarm r' = r_alarm r" "atts r' = atts r"
  using assms by (simp_all add: same_core_def)

lemmas frame_sels [frame_simps] =
  core_sel [OF ws_close_core] core_sel [OF try_send_close_core] core_sel [OF sendAndClose_core]
  core_sel [OF try_send_core] core_sel [OF alarm_loop_core]

end
