(* ===== verification/Relay_Invariant.thy ===== *)
theory Relay_Invariant
  imports Relay_Channel
begin

text \<open>
  The invariant of the relay's channel object over every sequence of events: well-formedness
  of the state in memory and in storage, the channel binding of the sockets, and the bound on
  unanswered requests.
\<close>

subsection \<open>The invariant\<close>

text \<open>Which peers are known in which state, and what the pending set may hold.\<close>

definition core_ok :: "channel_state \<Rightarrow> string option \<Rightarrow> string option \<Rightarrow> bool \<Rightarrow> string list \<Rightarrow> bool" where
  "core_ok st dapp wallet reconnect pending \<longleftrightarrow>
     distinct pending \<and> length pending \<le> PENDING_REQUEST_LIMIT \<and> dapp \<noteq> Some [] \<and>
     (case st of
        NoChannel \<Rightarrow> dapp = None \<and> wallet = None \<and> pending = []
      | Waiting \<Rightarrow> dapp \<noteq> None \<and> wallet = None \<and> \<not> reconnect \<and> pending = []
      | Pending_accept \<Rightarrow> dapp \<noteq> None \<and> wallet \<noteq> None \<and> pending = []
      | Connected \<Rightarrow> dapp \<noteq> None \<and> wallet \<noteq> None
      | Closed \<Rightarrow> True)"

definition memory_ok :: "relay \<Rightarrow> bool" where
  "memory_ok r = core_ok (r_channelState r) (r_dappPeerId r) (r_walletPeerId r) (r_isReconnect r)
     (r_pendingRequests r)"

definition stored_ok :: "persisted option \<Rightarrow> bool" where
  "stored_ok p = (case p of None \<Rightarrow> True | Some p \<Rightarrow>
     core_ok (p_state p) (if p_dappPeerId p = [] then None else Some (p_dappPeerId p))
       (p_walletPeerId p) (p_isReconnect p) (p_pendingRequests p))"

text \<open>Every socket belongs to the channel, and sockets have distinct identities.\<close>

definition sockets_ok :: "string \<Rightarrow> relay \<Rightarrow> bool" where
  "sockets_ok C r \<longleftrightarrow>
     list_all (\<lambda>(i, a). i < r_nextSid r \<and> (case a of None \<Rightarrow> True | Some x \<Rightarrow> a_channelId x = C)) (atts r) \<and>
     distinct (map fst (atts r))"

definition fresh_memory :: "relay \<Rightarrow> bool" where
  "fresh_memory r \<longleftrightarrow> r_channelState r = NoChannel \<and> r_channelId r = None \<and> r_dappPeerId r = None \<and>
     r_walletPeerId r = None \<and> \<not> r_isReconnect r \<and> r_pendingRequests r = []"

definition relay_ok :: "string \<Rightarrow> relay \<Rightarrow> bool" where
  "relay_ok C r \<longleftrightarrow> memory_ok r \<and> stored_ok (r_stored r) \<and> sockets_ok C r \<and>
     (r_channelId r = None \<or> r_channelId r = Some C) \<and> (\<not> r_initialized r \<longrightarrow> fresh_memory r)"

lemmas ok_defs = memory_ok_def core_ok_def stored_ok_def PENDING_REQUEST_LIMIT_def

subsection \<open>Preservation by the helpers\<close>

lemma relay_ok_core: "same_core r r' \<Longrightarrow> relay_ok C r \<Longrightarrow> relay_ok C r'"
  by (simp add: relay_ok_def memory_ok_def sockets_ok_def fresh_memory_def same_core_def)

lemma relay_ok_frames [intro]:
  "relay_ok C r \<Longrightarrow> relay_ok C (sendAndClose r i m)"
  "relay_ok C r \<Longrightarrow> relay_ok C (try_send_close r i m why)"
  "relay_ok C r \<Longrightarrow> relay_ok C (ws_close r i why)"
  "relay_ok C r \<Longrightarrow> relay_ok C (fst (try_send r j m))"
  by (rule relay_ok_core, rule core_frames, assumption)+

lemma relay_ok_alarm_upd [simp]: "relay_ok C (r\<lparr>r_alarm := x\<rparr>) = relay_ok C r"
  by (simp add: relay_ok_def memory_ok_def sockets_ok_def atts_def fresh_memory_def)

lemma relay_ok_setAlarm [simp]: "relay_ok C (setAlarm r x) = relay_ok C r"
  by (simp add: setAlarm_def)

lemma relay_ok_deleteAlarm [simp]: "relay_ok C (deleteAlarm r) = relay_ok C r"
  by (simp add: deleteAlarm_def)

lemma stored_ok_snapshot:
  assumes "memory_ok r"
  shows "stored_ok (Some \<lparr> p_state = r_channelState r,
           p_dappPeerId = (case r_dappPeerId r of None \<Rightarrow> [] | Some p \<Rightarrow> p),
           p_walletPeerId = r_walletPeerId r, p_isReconnect = r_isReconnect r,
           p_pendingRequests = r_pendingRequests r \<rparr>)"
proof -
  have "r_dappPeerId r \<noteq> Some []" using assms by (simp add: memory_ok_def core_ok_def)
  then show ?thesis
    using assms by (cases "r_dappPeerId r") (auto simp: stored_ok_def memory_ok_def)
qed

lemma relay_ok_persistState [intro]:
  assumes "relay_ok C r"
  shows "relay_ok C (persistState r)"
proof -
  have "stored_ok (r_stored (persistState r))"
    using assms stored_ok_snapshot [of r]
    by (auto simp: persistState_def relay_ok_def split: option.splits)
  moreover have "memory_ok (persistState r) = memory_ok r" "sockets_ok C (persistState r) = sockets_ok C r"
    "r_channelId (persistState r) = r_channelId r" "r_initialized (persistState r) = r_initialized r"
    "fresh_memory (persistState r) = fresh_memory r"
    by (simp_all add: persistState_def memory_ok_def sockets_ok_def atts_def fresh_memory_def split: option.splits)
  ultimately show ?thesis using assms by (simp add: relay_ok_def)
qed

lemma atts_setAttachment:
  "atts (setAttachment r i a) = map (\<lambda>p. (fst p, if fst p = i then Some a else snd p)) (atts r)"
  by (auto simp: atts_def setAttachment_def upd_sock_def)

lemma sockets_ok_setAttachment [intro]:
  assumes "sockets_ok C r" and "a_channelId a = C"
  shows "sockets_ok C (setAttachment r i a)"
proof -
  have "map fst (atts (setAttachment r i a)) = map fst (atts r)"
    by (simp add: atts_setAttachment comp_def)
  moreover have "r_nextSid (setAttachment r i a) = r_nextSid r"
    by (simp add: setAttachment_def upd_sock_def)
  ultimately show ?thesis
    using assms by (auto simp: sockets_ok_def atts_setAttachment list_all_iff simp del: map_map)
qed

lemma setAttachment_sel [frame_simps]:
  "r_channelState (setAttachment r i a) = r_channelState r"
  "r_channelId (setAttachment r i a) = r_channelId r"
  "r_dappPeerId (setAttachment r i a) = r_dappPeerId r"
  "r_walletPeerId (setAttachment r i a) = r_walletPeerId r"
  "r_isReconnect (setAttachment r i a) = r_isReconnect r"
  "r_pendingRequests (setAttachment r i a) = r_pendingRequests r"
  "r_initialized (setAttachment r i a) = r_initialized r"
  "r_stored (setAttachment r i a) = r_stored r"
  "r_nextSid (setAttachment r i a) = r_nextSid r"
  "r_alarm (setAttachment r i a) = r_alarm r"
  "r_out (setAttachment r i a) = r_out r"
  by (simp_all add: setAttachment_def upd_sock_def)

lemma first_channelId_ok:
  "list_all (\<lambda>s. case s_att s of None \<Rightarrow> True | Some x \<Rightarrow> a_channelId x = C) ss \<Longrightarrow>
   first_channelId ss = None \<or> first_channelId ss = Some C"
  by (induction ss) (auto split: option.splits)

lemma core_ok_remdups: "core_ok st d w rc ps \<Longrightarrow> core_ok st d w rc (remdups ps)"
  by (simp add: core_ok_def distinct_remdups_id)

lemma relay_ok_load_stored:
  assumes "relay_ok C r"
  shows "relay_ok C (load_stored (r\<lparr>r_initialized := True\<rparr>))"
proof (cases "r_stored r")
  case None
  then show ?thesis using assms by (simp add: load_stored_def relay_ok_def memory_ok_def sockets_ok_def atts_def)
next
  case (Some p)
  then have "core_ok (p_state p) (if p_dappPeerId p = [] then None else Some (p_dappPeerId p))
      (p_walletPeerId p) (p_isReconnect p) (remdups (p_pendingRequests p))"
    using assms by (intro core_ok_remdups) (simp add: relay_ok_def stored_ok_def)
  then show ?thesis
    using assms Some by (simp add: load_stored_def relay_ok_def memory_ok_def sockets_ok_def atts_def)
qed

lemma relay_ok_ensureInitialized [intro]:
  assumes "relay_ok C r"
  shows "relay_ok C (ensureInitialized r)"
proof (cases "r_initialized r")
  case True
  then show ?thesis using assms by (simp add: ensureInitialized_def)
next
  case False
  define r1 where "r1 = load_stored (r\<lparr>r_initialized := True\<rparr>)"
  have ok: "relay_ok C r1" unfolding r1_def using assms by (rule relay_ok_load_stored)
  have init: "r_initialized r1" by (simp add: r1_def load_stored_def split: option.splits)
  have att: "list_all (\<lambda>s. case s_att s of None \<Rightarrow> True | Some x \<Rightarrow> a_channelId x = C) (r_sockets r1)"
    using ok by (auto simp: relay_ok_def sockets_ok_def atts_def list_all_iff)
  have "relay_ok C (r1\<lparr>r_channelId := Some C\<rparr>)"
    using ok init by (simp add: relay_ok_def memory_ok_def sockets_ok_def atts_def)
  moreover have "ensureInitialized r = r1 \<or> ensureInitialized r = r1\<lparr>r_channelId := Some C\<rparr>"
    using False first_channelId_ok [OF att]
    by (auto simp: ensureInitialized_def r1_def [symmetric] Let_def)
  ultimately show ?thesis using ok by auto
qed

lemma ensureInitialized_initialized [simp]: "r_initialized (ensureInitialized r)"
  by (simp add: ensureInitialized_def load_stored_def Let_def split: option.splits)

lemma ensureInitialized_idem [simp]: "ensureInitialized (ensureInitialized r) = ensureInitialized r"
  by (subst ensureInitialized_def) simp

subsection \<open>Preservation by the handlers\<close>

lemma relay_ok_create_channel:
  assumes "relay_ok C r" and "r_initialized r" and "ch = C" and "from \<noteq> []"
  shows "relay_ok C (fst (create_channel r ws ch from now))"
proof -
  let ?a = "\<lparr>a_role = Dapp, a_peerId = from, a_channelId = ch\<rparr>"
  let ?r = "setAttachment (r\<lparr>r_channelState := Waiting, r_dappPeerId := Some from, r_walletPeerId := None,
                r_isReconnect := False, r_pendingRequests := []\<rparr>) ws ?a"
  have "sockets_ok C (r\<lparr>r_channelState := Waiting, r_dappPeerId := Some from, r_walletPeerId := None,
                r_isReconnect := False, r_pendingRequests := []\<rparr>)"
    using assms(1) by (simp add: relay_ok_def sockets_ok_def atts_def)
  then have "sockets_ok C ?r" using assms(3) by auto
  then have "relay_ok C ?r"
    using assms by (auto simp: relay_ok_def memory_ok_def core_ok_def frame_simps)
  then show ?thesis
    by (auto simp: create_channel_def Let_def split: sum.splits
        dest!: ws_send_core [THEN relay_ok_core])
qed

lemma relay_ok_handleCreate:
  assumes "relay_ok C r" and "r_initialized r" and "ch = C" and "from \<noteq> []"
  shows "relay_ok C (fst (handleCreate r ws ch from now))"
proof -
  have *: "relay_ok C (fst (create_channel (try_send_close r i m why) ws ch from now))" for i m why
    using assms by (auto intro!: relay_ok_create_channel simp: frame_simps)
  show ?thesis
    using assms * relay_ok_create_channel
    by (auto simp: handleCreate_def split: channel_state.splits option.splits)
qed

lemma relay_ok_join_revert:
  assumes "relay_ok C r" and "r_initialized r" and "r_channelState r = Pending_accept"
  shows "relay_ok C (join_revert r ws ch now)"
proof -
  have "relay_ok C (r\<lparr>r_walletPeerId := None, r_isReconnect := False, r_channelState := Waiting\<rparr>)"
    using assms by (auto simp: relay_ok_def memory_ok_def core_ok_def sockets_ok_def atts_def)
  then show ?thesis by (auto simp: join_revert_def Let_def)
qed

lemma relay_ok_handleJoin:
  assumes "relay_ok C r" and "r_initialized r" and "ch = C"
  shows "relay_ok C (fst (handleJoin r ws ch from sj rawText now))"
proof (cases "r_channelState r = Waiting")
  case False
  then show ?thesis using assms by (auto simp: handleJoin_def Let_def)
next
  case True
  let ?a = "\<lparr>a_role = Wallet, a_peerId = from, a_channelId = ch\<rparr>"
  let ?u = "r\<lparr>r_walletPeerId := Some from, r_isReconnect := sj, r_channelState := Pending_accept\<rparr>"
  let ?r = "setAttachment ?u ws ?a"
  have "sockets_ok C ?u" using assms(1) by (simp add: relay_ok_def sockets_ok_def atts_def)
  then have "sockets_ok C ?r" using assms(3) by auto
  then have ok: "relay_ok C ?r"
    using assms True by (auto simp: relay_ok_def memory_ok_def core_ok_def frame_simps)
  have rev: "relay_ok C (join_revert ?r ws ch now)"
    using ok assms(2) by (intro relay_ok_join_revert) (simp_all add: frame_simps)
  have sent: "ws_send ?r i m = Inr r1 \<Longrightarrow> relay_ok C r1" for i m r1
    using ok by (auto dest: ws_send_core [THEN relay_ok_core])
  show ?thesis
    using True rev
    by (auto simp: handleJoin_def Let_def split: option.splits sum.splits
        dest!: sent dest: ws_send_core [THEN relay_ok_core])
qed

lemma relay_ok_state:
  assumes "relay_ok C r" and "r_initialized r"
    and "core_ok st (r_dappPeerId r) (r_walletPeerId r) (r_isReconnect r) (r_pendingRequests r)"
  shows "relay_ok C (r\<lparr>r_channelState := st\<rparr>)"
  using assms by (auto simp: relay_ok_def memory_ok_def sockets_ok_def atts_def)

lemma relay_ok_closed [intro]:
  assumes "relay_ok C r" and "r_initialized r"
  shows "relay_ok C (r\<lparr>r_channelState := Closed\<rparr>)"
  using assms by (intro relay_ok_state) (auto simp: relay_ok_def memory_ok_def core_ok_def)

lemma relay_ok_handleAccept:
  assumes "relay_ok C r" and "r_initialized r"
  shows "relay_ok C (fst (handleAccept r ws ch from target role now))"
proof -
  define r1 where "r1 = fst (try_send r (findPeerWs r Dapp)
    (buildReadyConnected now ch Dapp from (the (r_walletPeerId r)) (r_isReconnect r)))"
  define r2 where "r2 = fst (try_send r1 (findPeerWs r Wallet)
    (buildReadyConnected now ch Wallet (the (r_walletPeerId r)) from (r_isReconnect r)))"
  have ok: "relay_ok C r2" using assms(1) by (auto simp: r1_def r2_def)
  have i: "r_initialized r2" using assms(2) by (simp add: r1_def r2_def frame_simps)
  have s: "r_channelState r2 = r_channelState r" by (simp add: r1_def r2_def frame_simps)
  have conn: "r_channelState r = Pending_accept \<Longrightarrow> relay_ok C (r2\<lparr>r_channelState := Connected\<rparr>)"
    using ok i s by (intro relay_ok_state) (auto simp: relay_ok_def memory_ok_def core_ok_def)
  have closed: "relay_ok C (r2\<lparr>r_channelState := Closed\<rparr>)" using ok i by blast
  show ?thesis
    using assms conn closed
    by (auto simp: handleAccept_def Let_def case_prod_beta r1_def [symmetric] r2_def [symmetric])
qed

lemma relay_ok_handleData:
  assumes "relay_ok C r" and "r_initialized r"
  shows "relay_ok C (fst (handleData r ws rawText ch from t i role now))"
proof -
  have add: "relay_ok C (r\<lparr>r_pendingRequests := js_add (r_pendingRequests r) x\<rparr>)"
    if "r_channelState r = Connected" "length (r_pendingRequests r) < PENDING_REQUEST_LIMIT" for x
    using assms that length_js_add_le [of "r_pendingRequests r" x]
    by (auto simp: relay_ok_def memory_ok_def core_ok_def sockets_ok_def atts_def fresh_memory_def)
  have del: "relay_ok C (r\<lparr>r_pendingRequests := js_remove (r_pendingRequests r) x\<rparr>)"
    if "r_channelState r = Connected" for x
    using assms that le_trans [OF length_js_remove_le [of "r_pendingRequests r" x]]
    by (auto simp: relay_ok_def memory_ok_def core_ok_def sockets_ok_def atts_def fresh_memory_def)
  have st: "stateAllowsMessage (r_channelState r) t role \<Longrightarrow> t = TReq \<or> t = TRes \<Longrightarrow> r_channelState r = Connected"
    by (auto simp: stateAllowsMessage_def split: channel_state.splits if_splits)
  show ?thesis
    using assms add del st
    by (auto simp: handleData_def Let_def not_le split: if_splits intro!: relay_ok_persistState relay_ok_frames)
qed

lemma relay_ok_handleClose:
  assumes "relay_ok C r" and "r_initialized r"
  shows "relay_ok C (fst (handleClose r ws rawText ch from role now))"
  using assms
  by (auto simp: handleClose_def Let_def frame_simps split: option.splits
      intro!: relay_ok_persistState relay_ok_closed relay_ok_frames)

lemmas relay_ok_handlers =
  relay_ok_handleCreate relay_ok_handleJoin relay_ok_handleAccept relay_ok_handleData relay_ok_handleClose

lemma relay_ok_handleMessage:
  assumes "relay_ok C r" and "r_initialized r" and "cm_ch msg = C" and "cm_from msg \<noteq> []"
  shows "relay_ok C (fst (handleMessage r ws att msg rawText now))"
  using assms
  by (cases msg) (auto simp: handleMessage_def Let_def split: if_splits intro!: relay_ok_handlers relay_ok_frames)

lemma relay_ok_handleFirstMessage:
  assumes "relay_ok C r" and "r_initialized r" and "cm_ch msg = C" and "cm_from msg \<noteq> []"
  shows "relay_ok C (fst (handleFirstMessage r ws msg rawText now))"
  using assms
  by (cases msg) (auto simp: handleFirstMessage_def intro!: relay_ok_handlers relay_ok_frames)

lemma relay_ok_webSocketMessage:
  assumes "relay_ok C r"
  shows "relay_ok C (fst (webSocketMessage r ws payload now))"
proof -
  let ?r = "ensureInitialized r"
  have ok: "relay_ok C ?r" using assms by blast
  have msg: "relay_ok C (fst (handleFirstMessage ?r ws m t now))"
    "relay_ok C (fst (handleMessage ?r ws att m t now))"
    if "parseMessage t = Inr m" "r_channelId ?r = Some (cm_ch m)" for m t att
  proof -
    have "cm_ch m = C" using that(2) ok by (auto simp: relay_ok_def)
    moreover have "cm_from m \<noteq> []"
      using parseMessage_Inr [OF that(1)] validatePeerId_nonempty by blast
    ultimately show "relay_ok C (fst (handleFirstMessage ?r ws m t now))"
      "relay_ok C (fst (handleMessage ?r ws att m t now))"
      using ok by (auto intro!: relay_ok_handleFirstMessage relay_ok_handleMessage)
  qed
  show ?thesis
    using ok msg
    by (auto simp: webSocketMessage_def Let_def split: ws_payload.splits sum.splits option.splits)
qed

lemma relay_ok_handleDisconnect:
  assumes "relay_ok C r" and "r_initialized r"
  shows "relay_ok C (handleDisconnect r ws now)"
proof -
  have revert: "relay_ok C (r\<lparr>r_walletPeerId := None, r_isReconnect := False, r_channelState := Waiting\<rparr>)"
    if "r_channelState r = Pending_accept"
    using assms that by (auto simp: relay_ok_def memory_ok_def core_ok_def sockets_ok_def atts_def)
  have closed: "relay_ok C (persistState ((try_send_close r i m why)\<lparr>r_channelState := Closed\<rparr>))"
    "relay_ok C (persistState (r\<lparr>r_channelState := Closed\<rparr>))" for i m why
    using assms by (auto intro!: relay_ok_persistState relay_ok_closed relay_ok_frames simp: frame_simps)
  show ?thesis
    using assms(1) revert closed
    by (auto simp: handleDisconnect_def Let_def split: option.splits role.splits)
qed

lemma relay_ok_alarm:
  assumes "relay_ok C r"
  shows "relay_ok C (fst (alarm r now))"
proof -
  have ok: "relay_ok C (ensureInitialized r)" using assms by blast
  have "relay_ok C (persistState ((foldl (\<lambda>r ws. try_send_close r ws m why) (ensureInitialized r) sids)
      \<lparr>r_channelState := Closed\<rparr>))" for m why sids
    using relay_ok_core [OF alarm_loop_core ok]
    by (intro relay_ok_persistState relay_ok_closed) (simp_all add: frame_simps)
  then show ?thesis using ok by (auto simp: alarm_def Let_def split: option.splits)
qed

lemma relay_ok_fetch:
  assumes "relay_ok C r" and "q_ch q = Some C"
  shows "relay_ok C (fst (fetch r q))"
proof -
  let ?r = "r\<lparr>r_nextSid := Suc (r_nextSid r), r_sockets := r_sockets r @
      [\<lparr>s_id = r_nextSid r, s_readyState = 1, s_faulty = False, s_att = None\<rparr>]\<rparr>"
  have "relay_ok C ?r"
    using assms(1)
    by (fastforce simp: relay_ok_def memory_ok_def sockets_ok_def atts_def fresh_memory_def list_all_iff)
  then have ok: "relay_ok C (ensureInitialized ?r)" by blast
  then have "relay_ok C ((ensureInitialized ?r)\<lparr>r_channelId := Some C\<rparr>)"
    using ensureInitialized_initialized [of ?r]
    by (simp add: relay_ok_def memory_ok_def sockets_ok_def atts_def)
  then show ?thesis using assms ok by (auto simp: fetch_def Let_def split: option.splits)
qed

lemma relay_ok_drop_sock:
  assumes "relay_ok C r"
  shows "relay_ok C (drop_sock r i)"
proof -
  have "atts (drop_sock r i) = filter (\<lambda>p. fst p \<noteq> i) (atts r)"
    by (simp add: atts_def drop_sock_def filter_map comp_def)
  moreover have "distinct (map fst (atts r)) \<Longrightarrow> distinct (map fst (filter (\<lambda>p. fst p \<noteq> i) (atts r)))"
    by (rule distinct_map_fst_filter)
  ultimately have "sockets_ok C (drop_sock r i)"
    using assms by (auto simp: relay_ok_def sockets_ok_def list_all_iff drop_sock_def)
  then show ?thesis
    using assms by (simp add: relay_ok_def memory_ok_def fresh_memory_def drop_sock_def)
qed

lemma relay_ok_upd_sock:
  "relay_ok C r \<Longrightarrow> (\<And>s. s_id (f s) = s_id s \<and> s_att (f s) = s_att s) \<Longrightarrow> relay_ok C (upd_sock r i f)"
  using relay_ok_core upd_sock_core by metis

lemma worker_fetch_Inr: "worker_fetch q = Inr C \<Longrightarrow> q_ch q = Some C \<and> validateChannelId C \<and> is_upgrade q"
  by (auto simp: worker_fetch_def handleWebSocket_def split: if_splits option.splits)

lemma relay_ok_trans:
  assumes "relay_ok C r" and "relay_trans C r e r'"
  shows "relay_ok C r'"
  using assms(2,1)
proof (cases rule: relay_trans.cases)
  case (rt_fetch q)
  then show ?thesis using assms(1) relay_ok_fetch worker_fetch_Inr by metis
next
  case (rt_hibernate)
  then show ?thesis
    using assms(1)
    by (simp add: hibernate_def relay_init_def relay_ok_def memory_ok_def core_ok_def sockets_ok_def
        atts_def fresh_memory_def PENDING_REQUEST_LIMIT_def)
qed (auto simp: webSocketClose_def webSocketError_def
    intro!: relay_ok_webSocketMessage relay_ok_drop_sock relay_ok_handleDisconnect
      relay_ok_ensureInitialized relay_ok_upd_sock relay_ok_alarm)

lemma relay_ok_init: "relay_ok C relay_init"
  by (simp add: relay_init_def relay_ok_def memory_ok_def core_ok_def sockets_ok_def stored_ok_def
      atts_def fresh_memory_def PENDING_REQUEST_LIMIT_def)

interpretation relay_sys: inductive_invariant relay_init "relay_trans C" "relay_ok C" for C
  by unfold_locales (auto intro: relay_ok_init relay_ok_trans)

end
