(* ===== verification/Relay_Properties.thy ===== *)
theory Relay_Properties
  imports Relay_Invariant
begin

text \<open>
  What the relay guarantees to the two peers: state well-formedness, who can open a channel,
  what is forwarded to whom, what is refused, and that eviction from memory is invisible.
\<close>

subsection \<open>Output of the helpers\<close>

text \<open>\<open>emits P r r'\<close>: the step from \<open>r\<close> to \<open>r'\<close> appended outputs that all satisfy \<open>P\<close>.\<close>

definition emits :: "(relay_out \<Rightarrow> bool) \<Rightarrow> relay \<Rightarrow> relay \<Rightarrow> bool" where
  "emits P r r' \<longleftrightarrow> (\<exists>os. r_out r' = r_out r @ os \<and> list_all P os)"

definition new_out :: "relay \<Rightarrow> relay \<Rightarrow> relay_out list" where
  "new_out r r' = drop (length (r_out r)) (r_out r')"

text \<open>A frame of the relay's own: it parses as JSON and its sender is \<^verbatim>\<open>_adapter\<close>.\<close>

definition adapter_frame :: "string \<Rightarrow> bool" where
  "adapter_frame t = (case JSON_parse t of None \<Rightarrow> False | Some v \<Rightarrow> jget v ''from'' = JStr ''_adapter'')"

lemma emits_new_out: "emits P r r' \<Longrightarrow> x \<in> set (new_out r r') \<Longrightarrow> P x"
  by (auto simp: emits_def new_out_def list_all_iff)

lemma emits_same: "r_out r' = r_out r \<Longrightarrow> emits P r r'"
  by (simp add: emits_def)

lemma emits_trans: "emits P r r' \<Longrightarrow> emits P r' r'' \<Longrightarrow> emits P r r''"
  by (auto simp: emits_def)

lemma emits_ws_send: "ws_send r i m = Inr r' \<Longrightarrow> P (Frame i m) \<Longrightarrow> emits P r r'"
  by (auto simp: emits_def dest!: ws_send_Inr)

lemma emits_ws_close: "P (CloseWs i why) \<Longrightarrow> emits P r (ws_close r i why)"
  by (simp add: emits_def ws_close_def upd_sock_def)

lemma emits_try_send_close:
  "P (Frame i m) \<Longrightarrow> P (CloseWs i why) \<Longrightarrow> emits P r (try_send_close r i m why)"
  by (auto simp: try_send_close_def emits_same split: sum.splits
      intro: emits_trans [OF emits_ws_send emits_ws_close])

lemma emits_sendAndClose: "P (Frame i m) \<Longrightarrow> (\<And>w. P (CloseWs i w)) \<Longrightarrow> emits P r (sendAndClose r i m)"
  by (simp add: sendAndClose_def emits_try_send_close)

lemma emits_try_send: "(\<And>i. j = Some i \<Longrightarrow> P (Frame i m)) \<Longrightarrow> emits P r (fst (try_send r j m))"
  by (auto simp: try_send_def emits_same split: option.splits sum.splits intro: emits_ws_send)

lemma out_sel [frame_simps]:
  "r_out (setAlarm r x) = r_out r" "r_out (deleteAlarm r) = r_out r" "r_out (persistState r) = r_out r"
  "r_out (ensureInitialized r) = r_out r"
  by (simp_all add: setAlarm_def deleteAlarm_def persistState_def ensureInitialized_def load_stored_def Let_def
      split: option.splits)

lemma adapter_frames:
  assumes "\<bar>now\<bar> < 10 ^ 21"
  shows "adapter_frame (buildTerminate now ch reason)"
    "adapter_frame (buildTerminateWithTarget now ch reason target)"
    "adapter_frame (buildReadyWaiting now ch role p rc)"
    "adapter_frame (buildReadyConnected now ch role p q rc)"
  using assms
  by (simp_all add: adapter_frame_def buildTerminate_def buildTerminateWithTarget_def
      buildReadyWaiting_def buildReadyConnected_def JSON_parse_stringify)

subsection \<open>What is sent to whom\<close>

text \<open>
  \<open>to_peer j raw\<close> allows, beside the relay's own frames and closes, only the raw text \<open>raw\<close>, and
  that only to the socket \<open>j\<close>.
\<close>

definition to_peer :: "nat option \<Rightarrow> string \<Rightarrow> relay_out \<Rightarrow> bool" where
  "to_peer j raw out = (case out of
     CloseWs _ _ \<Rightarrow> True | Frame i t \<Rightarrow> adapter_frame t \<or> (t = raw \<and> j = Some i))"

lemma to_peer_simps [simp]:
  "to_peer j raw (CloseWs i w)" "adapter_frame t \<Longrightarrow> to_peer j raw (Frame i t)"
  "to_peer (Some i) raw (Frame i raw)"
  by (simp_all add: to_peer_def)

text \<open>The socket a peer's message may be forwarded to: a join goes to the dApp, everything else
  to the other role.\<close>

definition forward_target :: "relay \<Rightarrow> nat \<Rightarrow> nat option" where
  "forward_target r i = findPeerWs r (case getAttachment r i of
      None \<Rightarrow> Dapp | Some a \<Rightarrow> if a_role a = Dapp then Wallet else Dapp)"

lemma emits_create_channel:
  assumes "\<bar>now\<bar> < 10 ^ 21"
  shows "emits (to_peer j raw) r (fst (create_channel r ws ch from now))"
proof -
  let ?r = "setAttachment (r\<lparr>r_channelState := Waiting, r_dappPeerId := Some from, r_walletPeerId := None,
      r_isReconnect := False, r_pendingRequests := []\<rparr>) ws \<lparr>a_role = Dapp, a_peerId = from, a_channelId = ch\<rparr>"
  have out: "r_out ?r = r_out r" by (simp add: frame_simps)
  have "to_peer j raw (Frame ws (buildReadyWaiting now ch Dapp from False))"
    using adapter_frames(3) [OF assms] by simp
  then show ?thesis
    using out by (auto simp: create_channel_def Let_def emits_def frame_simps split: sum.splits dest!: ws_send_Inr)
qed

lemma emits_handleCreate:
  assumes "\<bar>now\<bar> < 10 ^ 21"
  shows "emits (to_peer j raw) r (fst (handleCreate r ws ch from now))"
proof -
  note cc = emits_create_channel [OF assms, of j raw] and af = adapter_frames(1) [OF assms]
  have "emits (to_peer j raw) r (try_send_close r i (buildTerminate now ch Normal) why)" for i why
    by (rule emits_try_send_close) (simp_all add: af)
  then have rep: "emits (to_peer j raw) r (fst (create_channel (try_send_close r i (buildTerminate now ch Normal) why) ws ch from now))"
    for i why using cc emits_trans by blast
  have rej: "emits (to_peer j raw) r (sendAndClose r ws (buildTerminate now ch Channel_exists))"
    by (rule emits_sendAndClose) (simp_all add: af)
  show ?thesis
    using rep rej cc by (simp add: handleCreate_def split: channel_state.splits option.splits)
qed

lemma find_unique: "distinct (map f ss) \<Longrightarrow> s \<in> set ss \<Longrightarrow> f s = i \<Longrightarrow> find (\<lambda>s. f s = i) ss = Some s"
  by (induction ss) auto

lemma find_role_setAttachment:
  assumes "getAttachment r i = None" and "distinct (map fst (atts r))" and "a_role a \<noteq> role"
  shows "findPeerWs (setAttachment r i a) role = findPeerWs r role"
proof -
  have "find_role role (map (\<lambda>s. if s_id s = i then s\<lparr>s_att := Some a\<rparr> else s) ss) = find_role role ss"
    if "\<And>s. s \<in> set ss \<Longrightarrow> s_id s = i \<Longrightarrow> s_att s = None" for ss
    using that assms(3) by (induction ss) auto
  moreover have "s_att s = None" if "s \<in> set (r_sockets r)" "s_id s = i" for s
  proof -
    have "distinct (map s_id (r_sockets r))"
      using assms(2) by (simp add: atts_def comp_def)
    then have "find (\<lambda>s. s_id s = i) (r_sockets r) = Some s"
      using that by (rule find_unique)
    then show ?thesis using assms(1) by (simp add: getAttachment_def find_sock_def)
  qed
  ultimately show ?thesis by (simp add: findPeerWs_def setAttachment_def upd_sock_def)
qed

lemma emits_reject:
  assumes "\<bar>now\<bar> < 10 ^ 21"
  shows "emits (to_peer j raw) r (sendAndClose r ws (buildTerminate now ch reason))"
    "emits (to_peer j raw) r (sendAndClose r ws (buildTerminateWithTarget now ch reason target))"
  by (rule emits_sendAndClose; simp add: adapter_frames [OF assms])+

lemma emits_out_eq: "r_out r' = r_out r \<Longrightarrow> emits P r' s = emits P r s"
  by (simp add: emits_def)

lemma emits_join_revert:
  assumes "\<bar>now\<bar> < 10 ^ 21"
  shows "emits (to_peer j raw) r (join_revert r ws ch now)"
proof -
  let ?r = "r\<lparr>r_walletPeerId := None, r_isReconnect := False, r_channelState := Waiting\<rparr>"
  have "emits (to_peer j raw) ?r (sendAndClose ?r ws (buildTerminate now ch Channel_not_found))"
    by (rule emits_reject [OF assms])
  then show ?thesis by (simp add: join_revert_def Let_def emits_def frame_simps)
qed

lemma emits_handleJoin:
  assumes "\<bar>now\<bar> < 10 ^ 21" and "getAttachment r ws = None" and "distinct (map fst (atts r))"
  shows "emits (to_peer (findPeerWs r Dapp) raw) r (fst (handleJoin r ws ch from sj raw now))"
proof (cases "r_channelState r = Waiting")
  case False
  then show ?thesis by (simp add: handleJoin_def Let_def emits_reject [OF assms(1)])
next
  case True
  let ?u = "r\<lparr>r_walletPeerId := Some from, r_isReconnect := sj, r_channelState := Pending_accept\<rparr>"
  let ?r = "setAttachment ?u ws \<lparr>a_role = Wallet, a_peerId = from, a_channelId = ch\<rparr>"
  define P where "P = to_peer (findPeerWs r Dapp) raw"
  have out: "r_out ?r = r_out r" by (simp add: frame_simps)
  have "getAttachment ?u ws = None" "distinct (map fst (atts ?u))"
    using assms(2,3) by (simp_all add: getAttachment_def find_sock_def atts_def)
  then have "findPeerWs ?r Dapp = findPeerWs ?u Dapp" by (rule find_role_setAttachment) simp
  then have peer: "findPeerWs ?r Dapp = findPeerWs r Dapp" by (simp add: findPeerWs_def)
  have rev: "emits P r (join_revert ?r ws ch now)"
    using emits_join_revert [OF assms(1), of "findPeerWs r Dapp" raw ?r] out by (simp add: emits_def P_def)
  have two: "emits P r r2"
    if "findPeerWs r Dapp = Some d" "ws_send ?r d raw = Inr r1"
       "ws_send r1 ws (buildReadyWaiting now ch Wallet from sj) = Inr r2" for d r1 r2
    using that out adapter_frames(3) [OF assms(1)] by (auto simp: emits_def P_def dest!: ws_send_Inr)
  have one: "emits P r r1" if "findPeerWs r Dapp = Some d" "ws_send ?r d raw = Inr r1" for d r1
    using that out by (auto simp: emits_def P_def dest!: ws_send_Inr)
  have per: "emits P r (persistState r2) = emits P r r2" for r2
    by (simp add: emits_def frame_simps)
  show ?thesis
    unfolding P_def [symmetric]
    using True rev one two by (auto simp add: handleJoin_def Let_def peer per split: option.splits sum.splits)
qed

lemma emits_handleAccept:
  assumes "\<bar>now\<bar> < 10 ^ 21"
  shows "emits (to_peer j raw) r (fst (handleAccept r ws ch from target role now))"
proof -
  define r1 where "r1 = fst (try_send r (findPeerWs r Dapp)
    (buildReadyConnected now ch Dapp from (the (r_walletPeerId r)) (r_isReconnect r)))"
  define r2 where "r2 = fst (try_send r1 (findPeerWs r Wallet)
    (buildReadyConnected now ch Wallet (the (r_walletPeerId r)) from (r_isReconnect r)))"
  have "emits (to_peer j raw) r r1" "emits (to_peer j raw) r1 r2"
    unfolding r1_def r2_def by (rule emits_try_send, simp add: adapter_frames [OF assms])+
  then have e: "emits (to_peer j raw) r r2" by (rule emits_trans)
  show ?thesis
    using e emits_reject [OF assms]
    by (simp add: handleAccept_def Let_def case_prod_beta r1_def [symmetric] r2_def [symmetric])
       (simp add: emits_def frame_simps)
qed

lemma emits_handleData:
  assumes "\<bar>now\<bar> < 10 ^ 21"
  shows "emits (to_peer (findPeerWs r (if role = Dapp then Wallet else Dapp)) raw) r
    (fst (handleData r ws raw ch from t i role now))"
proof -
  let ?o = "if role = Dapp then Wallet else Dapp"
  have fwd: "emits (to_peer (findPeerWs r ?o) raw) r (fst (try_send r' (findPeerWs r' ?o) raw))"
    if "r_out r' = r_out r" "r_sockets r' = r_sockets r" for r'
  proof -
    have f: "findPeerWs r' ?o = findPeerWs r ?o" using that(2) by (simp add: findPeerWs_def)
    have "emits (to_peer (findPeerWs r ?o) raw) r' (fst (try_send r' (findPeerWs r ?o) raw))"
      by (rule emits_try_send) simp
    then show ?thesis using that(1) f by (simp add: emits_def)
  qed
  have per: "emits P r (persistState r2) = emits P r r2" for P r2 by (simp add: emits_def frame_simps)
  show ?thesis
    by (simp add: handleData_def Let_def emits_reject [OF assms] per fwd del: if_split)
qed

lemma emits_handleClose:
  assumes "\<bar>now\<bar> < 10 ^ 21"
  shows "emits (to_peer (findPeerWs r (if role = Dapp then Wallet else Dapp)) raw) r
    (fst (handleClose r ws raw ch from role now))"
proof -
  define o' where "o' = (if role = Dapp then Wallet else Dapp)"
  define r1 where "r1 = (case findPeerWs r o' of
      Some otherWs \<Rightarrow> try_send_close r otherWs raw ''peer_closed'' | None \<Rightarrow> r)"
  have "emits (to_peer (findPeerWs r o') raw) r r1"
    by (auto simp: r1_def emits_same split: option.splits intro!: emits_try_send_close)
  moreover have "emits (to_peer (findPeerWs r o') raw) r1 (ws_close r1 ws ''closed'')"
    by (rule emits_ws_close) simp
  ultimately have "emits (to_peer (findPeerWs r o') raw) r (ws_close r1 ws ''closed'')"
    by (rule emits_trans)
  moreover have "r_out (deleteAlarm (persistState (r2\<lparr>r_channelState := Closed\<rparr>))) = r_out r2" for r2
    by (simp add: frame_simps)
  ultimately show ?thesis
    unfolding o'_def [symmetric]
    by (simp add: handleClose_def Let_def emits_reject [OF assms] o'_def [symmetric] r1_def [symmetric])
       (simp add: emits_def)
qed

lemma emits_handleMessage:
  assumes "\<bar>now\<bar> < 10 ^ 21"
  shows "emits (to_peer (findPeerWs r (if a_role att = Dapp then Wallet else Dapp)) raw) r
    (fst (handleMessage r ws att msg raw now))"
proof (cases msg)
  case (CCreate c f)
  then show ?thesis
    by (auto simp: handleMessage_def Let_def
        intro: emits_handleCreate [OF assms] emits_reject(1) [OF assms] split: option.splits)
qed (simp_all add: handleMessage_def Let_def emits_reject [OF assms] emits_handleAccept [OF assms]
    emits_handleData [OF assms] emits_handleClose [OF assms] del: if_split)

lemma emits_handleFirstMessage:
  assumes "\<bar>now\<bar> < 10 ^ 21" and "getAttachment r ws = None" and "distinct (map fst (atts r))"
  shows "emits (to_peer (findPeerWs r Dapp) raw) r (fst (handleFirstMessage r ws msg raw now))"
  using assms
  by (cases msg) (simp_all add: handleFirstMessage_def emits_handleCreate emits_reject emits_handleJoin)

lemma emits_webSocketMessage:
  assumes "\<bar>now\<bar> < 10 ^ 21" and "relay_ok C r"
  shows "emits (to_peer (forward_target (ensureInitialized r) ws) raw) r
    (fst (webSocketMessage r ws (TextFrame raw) now))"
proof -
  let ?r = "ensureInitialized r"
  have d: "distinct (map fst (atts ?r))"
    using assms(2) relay_ok_ensureInitialized by (auto simp: relay_ok_def sockets_ok_def)
  have "emits (to_peer (forward_target ?r ws) raw) ?r (fst (webSocketMessage r ws (TextFrame raw) now))"
    using emits_reject [OF assms(1), of "forward_target ?r ws" raw ?r]
      emits_handleFirstMessage [OF assms(1) _ d, of ws raw] emits_handleMessage [OF assms(1), of ?r _ raw ws]
    by (auto simp: webSocketMessage_def Let_def forward_target_def split: sum.splits option.splits)
  then show ?thesis by (simp add: emits_def frame_simps)
qed

subsection \<open>How the state may move\<close>

lemma state_sel [frame_simps]:
  "r_channelState (setAlarm r x) = r_channelState r" "r_channelState (deleteAlarm r) = r_channelState r"
  "r_channelState (persistState r) = r_channelState r"
  by (simp_all add: setAlarm_def deleteAlarm_def persistState_def split: option.splits)

lemma state_ws_send: "ws_send r i m = Inr r' \<Longrightarrow> r_channelState r' = r_channelState r"
  by (auto dest!: ws_send_Inr)

lemma state_create_channel: "r_channelState (fst (create_channel r ws ch from now)) = Waiting"
  by (auto simp: create_channel_def Let_def frame_simps split: sum.splits dest!: ws_send_Inr)

lemma state_handleCreate:
  "r_channelState (fst (handleCreate r ws ch from now)) \<in> {r_channelState r, Waiting}"
  by (auto simp: handleCreate_def frame_simps state_create_channel split: channel_state.splits option.splits)

lemma state_handleJoin:
  "r_channelState r \<noteq> Waiting \<Longrightarrow>
     r_channelState (fst (handleJoin r ws ch from sj raw now)) = r_channelState r"
  "r_channelState r = Waiting \<Longrightarrow>
     r_channelState (fst (handleJoin r ws ch from sj raw now)) \<in> {Waiting, Pending_accept}"
  by (auto simp: handleJoin_def join_revert_def Let_def frame_simps split: option.splits sum.splits dest!: state_ws_send)

lemma state_handleAccept:
  assumes "r_channelState (fst (handleAccept r ws ch from target role now)) \<noteq> r_channelState r"
  shows "role = Dapp \<and> r_dappPeerId r = Some from \<and> r_walletPeerId r = Some target \<and>
    r_channelState r = Pending_accept"
  using assms by (auto simp: handleAccept_def Let_def frame_simps split: if_splits)

lemma state_handleData: "r_channelState (fst (handleData r ws raw ch from t i role now)) = r_channelState r"
  by (auto simp: handleData_def Let_def frame_simps)

lemma state_handleClose:
  "r_channelState (fst (handleClose r ws raw ch from role now)) \<in> {r_channelState r, Closed}"
  by (auto simp: handleClose_def Let_def frame_simps split: option.splits)

text \<open>A message of an attached socket that changes the state.\<close>

lemma state_handleMessage:
  assumes "r_channelState (fst (handleMessage r ws att msg raw now)) \<noteq> r_channelState r"
  shows "(\<exists>ch f. msg = CCreate ch f \<and> r_channelState (fst (handleMessage r ws att msg raw now)) = Waiting) \<or>
    (\<exists>ch f why. msg = CClose ch f why \<and> r_channelState (fst (handleMessage r ws att msg raw now)) = Closed) \<or>
    (\<exists>ch f tgt. msg = CAccept ch f tgt \<and> a_role att = Dapp \<and> r_dappPeerId r = Some f \<and>
       r_walletPeerId r = Some tgt \<and> r_channelState r = Pending_accept)"
proof (cases msg)
  case (CCreate c f)
  then show ?thesis
    using assms state_handleCreate [of r ws c f now]
    by (auto simp: handleMessage_def Let_def frame_simps split: if_splits option.splits)
next
  case (CAccept c f t)
  then show ?thesis using assms state_handleAccept by (auto simp: handleMessage_def Let_def)
next
  case (CClose c f t)
  then show ?thesis
    using assms state_handleClose [of r ws raw c f "a_role att" now] by (auto simp: handleMessage_def Let_def)
qed (use assms in \<open>simp_all add: handleMessage_def Let_def frame_simps state_handleData\<close>)

lemma state_handleFirstMessage:
  "r_channelState (fst (handleFirstMessage r ws msg raw now)) \<in> {r_channelState r, Waiting, Pending_accept}"
proof (cases msg)
  case (CCreate c f)
  then show ?thesis using state_handleCreate [of r ws c f now] by (auto simp: handleFirstMessage_def)
next
  case (CJoin c f s)
  then show ?thesis
    using state_handleJoin [of r ws c f s raw now]
    by (cases "r_channelState r = Waiting") (auto simp: handleFirstMessage_def)
qed (simp_all add: handleFirstMessage_def frame_simps)

lemma state_webSocketMessage:
  assumes "r_channelState (ensureInitialized r) \<noteq> Connected"
    and "r_channelState (fst (webSocketMessage r i p now)) = Connected"
  shows "\<exists>raw ch f tgt att. p = TextFrame raw \<and> parseMessage raw = Inr (CAccept ch f tgt) \<and>
    r_channelId (ensureInitialized r) = Some ch \<and>
    getAttachment (ensureInitialized r) i = Some att \<and> a_role att = Dapp \<and>
    r_dappPeerId (ensureInitialized r) = Some f \<and> r_walletPeerId (ensureInitialized r) = Some tgt \<and>
    r_channelState (ensureInitialized r) = Pending_accept"
proof -
  let ?r = "ensureInitialized r"
  have first: "r_channelState (fst (handleFirstMessage ?r i m raw now)) \<noteq> Connected" for m raw
    using state_handleFirstMessage [of ?r i m raw now] assms(1) by auto
  have msg: "\<exists>ch f tgt. m = CAccept ch f tgt \<and> a_role att = Dapp \<and> r_dappPeerId ?r = Some f \<and>
       r_walletPeerId ?r = Some tgt \<and> r_channelState ?r = Pending_accept"
    if "r_channelState (fst (handleMessage ?r i att m raw now)) = Connected" for m att raw
    using that assms(1) state_handleMessage [of ?r i att m raw now] by auto
  show ?thesis
    using assms first
    by (auto simp: webSocketMessage_def Let_def frame_simps
        split: ws_payload.splits sum.splits option.splits if_splits dest!: msg)
qed

lemma state_handleDisconnect:
  "r_channelState (handleDisconnect r ws now) \<in> {r_channelState r, Waiting, Closed}"
  by (auto simp: handleDisconnect_def Let_def frame_simps split: option.splits)

lemma state_upd_sock [frame_simps]: "r_channelState (upd_sock r i f) = r_channelState r"
  "r_channelState (drop_sock r i) = r_channelState r"
  by (simp_all add: upd_sock_def drop_sock_def)

lemma state_ensureInitialized_upd [frame_simps]:
  "r_channelState (ensureInitialized (upd_sock r i f)) = r_channelState (ensureInitialized r)"
  "r_channelState (ensureInitialized (r\<lparr>r_alarm := x\<rparr>)) = r_channelState (ensureInitialized r)"
  "r_channelState (ensureInitialized (r\<lparr>r_nextSid := n, r_sockets := ss\<rparr>)) = r_channelState (ensureInitialized r)"
  by (simp_all add: upd_sock_def ensureInitialized_def load_stored_def Let_def split: option.splits)

lemma state_not_initialized:
  "relay_ok C r \<Longrightarrow> r_channelState r \<noteq> NoChannel \<Longrightarrow> ensureInitialized r = r"
  by (auto simp: relay_ok_def fresh_memory_def ensureInitialized_def)

lemma state_fetch: "r_channelState (fst (fetch r q)) \<in> {r_channelState r, r_channelState (ensureInitialized r)}"
  by (auto simp: fetch_def Let_def frame_simps split: option.splits)

lemma state_alarm: "r_channelState (fst (alarm r now)) \<in> {r_channelState (ensureInitialized r), Closed}"
  by (auto simp: alarm_def Let_def frame_simps split: option.splits)

lemma connected_by_accept:
  assumes ok: "relay_ok C r" and tr: "relay_trans C r e r'"
    and pre: "r_channelState (ensureInitialized r) \<noteq> Connected" and post: "r_channelState r' = Connected"
  shows "\<exists>i now raw ch f tgt att. e = EvMessage i (TextFrame raw) now \<and> parseMessage raw = Inr (CAccept ch f tgt) \<and>
    r_channelId (ensureInitialized r) = Some ch \<and>
    getAttachment (ensureInitialized r) i = Some att \<and> a_role att = Dapp \<and>
    r_dappPeerId (ensureInitialized r) = Some f \<and> r_walletPeerId (ensureInitialized r) = Some tgt \<and>
    r_channelState (ensureInitialized r) = Pending_accept"
proof -
  have mem: "r_channelState r \<noteq> Connected"
    using pre state_not_initialized [OF ok] by auto
  have dis: "r_channelState (handleDisconnect (ensureInitialized (upd_sock r i f)) j now) \<noteq> Connected" for i f j now
    using pre state_handleDisconnect [of "ensureInitialized (upd_sock r i f)" j now] by (auto simp: frame_simps)
  from tr show ?thesis
  proof (cases rule: relay_trans.cases)
    case (rt_message i p now)
    then show ?thesis using post state_webSocketMessage [OF pre] by blast
  next
    case (rt_fetch q)
    then show ?thesis using post mem pre state_fetch [of r q] by auto
  next
    case (rt_alarm due now)
    then show ?thesis using post pre state_alarm [of "r\<lparr>r_alarm := None\<rparr>" now] by (auto simp: frame_simps)
  next
    case rt_hibernate
    then show ?thesis using post by (simp add: hibernate_def relay_init_def)
  qed (use post mem dis in \<open>auto simp: frame_simps webSocketClose_def webSocketError_def\<close>)
qed

subsection \<open>Memory and storage\<close>

type_synonym memory = "channel_state \<times> string option \<times> string option \<times> bool \<times> string list"

definition mem :: "relay \<Rightarrow> memory" where
  "mem r = (r_channelState r, r_dappPeerId r, r_walletPeerId r, r_isReconnect r, r_pendingRequests r)"

definition stored_mem :: "persisted option \<Rightarrow> memory" where
  "stored_mem p = (case p of
     None \<Rightarrow> (NoChannel, None, None, False, [])
   | Some p \<Rightarrow> (p_state p, if p_dappPeerId p = [] then None else Some (p_dappPeerId p), p_walletPeerId p,
                p_isReconnect p, remdups (p_pendingRequests p)))"

text \<open>Storage agrees with memory.\<close>

definition synced :: "relay \<Rightarrow> bool" where
  "synced r \<longleftrightarrow> mem r = stored_mem (r_stored r)"

lemma mem_ensureInitialized:
  "relay_ok C r \<Longrightarrow> mem (ensureInitialized r) = (if r_initialized r then mem r else stored_mem (r_stored r))"
  by (auto simp: mem_def stored_mem_def relay_ok_def fresh_memory_def ensureInitialized_def load_stored_def Let_def
      split: option.splits)

lemma mem_recovered: "mem (ensureInitialized (hibernate r)) = stored_mem (r_stored r)"
  by (auto simp: mem_def stored_mem_def hibernate_def relay_init_def ensureInitialized_def load_stored_def Let_def
      split: option.splits)

lemma stored_ensureInitialized [simp]: "r_stored (ensureInitialized r) = r_stored r"
  by (simp add: ensureInitialized_def load_stored_def Let_def split: option.splits)

lemma synced_core: "same_core r r' \<Longrightarrow> synced r' = synced r"
  by (simp add: synced_def mem_def same_core_def)

lemmas synced_frames [simp] = core_frames [THEN synced_core]

lemma synced_alarm [simp]: "synced (setAlarm r x) = synced r" "synced (deleteAlarm r) = synced r"
  by (simp_all add: synced_def mem_def setAlarm_def deleteAlarm_def)

lemma synced_persistState:
  assumes "memory_ok r" and "r_channelId r = Some ch" and "ch \<noteq> []"
  shows "synced (persistState r)"
proof -
  have "r_dappPeerId r \<noteq> Some []" "distinct (r_pendingRequests r)"
    using assms(1) by (auto simp: memory_ok_def core_ok_def)
  then show ?thesis
    using assms(2,3)
    by (cases "r_dappPeerId r") (simp_all add: synced_def mem_def stored_mem_def persistState_def distinct_remdups_id)
qed

lemma synced_persist:
  assumes "relay_ok C (persistState r)" and "r_channelId r = Some ch" and "ch \<noteq> []"
  shows "synced (persistState r)"
proof -
  have "memory_ok (persistState r) = memory_ok r"
    by (simp add: memory_ok_def persistState_def split: option.splits)
  then show ?thesis using assms synced_persistState by (auto simp: relay_ok_def)
qed

lemma ws_send_channelId: "ws_send r i m = Inr r' \<Longrightarrow> r_channelId r' = r_channelId r"
  by (auto dest!: ws_send_Inr)

lemma alarm_channelId [simp]: "r_channelId (setAlarm r x) = r_channelId r" "r_channelId (deleteAlarm r) = r_channelId r"
  by (simp_all add: setAlarm_def deleteAlarm_def)

lemma synced_create_channel:
  assumes "relay_ok C (fst (create_channel r ws ch from now))" "r_channelId r = Some c" "c \<noteq> []"
    and "snd (create_channel r ws ch from now) = None"
  shows "synced (fst (create_channel r ws ch from now))"
  using assms
  by (auto simp: create_channel_def Let_def frame_simps split: sum.splits
      intro!: synced_persist dest!: ws_send_channelId)

lemma synced_handleCreate:
  assumes "synced r" "relay_ok C (fst (handleCreate r ws ch from now))" "r_channelId r = Some c" "c \<noteq> []"
    and "snd (handleCreate r ws ch from now) = None"
  shows "synced (fst (handleCreate r ws ch from now))"
  using assms
  by (auto simp: handleCreate_def frame_simps split: channel_state.splits option.splits
      intro!: synced_create_channel)

lemma synced_handleJoin:
  assumes "synced r" "relay_ok C (fst (handleJoin r ws ch from sj raw now))" "r_channelId r = Some c" "c \<noteq> []"
    and "snd (handleJoin r ws ch from sj raw now) = None"
  shows "synced (fst (handleJoin r ws ch from sj raw now))"
proof (cases "r_channelState r = Waiting")
  case False
  then show ?thesis using assms(1) by (simp add: handleJoin_def Let_def)
next
  case True
  define r1 where "r1 = setAttachment (r\<lparr>r_walletPeerId := Some from, r_isReconnect := sj,
    r_channelState := Pending_accept\<rparr>) ws \<lparr>a_role = Wallet, a_peerId = from, a_channelId = ch\<rparr>"
  have c: "r_channelId r1 = Some c" using assms(3) by (simp add: r1_def frame_simps)
  consider (rev) "fst (handleJoin r ws ch from sj raw now) = join_revert r1 ws ch now"
    | (ok) r2 d r3 where "ws_send r1 d raw = Inr r2" "ws_send r2 ws (buildReadyWaiting now ch Wallet from sj) = Inr r3"
        "fst (handleJoin r ws ch from sj raw now) = persistState r3"
    using True assms(5) by (auto simp: handleJoin_def Let_def r1_def [symmetric] split: option.splits sum.splits)
  then show ?thesis
  proof cases
    case rev
    then show ?thesis
      using assms(2,4) c
      by (auto simp: join_revert_def Let_def frame_simps intro!: synced_persist)
  next
    case ok
    then have "r_channelId r3 = Some c" using c ws_send_channelId by metis
    then show ?thesis using assms(2,4) ok(3) synced_persist by metis
  qed
qed

lemma synced_handleAccept:
  assumes "synced r" "relay_ok C (fst (handleAccept r ws ch from target role now))" "r_channelId r = Some c" "c \<noteq> []"
  shows "synced (fst (handleAccept r ws ch from target role now))"
  using assms
  by (auto simp: handleAccept_def Let_def case_prod_beta frame_simps split: if_splits intro!: synced_persist)

lemma synced_handleData:
  assumes "synced r" "relay_ok C (fst (handleData r ws raw ch from t i role now))" "r_channelId r = Some c" "c \<noteq> []"
  shows "synced (fst (handleData r ws raw ch from t i role now))"
  using assms
  by (auto simp: handleData_def Let_def frame_simps split: if_splits intro!: synced_persist)

lemma synced_handleClose:
  assumes "synced r" "relay_ok C (fst (handleClose r ws raw ch from role now))" "r_channelId r = Some c" "c \<noteq> []"
  shows "synced (fst (handleClose r ws raw ch from role now))"
  using assms
  by (auto simp: handleClose_def Let_def frame_simps split: if_splits option.splits intro!: synced_persist)

lemmas synced_handlers =
  synced_handleCreate synced_handleJoin synced_handleAccept synced_handleData synced_handleClose

lemma synced_handleMessage:
  assumes "synced r" "relay_ok C (fst (handleMessage r ws att msg raw now))" "r_channelId r = Some c" "c \<noteq> []"
    and "snd (handleMessage r ws att msg raw now) = None"
  shows "synced (fst (handleMessage r ws att msg raw now))"
  using assms
  by (cases msg) (auto simp: handleMessage_def Let_def split: if_splits option.splits intro!: synced_handlers)

lemma synced_handleFirstMessage:
  assumes "synced r" "relay_ok C (fst (handleFirstMessage r ws msg raw now))" "r_channelId r = Some c" "c \<noteq> []"
    and "snd (handleFirstMessage r ws msg raw now) = None"
  shows "synced (fst (handleFirstMessage r ws msg raw now))"
  using assms
  by (cases msg) (auto simp: handleFirstMessage_def intro!: synced_handlers)

lemma synced_webSocketMessage:
  assumes ok: "relay_ok C r" and "synced (ensureInitialized r)"
    and "snd (webSocketMessage r i p now) = None"
  shows "synced (fst (webSocketMessage r i p now))"
proof -
  let ?r = "ensureInitialized r"
  have res: "relay_ok C (fst (webSocketMessage r i p now))" using ok by (rule relay_ok_webSocketMessage)
  have ne: "cm_ch m \<noteq> []" if "parseMessage t = Inr m" for t m
    using parseMessage_Inr [OF that] by (auto simp: validateChannelId_def)
  have "synced (fst (handleFirstMessage ?r i m t now))"
    if "parseMessage t = Inr m" "r_channelId ?r = Some (cm_ch m)"
      "relay_ok C (fst (handleFirstMessage ?r i m t now))" "snd (handleFirstMessage ?r i m t now) = None" for t m
    using synced_handleFirstMessage [OF assms(2) that(3,2) ne [OF that(1)] that(4)] .
  moreover have "synced (fst (handleMessage ?r i att m t now))"
    if "parseMessage t = Inr m" "r_channelId ?r = Some (cm_ch m)"
      "relay_ok C (fst (handleMessage ?r i att m t now))" "snd (handleMessage ?r i att m t now) = None" for t m att
    using synced_handleMessage [OF assms(2) that(3,2) ne [OF that(1)] that(4)] .
  ultimately show ?thesis
    using assms(2,3) res
    by (auto simp: webSocketMessage_def Let_def split: ws_payload.splits sum.splits option.splits if_splits)
qed

lemma synced_handleDisconnect:
  assumes "synced r" and "relay_ok C (handleDisconnect r i now)"
  shows "synced (handleDisconnect r i now)"
  using assms
  by (auto simp: handleDisconnect_def Let_def frame_simps split: option.splits if_splits intro!: synced_persist)

lemma synced_alarm_handler:
  assumes "synced (ensureInitialized r)" and "relay_ok C (fst (alarm r now))"
  shows "synced (fst (alarm r now))"
  using assms
  by (auto simp: alarm_def Let_def frame_simps split: option.splits if_splits intro!: synced_persist)

lemma synced_update [simp]:
  "synced (upd_sock r i f) = synced r" "synced (drop_sock r i) = synced r"
  "synced (r\<lparr>r_alarm := x\<rparr>) = synced r" "synced (r\<lparr>r_channelId := y\<rparr>) = synced r"
  "synced (r\<lparr>r_nextSid := n, r_sockets := ss\<rparr>) = synced r"
  by (simp_all add: synced_def mem_def upd_sock_def drop_sock_def)

lemma initialized_update [simp]:
  "r_initialized (upd_sock r i f) = r_initialized r" "r_initialized (drop_sock r i) = r_initialized r"
  by (simp_all add: upd_sock_def drop_sock_def)

lemma synced_ensureInitialized:
  assumes "relay_ok C r" and "r_initialized r \<Longrightarrow> synced r"
  shows "synced (ensureInitialized r)"
  using assms by (simp add: synced_def mem_ensureInitialized)

text \<open>The only handlers that can throw are those of a message: \<^verbatim>\<open>ws.send\<close> to the sender's own
  socket is outside every \<^verbatim>\<open>try\<close> in \<^verbatim>\<open>handleCreate\<close> and \<^verbatim>\<open>handleJoin\<close>.\<close>

definition throws :: "relay \<Rightarrow> relay_event \<Rightarrow> bool" where
  "throws r e = (case e of EvMessage i p now \<Rightarrow> snd (webSocketMessage r i p now) \<noteq> None | _ \<Rightarrow> False)"

definition clean_trans :: "string \<Rightarrow> relay \<Rightarrow> relay_event \<Rightarrow> relay \<Rightarrow> bool" where
  "clean_trans C r e r' \<longleftrightarrow> relay_trans C r e r' \<and> \<not> throws r e"

definition clean_ok :: "string \<Rightarrow> relay \<Rightarrow> bool" where
  "clean_ok C r \<longleftrightarrow> relay_ok C r \<and> (r_initialized r \<longrightarrow> synced r)"

lemma synced_fetch:
  assumes "relay_ok C r" and "r_initialized r \<longrightarrow> synced r" and "q_ch q = Some C"
    and "r_initialized (fst (fetch r q))"
  shows "synced (fst (fetch r q))"
proof -
  let ?r = "r\<lparr>r_nextSid := Suc (r_nextSid r), r_sockets := r_sockets r @
      [\<lparr>s_id = r_nextSid r, s_readyState = 1, s_faulty = False, s_att = None\<rparr>]\<rparr>"
  have "mem (ensureInitialized ?r) = mem (ensureInitialized r)"
    by (auto simp: mem_def ensureInitialized_def load_stored_def Let_def split: option.splits)
  then have "synced (ensureInitialized ?r)"
    using synced_ensureInitialized [of C r] assms(1,2) by (simp add: synced_def)
  then show ?thesis using assms by (auto simp: fetch_def Let_def split: option.splits)
qed

lemma clean_ok_trans:
  assumes "clean_ok C r" and "clean_trans C r e r'"
  shows "clean_ok C r'"
proof -
  have ok: "relay_ok C r" and s: "r_initialized r \<Longrightarrow> synced r"
    using assms(1) by (auto simp: clean_ok_def)
  have tr: "relay_trans C r e r'" and nt: "\<not> throws r e"
    using assms(2) by (auto simp: clean_trans_def)
  have ok': "relay_ok C r'" using ok tr by (rule relay_ok_trans)
  have dis: "synced (handleDisconnect (ensureInitialized (upd_sock r i f)) i now)"
    if "\<And>s. s_id (f s) = s_id s \<and> s_att (f s) = s_att s" for i f now
  proof -
    have u: "relay_ok C (upd_sock r i f)" using ok that by (rule relay_ok_upd_sock)
    have "synced (ensureInitialized (upd_sock r i f))"
      using u s by (intro synced_ensureInitialized) auto
    moreover have "relay_ok C (handleDisconnect (ensureInitialized (upd_sock r i f)) i now)"
      using u by (auto intro: relay_ok_handleDisconnect)
    ultimately show ?thesis by (rule synced_handleDisconnect)
  qed
  from tr have "r_initialized r' \<longrightarrow> synced r'"
  proof (cases rule: relay_trans.cases)
    case (rt_fetch q)
    then show ?thesis using synced_fetch [OF ok] s worker_fetch_Inr by blast
  next
    case (rt_message i p now)
    have "snd (webSocketMessage r i p now) = None" using nt rt_message by (simp add: throws_def)
    then show ?thesis
      using rt_message synced_webSocketMessage [OF ok] synced_ensureInitialized [OF ok s] by simp
  next
    case (rt_alarm due now)
    have "synced (ensureInitialized (r\<lparr>r_alarm := None\<rparr>))"
      using ok s by (intro synced_ensureInitialized) auto
    then show ?thesis using rt_alarm ok' synced_alarm_handler by blast
  next
    case (rt_hibernate)
    then show ?thesis by (simp add: hibernate_def relay_init_def)
  qed (use dis s in \<open>auto simp: webSocketClose_def webSocketError_def\<close>)
  then show ?thesis using ok' by (simp add: clean_ok_def)
qed

interpretation clean_relay: inductive_invariant relay_init "clean_trans C" "clean_ok C" for C
proof unfold_locales
  show "clean_ok C relay_init"
    using relay_ok_init by (simp add: clean_ok_def relay_init_def)
qed (rule clean_ok_trans)

end
