(* ===== verification/Relay_Theorems.thy ===== *)
theory Relay_Theorems
  imports Relay_Properties
begin

text \<open>
  The properties of the relay, each at a concrete run of the object for the channel
  \<open>demo_ch\<close>: a dApp socket 0 that created the channel and a wallet socket 1 that joined it.
\<close>

subsection \<open>Frames of the peers and the relay's parser\<close>

text \<open>The relay reads an SDK frame as the SDK wrote it.\<close>

lemma parse_peer_msg:
  assumes "validateChannelId ch" and "\<bar>now\<bar> < 10 ^ 21" and "json_ok (JObj body)"
  shows "parseMessage (JSON_stringify (wmsg_json (peer_msg t ch now f body))) = parseBody t ch f (JObj body)"
proof -
  have "json_ok (wmsg_json (peer_msg t ch now f body))"
    using assms(2,3) by (simp add: wmsg_json_def peer_msg_def)
  then show ?thesis
    using assms(1)
    by (simp add: parseMessage_def JSON_parse_stringify)
       (simp add: wmsg_json_def peer_msg_def getStr_def plain_object_def)
qed

lemma alphabet_width: "b64url_alphabet c \<Longrightarrow> utf16_width c = 1"
  by (auto simp: b64url_alphabet_def utf16_width_def Let_def)

lemma validatePeerId_iff:
  "validatePeerId p \<longleftrightarrow> p \<noteq> [] \<and> list_all b64url_alphabet p \<and> (\<exists>bs. b64urlDecode p = Inr bs \<and> length bs = 32)"
proof (cases "list_all b64url_alphabet p")
  case True
  let ?b = "map (\<lambda>c. if c = CHR ''_'' then CHR ''/'' else c) (map (\<lambda>c. if c = CHR ''-'' then CHR ''+'' else c) p)"
  have "js_length ?b = length ?b"
    using True by (induction p) (auto simp: alphabet_width, auto simp: utf16_width_def)
  then have "b64urlDecode p = atob (pad4 ?b)"
    by (simp add: b64urlDecode_def pad4_eq Let_def)
  then show ?thesis using True by (auto simp: validatePeerId_def Let_def split: sum.splits)
qed (auto simp: validatePeerId_def)

lemma validatePeerId_encode: "length bs = 32 \<Longrightarrow> validatePeerId (b64urlEncode bs)"
  using b64urlEncode_length [of bs] by (auto simp: validatePeerId_iff b64urlEncode_alphabet)

subsection \<open>A concrete run\<close>

definition demo_ch :: string where "demo_ch = replicate 64 (CHR ''a'')"
definition demo_dapp :: string where "demo_dapp = replicate 43 (CHR ''D'')"
definition demo_wallet :: string where "demo_wallet = replicate 43 (CHR ''W'')"

definition demo_frame :: "string \<Rightarrow> string \<Rightarrow> (string \<times> jsval) list \<Rightarrow> string" where
  "demo_frame t f body = JSON_stringify (wmsg_json (peer_msg t demo_ch 5 f body))"

definition demo_upgrade :: request where
  "demo_upgrade = \<lparr>q_method = ''GET'', q_path = ''/v1'', q_upgrade = Some ''websocket'',
     q_ch = Some demo_ch, q_protocols = Some ''walletpair.v1''\<rparr>"

definition demo_waiting :: relay where
  "demo_waiting = fst (webSocketMessage (fst (fetch (fst (fetch relay_init demo_upgrade)) demo_upgrade)) 0
     (TextFrame (demo_frame ''create'' demo_dapp [(''meta'', JObj [])])) 5)"

definition demo_pending :: relay where
  "demo_pending = fst (webSocketMessage demo_waiting 1
     (TextFrame (demo_frame ''join'' demo_wallet [(''sealed_join'', JNull)])) 6)"

definition demo_connected :: relay where
  "demo_connected = fst (webSocketMessage demo_pending 0
     (TextFrame (demo_frame ''accept'' demo_dapp [(''target'', JStr demo_wallet)])) 7)"

lemma demo_ids [simp]:
  "validateChannelId demo_ch" "validatePeerId demo_dapp" "validatePeerId demo_wallet"
  "demo_ch \<noteq> []" "demo_dapp \<noteq> demo_wallet" "demo_dapp \<noteq> []"
proof -
  show "validatePeerId demo_dapp" "validatePeerId demo_wallet" by code_simp+
qed (simp_all add: demo_ch_def demo_dapp_def demo_wallet_def validateChannelId_def is_hex_lower_def list_all_iff
    replicate_eq_replicate)

lemma demo_parse [simp]:
  "json_ok (JObj body) \<Longrightarrow> parseMessage (demo_frame t f body) = parseBody t demo_ch f (JObj body)"
  unfolding demo_frame_def by (rule parse_peer_msg) simp_all

lemma json_escape_width: "js_length (json_escape c) \<le> 8"
  by (auto simp: json_escape_def Let_def utf16_width_def)

lemma json_quote_width: "js_length (json_quote s) \<le> 8 * length s + 2"
proof -
  have "js_length (concat (map json_escape s)) \<le> 8 * length s"
  proof (induction s)
    case (Cons c s)
    then show ?case using json_escape_width [of c] by simp
  qed simp
  then show ?thesis by (simp add: json_quote_def utf16_width_def)
qed

lemma demo_ts_width: "js_length (num_to_string 5) = 1" "js_length (num_to_string 1) = 1"
  by code_simp+

lemma demo_short:
  "js_length (demo_frame ''create'' demo_dapp [(''meta'', JObj [])]) < 3000"
  "js_length (demo_frame ''join'' demo_wallet [(''sealed_join'', JNull)]) < 3000"
  "js_length (demo_frame ''accept'' demo_dapp [(''target'', JStr demo_wallet)]) < 3000"
  "js_length (demo_frame ''req'' demo_dapp [(''id'', JStr ''1''), (''sealed'', JStr ''x'')]) < 3000"
proof -
  note q = json_quote_width [of "''v''"] json_quote_width [of "''t''"] json_quote_width [of "''ch''"]
    json_quote_width [of "''ts''"] json_quote_width [of "''from''"] json_quote_width [of "''body''"]
    json_quote_width [of demo_ch] json_quote_width [of demo_dapp] json_quote_width [of demo_wallet]
    json_quote_width [of "''meta''"] json_quote_width [of "''sealed_join''"] json_quote_width [of "''target''"]
    json_quote_width [of "''id''"] json_quote_width [of "''sealed''"] json_quote_width [of "''1''"]
    json_quote_width [of "''x''"] json_quote_width [of "''create''"] json_quote_width [of "''join''"]
    json_quote_width [of "''accept''"] json_quote_width [of "''req''"]
  have l: "length demo_ch = 64" "length demo_dapp = 43" "length demo_wallet = 43"
    by (simp_all add: demo_ch_def demo_dapp_def demo_wallet_def)
  show
    "js_length (demo_frame ''create'' demo_dapp [(''meta'', JObj [])]) < 3000"
    "js_length (demo_frame ''join'' demo_wallet [(''sealed_join'', JNull)]) < 3000"
    "js_length (demo_frame ''accept'' demo_dapp [(''target'', JStr demo_wallet)]) < 3000"
    "js_length (demo_frame ''req'' demo_dapp [(''id'', JStr ''1''), (''sealed'', JStr ''x'')]) < 3000"
    using q l
    by (simp_all add: demo_frame_def wmsg_json_def peer_msg_def JSON_stringify_def demo_ts_width utf16_width_def)
qed

lemma demo_lengths [simp]:
  "\<not> MAX_MESSAGE_BYTES < js_length (demo_frame ''create'' demo_dapp [(''meta'', JObj [])])"
  "\<not> MAX_MESSAGE_BYTES < js_length (demo_frame ''join'' demo_wallet [(''sealed_join'', JNull)])"
  "\<not> MAX_MESSAGE_BYTES < js_length (demo_frame ''accept'' demo_dapp [(''target'', JStr demo_wallet)])"
  "\<not> MAX_MESSAGE_BYTES < js_length (demo_frame ''req'' demo_dapp [(''id'', JStr ''1''), (''sealed'', JStr ''x'')])"
  using demo_short by (simp_all add: MAX_MESSAGE_BYTES_def)

lemma demo_upgrade_ok [simp]: "is_upgrade demo_upgrade" "q_ch demo_upgrade = Some demo_ch"
  "worker_fetch demo_upgrade = Inr demo_ch"
proof -
  show "is_upgrade demo_upgrade" by code_simp
  then show "worker_fetch demo_upgrade = Inr demo_ch"
    by (simp add: worker_fetch_def handleWebSocket_def demo_upgrade_def)
qed (simp add: demo_upgrade_def)

definition demo_sock :: "nat \<Rightarrow> role option \<Rightarrow> string \<Rightarrow> sock" where
  "demo_sock i role p = \<lparr>s_id = i, s_readyState = 1, s_faulty = False,
     s_att = map_option (\<lambda>role. \<lparr>a_role = role, a_peerId = p, a_channelId = demo_ch\<rparr>) role\<rparr>"

lemma demo_sock_sel [simp]:
  "s_id (demo_sock i role p) = i" "s_readyState (demo_sock i role p) = 1" "\<not> s_faulty (demo_sock i role p)"
  "s_att (demo_sock i role p) = map_option (\<lambda>role. \<lparr>a_role = role, a_peerId = p, a_channelId = demo_ch\<rparr>) role"
  "(demo_sock i role p)\<lparr>s_att := Some \<lparr>a_role = rl, a_peerId = q, a_channelId = demo_ch\<rparr>\<rparr> = demo_sock i (Some rl) q"
  by (simp_all add: demo_sock_def)

lemma demo_fetched:
  "fst (fetch (fst (fetch relay_init demo_upgrade)) demo_upgrade) =
     relay_init\<lparr>r_initialized := True, r_channelId := Some demo_ch, r_nextSid := 2,
       r_sockets := [demo_sock 0 None [], demo_sock 1 None []]\<rparr>"
  by (simp add: fetch_def Let_def relay_init_def ensureInitialized_def load_stored_def demo_sock_def)

lemmas eval_defs = webSocketMessage_def ensureInitialized_def getAttachment_def find_sock_def
  handleFirstMessage_def handleMessage_def parseBody_def plain_object_def getStr_def Let_def
  setAttachment_def upd_sock_def ws_send_def persistState_def setAlarm_def findPeerWs_def try_send_def

lemma demo_waiting_eq: "demo_waiting = \<lparr> r_channelState = Waiting, r_channelId = Some demo_ch,
    r_dappPeerId = Some demo_dapp, r_walletPeerId = None, r_isReconnect = False, r_pendingRequests = [],
    r_initialized = True, r_sockets = [demo_sock 0 (Some Dapp) demo_dapp, demo_sock 1 None []], r_nextSid = 2,
    r_stored = Some \<lparr>p_state = Waiting, p_dappPeerId = demo_dapp, p_walletPeerId = None,
      p_isReconnect = False, p_pendingRequests = []\<rparr>,
    r_alarm = Some 300005, r_out = [Frame 0 (buildReadyWaiting 5 demo_ch Dapp demo_dapp False)] \<rparr>"
  unfolding demo_waiting_def demo_fetched
  by (simp add: eval_defs handleCreate_def create_channel_def relay_init_def UNPAIRED_TTL_MS_def)

lemma demo_pending_eq: "demo_pending = demo_waiting\<lparr> r_channelState := Pending_accept,
    r_walletPeerId := Some demo_wallet, r_isReconnect := True,
    r_sockets := [demo_sock 0 (Some Dapp) demo_dapp, demo_sock 1 (Some Wallet) demo_wallet],
    r_stored := Some \<lparr>p_state = Pending_accept, p_dappPeerId = demo_dapp, p_walletPeerId = Some demo_wallet,
      p_isReconnect = True, p_pendingRequests = []\<rparr>,
    r_out := r_out demo_waiting @ [Frame 0 (demo_frame ''join'' demo_wallet [(''sealed_join'', JNull)]),
      Frame 1 (buildReadyWaiting 6 demo_ch Wallet demo_wallet True)] \<rparr>"
  unfolding demo_pending_def demo_waiting_eq
  by (simp add: eval_defs handleJoin_def)

lemma demo_connected_eq: "demo_connected = demo_pending\<lparr> r_channelState := Connected,
    r_alarm := Some 86400007,
    r_stored := Some \<lparr>p_state = Connected, p_dappPeerId = demo_dapp, p_walletPeerId = Some demo_wallet,
      p_isReconnect = True, p_pendingRequests = []\<rparr>,
    r_out := r_out demo_pending @ [Frame 0 (buildReadyConnected 7 demo_ch Dapp demo_dapp demo_wallet True),
      Frame 1 (buildReadyConnected 7 demo_ch Wallet demo_wallet demo_dapp True)] \<rparr>"
  unfolding demo_connected_def demo_pending_eq demo_waiting_eq
  by (simp add: eval_defs handleAccept_def CONNECTED_TTL_MS_def)

lemmas demo_eqs = demo_connected_eq demo_pending_eq demo_waiting_eq

lemma clean_message:
  "find_sock r i \<noteq> None \<Longrightarrow> snd (webSocketMessage r i p now) = None \<Longrightarrow>
   clean_trans C r (EvMessage i p now) (fst (webSocketMessage r i p now))"
  by (simp add: clean_trans_def throws_def rt_message)

lemma demo_clean:
  "reach relay_init (clean_trans demo_ch) demo_pending"
  "reach relay_init (clean_trans demo_ch) demo_connected"
proof -
  let ?f = "fst (fetch (fst (fetch relay_init demo_upgrade)) demo_upgrade)"
  have fetched: "clean_trans demo_ch r (EvFetch demo_upgrade) (fst (fetch r demo_upgrade))" for r
    by (simp add: clean_trans_def throws_def rt_fetch)
  have "reach relay_init (clean_trans demo_ch) (fst (fetch relay_init demo_upgrade))"
    using reach_init fetched by (rule reach_step)
  then have f: "reach relay_init (clean_trans demo_ch) ?f" using fetched by (rule reach_step)
  have "clean_trans demo_ch ?f (EvMessage 0 (TextFrame (demo_frame ''create'' demo_dapp [(''meta'', JObj [])])) 5) demo_waiting"
    unfolding demo_waiting_def
  proof (rule clean_message)
    show "snd (webSocketMessage ?f 0 (TextFrame (demo_frame ''create'' demo_dapp [(''meta'', JObj [])])) 5) = None"
      unfolding demo_fetched by (simp add: eval_defs handleCreate_def create_channel_def relay_init_def)
  qed (simp add: demo_fetched find_sock_def)
  with f have w: "reach relay_init (clean_trans demo_ch) demo_waiting" by (rule reach_step)
  have "clean_trans demo_ch demo_waiting
      (EvMessage 1 (TextFrame (demo_frame ''join'' demo_wallet [(''sealed_join'', JNull)])) 6) demo_pending"
    unfolding demo_pending_def by (rule clean_message) (simp_all add: demo_waiting_eq eval_defs handleJoin_def)
  with w show p: "reach relay_init (clean_trans demo_ch) demo_pending" by (rule reach_step)
  have "clean_trans demo_ch demo_pending
      (EvMessage 0 (TextFrame (demo_frame ''accept'' demo_dapp [(''target'', JStr demo_wallet)])) 7) demo_connected"
    unfolding demo_connected_def
    by (rule clean_message) (simp_all add: demo_pending_eq demo_waiting_eq eval_defs handleAccept_def)
  with p show "reach relay_init (clean_trans demo_ch) demo_connected" by (rule reach_step)
qed

lemma reach_clean: "reach relay_init (clean_trans C) r \<Longrightarrow> reach relay_init (relay_trans C) r"
  by (induction rule: reach.induct) (auto simp: clean_trans_def intro: reach.intros)

lemmas demo_reach = demo_clean [THEN reach_clean]

lemma create_channel_fields:
  "r_channelState (fst (create_channel r ws ch from now)) = Waiting \<and>
   r_dappPeerId (fst (create_channel r ws ch from now)) = Some from \<and>
   r_walletPeerId (fst (create_channel r ws ch from now)) = None \<and>
   r_pendingRequests (fst (create_channel r ws ch from now)) = []"
proof -
  have p: "r_dappPeerId (persistState s) = r_dappPeerId s" "r_walletPeerId (persistState s) = r_walletPeerId s"
    "r_pendingRequests (persistState s) = r_pendingRequests s" for s
    by (simp_all add: persistState_def split: option.splits)
  show ?thesis
    by (auto simp: create_channel_def Let_def frame_simps p setAlarm_def split: sum.splits dest!: ws_send_Inr)
qed

lemma closed_handleDisconnect: "r_channelState r = Closed \<Longrightarrow> handleDisconnect r i now = r"
  by (auto simp: handleDisconnect_def split: option.splits)

text \<open>A message is rejected, or dispatched with the channel checked.\<close>

lemma webSocketMessage_cases:
  assumes "r_initialized r"
  obtains (rejected) w where "webSocketMessage r i p now = (sendAndClose r i w, None)"
  | (first) raw m where "p = TextFrame raw" "parseMessage raw = Inr m" "r_channelId r = Some (cm_ch m)"
      "webSocketMessage r i p now = handleFirstMessage r i m raw now"
  | (later) raw m att where "p = TextFrame raw" "parseMessage raw = Inr m" "r_channelId r = Some (cm_ch m)"
      "webSocketMessage r i p now = handleMessage r i att m raw now"
proof -
  have ens: "ensureInitialized r = r" using assms by (simp add: ensureInitialized_def)
  note eq = webSocketMessage_def ens
  consider (bin) b where "p = BinaryFrame b" | (bad) raw e where "p = TextFrame raw" "parseMessage raw = Inl e"
    | (long) raw m where "p = TextFrame raw" "parseMessage raw = Inr m"
        "MAX_MESSAGE_BYTES < js_length raw \<or> Some (cm_ch m) \<noteq> r_channelId r"
    | (go) raw m where "p = TextFrame raw" "parseMessage raw = Inr m"
        "\<not> MAX_MESSAGE_BYTES < js_length raw" "Some (cm_ch m) = r_channelId r"
    by (cases p) (metis sumE)+
  then show ?thesis
  proof cases
    case bin
    then have "\<exists>w. webSocketMessage r i p now = (sendAndClose r i w, None)" by (auto simp: eq)
    then show ?thesis using rejected by blast
  next
    case bad
    then have "\<exists>w. webSocketMessage r i p now = (sendAndClose r i w, None)"
      by (cases "MAX_MESSAGE_BYTES < js_length raw") (auto simp: eq)
    then show ?thesis using rejected by blast
  next
    case long
    then have "\<exists>w. webSocketMessage r i p now = (sendAndClose r i w, None)"
      by (cases "MAX_MESSAGE_BYTES < js_length raw") (auto simp: eq)
    then show ?thesis using rejected by blast
  next
    case go
    then have ch: "r_channelId r = Some (cm_ch m)" by simp
    show ?thesis
    proof (cases "getAttachment r i")
      case None
      then have "webSocketMessage r i p now = handleFirstMessage r i m raw now" using go by (simp add: eq)
      then show ?thesis using first [OF go(1,2) ch] by simp
    next
      case (Some att)
      then have "webSocketMessage r i p now = handleMessage r i att m raw now" using go by (simp add: eq)
      then show ?thesis using later [OF go(1,2) ch] by simp
    qed
  qed
qed

lemma closed_handleFirstMessage:
  assumes "r_channelState r = Closed"
  shows "r_channelState (fst (handleFirstMessage r i m raw now)) = Closed \<or> (\<exists>f. m = CCreate (cm_ch m) f \<and>
      fst (handleFirstMessage r i m raw now) = fst (create_channel r i (cm_ch m) f now))"
  using assms state_handleJoin(1) [of r]
  by (cases m) (simp_all add: handleFirstMessage_def handleCreate_def frame_simps)

lemma closed_handleMessage:
  assumes "r_channelState r = Closed"
  shows "r_channelState (fst (handleMessage r i att m raw now)) = Closed \<or> (\<exists>f. m = CCreate (cm_ch m) f \<and>
      fst (handleMessage r i att m raw now) = fst (create_channel r i (cm_ch m) f now))"
proof (cases m)
  case (CAccept c f tgt)
  then show ?thesis
    using assms state_handleAccept [of r i c f tgt "a_role att" now] by (auto simp: handleMessage_def Let_def)
next
  case (CClose c f w)
  then show ?thesis
    using assms state_handleClose [of r i raw c f "a_role att" now] by (auto simp: handleMessage_def Let_def)
qed (use assms in \<open>simp_all add: handleMessage_def handleCreate_def frame_simps state_handleData Let_def\<close>)

lemma closed_webSocketMessage:
  assumes "relay_ok C r" and "r_initialized r" and "r_channelState r = Closed"
  shows "r_channelState (fst (webSocketMessage r i p now)) = Closed \<or>
    (\<exists>raw f. p = TextFrame raw \<and> parseMessage raw = Inr (CCreate C f) \<and>
       fst (webSocketMessage r i p now) = fst (create_channel r i C f now))"
  using assms(2)
proof (cases rule: webSocketMessage_cases [where i = i and p = p and now = now])
  case (rejected w)
  then show ?thesis using assms(3) by (simp add: frame_simps)
next
  case (first raw m)
  then have "cm_ch m = C" using assms(1) by (simp add: relay_ok_def)
  then show ?thesis using closed_handleFirstMessage [OF assms(3), of i m raw now] first by force
next
  case (later raw m att)
  then have "cm_ch m = C" using assms(1) by (simp add: relay_ok_def)
  then show ?thesis using closed_handleMessage [OF assms(3), of i att m raw now] later by force
qed

subsection \<open>Properties\<close>

text \<open>C9. In every state the channel object can reach, whatever the sockets send, fail or close and
  whenever it is evicted: the peers known to it are those its state calls for, no request is
  pending before the channel is connected, pending ids are distinct and at most
  \<^verbatim>\<open>PENDING_REQUEST_LIMIT\<close>, and what is stored satisfies the same.\<close>

theorem relay_state_wellformed:
  assumes "reach relay_init (relay_trans C) r"
  shows "core_ok (r_channelState r) (r_dappPeerId r) (r_walletPeerId r) (r_isReconnect r) (r_pendingRequests r)
    \<and> stored_ok (r_stored r)"
  using relay_sys.inv_reach [OF assms] by (simp add: relay_ok_def memory_ok_def)

theorem relay_state_wellformed_witness:
  "core_ok (r_channelState demo_connected) (r_dappPeerId demo_connected) (r_walletPeerId demo_connected)
     (r_isReconnect demo_connected) (r_pendingRequests demo_connected)
   \<and> stored_ok (r_stored demo_connected) \<and> r_channelState demo_connected = Connected"
  using relay_state_wellformed [OF demo_reach(2)] by (simp add: demo_eqs)

text \<open>C5. The channel becomes connected only by an \<^verbatim>\<open>accept\<close> that arrived on a socket attached as
  dApp, sent by the dApp that created the channel, naming the wallet that joined, while that
  join was pending.\<close>

theorem relay_connected_only_by_accept:
  assumes "reach relay_init (relay_trans C) r" and "relay_trans C r e r'"
    and "r_channelState (ensureInitialized r) \<noteq> Connected" and "r_channelState r' = Connected"
  shows "\<exists>i now raw f tgt att. e = EvMessage i (TextFrame raw) now \<and>
    parseMessage raw = Inr (CAccept C f tgt) \<and>
    getAttachment (ensureInitialized r) i = Some att \<and> a_role att = Dapp \<and>
    r_dappPeerId (ensureInitialized r) = Some f \<and> r_walletPeerId (ensureInitialized r) = Some tgt \<and>
    r_channelState (ensureInitialized r) = Pending_accept"
proof -
  have ok: "relay_ok C r" using assms(1) by (rule relay_sys.inv_reach)
  then have "relay_ok C (ensureInitialized r)" by blast
  then have "r_channelId (ensureInitialized r) = Some ch \<Longrightarrow> ch = C" for ch by (auto simp: relay_ok_def)
  then show ?thesis using connected_by_accept [OF ok assms(2-4)] by blast
qed

theorem relay_connected_only_by_accept_witness:
  "\<exists>i now raw f tgt att.
    EvMessage 0 (TextFrame (demo_frame ''accept'' demo_dapp [(''target'', JStr demo_wallet)])) 7 =
      EvMessage i (TextFrame raw) now \<and>
    parseMessage raw = Inr (CAccept demo_ch f tgt) \<and>
    getAttachment (ensureInitialized demo_pending) i = Some att \<and> a_role att = Dapp \<and>
    r_dappPeerId (ensureInitialized demo_pending) = Some f \<and>
    r_walletPeerId (ensureInitialized demo_pending) = Some tgt \<and>
    r_channelState (ensureInitialized demo_pending) = Pending_accept"
proof (rule relay_connected_only_by_accept)
  show "reach relay_init (relay_trans demo_ch) demo_pending" by (rule demo_reach)
  show "relay_trans demo_ch demo_pending
      (EvMessage 0 (TextFrame (demo_frame ''accept'' demo_dapp [(''target'', JStr demo_wallet)])) 7) demo_connected"
    unfolding demo_connected_def by (rule rt_message) (simp add: demo_eqs find_sock_def)
qed (simp_all add: demo_eqs ensureInitialized_def)

text \<open>C19. Whatever a socket sends, every frame the relay emits in response is either one of its own
  (JSON sent by \<^verbatim>\<open>_adapter\<close>) or the received text byte for byte, and the latter only to the
  first open socket of the role the sender speaks to.  The relay never alters a peer's frame and
  never sends it anywhere else.\<close>

theorem relay_forwards_verbatim:
  assumes "reach relay_init (relay_trans C) r" and "\<bar>now\<bar> < 10 ^ 21"
    and "Frame j t \<in> set (new_out r (fst (webSocketMessage r i (TextFrame raw) now)))"
  shows "adapter_frame t \<or> (t = raw \<and> forward_target (ensureInitialized r) i = Some j)"
proof -
  have "to_peer (forward_target (ensureInitialized r) i) raw (Frame j t)"
    using emits_webSocketMessage [OF assms(2) relay_sys.inv_reach [OF assms(1)]] assms(3)
    by (rule emits_new_out)
  then show ?thesis by (simp add: to_peer_def)
qed

definition demo_request :: string where
  "demo_request = demo_frame ''req'' demo_dapp [(''id'', JStr ''1''), (''sealed'', JStr ''x'')]"

lemma demo_request_eval:
  "fst (webSocketMessage demo_connected 0 (TextFrame demo_request) 8) = demo_connected\<lparr>
     r_pendingRequests := [''1''],
     r_stored := Some \<lparr>p_state = Connected, p_dappPeerId = demo_dapp, p_walletPeerId = Some demo_wallet,
      p_isReconnect = True, p_pendingRequests = [''1'']\<rparr>,
     r_out := r_out demo_connected @ [Frame 1 demo_request]\<rparr>"
  by (simp add: demo_eqs eval_defs handleData_def demo_request_def expectedPeerId_def stateAllowsMessage_def
      PENDING_REQUEST_LIMIT_def js_add_def)

theorem relay_forwards_verbatim_witness:
  "adapter_frame demo_request \<or>
   (demo_request = demo_request \<and> forward_target (ensureInitialized demo_connected) 0 = Some 1)"
proof (rule relay_forwards_verbatim [where C = demo_ch])
  show "Frame 1 demo_request \<in>
      set (new_out demo_connected (fst (webSocketMessage demo_connected 0 (TextFrame demo_request) 8)))"
    by (simp add: demo_request_eval new_out_def)
qed (simp_all add: demo_reach)

text \<open>C31. A request of the dApp on a connected channel with fewer than \<^verbatim>\<open>PENDING_REQUEST_LIMIT\<close>
  unanswered requests is recorded and stored as pending and its text is delivered to the open
  wallet socket; without an open wallet socket it is dropped, and neither socket is closed.\<close>

theorem relay_request_delivery:
  assumes "parseMessage raw = Inr (CReq ch f rid)" and "js_length raw \<le> MAX_MESSAGE_BYTES"
    and "r_initialized r" and "r_channelId r = Some ch"
    and "getAttachment r i = Some att" and "a_role att = Dapp" and "r_dappPeerId r = Some f"
    and "r_channelState r = Connected" and "length (r_pendingRequests r) < PENDING_REQUEST_LIMIT"
    and "\<And>j. findPeerWs r Wallet = Some j \<Longrightarrow> \<exists>s. find_sock r j = Some s \<and> s_readyState s = 1 \<and> \<not> s_faulty s"
  shows "snd (webSocketMessage r i (TextFrame raw) now) = None \<and>
    r_pendingRequests (fst (webSocketMessage r i (TextFrame raw) now)) = js_add (r_pendingRequests r) rid \<and>
    r_channelState (fst (webSocketMessage r i (TextFrame raw) now)) = Connected \<and>
    new_out r (fst (webSocketMessage r i (TextFrame raw) now)) =
      (case findPeerWs r Wallet of None \<Rightarrow> [] | Some j \<Rightarrow> [Frame j raw])"
proof -
  let ?r = "r\<lparr>r_pendingRequests := js_add (r_pendingRequests r) rid\<rparr>"
  have f: "findPeerWs ?r Wallet = findPeerWs r Wallet" by (simp add: findPeerWs_def)
  have eq: "webSocketMessage r i (TextFrame raw) now = (persistState (fst (try_send ?r (findPeerWs r Wallet) raw)), None)"
    using assms f
    by (simp add: webSocketMessage_def ensureInitialized_def handleMessage_def handleData_def expectedPeerId_def
        stateAllowsMessage_def Let_def not_le not_less)
  have out: "r_out (fst (try_send ?r (findPeerWs r Wallet) raw)) =
      r_out r @ (case findPeerWs r Wallet of None \<Rightarrow> [] | Some j \<Rightarrow> [Frame j raw])"
    using assms(10) by (auto simp: try_send_def ws_send_def find_sock_def split: option.splits)
  have pend: "r_pendingRequests (persistState s) = r_pendingRequests s" for s
    by (simp add: persistState_def split: option.splits)
  show ?thesis using assms(8) by (simp add: eq out pend new_out_def frame_simps)
qed

theorem relay_request_delivery_witness:
  "snd (webSocketMessage demo_connected 0 (TextFrame demo_request) 8) = None \<and>
    r_pendingRequests (fst (webSocketMessage demo_connected 0 (TextFrame demo_request) 8)) =
      js_add (r_pendingRequests demo_connected) ''1'' \<and>
    r_channelState (fst (webSocketMessage demo_connected 0 (TextFrame demo_request) 8)) = Connected \<and>
    new_out demo_connected (fst (webSocketMessage demo_connected 0 (TextFrame demo_request) 8)) =
      (case findPeerWs demo_connected Wallet of None \<Rightarrow> [] | Some j \<Rightarrow> [Frame j demo_request])"
proof (rule relay_request_delivery)
  show "parseMessage demo_request = Inr (CReq demo_ch demo_dapp ''1'')"
    by (simp add: demo_request_def parseBody_def getStr_def)
  show "js_length demo_request \<le> MAX_MESSAGE_BYTES"
    using demo_short(4) by (simp add: demo_request_def MAX_MESSAGE_BYTES_def)
qed (auto simp: demo_eqs getAttachment_def find_sock_def findPeerWs_def PENDING_REQUEST_LIMIT_def)

text \<open>C32. A frame of an attached peer that claims another peer's identity, or a request, response or
  event on a channel that is not connected, or by the wrong role, or a request beyond the limit,
  changes nothing in the channel, reaches no other socket, and costs the sender its connection.\<close>

theorem relay_data_refused:
  assumes "t \<in> {TReq, TRes, TEvt}"
    and "Some f \<noteq> expectedPeerId r role \<or> r_channelState r \<noteq> Connected \<or> (t = TReq) \<noteq> (role = Dapp) \<or>
      (t = TReq \<and> PENDING_REQUEST_LIMIT \<le> length (r_pendingRequests r))"
  shows "\<exists>reason. fst (handleData r i raw ch f t (Some rid) role now) =
      sendAndClose r i (buildTerminate now ch reason) \<and>
    reason = (if Some f \<noteq> expectedPeerId r role then Invalid_role
      else if r_channelState r \<noteq> Connected then Invalid_state
      else if (t = TReq) \<noteq> (role = Dapp) then Invalid_role else Rate_limited)"
  using assms
  by (auto simp: handleData_def stateAllowsMessage_def Let_def split: channel_state.splits role.splits)

theorem relay_data_refused_witness:
  "\<exists>reason. fst (handleData demo_pending 0 demo_request demo_ch demo_dapp TReq (Some ''1'') Dapp 8) =
      sendAndClose demo_pending 0 (buildTerminate 8 demo_ch reason) \<and>
    reason = (if Some demo_dapp \<noteq> expectedPeerId demo_pending Dapp then Invalid_role
      else if r_channelState demo_pending \<noteq> Connected then Invalid_state
      else if (TReq = TReq) \<noteq> (Dapp = Dapp) then Invalid_role else Rate_limited)"
  by (rule relay_data_refused) (simp_all add: demo_eqs)



text \<open>A closed channel stays closed, whatever its sockets do, until a well-formed \<^verbatim>\<open>create\<close>
  reopens it as waiting.\<close>

theorem relay_closed_until_create:
  assumes "reach relay_init (relay_trans C) r" and "r_channelState r = Closed"
    and "relay_trans C r e r'" and "e \<noteq> EvHibernate"
  shows "r_channelState r' = Closed \<or>
    (\<exists>i raw now f. e = EvMessage i (TextFrame raw) now \<and> parseMessage raw = Inr (CCreate C f) \<and>
       r_channelState r' = Waiting \<and> r_dappPeerId r' = Some f \<and> r_walletPeerId r' = None \<and>
       r_pendingRequests r' = [])"
proof -
  have ok: "relay_ok C r" using assms(1) by (rule relay_sys.inv_reach)
  then have init: "r_initialized r" using assms(2) by (auto simp: relay_ok_def fresh_memory_def)
  then have ens: "ensureInitialized (r\<lparr>r_alarm := x\<rparr>) = r\<lparr>r_alarm := x\<rparr>" "ensureInitialized r = r"
    "ensureInitialized (upd_sock r i g) = upd_sock r i g" for x i g
    by (simp_all add: ensureInitialized_def)
  from assms(3) show ?thesis
  proof (cases rule: relay_trans.cases)
    case (rt_message i p now)
    then show ?thesis
      using closed_webSocketMessage [OF ok init assms(2), of i p now] create_channel_fields [of r i C _ now] by force
  next
    case (rt_fetch q)
    then show ?thesis using assms(2) ens(2) state_fetch [of r q] by auto
  next
    case (rt_alarm due now)
    then show ?thesis using assms(2) ens(1) state_alarm [of "r\<lparr>r_alarm := None\<rparr>" now] by auto
  qed (use assms(2,4) in \<open>auto simp: frame_simps webSocketClose_def webSocketError_def ens closed_handleDisconnect\<close>)
qed

definition demo_closed :: relay where
  "demo_closed = fst (alarm (demo_connected\<lparr>r_alarm := None\<rparr>) 86400007)"

theorem relay_closed_until_create_witness:
  "r_channelState (fst (webSocketMessage demo_closed 0
       (TextFrame (demo_frame ''create'' demo_dapp [(''meta'', JObj [])])) 9)) = Closed \<or>
    (\<exists>i raw now f. EvMessage 0 (TextFrame (demo_frame ''create'' demo_dapp [(''meta'', JObj [])])) 9 =
         EvMessage i (TextFrame raw) now \<and> parseMessage raw = Inr (CCreate demo_ch f) \<and>
       r_channelState (fst (webSocketMessage demo_closed 0
         (TextFrame (demo_frame ''create'' demo_dapp [(''meta'', JObj [])])) 9)) = Waiting \<and>
       r_dappPeerId (fst (webSocketMessage demo_closed 0
         (TextFrame (demo_frame ''create'' demo_dapp [(''meta'', JObj [])])) 9)) = Some f \<and>
       r_walletPeerId (fst (webSocketMessage demo_closed 0
         (TextFrame (demo_frame ''create'' demo_dapp [(''meta'', JObj [])])) 9)) = None \<and>
       r_pendingRequests (fst (webSocketMessage demo_closed 0
         (TextFrame (demo_frame ''create'' demo_dapp [(''meta'', JObj [])])) 9)) = [])"
proof (rule relay_closed_until_create)
  have "relay_trans demo_ch demo_connected (EvAlarm 86400007) demo_closed"
    unfolding demo_closed_def by (rule rt_alarm [where due = 86400007]) (simp_all add: demo_eqs)
  then show "reach relay_init (relay_trans demo_ch) demo_closed" using demo_reach(2) by (rule reach_step [rotated])
  show "relay_trans demo_ch demo_closed
      (EvMessage 0 (TextFrame (demo_frame ''create'' demo_dapp [(''meta'', JObj [])])) 9)
      (fst (webSocketMessage demo_closed 0 (TextFrame (demo_frame ''create'' demo_dapp [(''meta'', JObj [])])) 9))"
  proof (rule rt_message)
    have "atts demo_closed = atts demo_connected"
      by (simp add: demo_closed_def alarm_def demo_eqs ensureInitialized_def Let_def persistState_def atts_def
          try_send_close_def ws_send_def find_sock_def ws_close_def upd_sock_def)
    then have "map fst (atts demo_closed) = [0, 1]" by (simp add: demo_eqs atts_def)
    then have "0 \<in> s_id ` set (r_sockets demo_closed)" by (auto simp: atts_def)
    then show "find_sock demo_closed 0 \<noteq> None" by (auto simp: find_sock_def find_None_iff)
  qed
  show "r_channelState demo_closed = Closed"
    by (simp add: demo_closed_def alarm_def demo_eqs ensureInitialized_def Let_def frame_simps)
qed simp

text \<open>The relay's check of a peer id accepts exactly the non-empty base64url strings that the
  SDK's decoder reads as a 32-byte key.\<close>

theorem validatePeerId_decodes:
  "validatePeerId p \<longleftrightarrow>
     p \<noteq> [] \<and> list_all b64url_alphabet p \<and> (\<exists>bs. b64urlDecode p = Inr bs \<and> length bs = 32)"
  by (rule validatePeerId_iff)



end
