(* ===== verification/Crypto.thy ===== *)
theory Crypto
  imports Base64url JsJson
begin

text \<open>
  \<^verbatim>\<open>walletpair-sdk/src/crypto.ts\<close> (key derivation, sealing, snapshot signatures).  The packages
  \<^verbatim>\<open>@noble/*\<close> and \<^verbatim>\<open>canonicalize\<close> are outside the repository: they are the fields of the record
  \<open>noble\<close>, an argument of every function that calls them, and what the code relies on is stated
  as the predicates at the end of the definitions.  Random values are arguments.
\<close>

unbundle bit_operations_syntax

subsection \<open>The third-party packages\<close>

record noble =
  x25519_getPublicKey :: "bytes \<Rightarrow> bytes"
  x25519_getSharedSecret :: "bytes \<Rightarrow> bytes \<Rightarrow> bytes option"   \<comment> \<open>None: throws\<close>
  n_hkdf :: "bytes \<Rightarrow> bytes \<Rightarrow> string \<Rightarrow> nat \<Rightarrow> bytes"          \<comment> \<open>input key, salt, info, length\<close>
  n_hmac :: "bytes \<Rightarrow> bytes \<Rightarrow> bytes"
  n_sha256 :: "bytes \<Rightarrow> bytes"
  n_encrypt :: "bytes \<Rightarrow> bytes \<Rightarrow> bytes \<Rightarrow> bytes \<Rightarrow> bytes option" \<comment> \<open>key, nonce, aad, plaintext\<close>
  n_decrypt :: "bytes \<Rightarrow> bytes \<Rightarrow> bytes \<Rightarrow> bytes \<Rightarrow> bytes option"
  n_hexToBytes :: "string \<Rightarrow> bytes option"
  n_bytesToHex :: "bytes \<Rightarrow> string"
  n_utf8ToBytes :: "string \<Rightarrow> bytes"
  n_concatBytes :: "bytes list \<Rightarrow> bytes"
  n_canonicalize :: "jsval \<Rightarrow> string option"                     \<comment> \<open>None: undefined\<close>

subsection \<open>Big-endian integers of a DataView\<close>

definition setUint16 :: "nat \<Rightarrow> bytes" where
  "setUint16 n = [word_of_nat (n div 256), word_of_nat n]"

definition setUint32 :: "nat \<Rightarrow> bytes" where
  "setUint32 n = [word_of_nat (n div 2 ^ 24), word_of_nat (n div 2 ^ 16), word_of_nat (n div 2 ^ 8), word_of_nat n]"

text \<open>\<^verbatim>\<open>getUint32(0)\<close> of a view of four bytes; the constructor of the view throws on fewer.\<close>

definition getUint32 :: "bytes \<Rightarrow> nat res" where
  "getUint32 bs = (case bs of
     a # b # c # d # _ \<Rightarrow> Inr (((unat a * 256 + unat b) * 256 + unat c) * 256 + unat d)
   | _ \<Rightarrow> Inl RangeError)"

subsection \<open>Key generation and derivation\<close>

record keypair =
  kp_privateKey :: bytes
  kp_publicKey :: bytes
  kp_publicKeyB64 :: string

definition generateX25519KeyPair :: "noble \<Rightarrow> bytes \<Rightarrow> keypair" where
  "generateX25519KeyPair X privateKey =
     (let publicKey = x25519_getPublicKey X privateKey
      in \<lparr>kp_privateKey = privateKey, kp_publicKey = publicKey, kp_publicKeyB64 = b64urlEncode publicKey\<rparr>)"

definition getPublicKey :: "noble \<Rightarrow> bytes \<Rightarrow> bytes" where
  "getPublicKey X privateKey = x25519_getPublicKey X privateKey"

definition computeSharedSecret :: "noble \<Rightarrow> bytes \<Rightarrow> bytes \<Rightarrow> bytes res" where
  "computeSharedSecret X myPrivateKey remotePubKey =
     (if length remotePubKey \<noteq> 32 then Inl (Error ''Remote public key must be exactly 32 bytes'')
      else res_bind (of_lib (x25519_getSharedSecret X myPrivateKey remotePubKey)) (\<lambda>shared.
        let acc = foldl (\<lambda>acc b. acc OR b) 0 shared in
        if acc = 0 then Inl (Error ''X25519 produced all-zero shared secret (low-order public key)'')
        else Inr shared))"

definition deriveSessionKey :: "noble \<Rightarrow> bytes \<Rightarrow> string \<Rightarrow> bytes res" where
  "deriveSessionKey X sharedSecret channelIdHex =
     res_bind (of_lib (n_hexToBytes X channelIdHex)) (\<lambda>salt.
       Inr (n_hkdf X sharedSecret salt ''walletpair-v1 root'' 32))"

record crypto_context =
  cc_dappPubKeyB64 :: string
  cc_walletPubKeyB64 :: string
  cc_capabilities :: jsval
  cc_walletMeta :: jsval
  cc_dappName :: "string option"

record directional_keys =
  dk_rootKey :: bytes
  dk_dappToWalletKey :: bytes
  dk_walletToDappKey :: bytes
  dk_transcriptHash :: bytes

definition canonicalJson :: "noble \<Rightarrow> jsval \<Rightarrow> string" where
  "canonicalJson X value = (case n_canonicalize X value of None \<Rightarrow> ''null'' | Some s \<Rightarrow> s)"

definition lp :: "noble \<Rightarrow> string \<Rightarrow> bytes res" where
  "lp X s =
     (let bs = n_utf8ToBytes X s in
      if 65535 < length bs then Inl (Error ''AAD field exceeds 65535 bytes'')
      else Inr (n_concatBytes X [setUint16 (length bs), bs]))"

definition computeHandshakeTranscriptHash :: "noble \<Rightarrow> string \<Rightarrow> crypto_context \<Rightarrow> bytes res" where
  "computeHandshakeTranscriptHash X channelIdHex context =
     res_bind (of_lib (n_hexToBytes X channelIdHex)) (\<lambda>ch.
     res_bind (lp X (cc_dappPubKeyB64 context)) (\<lambda>d.
     res_bind (lp X (cc_walletPubKeyB64 context)) (\<lambda>w.
     res_bind (lp X (canonicalJson X (coalesce (cc_capabilities context) JNull))) (\<lambda>c.
     res_bind (lp X (canonicalJson X (coalesce (cc_walletMeta context) JNull))) (\<lambda>m.
     res_bind (lp X (case cc_dappName context of None \<Rightarrow> [] | Some n \<Rightarrow> n)) (\<lambda>n.
       Inr (n_sha256 X (n_concatBytes X [n_utf8ToBytes X ''walletpair-v1-transcript'', ch, d, w, c, m, n]))))))))"

definition deriveDirectionalSessionKeys :: "noble \<Rightarrow> bytes \<Rightarrow> string \<Rightarrow> crypto_context \<Rightarrow> directional_keys res" where
  "deriveDirectionalSessionKeys X rootKey channelIdHex context =
     res_bind (computeHandshakeTranscriptHash X channelIdHex context) (\<lambda>transcriptHash.
       Inr \<lparr>dk_rootKey = rootKey,
            dk_dappToWalletKey = n_hkdf X rootKey transcriptHash ''walletpair-v1 dapp-to-wallet'' 32,
            dk_walletToDappKey = n_hkdf X rootKey transcriptHash ''walletpair-v1 wallet-to-dapp'' 32,
            dk_transcriptHash = transcriptHash\<rparr>)"

text \<open>\<^verbatim>\<open>n.toString().padStart(4, '0')\<close>\<close>

definition padStart4 :: "string \<Rightarrow> string" where
  "padStart4 s = replicate (4 - length s) (CHR ''0'') @ s"

definition computeSessionFingerprint :: "noble \<Rightarrow> string \<Rightarrow> string \<Rightarrow> string res" where
  "computeSessionFingerprint X channelIdHex dappPubKeyB64 =
     res_bind (of_lib (n_hexToBytes X channelIdHex)) (\<lambda>ch.
     res_bind (b64urlDecode dappPubKeyB64) (\<lambda>pk.
     let hash = n_sha256 X (n_concatBytes X [n_utf8ToBytes X ''walletpair-v1-session-fingerprint'', ch, pk])
     in res_bind (getUint32 (take 4 hash)) (\<lambda>n. Inr (padStart4 (dec_digits (n mod 10000))))))"

definition deriveJoinEncryptionKey :: "noble \<Rightarrow> bytes \<Rightarrow> string \<Rightarrow> bytes res" where
  "deriveJoinEncryptionKey X rootKey channelIdHex =
     res_bind (of_lib (n_hexToBytes X channelIdHex)) (\<lambda>salt.
       Inr (n_hkdf X rootKey salt ''walletpair-v1 join-encryption'' 32))"

subsection \<open>Sealed join\<close>

definition sealJoin :: "noble \<Rightarrow> bytes \<Rightarrow> bytes \<Rightarrow> string \<Rightarrow> jsval \<Rightarrow> jsval \<Rightarrow> string res" where
  "sealJoin X nonce joinEncryptionKey channelIdHex capabilities meta =
     (let plainObj = JObj [(''capabilities'', capabilities), (''meta'', coalesce meta JNull)];
          plaintext = n_utf8ToBytes X (canonicalJson X plainObj)
      in res_bind (of_lib (n_hexToBytes X channelIdHex)) (\<lambda>ch.
         let aad = n_concatBytes X [ch, [4]] in
         res_bind (of_lib (n_encrypt X joinEncryptionKey nonce aad plaintext)) (\<lambda>ciphertext.
           Inr (b64urlEncode (n_concatBytes X [nonce, ciphertext])))))"

definition unsealJoin :: "noble \<Rightarrow> bytes \<Rightarrow> string \<Rightarrow> string \<Rightarrow> jsval res" where
  "unsealJoin X joinEncryptionKey channelIdHex sealedJoin =
     res_bind (b64urlDecode sealedJoin) (\<lambda>envelope.
       if length envelope < 12 + 16 then Inl (Error ''Invalid sealed_join envelope'')
       else
         (let nonce = take 12 envelope; ciphertext = drop 12 envelope in
          res_bind (of_lib (n_hexToBytes X channelIdHex)) (\<lambda>ch.
          let aad = n_concatBytes X [ch, [4]] in
          res_bind (of_lib (n_decrypt X joinEncryptionKey nonce aad ciphertext)) (\<lambda>plaintext.
            case JSON_parse (text_decode plaintext) of
              None \<Rightarrow> Inl (Error ''Decrypted sealed_join payload is not valid JSON'')
            | Some v \<Rightarrow> Inr v))))"

subsection \<open>Sealed payloads\<close>

datatype aad_type = AReq | ARes | AEvt

record aad_header =
  h_type :: aad_type
  h_from :: string
  h_id :: string

definition type_byte :: "aad_type \<Rightarrow> byte" where
  "type_byte t = (case t of AReq \<Rightarrow> 1 | ARes \<Rightarrow> 2 | AEvt \<Rightarrow> 3)"

definition buildAad :: "noble \<Rightarrow> string \<Rightarrow> aad_header option \<Rightarrow> bytes res" where
  "buildAad X channelIdHex header =
     res_bind (of_lib (n_hexToBytes X channelIdHex)) (\<lambda>chBytes.
       case header of
         None \<Rightarrow> Inr chBytes
       | Some h \<Rightarrow>
           res_bind (lp X (h_from h)) (\<lambda>f.
           res_bind (lp X (h_id h)) (\<lambda>i.
             Inr (n_concatBytes X [chBytes, [type_byte (h_type h)], f, i]))))"

definition MAX_SEQ :: int where "MAX_SEQ = 0xffffffff"

definition sealPayload :: "noble \<Rightarrow> bytes \<Rightarrow> string \<Rightarrow> int \<Rightarrow> jsval \<Rightarrow> aad_header option \<Rightarrow> string res" where
  "sealPayload X encryptionKey channelIdHex seq data header =
     (if seq < 0 \<or> seq > MAX_SEQ then
        Inl (Error (''Sequence number out of range: '' @ int_to_string seq @ '' (must be 0..'' @
             int_to_string MAX_SEQ @ '')''))
      else
        (let seqBytes = setUint32 (nat seq);
             nonce = take 12 (n_hmac X encryptionKey seqBytes);
             plaintext = n_utf8ToBytes X (canonicalJson X data)
         in res_bind (buildAad X channelIdHex header) (\<lambda>aad.
            res_bind (of_lib (n_encrypt X encryptionKey nonce aad plaintext)) (\<lambda>ciphertext.
              Inr (b64urlEncode (n_concatBytes X [seqBytes, ciphertext]))))))"

record unsealed =
  u_seq :: int
  u_data :: jsval
  u_plaintext :: bytes
  u_plaintextJson :: string

definition unsealPayload :: "noble \<Rightarrow> bytes \<Rightarrow> string \<Rightarrow> string \<Rightarrow> aad_header option \<Rightarrow> unsealed res" where
  "unsealPayload X encryptionKey channelIdHex sealed header =
     res_bind (b64urlDecode sealed) (\<lambda>bs.
     let seqBytes = take 4 bs; ciphertext = drop 4 bs;
         nonce = take 12 (n_hmac X encryptionKey seqBytes)
     in res_bind (buildAad X channelIdHex header) (\<lambda>aad.
        res_bind (of_lib (n_decrypt X encryptionKey nonce aad ciphertext)) (\<lambda>plaintext.
        res_bind (getUint32 seqBytes) (\<lambda>seq.
          let plaintextJson = text_decode plaintext in
          case JSON_parse plaintextJson of
            None \<Rightarrow> Inl (Error ''Decrypted payload is not valid JSON'')
          | Some data \<Rightarrow> Inr \<lparr>u_seq = int seq, u_data = data, u_plaintext = plaintext, u_plaintextJson = plaintextJson\<rparr>))))"

definition sha256Hex :: "noble \<Rightarrow> bytes \<Rightarrow> string" where
  "sha256Hex X bs = n_bytesToHex X (n_sha256 X bs)"

subsection \<open>Constant-time comparison\<close>

text \<open>The UTF-16 code units that \<^verbatim>\<open>charCodeAt\<close> reads.\<close>

fun utf16_units :: "string \<Rightarrow> nat list" where
  "utf16_units [] = []"
| "utf16_units (c # s) =
     (let n = (of_char c :: nat) in
      if n < 128 then n # utf16_units s
      else if n < 192 then utf16_units s
      else (case s of
          [] \<Rightarrow> if n < 240 then [n] else [n, n]
        | d # s1 \<Rightarrow>
            if n < 224 then (n mod 32 * 64 + of_char d mod 64) # utf16_units s1
            else (case s1 of
                [] \<Rightarrow> if n < 240 then [n] else [n, n]
              | e # s2 \<Rightarrow>
                  if n < 240 then (n mod 16 * 4096 + of_char d mod 64 * 64 + of_char e mod 64) # utf16_units s2
                  else (case s2 of
                      [] \<Rightarrow> [n, n]
                    | f # s3 \<Rightarrow>
                        (let u = n mod 8 * 262144 + of_char d mod 64 * 4096 + of_char e mod 64 * 64 + of_char f mod 64 - 65536
                         in (55296 + u div 1024) # (56320 + u mod 1024) # utf16_units s3)))))"

definition constantTimeEqual :: "string \<Rightarrow> string \<Rightarrow> bool" where
  "constantTimeEqual a b =
     (let ua = utf16_units a; ub = utf16_units b in
      if length ua \<noteq> length ub then False
      else foldl (\<lambda>result i. result OR (ua ! i XOR ub ! i)) 0 [0..<length ua] = 0)"

subsection \<open>Snapshot signatures\<close>

definition deriveSnapshotHmacKey :: "noble \<Rightarrow> bytes \<Rightarrow> bytes" where
  "deriveSnapshotHmacKey X sendKey = n_hmac X sendKey (n_utf8ToBytes X ''walletpair-v1-snapshot-hmac'')"

definition signSnapshot :: "noble \<Rightarrow> bytes \<Rightarrow> string \<Rightarrow> string" where
  "signSnapshot X sendKey json =
     (let macKey = deriveSnapshotHmacKey X sendKey;
          mac = n_hmac X macKey (n_utf8ToBytes X json)
      in n_bytesToHex X mac @ ''.'' @ json)"

text \<open>\<^verbatim>\<open>s.indexOf(c)\<close>, \<open>None\<close> for -1, and \<^verbatim>\<open>s.slice(0, n)\<close>.\<close>

definition js_indexOf :: "string \<Rightarrow> char \<Rightarrow> nat option" where
  "js_indexOf s c = (if c \<in> set s then Some (js_length (takeWhile (\<lambda>d. d \<noteq> c) s)) else None)"

definition js_take :: "nat \<Rightarrow> string \<Rightarrow> string" where
  "js_take n s = take (length s - length (js_drop n s)) s"

definition verifySnapshot :: "noble \<Rightarrow> bytes \<Rightarrow> string \<Rightarrow> string option" where
  "verifySnapshot X sendKey snapshot =
     (if js_indexOf snapshot (CHR ''.'') \<noteq> Some 64 then None
      else
        (let macHex = js_take 64 snapshot;
             json = js_drop 65 snapshot;
             macKey = deriveSnapshotHmacKey X sendKey;
             expected = n_bytesToHex X (n_hmac X macKey (n_utf8ToBytes X json))
         in if constantTimeEqual macHex expected then Some json else None))"

definition generateChannelId :: "noble \<Rightarrow> bytes \<Rightarrow> string" where
  "generateChannelId X random = n_bytesToHex X random"

subsection \<open>What the code relies on\<close>

text \<open>Documented behaviour of the packages, one predicate per package.\<close>

definition concat_spec :: "noble \<Rightarrow> bool" where
  "concat_spec X \<longleftrightarrow> (\<forall>bss. n_concatBytes X bss = concat bss)"

definition utf8_spec :: "noble \<Rightarrow> bool" where
  "utf8_spec X \<longleftrightarrow> (\<forall>s. n_utf8ToBytes X s = text_encode s)"

definition lower_hex :: "char \<Rightarrow> bool" where
  "lower_hex c = (let n = (of_char c :: nat) in (48 \<le> n \<and> n \<le> 57) \<or> (97 \<le> n \<and> n \<le> 102))"

definition hex_spec :: "noble \<Rightarrow> bool" where
  "hex_spec X \<longleftrightarrow>
     (\<forall>bs. n_hexToBytes X (n_bytesToHex X bs) = Some bs \<and> length (n_bytesToHex X bs) = 2 * length bs \<and>
           list_all lower_hex (n_bytesToHex X bs)) \<and>
     (\<forall>s. list_all lower_hex s \<and> even (length s) \<longrightarrow> (\<exists>bs. s = n_bytesToHex X bs))"

definition mac_spec :: "noble \<Rightarrow> bool" where
  "mac_spec X \<longleftrightarrow> (\<forall>k m. length (n_hmac X k m) = 32) \<and> (\<forall>m. length (n_sha256 X m) = 32) \<and>
     (\<forall>k s i n. length (n_hkdf X k s i n) = n)"

text \<open>ChaCha20-Poly1305: with a 32-byte key and a 12-byte nonce encryption succeeds and adds a
  16-byte tag, decryption inverts it, and a ciphertext that decrypts is the encryption of what
  it decrypts to.\<close>

definition aead_spec :: "noble \<Rightarrow> bool" where
  "aead_spec X \<longleftrightarrow> (\<forall>k n a p. length k = 32 \<and> length n = 12 \<longrightarrow>
     (\<exists>c. n_encrypt X k n a p = Some c \<and> length c = length p + 16 \<and> n_decrypt X k n a c = Some p)) \<and>
     (\<forall>k n a c p. n_decrypt X k n a c = Some p \<longrightarrow> n_encrypt X k n a p = Some c)"

text \<open>Diffie-Hellman over X25519: public keys have 32 bytes, both sides compute the same secret.\<close>

definition dh_spec :: "noble \<Rightarrow> bool" where
  "dh_spec X \<longleftrightarrow> (\<forall>a. length (x25519_getPublicKey X a) = 32) \<and>
     (\<forall>a b. x25519_getSharedSecret X a (x25519_getPublicKey X b) = x25519_getSharedSecret X b (x25519_getPublicKey X a))"

text \<open>RFC 8785: the canonical form of a value is well-formed UTF-8 text without a byte-order mark,
  and reads back as \<open>w\<close>, the value with its members in canonical order.\<close>

definition canon_reads :: "noble \<Rightarrow> jsval \<Rightarrow> jsval \<Rightarrow> bool" where
  "canon_reads X v w \<longleftrightarrow> (case n_canonicalize X v of None \<Rightarrow> False
     | Some s \<Rightarrow> utf8_ok s \<and> strip_bom s = s \<and> JSON_parse s = Some w)"

definition noble_spec :: "noble \<Rightarrow> bool" where
  "noble_spec X \<longleftrightarrow> concat_spec X \<and> utf8_spec X \<and> hex_spec X \<and> mac_spec X \<and> aead_spec X \<and> dh_spec X"

lemmas noble_specs = noble_spec_def concat_spec_def utf8_spec_def hex_spec_def mac_spec_def dh_spec_def

subsection \<open>Lemmas\<close>

lemma setUint16_length [simp]: "length (setUint16 n) = 2"
  by (simp add: setUint16_def)

lemma setUint32_length [simp]: "length (setUint32 n) = 4"
  by (simp add: setUint32_def)

lemma unat_byte_of_nat: "unat (word_of_nat n :: byte) = n mod 256"
  by (simp add: unat_of_nat)

lemma setUint16_inj: "n < 65536 \<Longrightarrow> m < 65536 \<Longrightarrow> setUint16 n = setUint16 m \<Longrightarrow> n = m"
proof -
  assume n: "n < 65536" and m: "m < 65536" and eq: "setUint16 n = setUint16 m"
  have "unat (word_of_nat (n div 256) :: byte) = unat (word_of_nat (m div 256) :: byte)"
    "unat (word_of_nat n :: byte) = unat (word_of_nat m :: byte)"
    using eq by (simp_all add: setUint16_def)
  then have "n div 256 mod 256 = m div 256 mod 256" "n mod 256 = m mod 256"
    by (simp_all add: unat_byte_of_nat)
  moreover have "n div 256 < 256" "m div 256 < 256" using n m by (simp_all add: less_mult_imp_div_less)
  ultimately have "n div 256 = m div 256" "n mod 256 = m mod 256" by simp_all
  then show "n = m" by (metis div_mult_mod_eq)
qed

lemma getUint32_setUint32 [codec_simps]: "n < 2 ^ 32 \<Longrightarrow> getUint32 (setUint32 n) = Inr n"
proof -
  assume n: "n < 2 ^ 32"
  define x y z where "x = n div 256" and "y = x div 256" and "z = y div 256"
  have d: "n div 256 = x" "n div 65536 = y" "n div 16777216 = z"
    by (simp_all add: x_def y_def z_def flip: div_mult2_eq)
  have "z < 256" using n by (simp add: d(3) [symmetric] less_mult_imp_div_less)
  then have "z mod 256 = z" by simp
  moreover have "z * 256 + y mod 256 = y" "y * 256 + x mod 256 = x" "x * 256 + n mod 256 = n"
    by (simp_all only: x_def y_def z_def div_mult_mod_eq)
  ultimately show "getUint32 (setUint32 n) = Inr n"
    by (simp add: getUint32_def setUint32_def unat_byte_of_nat d)
qed

lemma lp_Inr:
  assumes "noble_spec X" and "lp X s = Inr bs"
  shows "bs = setUint16 (length (text_encode s)) @ text_encode s" "length (text_encode s) < 65536"
  using assms by (auto simp: lp_def noble_specs Let_def split: if_splits)

text \<open>A length-prefixed field is a prefix code: what follows it does not matter.\<close>

lemma lp_prefix_free:
  assumes "noble_spec X" and "lp X s = Inr a" and "lp X s' = Inr a'" and "a @ r = a' @ r'"
  shows "text_encode s = text_encode s'" "a = a'" "r = r'"
proof -
  let ?e = "text_encode s" and ?e' = "text_encode s'"
  have eq: "setUint16 (length ?e) @ ?e @ r = setUint16 (length ?e') @ ?e' @ r'"
    using assms(4) lp_Inr(1) [OF assms(1,2)] lp_Inr(1) [OF assms(1,3)] by simp
  then have "setUint16 (length ?e) = setUint16 (length ?e')" and rest: "?e @ r = ?e' @ r'"
    by (simp_all add: append_eq_same_length)
  then have len: "length ?e = length ?e'"
    using setUint16_inj lp_Inr(2) [OF assms(1,2)] lp_Inr(2) [OF assms(1,3)] by blast
  then show "?e = ?e'" "r = r'" using rest by (simp_all add: append_eq_same_length)
  then show "a = a'" using assms(4) by simp
qed

lemma type_byte_inj [simp]: "type_byte t = type_byte t' \<longleftrightarrow> t = t'"
  by (cases t; cases t') (simp_all add: type_byte_def)

lemma hex_facts:
  assumes "noble_spec X"
  shows "n_hexToBytes X (n_bytesToHex X bs) = Some bs" "length (n_bytesToHex X bs) = 2 * length bs"
    "list_all lower_hex (n_bytesToHex X bs)"
    "list_all lower_hex s \<Longrightarrow> even (length s) \<Longrightarrow> \<exists>bs. s = n_bytesToHex X bs"
  using assms by (simp_all add: noble_spec_def hex_spec_def)

lemma hexToBytes_inj:
  assumes "noble_spec X" and "list_all lower_hex s" "even (length s)" "list_all lower_hex s'" "even (length s')"
    and "n_hexToBytes X s = Some b" "n_hexToBytes X s' = Some b"
  shows "s = s'"
  using hex_facts(4) [OF assms(1-3)] hex_facts(4) [OF assms(1,4,5)] assms(6,7) hex_facts(1) [OF assms(1)] by auto

lemma channel_bytes:
  assumes "noble_spec X" and "list_all lower_hex ch" and "length ch = 64"
  shows "\<exists>b. n_hexToBytes X ch = Some b \<and> length b = 32"
proof -
  obtain b where "ch = n_bytesToHex X b" using assms hex_facts(4) [OF assms(1,2)] by auto
  then show ?thesis using assms hex_facts(1,2) [OF assms(1), of b] by auto
qed

lemma foldl_or_zero:
  "foldl (\<lambda>acc i. acc OR (f i :: nat)) a is = 0 \<longleftrightarrow> a = 0 \<and> (\<forall>i \<in> set is. f i = 0)"
proof (induction "is" arbitrary: a)
  case (Cons i "is")
  have "a OR f i = 0 \<longleftrightarrow> a = 0 \<and> f i = 0" by (rule or_eq_0_iff)
  then show ?case using Cons by auto
qed simp

lemma nat_xor_zero: "((x :: nat) XOR y = 0) = (x = y)"
proof
  assume "x XOR y = 0"
  then have "bit (x XOR y) n = bit (0 :: nat) n" for n by simp
  then show "x = y" by (intro bit_eqI) (auto simp: bit_xor_iff)
qed simp

lemma fold_xor_eq:
  "(if length us \<noteq> length vs then False
    else foldl (\<lambda>result i. result OR (us ! i XOR vs ! i)) 0 [0..<length us] = (0 :: nat)) \<longleftrightarrow> us = vs"
proof (cases "length us = length vs")
  case True
  have "foldl (\<lambda>result i. result OR (us ! i XOR vs ! i)) 0 [0..<length us] = 0 \<longleftrightarrow>
      (\<forall>i < length us. us ! i = vs ! i)"
    using foldl_or_zero [of "\<lambda>i. us ! i XOR vs ! i" 0 "[0..<length us]"] by (simp only: nat_xor_zero) auto
  then show ?thesis using True nth_equalityI [of us vs] by auto
qed auto

lemma constantTimeEqual_iff: "constantTimeEqual a b \<longleftrightarrow> utf16_units a = utf16_units b"
  unfolding constantTimeEqual_def Let_def by (rule fold_xor_eq)

lemma utf16_units_ascii: "is_ascii s \<Longrightarrow> utf16_units s = map of_char s"
  by (induction s) (auto simp: is_ascii_def Let_def)

lemma inj_of_char_nat: "inj (of_char :: char \<Rightarrow> nat)"
  by (rule injI) simp

lemma constantTimeEqual_ascii: "is_ascii a \<Longrightarrow> is_ascii b \<Longrightarrow> constantTimeEqual a b \<longleftrightarrow> a = b"
  by (simp add: constantTimeEqual_iff utf16_units_ascii inj_map_eq_map [OF inj_of_char_nat])

lemma lower_hex_ascii: "list_all lower_hex s \<Longrightarrow> is_ascii s"
  by (auto simp: is_ascii_def list_all_iff lower_hex_def Let_def)

lemma lower_hex_no_dot: "list_all lower_hex s \<Longrightarrow> CHR ''.'' \<notin> set s"
  by (auto simp: list_all_iff lower_hex_def Let_def)

subsection \<open>Sealing\<close>

lemma aead_enc:
  assumes "noble_spec X" and "length k = 32" and "length n = 12"
  shows "\<exists>c. n_encrypt X k n a p = Some c \<and> length c = length p + 16 \<and> n_decrypt X k n a c = Some p"
  using assms by (simp add: noble_spec_def aead_spec_def)

lemma buildAad_total:
  assumes "noble_spec X" and "list_all lower_hex ch" and "length ch = 64"
    and "\<And>h. header = Some h \<Longrightarrow> length (text_encode (h_from h)) < 65536 \<and> length (text_encode (h_id h)) < 65536"
  shows "\<exists>aad. buildAad X ch header = Inr aad"
proof -
  have u: "n_utf8ToBytes X s = text_encode s" for s using assms(1) by (simp add: noble_spec_def utf8_spec_def)
  have l: "length (text_encode s) < 65536 \<Longrightarrow> \<exists>b. lp X s = Inr b" for s
    by (simp add: lp_def Let_def u)
  obtain b where b: "n_hexToBytes X ch = Some b" using channel_bytes [OF assms(1-3)] by blast
  show ?thesis
  proof (cases header)
    case (Some h)
    obtain f i where "lp X (h_from h) = Inr f" "lp X (h_id h) = Inr i" using l assms(4) [OF Some] by blast
    then show ?thesis using b Some by (simp add: buildAad_def)
  qed (simp add: buildAad_def b)
qed

lemma utf8_eq: "noble_spec X \<Longrightarrow> n_utf8ToBytes X s = text_encode s"
  by (simp add: noble_spec_def utf8_spec_def)

lemma canonical_reads:
  assumes "canon_reads X v w"
  shows "text_decode (text_encode (canonicalJson X v)) = canonicalJson X v"
    "JSON_parse (canonicalJson X v) = Some w"
  using assms by (auto simp: canon_reads_def canonicalJson_def text_decode_encode split: option.splits)

lemma nonce_length: "noble_spec X \<Longrightarrow> length (take 12 (n_hmac X k m)) = 12"
  by (simp add: noble_spec_def mac_spec_def)

lemma concat_eq: "noble_spec X \<Longrightarrow> n_concatBytes X bss = concat bss"
  by (simp add: noble_spec_def concat_spec_def)

lemma seal_total:
  assumes X: "noble_spec X" and k: "length k = 32" and seq: "0 \<le> seq" "seq \<le> MAX_SEQ"
    and ch: "list_all lower_hex ch" "length ch = 64"
    and h: "\<And>h. header = Some h \<Longrightarrow> length (text_encode (h_from h)) < 65536 \<and> length (text_encode (h_id h)) < 65536"
  shows "\<exists>s. sealPayload X k ch seq data header = Inr s"
proof -
  obtain aad where aad: "buildAad X ch header = Inr aad" using buildAad_total [OF X ch h] by blast
  obtain c where c: "n_encrypt X k (take 12 (n_hmac X k (setUint32 (nat seq)))) aad (text_encode (canonicalJson X data)) = Some c"
    using aead_enc [OF X k nonce_length [OF X]] by blast
  show ?thesis using seq aad c by (simp add: sealPayload_def utf8_eq [OF X] concat_eq [OF X])
qed

lemma seal_unseal:
  assumes X: "noble_spec X" and k: "length k = 32" and seq: "0 \<le> seq" "seq \<le> MAX_SEQ"
    and ch: "list_all lower_hex ch" "length ch = 64"
    and h: "\<And>h. header = Some h \<Longrightarrow> length (text_encode (h_from h)) < 65536 \<and> length (text_encode (h_id h)) < 65536"
    and d: "canon_reads X data w"
  shows "\<exists>s. sealPayload X k ch seq data header = Inr s \<and>
    unsealPayload X k ch s header = Inr \<lparr>u_seq = seq, u_data = w,
      u_plaintext = text_encode (canonicalJson X data), u_plaintextJson = canonicalJson X data\<rparr>"
proof -
  obtain aad where aad: "buildAad X ch header = Inr aad" using buildAad_total [OF X ch h] by blast
  let ?sb = "setUint32 (nat seq)"
  obtain c where c: "n_encrypt X k (take 12 (n_hmac X k ?sb)) aad (text_encode (canonicalJson X data)) = Some c"
      "n_decrypt X k (take 12 (n_hmac X k ?sb)) aad c = Some (text_encode (canonicalJson X data))"
    using aead_enc [OF X k nonce_length [OF X]] by blast
  have s: "sealPayload X k ch seq data header = Inr (b64urlEncode (?sb @ c))"
    using seq aad c(1) by (simp add: sealPayload_def utf8_eq [OF X] concat_eq [OF X])
  have "nat seq < 2 ^ 32" using seq by (simp add: MAX_SEQ_def)
  then have "unsealPayload X k ch (b64urlEncode (?sb @ c)) header = Inr \<lparr>u_seq = seq, u_data = w,
      u_plaintext = text_encode (canonicalJson X data), u_plaintextJson = canonicalJson X data\<rparr>"
    using seq aad c(2) by (simp add: unsealPayload_def Let_def getUint32_setUint32 canonical_reads [OF d])
  then show ?thesis using s by blast
qed

text \<open>The sealed join of the wallet opens at the dApp.\<close>

lemma sealJoin_unseal:
  assumes X: "noble_spec X" and k: "length k = 32" and n: "length nonce = 12"
    and ch: "list_all lower_hex ch" "length ch = 64"
    and d: "canon_reads X (JObj [(''capabilities'', caps), (''meta'', coalesce meta JNull)]) w"
  shows "\<exists>s. sealJoin X nonce k ch caps meta = Inr s \<and> unsealJoin X k ch s = Inr w"
proof -
  let ?v = "JObj [(''capabilities'', caps), (''meta'', coalesce meta JNull)]"
  obtain b where b: "n_hexToBytes X ch = Some b" using channel_bytes [OF X ch] by blast
  obtain c where c: "n_encrypt X k nonce (b @ [4]) (text_encode (canonicalJson X ?v)) = Some c"
      "length c = length (text_encode (canonicalJson X ?v)) + 16"
      "n_decrypt X k nonce (b @ [4]) c = Some (text_encode (canonicalJson X ?v))"
    using aead_enc [OF X k n] by blast
  have "sealJoin X nonce k ch caps meta = Inr (b64urlEncode (nonce @ c))"
    using b c(1) by (simp add: sealJoin_def utf8_eq [OF X] concat_eq [OF X])
  moreover have "unsealJoin X k ch (b64urlEncode (nonce @ c)) = Inr w"
    using b c n by (simp add: unsealJoin_def Let_def concat_eq [OF X] canonical_reads [OF d])
  ultimately show ?thesis by blast
qed

text \<open>What opens was sealed with the same key, channel, sequence number and header, from a plaintext
  that is returned as it was.\<close>

lemma unseal_sealed:
  assumes X: "noble_spec X" and u: "unsealPayload X k ch s header = Inr u"
  shows "\<exists>aad c sb. b64urlDecode s = Inr (sb @ c) \<and> length sb = 4 \<and> getUint32 sb = Inr (nat (u_seq u)) \<and>
    buildAad X ch header = Inr aad \<and>
    n_encrypt X k (take 12 (n_hmac X k sb)) aad (u_plaintext u) = Some c \<and>
    JSON_parse (text_decode (u_plaintext u)) = Some (u_data u)"
proof -
  obtain bs aad pt q where *: "b64urlDecode s = Inr bs" "buildAad X ch header = Inr aad"
    "n_decrypt X k (take 12 (n_hmac X k (take 4 bs))) aad (drop 4 bs) = Some pt" "getUint32 (take 4 bs) = Inr q"
    "JSON_parse (text_decode pt) = Some (u_data u)" "u_plaintext u = pt" "u_seq u = int q"
    using u by (auto simp: unsealPayload_def Let_def res_bind_Inr split: option.splits)
  have "4 \<le> length bs"
  proof (rule ccontr)
    assume "\<not> 4 \<le> length bs"
    then have "length (take 4 bs) < 4" by simp
    then have "\<exists>e. getUint32 (take 4 bs) = Inl e" by (auto simp: getUint32_def split: list.splits)
    then show False using *(4) by simp
  qed
  then have "length (take 4 bs) = 4" by simp
  moreover have "n_encrypt X k (take 12 (n_hmac X k (take 4 bs))) aad pt = Some (drop 4 bs)"
    using X *(3) by (simp add: noble_spec_def aead_spec_def)
  ultimately show ?thesis
    using * by (metis append_take_drop_id nat_int)
qed

lemma computeSharedSecret_agree:
  assumes "noble_spec X"
  shows "computeSharedSecret X a (x25519_getPublicKey X b) = computeSharedSecret X b (x25519_getPublicKey X a)"
  using assms unfolding computeSharedSecret_def noble_spec_def dh_spec_def by simp

lemma foldl_or_byte: "foldl (\<lambda>acc b. acc OR b) a bs = (0 :: byte) \<longleftrightarrow> a = 0 \<and> (\<forall>b \<in> set bs. b = 0)"
proof (induction bs arbitrary: a)
  case (Cons b bs)
  have "a OR b = 0 \<longleftrightarrow> a = 0 \<and> b = 0" by (rule or_eq_0_iff)
  then show ?case using Cons by auto
qed simp

lemma sealPayload_range: "seq < 0 \<or> MAX_SEQ < seq \<Longrightarrow> \<exists>e. sealPayload X k ch seq data h = Inl (Error e)"
  by (auto simp: sealPayload_def)

lemma js_indexOf_dot:
  assumes "is_ascii p" and "CHR ''.'' \<notin> set p"
  shows "js_indexOf (p @ CHR ''.'' # s) (CHR ''.'') = Some (length p)"
proof -
  have "takeWhile (\<lambda>d. d \<noteq> CHR ''.'') (p @ CHR ''.'' # s) = p" using assms(2) by (induction p) auto
  then show ?thesis by (simp add: js_indexOf_def js_length_ascii [OF assms(1)])
qed

lemma dot_width [simp]: "utf16_width (CHR ''.'') = 1"
  by (simp add: utf16_width_def)

end
