(* ===== verification/Crypto_Theorems.thy ===== *)
theory Crypto_Theorems
  imports Crypto
begin

text \<open>
  Properties of the SDK's cryptographic helpers, and a concrete instance of the third-party
  packages at which their hypotheses hold.
\<close>

subsection \<open>An instance of the packages\<close>

text \<open>Not a secure one: it satisfies the functional laws and nothing more.\<close>

definition demo_tag :: "bytes \<Rightarrow> bytes \<Rightarrow> bytes \<Rightarrow> bytes" where
  "demo_tag k n a = take 16 (n @ rev a @ k @ replicate 16 0)"

fun demo_unhex :: "string \<Rightarrow> bytes option" where
  "demo_unhex [] = Some []"
| "demo_unhex (a # b # s) = (case (hex_val a, hex_val b, demo_unhex s) of
     (Some x, Some y, Some bs) \<Rightarrow> Some (word_of_nat (x * 16 + y) # bs) | _ \<Rightarrow> None)"
| "demo_unhex _ = None"

definition demo_hex :: "bytes \<Rightarrow> string" where
  "demo_hex bs = concat (map (\<lambda>b. [hex_digit (unat b div 16), hex_digit (unat b mod 16)]) bs)"

definition demo_pub :: "bytes \<Rightarrow> bytes" where
  "demo_pub k = take 32 (k @ replicate 32 7)"

definition demo_noble :: noble where
  "demo_noble = \<lparr>
     x25519_getPublicKey = demo_pub,
     x25519_getSharedSecret = (\<lambda>a p. Some (map2 (\<lambda>x y. x + y) (demo_pub a) p)),
     n_hkdf = (\<lambda>k s i n. take n (map byte_of_char i @ s @ k @ replicate n 0)),
     n_hmac = (\<lambda>k m. take 32 (m @ k @ replicate 32 0)),
     n_sha256 = (\<lambda>m. take 32 (rev m @ replicate 32 0)),
     n_encrypt = (\<lambda>k n a p. if length k = 32 \<and> length n = 12 then Some (p @ demo_tag k n a) else None),
     n_decrypt = (\<lambda>k n a c. if length k = 32 \<and> length n = 12 \<and> 16 \<le> length c \<and>
        drop (length c - 16) c = demo_tag k n a then Some (take (length c - 16) c) else None),
     n_hexToBytes = demo_unhex,
     n_bytesToHex = demo_hex,
     n_utf8ToBytes = text_encode,
     n_concatBytes = concat,
     n_canonicalize = (\<lambda>v. Some (JSON_stringify v)) \<rparr>"

lemma hex_digit_lower: "n < 16 \<Longrightarrow> lower_hex (hex_digit n)"
  by (auto simp: lower_hex_def hex_digit_def Let_def)

lemma unat_div16 [simp]: "unat (b :: byte) div 16 * 16 + unat b mod 16 = unat b"
  by simp

lemma demo_hex_facts: "demo_unhex (demo_hex bs) = Some bs" "length (demo_hex bs) = 2 * length bs"
  "list_all lower_hex (demo_hex bs)"
proof (induction bs)
  case (Cons b bs)
  have u: "unat b div 16 < 16" "unat b mod 16 < 16" by simp_all
  {
    case 1
    have "word_of_nat (unat b div 16 * 16 + unat b mod 16) = b" by (simp only: unat_div16) simp
    then show ?case using Cons(1) u by (simp add: demo_hex_def hex_val_digit)
  next
    case 2
    then show ?case using Cons(2) by (simp add: demo_hex_def)
  next
    case 3
    then show ?case using Cons(3) u by (simp add: demo_hex_def hex_digit_lower)
  }
qed (simp_all add: demo_hex_def)

lemma lower_hex_digit: "lower_hex c \<Longrightarrow> \<exists>n < 16. c = hex_digit n"
proof -
  assume h: "lower_hex c"
  define m where "m = (of_char c :: nat)"
  have c: "c = char_of m" by (simp add: m_def)
  consider "48 \<le> m" "m \<le> 57" | "97 \<le> m" "m \<le> 102"
    using h by (auto simp: lower_hex_def Let_def m_def)
  then show ?thesis
  proof cases
    case 1
    then have "m - 48 < 16" "c = hex_digit (m - 48)" by (auto simp: hex_digit_def c)
    then show ?thesis by blast
  next
    case 2
    then have "m - 87 < 16" "c = hex_digit (m - 87)" by (auto simp: hex_digit_def c)
    then show ?thesis by blast
  qed
qed

lemma demo_hex_surj: "list_all lower_hex s \<Longrightarrow> even (length s) \<Longrightarrow> \<exists>bs. s = demo_hex bs"
proof (induction s rule: demo_unhex.induct)
  case (2 a b s)
  then obtain bs where bs: "s = demo_hex bs" by auto
  obtain x y where xy: "x < 16" "a = hex_digit x" "y < 16" "b = hex_digit y"
    using lower_hex_digit [of a] lower_hex_digit [of b] 2(2) by auto
  have "x * 16 + y < 256" using xy by simp
  then have "unat (word_of_nat (x * 16 + y) :: byte) = x * 16 + y"
    using unat_byte_of_nat [of "x * 16 + y"] by (simp del: of_nat_add of_nat_mult)
  moreover have "(x * 16 + y) div 16 = x" "(x * 16 + y) mod 16 = y" using xy by simp_all
  ultimately have "demo_hex (word_of_nat (x * 16 + y) # bs) = a # b # s"
    using xy bs by (simp add: demo_hex_def)
  then show ?case by metis
next
  case 1
  have "[] = demo_hex []" by (simp add: demo_hex_def)
  then show ?case by blast
qed simp

lemma demo_tag_length [simp]: "length (demo_tag k n a) = 16"
  by (simp add: demo_tag_def)

lemma demo_pub_length [simp]: "length (demo_pub k) = 32"
  by (simp add: demo_pub_def)

lemma demo_noble_spec: "noble_spec demo_noble"
proof -
  have "map2 (\<lambda>x y. x + y) xs ys = map2 (\<lambda>x y. x + y) ys (xs :: bytes)" for xs ys
  proof (induction xs arbitrary: ys)
    case (Cons x xs)
    then show ?case by (cases ys) (simp_all add: add.commute)
  qed simp
  moreover have "aead_spec demo_noble"
    by (auto simp: aead_spec_def demo_noble_def split: if_splits) (metis append_take_drop_id)
  ultimately show ?thesis
    using demo_hex_facts demo_hex_surj
    by (auto simp: noble_specs demo_noble_def)
qed

definition demo_channel :: string where "demo_channel = replicate 64 (CHR ''a'')"
definition demo_key :: bytes where "demo_key = replicate 32 5"

lemma demo_channel_ok [simp]: "list_all lower_hex demo_channel" "length demo_channel = 64"
  by (simp_all add: demo_channel_def list_all_iff lower_hex_def)

lemma demo_key_ok [simp]: "length demo_key = 32"
  by (simp add: demo_key_def)

lemma demo_canon: "canon_reads demo_noble (JBool True) (JBool True)"
  by code_simp

subsection \<open>Sealed messages\<close>

text \<open>C14. Sealing a payload with a sequence number in range always succeeds, and opening the result
  with the same key, channel and header gives back the sequence number, the data and its
  canonical text.\<close>

theorem seal_unseal_roundtrip:
  assumes "noble_spec X" and "length k = 32" and "0 \<le> seq" and "seq \<le> MAX_SEQ"
    and "list_all lower_hex ch" and "length ch = 64"
    and "length (text_encode (h_from h)) < 65536" and "length (text_encode (h_id h)) < 65536"
    and "canon_reads X data w"
  shows "\<exists>s. sealPayload X k ch seq data (Some h) = Inr s \<and>
    unsealPayload X k ch s (Some h) = Inr \<lparr>u_seq = seq, u_data = w,
      u_plaintext = text_encode (canonicalJson X data), u_plaintextJson = canonicalJson X data\<rparr>"
  using assms by (intro seal_unseal) auto

theorem seal_unseal_roundtrip_witness:
  "\<exists>s. sealPayload demo_noble demo_key demo_channel 7 (JBool True) (Some \<lparr>h_type = AReq, h_from = ''p'', h_id = ''1''\<rparr>) = Inr s \<and>
    unsealPayload demo_noble demo_key demo_channel s (Some \<lparr>h_type = AReq, h_from = ''p'', h_id = ''1''\<rparr>) =
      Inr \<lparr>u_seq = 7, u_data = JBool True, u_plaintext = text_encode (canonicalJson demo_noble (JBool True)),
        u_plaintextJson = canonicalJson demo_noble (JBool True)\<rparr>"
  by (rule seal_unseal_roundtrip)
     (simp_all add: demo_noble_spec demo_canon MAX_SEQ_def text_encode_ascii utf8_ok_ascii is_ascii_def)

text \<open>C8. The additional data binds a frame to its context: two headers of two well-formed channels
  have the same encoding only if the channel, the message type and the encoded sender and id
  agree.\<close>

theorem buildAad_injective:
  assumes X: "noble_spec X" and a: "buildAad X ch (Some h) = Inr aad" and b: "buildAad X ch' (Some h') = Inr aad"
    and ch: "list_all lower_hex ch" "length ch = 64" and ch': "list_all lower_hex ch'" "length ch' = 64"
  shows "ch = ch' \<and> h_type h = h_type h' \<and> text_encode (h_from h) = text_encode (h_from h') \<and>
    text_encode (h_id h) = text_encode (h_id h')"
proof -
  obtain c where c: "n_hexToBytes X ch = Some c" "length c = 32" using channel_bytes [OF X ch] by blast
  obtain c' where c': "n_hexToBytes X ch' = Some c'" "length c' = 32" using channel_bytes [OF X ch'] by blast
  obtain f i where fi: "lp X (h_from h) = Inr f" "lp X (h_id h) = Inr i" "aad = c @ type_byte (h_type h) # f @ i"
    using a c by (auto simp: buildAad_def res_bind_Inr concat_eq [OF X])
  obtain f' i' where fi': "lp X (h_from h') = Inr f'" "lp X (h_id h') = Inr i'" "aad = c' @ type_byte (h_type h') # f' @ i'"
    using b c' by (auto simp: buildAad_def res_bind_Inr concat_eq [OF X])
  have "c = c'" and t: "h_type h = h_type h'" and r: "f @ i = f' @ i'"
    using fi(3) fi'(3) c(2) c'(2) by (simp_all add: append_eq_same_length)
  moreover have "i @ [] = i' @ []" "text_encode (h_from h) = text_encode (h_from h')"
    using lp_prefix_free [OF X fi(1) fi'(1) r] by simp_all
  moreover have "text_encode (h_id h) = text_encode (h_id h')"
    using lp_prefix_free(1) [OF X fi(2) fi'(2)] calculation by blast
  moreover have "ch = ch'" using hexToBytes_inj [OF X] ch ch' c(1) c'(1) calculation(1) by simp
  ultimately show ?thesis by blast
qed

theorem buildAad_injective_witness:
  "demo_channel = demo_channel \<and> h_type \<lparr>h_type = ARes, h_from = ''p'', h_id = ''1''\<rparr> = ARes \<and>
   text_encode ''p'' = text_encode ''p'' \<and> text_encode ''1'' = text_encode ''1''"
proof -
  obtain aad where "buildAad demo_noble demo_channel (Some \<lparr>h_type = ARes, h_from = ''p'', h_id = ''1''\<rparr>) = Inr aad"
    using buildAad_total [OF demo_noble_spec demo_channel_ok, of "Some \<lparr>h_type = ARes, h_from = ''p'', h_id = ''1''\<rparr>"]
    by (auto simp: text_encode_ascii utf8_ok_ascii is_ascii_def)
  from buildAad_injective [OF demo_noble_spec this this demo_channel_ok demo_channel_ok] show ?thesis by simp
qed

text \<open>Two payloads sealed under one key with different sequence numbers never have the same
  sealed text, whatever their contents.\<close>

theorem sealed_text_determines_seq:
  assumes X: "noble_spec X" and "sealPayload X k ch seq data h = Inr s" and "sealPayload X k ch' seq' data' h' = Inr s"
  shows "seq = seq'"
proof -
  obtain c where c: "s = b64urlEncode (setUint32 (nat seq) @ c)" "0 \<le> seq" "seq \<le> MAX_SEQ"
    using assms(2) by (auto simp: sealPayload_def Let_def res_bind_Inr concat_eq [OF X] split: if_splits)
  obtain c' where c': "s = b64urlEncode (setUint32 (nat seq') @ c')" "0 \<le> seq'" "seq' \<le> MAX_SEQ"
    using assms(3) by (auto simp: sealPayload_def Let_def res_bind_Inr concat_eq [OF X] split: if_splits)
  have "setUint32 (nat seq) = setUint32 (nat seq')" using c(1) c'(1) by (simp add: append_eq_same_length)
  moreover have "nat seq < 2 ^ 32" "nat seq' < 2 ^ 32" using c c' by (simp_all add: MAX_SEQ_def)
  ultimately have "nat seq = nat seq'" using getUint32_setUint32 by (metis sum.inject(2))
  then show ?thesis using c(2) c'(2) by simp
qed

theorem sealed_text_determines_seq_witness:
  "\<exists>s. sealPayload demo_noble demo_key demo_channel 7 (JBool True) None = Inr s \<and> (7 :: int) = 7"
proof -
  obtain s where s: "sealPayload demo_noble demo_key demo_channel 7 (JBool True) None = Inr s"
    using seal_unseal [OF demo_noble_spec demo_key_ok _ _ demo_channel_ok _ demo_canon, of 7 None]
    by (auto simp: MAX_SEQ_def)
  then show ?thesis using sealed_text_determines_seq [OF demo_noble_spec s s] by simp
qed

text \<open>C27. What opens was sealed: if a text opens under a key, channel and header, then it is the text
  that sealing under the same key, sequence number and additional data gives for the plaintext it
  opens to, and its data is what that plaintext reads as.\<close>

theorem unseal_only_sealed:
  assumes "noble_spec X" and "unsealPayload X k ch s (Some h) = Inr u"
  shows "\<exists>aad c sb. b64urlDecode s = Inr (sb @ c) \<and> length sb = 4 \<and> getUint32 sb = Inr (nat (u_seq u)) \<and>
    buildAad X ch (Some h) = Inr aad \<and>
    n_encrypt X k (take 12 (n_hmac X k sb)) aad (u_plaintext u) = Some c \<and>
    JSON_parse (text_decode (u_plaintext u)) = Some (u_data u)"
  using assms by (rule unseal_sealed)

theorem unseal_only_sealed_witness:
  "\<exists>s (u :: unsealed) aad c sb. b64urlDecode s = Inr (sb @ c) \<and> length sb = 4 \<and> getUint32 sb = Inr (nat (u_seq u)) \<and>
    buildAad demo_noble demo_channel (Some \<lparr>h_type = AReq, h_from = ''p'', h_id = ''1''\<rparr>) = Inr aad \<and>
    n_encrypt demo_noble demo_key (take 12 (n_hmac demo_noble demo_key sb)) aad (u_plaintext u) = Some c \<and>
    JSON_parse (text_decode (u_plaintext u)) = Some (u_data u)"
proof -
  obtain s u where "unsealPayload demo_noble demo_key demo_channel s (Some \<lparr>h_type = AReq, h_from = ''p'', h_id = ''1''\<rparr>) = Inr u"
    using seal_unseal [OF demo_noble_spec demo_key_ok _ _ demo_channel_ok _ demo_canon,
        of 7 "Some \<lparr>h_type = AReq, h_from = ''p'', h_id = ''1''\<rparr>"]
    by (auto simp: MAX_SEQ_def text_encode_ascii utf8_ok_ascii is_ascii_def)
  from unseal_only_sealed [OF demo_noble_spec this] show ?thesis by blast
qed

lemma dec_digits_length_le: "n < 10 ^ k \<Longrightarrow> 0 < k \<Longrightarrow> length (dec_digits n) \<le> k"
proof (induction n arbitrary: k rule: dec_digits.induct)
  case (1 n)
  show ?case
  proof (cases "n < 10")
    case True
    then show ?thesis using 1(3) by (subst dec_digits.simps) simp
  next
    case False
    then obtain j where j: "k = Suc j" "0 < j" using 1(2,3) by (cases k; cases "k - 1") auto
    then have "n div 10 < 10 ^ j" using 1(2) by (simp add: less_mult_imp_div_less mult.commute)
    then show ?thesis using 1(1) [OF False] j False by (subst dec_digits.simps) simp
  qed
qed

subsection \<open>Keys\<close>

text \<open>Both sides of a handshake agree: from its own private key and the other's public key, each
  computes the same shared secret (or the same failure), which has been checked not to be all
  zero.\<close>

theorem shared_secret_agreement:
  assumes "noble_spec X"
  shows "computeSharedSecret X a (getPublicKey X b) = computeSharedSecret X b (getPublicKey X a) \<and>
    (\<forall>s. computeSharedSecret X a (getPublicKey X b) = Inr s \<longrightarrow> (\<exists>x \<in> set s. x \<noteq> 0))"
proof
  show "computeSharedSecret X a (getPublicKey X b) = computeSharedSecret X b (getPublicKey X a)"
    using computeSharedSecret_agree [OF assms] by (simp add: getPublicKey_def)
  show "\<forall>s. computeSharedSecret X a (getPublicKey X b) = Inr s \<longrightarrow> (\<exists>x \<in> set s. x \<noteq> 0)"
    by (auto simp: computeSharedSecret_def Let_def res_bind_Inr foldl_or_byte split: if_splits)
qed

theorem shared_secret_agreement_witness:
  "computeSharedSecret demo_noble [1] (getPublicKey demo_noble [2]) = computeSharedSecret demo_noble [2] (getPublicKey demo_noble [1])
   \<and> (\<exists>s. computeSharedSecret demo_noble [1] (getPublicKey demo_noble [2]) = Inr s \<and> (\<exists>x \<in> set s. x \<noteq> 0))"
proof -
  have "\<exists>s. computeSharedSecret demo_noble [1] (getPublicKey demo_noble [2]) = Inr s"
    by (simp add: computeSharedSecret_def getPublicKey_def demo_noble_def demo_pub_def foldl_or_byte)
  then show ?thesis using shared_secret_agreement [OF demo_noble_spec, of "[1]" "[2]"] by blast
qed

lemma getUint32_four: "length bs = 4 \<Longrightarrow> \<exists>n. getUint32 bs = Inr n"
proof -
  assume "length bs = 4"
  then have "length bs = Suc (Suc (Suc (Suc 0)))" by simp
  then obtain a b c d where "bs = [a, b, c, d]" by (auto simp only: length_Suc_conv length_0_conv)
  then show ?thesis by (simp add: getUint32_def)
qed

text \<open>The fingerprint shown to the user on both sides is always four decimal digits.\<close>

theorem fingerprint_four_digits:
  assumes "noble_spec X" and "list_all lower_hex ch" and "length ch = 64" and "b64urlDecode pk = Inr bs"
  shows "\<exists>s. computeSessionFingerprint X ch pk = Inr s \<and> length s = 4 \<and> list_all is_digit s"
proof -
  obtain c where c: "n_hexToBytes X ch = Some c" using channel_bytes [OF assms(1-3)] by blast
  let ?h = "n_sha256 X (n_concatBytes X [n_utf8ToBytes X ''walletpair-v1-session-fingerprint'', c, bs])"
  have "length ?h = 32" using assms(1) by (simp add: noble_spec_def mac_spec_def)
  then have "length (take 4 ?h) = 4" by simp
  then obtain n where n: "getUint32 (take 4 ?h) = Inr n" using getUint32_four by blast
  have "n mod 10000 < 10 ^ 4" by simp
  then have "length (dec_digits (n mod 10000)) \<le> 4" by (rule dec_digits_length_le) simp
  then have "length (padStart4 (dec_digits (n mod 10000))) = 4 \<and> list_all is_digit (padStart4 (dec_digits (n mod 10000)))"
    using dec_digits_digits [of "n mod 10000"] by (auto simp: padStart4_def list_all_iff is_digit_def)
  then show ?thesis using c assms(4) n by (simp add: computeSessionFingerprint_def Let_def)
qed

theorem fingerprint_four_digits_witness:
  "\<exists>s. computeSessionFingerprint demo_noble demo_channel (b64urlEncode [1, 2]) = Inr s \<and> length s = 4 \<and> list_all is_digit s"
  by (rule fingerprint_four_digits [OF demo_noble_spec]) simp_all

subsection \<open>Snapshots\<close>

lemma snapshot_tag:
  assumes X: "noble_spec X" and "is_ascii mac" and "length mac = 64" and "CHR ''.'' \<notin> set mac"
    and j: "json = [] \<or> utf16_width (hd json) \<noteq> 0"
  shows "verifySnapshot X k (mac @ ''.'' @ json) =
    (if mac @ ''.'' @ json = signSnapshot X k json then Some json else None)"
proof -
  let ?s = "mac @ ''.'' @ json"
  let ?t = "n_bytesToHex X (n_hmac X (deriveSnapshotHmacKey X k) (n_utf8ToBytes X json))"
  have ix: "js_indexOf ?s (CHR ''.'') = Some 64" using js_indexOf_dot [OF assms(2,4), of json] assms(3) by simp
  have d64: "js_drop 64 ?s = ''.'' @ json"
    using js_drop_ascii_prefix [OF assms(2), of "''.'' @ json"] assms(3) by simp
  have "is_ascii (mac @ ''.'')" using assms(2) by (simp add: is_ascii_def)
  then have d65: "js_drop 65 ?s = json"
    using js_drop_ascii_prefix [OF _ j, of "mac @ ''.''"] assms(3) by simp
  have mac: "js_take 64 ?s = mac" by (simp only: js_take_def d64) simp
  have t: "is_ascii ?t" "length ?t = 64"
    using hex_facts(2,3) [OF X] lower_hex_ascii X by (auto simp: noble_spec_def mac_spec_def)
  have "constantTimeEqual mac ?t \<longleftrightarrow> mac = ?t" using assms(2) t(1) by (rule constantTimeEqual_ascii)
  then have "verifySnapshot X k ?s = (if mac = ?t then Some json else None)"
    by (simp only: verifySnapshot_def ix mac d65 Let_def) simp
  moreover have "?s = signSnapshot X k json \<longleftrightarrow> mac = ?t" by (simp add: signSnapshot_def)
  ultimately show ?thesis by simp
qed

text \<open>A snapshot text with a 64-character tag verifies exactly when the tag is the one
  \<^verbatim>\<open>signSnapshot\<close> computes for the payload under that key, and then yields the payload; so what was
  signed verifies to itself and no other tag is accepted.\<close>

theorem snapshot_verify_iff:
  assumes X: "noble_spec X" and "is_ascii mac" and "length mac = 64" and "CHR ''.'' \<notin> set mac"
    and j: "json = [] \<or> utf16_width (hd json) \<noteq> 0"
  shows "verifySnapshot X k (mac @ ''.'' @ json) =
    (if mac @ ''.'' @ json = signSnapshot X k json then Some json else None)"
  using assms by (rule snapshot_tag)

theorem snapshot_verify_iff_witness:
  "verifySnapshot demo_noble demo_key (replicate 64 (CHR ''0'') @ ''.'' @ ''{}'') =
    (if replicate 64 (CHR ''0'') @ ''.'' @ ''{}'' = signSnapshot demo_noble demo_key ''{}'' then Some ''{}'' else None)"
  by (rule snapshot_verify_iff [OF demo_noble_spec]) (simp_all add: is_ascii_def list_all_iff utf16_width_def)

lemma verify_signed:
  assumes "noble_spec X" and "json = [] \<or> utf16_width (hd json) \<noteq> 0"
  shows "verifySnapshot X k (signSnapshot X k json) = Some json"
proof -
  let ?t = "n_bytesToHex X (n_hmac X (deriveSnapshotHmacKey X k) (n_utf8ToBytes X json))"
  have "list_all lower_hex ?t" "length ?t = 64"
    using hex_facts(2,3) [OF assms(1)] assms(1) by (simp_all add: noble_spec_def mac_spec_def)
  then show ?thesis
    using snapshot_tag [OF assms(1) lower_hex_ascii _ lower_hex_no_dot assms(2), of ?t k]
    by (simp add: signSnapshot_def)
qed

end
