(* ===== verification/PairingUri.thy ===== *)
theory PairingUri
  imports Crypto_Theorems
begin

text \<open>
  The pairing URI of \<^verbatim>\<open>walletpair-sdk/src/crypto.ts\<close> (\<^verbatim>\<open>buildPairingUri\<close>, \<^verbatim>\<open>parsePairingUri\<close>) with
  the \<^verbatim>\<open>encodeURIComponent\<close> and \<^verbatim>\<open>URLSearchParams\<close> of the platform.
\<close>

subsection \<open>Percent encoding\<close>

definition uri_unreserved :: "char \<Rightarrow> bool" where
  "uri_unreserved c = (let n = (of_char c :: nat) in
     (65 \<le> n \<and> n \<le> 90) \<or> (97 \<le> n \<and> n \<le> 122) \<or> (48 \<le> n \<and> n \<le> 57) \<or>
     n \<in> {45, 95, 46, 33, 126, 42, 39, 40, 41})"

definition hex_upper :: "nat \<Rightarrow> char" where
  "hex_upper n = (if n < 10 then char_of (48 + n) else char_of (55 + n))"

definition percent_encode :: "char \<Rightarrow> string" where
  "percent_encode c = (if uri_unreserved c then [c]
     else [CHR ''%'', hex_upper (of_char c div 16), hex_upper (of_char c mod 16)])"

definition encodeURIComponent :: "string \<Rightarrow> string res" where
  "encodeURIComponent s =
     (if replace_surrogates s \<noteq> s then Inl URIError else Inr (concat (map percent_encode s)))"

subsection \<open>URLSearchParams\<close>

fun percent_decode :: "string \<Rightarrow> string" where
  "percent_decode (c # a # b # s) =
     (if c = CHR ''%'' then
        (case (hex_val a, hex_val b) of
           (Some x, Some y) \<Rightarrow> char_of (x * 16 + y) # percent_decode s
         | _ \<Rightarrow> c # percent_decode (a # b # s))
      else c # percent_decode (a # b # s))"
| "percent_decode s = s"

definition form_decode :: "string \<Rightarrow> string" where
  "form_decode s = utf8_decode utf8_init (percent_decode (map (\<lambda>c. if c = CHR ''+'' then CHR '' '' else c) s))"

text \<open>The pieces between \<^verbatim>\<open>&\<close>, empty ones skipped, each cut at its first \<^verbatim>\<open>=\<close>.\<close>

definition form_pair :: "string \<Rightarrow> string \<times> string" where
  "form_pair w = (form_decode (takeWhile (\<lambda>c. c \<noteq> CHR ''='') w), form_decode (drop 1 (dropWhile (\<lambda>c. c \<noteq> CHR ''='') w)))"

definition URLSearchParams :: "string \<Rightarrow> (string \<times> string) list" where
  "URLSearchParams q =
     (let q = replace_surrogates q;
          q = (if starts_with q ''?'' then drop 1 q else q)
      in map form_pair (filter (\<lambda>w. w \<noteq> []) (js_split (CHR ''&'') q)))"

subsection \<open>The pairing URI\<close>

record pairing_params =
  pp_ch :: string
  pp_pubkey :: string
  pp_relay :: string
  pp_name :: string
  pp_url :: string
  pp_icon :: string
  pp_methods :: "string list option"
  pp_chains :: "string list option"

definition buildPairingUri :: "pairing_params \<Rightarrow> string res" where
  "buildPairingUri params =
     (let uri = ''walletpair:?ch='' @ pp_ch params @ ''&pubkey='' @ pp_pubkey params in
      res_bind (encodeURIComponent (pp_relay params)) (\<lambda>e. let uri = uri @ ''&relay='' @ e in
      res_bind (encodeURIComponent (pp_name params)) (\<lambda>e. let uri = uri @ ''&name='' @ e in
      res_bind (encodeURIComponent (pp_url params)) (\<lambda>e. let uri = uri @ ''&url='' @ e in
      res_bind (encodeURIComponent (pp_icon params)) (\<lambda>e. let uri = uri @ ''&icon='' @ e;
        uri = (case pp_methods params of
                 Some ms \<Rightarrow> if ms \<noteq> [] then uri @ ''&methods='' @ js_join '','' ms else uri | None \<Rightarrow> uri);
        uri = (case pp_chains params of
                 Some cs \<Rightarrow> if cs \<noteq> [] then uri @ ''&chains='' @ js_join '','' cs else uri | None \<Rightarrow> uri)
        in Inr uri)))))"

definition strip_scheme :: "string \<Rightarrow> string" where
  "strip_scheme uri = (if starts_with uri ''walletpair:?'' then drop 12 uri else uri)"

definition param_list :: "string option \<Rightarrow> string list option" where
  "param_list s = (case s of None \<Rightarrow> None | Some s \<Rightarrow>
     if s = [] then None else Some (filter (\<lambda>w. w \<noteq> []) (js_split (CHR '','') s)))"

definition absent :: "string option \<Rightarrow> bool" where
  "absent s = (s = None \<or> s = Some [])"

definition parsePairingUri :: "string \<Rightarrow> pairing_params res" where
  "parsePairingUri uri =
     (let params = URLSearchParams (strip_scheme uri);
          ch = map_of params ''ch''; pubkey = map_of params ''pubkey''
      in if absent ch \<or> absent pubkey then Inl (Error ''Invalid pairing URI: missing ch or pubkey'')
         else if \<not> (length (the ch) = 64 \<and> list_all lower_hex (the ch)) then
           Inl (Error ''Invalid pairing URI: ch must be 64 lowercase hex chars'')
         else res_bind (b64urlDecode (the pubkey)) (\<lambda>pubkeyBytes.
           if length pubkeyBytes \<noteq> 32 then Inl (Error ''Invalid pairing URI: pubkey must be 32 bytes'')
           else
             (let name = map_of params ''name''; url = map_of params ''url''; icon = map_of params ''icon''
              in if absent name then Inl (Error ''Invalid pairing URI: missing required param \"name\"'')
                 else if absent url then Inl (Error ''Invalid pairing URI: missing required param \"url\"'')
                 else if absent icon then Inl (Error ''Invalid pairing URI: missing required param \"icon\"'')
                 else if \<not> starts_with (the icon) ''https:'' then
                   Inl (Error ''Invalid pairing URI: icon must use https:'')
                 else
                   (let relay = map_of params ''relay'' in
                    if absent relay then Inl (Error ''Invalid pairing URI: missing required param \"relay\"'')
                    else Inr \<lparr>pp_ch = the ch, pp_pubkey = the pubkey, pp_relay = the relay, pp_name = the name,
                      pp_url = the url, pp_icon = the icon, pp_methods = param_list (map_of params ''methods''),
                      pp_chains = param_list (map_of params ''chains'')\<rparr>))))"

subsection \<open>Lemmas\<close>

lemma hex_upper_val: "n < 16 \<Longrightarrow> hex_val (hex_upper n) = Some n"
  by (auto simp: hex_val_def hex_upper_def Let_def)

lemma percent_decode_plain: "c \<noteq> CHR ''%'' \<Longrightarrow> percent_decode (c # s) = c # percent_decode s"
  by (cases s; cases "tl s") auto

lemma percent_decode_escape:
  "percent_decode (CHR ''%'' # hex_upper (of_char c div 16) # hex_upper (of_char c mod 16) # s) = c # percent_decode s"
proof -
  have "(of_char c :: nat) < 256" by simp
  then have "(of_char c :: nat) div 16 < 16" "(of_char c :: nat) mod 16 < 16"
    by (simp_all add: less_mult_imp_div_less)
  then show ?thesis by (simp add: hex_upper_val)
qed

lemma unreserved_plain:
  "uri_unreserved c \<Longrightarrow> c \<noteq> CHR ''%'' \<and> c \<noteq> CHR ''&'' \<and> c \<noteq> CHR ''+'' \<and> c \<noteq> CHR ''='' \<and> (of_char c :: nat) < 128"
  by (auto simp: uri_unreserved_def Let_def)

lemma percent_roundtrip: "percent_decode (concat (map percent_encode s)) = s"
proof (induction s)
  case (Cons c s)
  then show ?case
    using unreserved_plain [of c]
    by (cases "uri_unreserved c")
       (simp_all add: percent_encode_def percent_decode_plain percent_decode_escape del: percent_decode.simps)
qed simp

lemma hex_upper_plain:
  "n < 16 \<Longrightarrow> hex_upper n \<noteq> CHR ''&'' \<and> hex_upper n \<noteq> CHR ''+'' \<and> hex_upper n \<noteq> CHR ''='' \<and> (of_char (hex_upper n) :: nat) < 128"
proof -
  assume "n < 16"
  then have "(of_char (hex_upper n) :: nat) = (if n < 10 then 48 + n else 55 + n)" by (simp add: hex_upper_def)
  moreover have "(of_char (CHR ''&'') :: nat) = 38" "(of_char (CHR ''+'') :: nat) = 43" "(of_char (CHR ''='') :: nat) = 61"
    by simp_all
  ultimately show ?thesis using \<open>n < 16\<close> by (auto split: if_splits)
qed

lemma percent_encode_chars:
  "d \<in> set (percent_encode c) \<Longrightarrow> d \<noteq> CHR ''&'' \<and> d \<noteq> CHR ''+'' \<and> (of_char d :: nat) < 128"
proof -
  assume d: "d \<in> set (percent_encode c)"
  have "(of_char c :: nat) < 256" by simp
  then have h: "(of_char c :: nat) div 16 < 16" "(of_char c :: nat) mod 16 < 16"
    by (simp_all add: less_mult_imp_div_less)
  show ?thesis
  proof (cases "uri_unreserved c")
    case True
    then show ?thesis using d unreserved_plain [of c] by (simp add: percent_encode_def)
  next
    case False
    then consider "d = CHR ''%''" | "d = hex_upper (of_char c div 16)" | "d = hex_upper (of_char c mod 16)"
      using d by (auto simp: percent_encode_def)
    then show ?thesis using hex_upper_plain h by cases auto
  qed
qed

lemma encoded_plain:
  assumes "encodeURIComponent s = Inr e"
  shows "CHR ''&'' \<notin> set e" "CHR ''+'' \<notin> set e" "is_ascii e"
  using assms
  by (auto simp: encodeURIComponent_def is_ascii_def list_all_iff split: if_splits dest: percent_encode_chars)

lemma no_plus_map: "CHR ''+'' \<notin> set s \<Longrightarrow> map (\<lambda>c. if c = CHR ''+'' then CHR '' '' else c) s = s"
  by (induction s) auto

lemma form_decode_encoded:
  assumes "encodeURIComponent s = Inr e" and "utf8_ok s"
  shows "form_decode e = s"
proof -
  have "e = concat (map percent_encode s)" using assms(1) by (simp add: encodeURIComponent_def split: if_splits)
  then show ?thesis
    using no_plus_map [OF encoded_plain(2) [OF assms(1)]] utf8_decode_ok [OF assms(2)]
    by (simp add: form_decode_def percent_roundtrip)
qed

lemma encode_total: "utf8_ok s \<Longrightarrow> \<exists>e. encodeURIComponent s = Inr e"
  by (simp add: encodeURIComponent_def utf8_ok_no_surrogates)

lemma encoded_nonempty: "encodeURIComponent s = Inr e \<Longrightarrow> s \<noteq> [] \<Longrightarrow> e \<noteq> []"
  by (cases s) (auto simp: encodeURIComponent_def percent_encode_def split: if_splits)

lemma percent_decode_id: "CHR ''%'' \<notin> set s \<Longrightarrow> percent_decode s = s"
  by (induction s) (auto simp: percent_decode_plain)

text \<open>Text that needs no escaping.\<close>

definition form_plain :: "string \<Rightarrow> bool" where
  "form_plain s \<longleftrightarrow> is_ascii s \<and> CHR ''%'' \<notin> set s \<and> CHR ''+'' \<notin> set s \<and> CHR ''&'' \<notin> set s"

lemma form_decode_plain: "form_plain s \<Longrightarrow> form_decode s = s"
  by (simp add: form_plain_def form_decode_def no_plus_map percent_decode_id utf8_decode_ok utf8_ok_ascii)

lemma form_pair_eq:
  assumes "CHR ''='' \<notin> set k"
  shows "form_pair (k @ CHR ''='' # v) = (form_decode k, form_decode v)"
proof -
  have "takeWhile (\<lambda>c. c \<noteq> CHR ''='') (k @ CHR ''='' # v) = k" "dropWhile (\<lambda>c. c \<noteq> CHR ''='') (k @ CHR ''='' # v) = CHR ''='' # v"
    using assms by (induction k) auto
  then show ?thesis by (simp add: form_pair_def)
qed

lemma URLSearchParams_join:
  assumes "ws \<noteq> []" and "list_all (\<lambda>w. is_ascii w \<and> w \<noteq> [] \<and> CHR ''&'' \<notin> set w) ws" and "hd (hd ws) \<noteq> CHR ''?''"
  shows "URLSearchParams (js_join ''&'' ws) = map form_pair ws"
proof -
  have "is_ascii (js_join ''&'' ws)" if "list_all is_ascii ws" for ws
    using that by (induction "''&''" ws rule: js_join.induct) (auto simp: is_ascii_def)
  then have "is_ascii (js_join ''&'' ws)" using assms(2) by (simp add: list_all_iff)
  then have r: "replace_surrogates (js_join ''&'' ws) = js_join ''&'' ws"
    by (intro utf8_ok_no_surrogates utf8_ok_ascii)
  obtain c w ws' where ws: "ws = (c # w) # ws'" using assms(1,2) by (cases ws; cases "hd ws") auto
  have "\<not> starts_with (js_join ''&'' ws) ''?''" using assms(3) by (cases ws') (simp_all add: ws)
  moreover have "js_split (CHR ''&'') (js_join ''&'' ws) = ws"
    using assms(1,2) by (intro js_split_join) (simp_all add: list_all_iff)
  moreover have "filter (\<lambda>w. w \<noteq> []) ws = ws" using assms(2) by (simp add: list_all_iff)
  ultimately show ?thesis by (simp add: URLSearchParams_def r)
qed

subsection \<open>Round trip\<close>

definition item_ok :: "string \<Rightarrow> bool" where
  "item_ok w \<longleftrightarrow> w \<noteq> [] \<and> form_plain w \<and> CHR '','' \<notin> set w"

definition items_ok :: "string list option \<Rightarrow> bool" where
  "items_ok ws = (case ws of None \<Rightarrow> True | Some ws \<Rightarrow> ws \<noteq> [] \<and> list_all item_ok ws)"

definition pairing_ok :: "pairing_params \<Rightarrow> bool" where
  "pairing_ok p \<longleftrightarrow> length (pp_ch p) = 64 \<and> list_all lower_hex (pp_ch p) \<and>
     list_all b64url_alphabet (pp_pubkey p) \<and> pp_pubkey p \<noteq> [] \<and>
     (case b64urlDecode (pp_pubkey p) of Inl _ \<Rightarrow> False | Inr bs \<Rightarrow> length bs = 32) \<and>
     list_all (\<lambda>s. s \<noteq> [] \<and> utf8_ok s) [pp_relay p, pp_name p, pp_url p, pp_icon p] \<and>
     starts_with (pp_icon p) ''https:'' \<and> items_ok (pp_methods p) \<and> items_ok (pp_chains p)"

definition item_piece :: "string \<Rightarrow> string list option \<Rightarrow> string list" where
  "item_piece k ws = (case ws of None \<Rightarrow> [] | Some ws \<Rightarrow> [k @ CHR ''='' # js_join '','' ws])"

definition uri_pieces :: "pairing_params \<Rightarrow> string \<Rightarrow> string \<Rightarrow> string \<Rightarrow> string \<Rightarrow> string list" where
  "uri_pieces p r n u i = [''ch='' @ pp_ch p, ''pubkey='' @ pp_pubkey p, ''relay='' @ r, ''name='' @ n,
     ''url='' @ u, ''icon='' @ i] @ item_piece ''methods'' (pp_methods p) @ item_piece ''chains'' (pp_chains p)"

lemma buildPairingUri_pieces:
  assumes "encodeURIComponent (pp_relay p) = Inr r" "encodeURIComponent (pp_name p) = Inr n"
    "encodeURIComponent (pp_url p) = Inr u" "encodeURIComponent (pp_icon p) = Inr i"
    and "items_ok (pp_methods p)" "items_ok (pp_chains p)"
  shows "buildPairingUri p = Inr (''walletpair:?'' @ js_join ''&'' (uri_pieces p r n u i))"
  using assms
  by (auto simp: buildPairingUri_def uri_pieces_def item_piece_def items_ok_def Let_def split: option.splits)

lemma join_plain:
  "list_all item_ok ws \<Longrightarrow> form_plain (js_join '','' ws)"
  by (induction "'',''" ws rule: js_join.induct) (auto simp: item_ok_def form_plain_def is_ascii_def)

lemma join_items:
  assumes "ws \<noteq> []" "list_all item_ok ws"
  shows "param_list (Some (js_join '','' ws)) = Some ws"
proof -
  have "js_split (CHR '','') (js_join '','' ws) = ws"
    using assms by (intro js_split_join) (auto simp: list_all_iff item_ok_def)
  moreover have "filter (\<lambda>w. w \<noteq> []) ws = ws" using assms(2) by (simp add: list_all_iff item_ok_def)
  moreover have "js_join '','' ws \<noteq> []"
    using assms by (cases "('','', ws)" rule: js_join.cases) (auto simp: item_ok_def)
  ultimately show ?thesis by (simp add: param_list_def)
qed

lemma hex_plain: "list_all lower_hex s \<Longrightarrow> form_plain s"
  by (auto simp: form_plain_def lower_hex_ascii list_all_iff lower_hex_def Let_def)

lemma b64_plain: "list_all b64url_alphabet s \<Longrightarrow> form_plain s"
  by (auto simp: form_plain_def is_ascii_def list_all_iff b64url_alphabet_def Let_def)

lemma form_pairs:
  "form_pair (''ch='' @ v) = (''ch'', form_decode v)" "form_pair (''pubkey='' @ v) = (''pubkey'', form_decode v)"
  "form_pair (''relay='' @ v) = (''relay'', form_decode v)" "form_pair (''name='' @ v) = (''name'', form_decode v)"
  "form_pair (''url='' @ v) = (''url'', form_decode v)" "form_pair (''icon='' @ v) = (''icon'', form_decode v)"
  "form_pair (''methods'' @ CHR ''='' # v) = (''methods'', form_decode v)"
  "form_pair (''chains'' @ CHR ''='' # v) = (''chains'', form_decode v)"
  using form_pair_eq [of "''ch''" v] form_pair_eq [of "''pubkey''" v] form_pair_eq [of "''relay''" v]
    form_pair_eq [of "''name''" v] form_pair_eq [of "''url''" v] form_pair_eq [of "''icon''" v]
    form_pair_eq [of "''methods''" v] form_pair_eq [of "''chains''" v]
  by (simp_all add: form_decode_plain form_plain_def is_ascii_def)

definition item_pair :: "string \<Rightarrow> string list option \<Rightarrow> (string \<times> string) list" where
  "item_pair k ws = (case ws of None \<Rightarrow> [] | Some ws \<Rightarrow> [(k, js_join '','' ws)])"

lemma uri_pieces_parsed:
  assumes ok: "pairing_ok p"
    and e: "encodeURIComponent (pp_relay p) = Inr r" "encodeURIComponent (pp_name p) = Inr n"
    "encodeURIComponent (pp_url p) = Inr u" "encodeURIComponent (pp_icon p) = Inr i"
  shows "URLSearchParams (js_join ''&'' (uri_pieces p r n u i)) =
    [(''ch'', pp_ch p), (''pubkey'', pp_pubkey p), (''relay'', pp_relay p), (''name'', pp_name p),
     (''url'', pp_url p), (''icon'', pp_icon p)] @ item_pair ''methods'' (pp_methods p) @ item_pair ''chains'' (pp_chains p)"
proof -
  have pl: "form_plain (pp_ch p)" "form_plain (pp_pubkey p)"
    using ok by (simp_all add: pairing_ok_def hex_plain b64_plain)
  have it: "form_plain (js_join '','' ws)" if "items_ok (Some ws)" for ws
    using that join_plain by (simp add: items_ok_def)
  have im: "items_ok (pp_methods p)" "items_ok (pp_chains p)" using ok by (simp_all add: pairing_ok_def)
  have "list_all (\<lambda>w. is_ascii w \<and> w \<noteq> [] \<and> CHR ''&'' \<notin> set w) (uri_pieces p r n u i)"
    using pl it im encoded_plain [OF e(1)] encoded_plain [OF e(2)] encoded_plain [OF e(3)] encoded_plain [OF e(4)]
    by (auto simp: uri_pieces_def item_piece_def form_plain_def is_ascii_def split: option.splits)
  then have "URLSearchParams (js_join ''&'' (uri_pieces p r n u i)) = map form_pair (uri_pieces p r n u i)"
    by (intro URLSearchParams_join) (simp_all add: uri_pieces_def)
  also have "map form_pair (uri_pieces p r n u i) = [(''ch'', pp_ch p), (''pubkey'', pp_pubkey p),
      (''relay'', pp_relay p), (''name'', pp_name p), (''url'', pp_url p), (''icon'', pp_icon p)] @
      item_pair ''methods'' (pp_methods p) @ item_pair ''chains'' (pp_chains p)"
  proof -
    have "utf8_ok (pp_relay p)" "utf8_ok (pp_name p)" "utf8_ok (pp_url p)" "utf8_ok (pp_icon p)"
      using ok by (simp_all add: pairing_ok_def)
    then have d: "form_decode r = pp_relay p" "form_decode n = pp_name p" "form_decode u = pp_url p"
      "form_decode i = pp_icon p"
      using e by (auto intro: form_decode_encoded)
    have "map form_pair (item_piece ''methods'' (pp_methods p)) = item_pair ''methods'' (pp_methods p)"
      "map form_pair (item_piece ''chains'' (pp_chains p)) = item_pair ''chains'' (pp_chains p)"
      using im it unfolding item_piece_def item_pair_def
      by (auto simp only: form_pairs form_decode_plain list.map split: option.splits)
    then show ?thesis
      unfolding uri_pieces_def map_append list.map form_pairs d using pl by (simp only: form_decode_plain)
  qed
  finally show ?thesis .
qed

lemma items_parsed:
  assumes "items_ok ms" "items_ok cs"
  shows "param_list (map_of (item_pair ''methods'' ms @ item_pair ''chains'' cs) ''methods'') = ms"
    "param_list (map_of (item_pair ''methods'' ms @ item_pair ''chains'' cs) ''chains'') = cs"
proof -
  have n: "param_list None = None" by (simp add: param_list_def)
  show "param_list (map_of (item_pair ''methods'' ms @ item_pair ''chains'' cs) ''methods'') = ms"
    "param_list (map_of (item_pair ''methods'' ms @ item_pair ''chains'' cs) ''chains'') = cs"
    using assms join_items n by (auto simp: item_pair_def items_ok_def split: option.splits)
qed

lemma pairing_uri_roundtrip_lemma:
  assumes "pairing_ok p"
  shows "\<exists>uri. buildPairingUri p = Inr uri \<and> parsePairingUri uri = Inr p"
proof -
  obtain r n u i where e: "encodeURIComponent (pp_relay p) = Inr r" "encodeURIComponent (pp_name p) = Inr n"
    "encodeURIComponent (pp_url p) = Inr u" "encodeURIComponent (pp_icon p) = Inr i"
    using assms encode_total [of "pp_relay p"] encode_total [of "pp_name p"] encode_total [of "pp_url p"]
      encode_total [of "pp_icon p"] by (auto simp: pairing_ok_def)
  have im: "items_ok (pp_methods p)" "items_ok (pp_chains p)" using assms by (simp_all add: pairing_ok_def)
  let ?q = "js_join ''&'' (uri_pieces p r n u i)"
  have b: "buildPairingUri p = Inr (''walletpair:?'' @ ?q)" using e im by (rule buildPairingUri_pieces)
  have s: "strip_scheme (''walletpair:?'' @ ?q) = ?q" by (simp add: strip_scheme_def)
  obtain bs where bs: "b64urlDecode (pp_pubkey p) = Inr bs" "length bs = 32"
    using assms by (auto simp: pairing_ok_def split: sum.splits)
  have ch: "pp_ch p \<noteq> []" using assms by (auto simp: pairing_ok_def)
  have "parsePairingUri (''walletpair:?'' @ ?q) = Inr p"
    unfolding parsePairingUri_def s uri_pieces_parsed [OF assms e]
    using assms bs ch items_parsed [OF im]
    by (simp add: pairing_ok_def absent_def Let_def)
  then show ?thesis using b by blast
qed

text \<open>C28. A pairing URI built from well-formed parameters is parsed back to exactly those
  parameters: non-ASCII and reserved characters of the name and the addresses survive, and so do
  the method and chain lists.\<close>

theorem pairing_uri_roundtrip:
  assumes "pairing_ok p"
  shows "\<exists>uri. buildPairingUri p = Inr uri \<and> parsePairingUri uri = Inr p"
  using assms by (rule pairing_uri_roundtrip_lemma)

definition demo_pairing :: pairing_params where
  "demo_pairing = \<lparr>pp_ch = demo_channel, pp_pubkey = replicate 43 (CHR ''D''), pp_relay = ''wss://r/v1?x=1&y=2'',
     pp_name = ''A & B + 100%'', pp_url = ''https://d'', pp_icon = ''https://d/i.png'',
     pp_methods = Some [''eth_sendTransaction'', ''personal_sign''], pp_chains = None\<rparr>"

lemma demo_pairing_ok: "pairing_ok demo_pairing"
proof -
  have "list_all b64url_alphabet (replicate 43 (CHR ''D''))" by (simp add: list_all_iff b64url_alphabet_def)
  moreover have "case b64urlDecode (replicate 43 (CHR ''D'')) of Inl _ \<Rightarrow> False | Inr bs \<Rightarrow> length bs = 32" by code_simp
  ultimately show ?thesis
    by (simp add: pairing_ok_def demo_pairing_def utf8_ok_ascii is_ascii_def items_ok_def item_ok_def form_plain_def)
qed

theorem pairing_uri_roundtrip_witness:
  "\<exists>uri. buildPairingUri demo_pairing = Inr uri \<and> parsePairingUri uri = Inr demo_pairing"
  using demo_pairing_ok by (rule pairing_uri_roundtrip)

text \<open>C34. Whatever text is scanned, a successful parse guarantees a 64-digit channel id, a 32-byte
  public key, non-empty name, address and relay, and an icon served over https.\<close>

theorem parsePairingUri_sound:
  assumes "parsePairingUri uri = Inr p"
  shows "length (pp_ch p) = 64 \<and> list_all lower_hex (pp_ch p) \<and>
    (\<exists>bs. b64urlDecode (pp_pubkey p) = Inr bs \<and> length bs = 32) \<and>
    pp_name p \<noteq> [] \<and> pp_url p \<noteq> [] \<and> pp_relay p \<noteq> [] \<and> starts_with (pp_icon p) ''https:''"
  using assms by (auto simp: parsePairingUri_def Let_def absent_def res_bind_Inr split: if_splits)

theorem parsePairingUri_sound_witness:
  "length (pp_ch demo_pairing) = 64 \<and> list_all lower_hex (pp_ch demo_pairing) \<and>
    (\<exists>bs. b64urlDecode (pp_pubkey demo_pairing) = Inr bs \<and> length bs = 32) \<and>
    pp_name demo_pairing \<noteq> [] \<and> pp_url demo_pairing \<noteq> [] \<and> pp_relay demo_pairing \<noteq> [] \<and>
    starts_with (pp_icon demo_pairing) ''https:''"
proof -
  obtain uri where "parsePairingUri uri = Inr demo_pairing"
    using pairing_uri_roundtrip_lemma demo_pairing_ok by blast
  then show ?thesis by (rule parsePairingUri_sound)
qed

end
