(* ===== verification/Session_Base.thy ===== *)
theory Session_Base
  imports PairingUri Protocol_Types JsMap Event_System
begin

text \<open>
  What the two session objects of the SDK share: computations that change the session and may
  throw, the configuration of the environment (persistence, transport), the constants, the
  reconnect back-off, and \<^verbatim>\<open>walletpair-sdk/src/disconnect-log.ts\<close>.

  A method is a function from the session to a session and a result.  Effects on the outside
  (frames handed to the transport, events emitted to the application, snapshots saved, promises
  settled) are appended to a trace in the session record.  The time, the random values of one
  call and the third-party packages are arguments; \<^verbatim>\<open>Date.now()\<close> is constant during one call.
  Listeners of the application run after the call that emitted to them.
\<close>

subsection \<open>Computations\<close>

type_synonym ('s, 'a) comp = "'s \<times> 'a res"

definition andThen :: "('s, 'a) comp \<Rightarrow> ('s \<Rightarrow> 'a \<Rightarrow> ('s, 'b) comp) \<Rightarrow> ('s, 'b) comp" where
  "andThen c f = (case snd c of Inl e \<Rightarrow> (fst c, Inl e) | Inr x \<Rightarrow> f (fst c) x)"

definition tryCatch :: "('s, 'a) comp \<Rightarrow> ('s \<Rightarrow> exn \<Rightarrow> ('s, 'a) comp) \<Rightarrow> ('s, 'a) comp" where
  "tryCatch c h = (case snd c of Inl e \<Rightarrow> h (fst c) e | Inr x \<Rightarrow> (fst c, Inr x))"

lemma andThen_simps [simp]:
  "andThen (s, Inl e) f = (s, Inl e)" "andThen (s, Inr x) f = f s x"
  by (simp_all add: andThen_def)

lemma tryCatch_simps [simp]:
  "tryCatch (s, Inl e) h = h s e" "tryCatch (s, Inr x) h = (s, Inr x)"
  by (simp_all add: tryCatch_def)

lemma andThen_inv:
  "P (fst c) \<Longrightarrow> (\<And>s x. P s \<Longrightarrow> P (fst (f s x))) \<Longrightarrow> P (fst (andThen c f))"
  by (auto simp: andThen_def split: sum.splits)

lemma tryCatch_inv:
  "P (fst c) \<Longrightarrow> (\<And>s e. P s \<Longrightarrow> P (fst (h s e))) \<Longrightarrow> P (fst (tryCatch c h))"
  by (auto simp: tryCatch_def split: sum.splits)

text \<open>\<^verbatim>\<open>err.message\<close>; the texts of exceptions raised by the platform are not modelled.\<close>

definition exn_message :: "exn \<Rightarrow> string" where
  "exn_message e = (case e of Error m \<Rightarrow> m | _ \<Rightarrow> [])"

subsection \<open>Environment\<close>

text \<open>A persistence adapter is absent, or its \<^verbatim>\<open>save\<close> completes at once, or it returns a promise.\<close>

datatype pmode = PNone | PSync | PAsync

record env =
  e_now :: int           \<comment> \<open>\<^verbatim>\<open>Date.now()\<close>\<close>
  e_rnd :: rat           \<comment> \<open>\<^verbatim>\<open>Math.random()\<close>\<close>
  e_priv :: bytes        \<comment> \<open>\<^verbatim>\<open>x25519.utils.randomPrivateKey()\<close>\<close>
  e_rand :: bytes        \<comment> \<open>\<^verbatim>\<open>crypto.getRandomValues\<close>\<close>

subsection \<open>Constants\<close>

definition BACKOFF :: "int list" where "BACKOFF = [1000, 2000, 5000, 10000, 30000]"
definition MAX_SEND_SEQ :: int where "MAX_SEND_SEQ = 2 ^ 31"
definition MAX_PENDING_REQUESTS :: nat where "MAX_PENDING_REQUESTS = 32"
definition MAX_WIRE_BYTES :: nat where "MAX_WIRE_BYTES = 65536"

text \<open>The message of a session whose send sequence is used up; the dash is U+2014.\<close>

definition SEQ_LIMIT_MESSAGE :: string where
  "SEQ_LIMIT_MESSAGE = ''Send sequence overflow/limit reached '' @ [CHR 0xE2, CHR 0x80, CHR 0x94] @ '' session invalidated''"

text \<open>\<^verbatim>\<open>new TextEncoder().encode(JSON.stringify(msg)).length > MAX_MESSAGE_BYTES\<close>\<close>

definition wire_too_large :: "wmsg \<Rightarrow> bool" where
  "wire_too_large msg \<longleftrightarrow> MAX_WIRE_BYTES < length (text_encode (JSON_stringify (wmsg_json msg)))"

text \<open>\<^verbatim>\<open>BACKOFF[Math.min(attempt, BACKOFF.length - 1)] ?? 1000\<close> plus jitter.\<close>

definition backoff_delay :: "nat \<Rightarrow> rat \<Rightarrow> int" where
  "backoff_delay attempt rnd =
     (let base = BACKOFF ! min attempt (length BACKOFF - 1)
      in base + \<lfloor>rnd * of_int base * (3 / 10)\<rfloor>)"

lemma backoff_bounds:
  assumes "0 \<le> rnd" and "rnd < 1"
  shows "1000 \<le> backoff_delay n rnd \<and> backoff_delay n rnd \<le> 39000"
proof -
  define b where "b = BACKOFF ! min n (length BACKOFF - 1)"
  define j where "j = \<lfloor>rnd * of_int b * (3 / 10)\<rfloor>"
  have "b \<in> set BACKOFF" unfolding b_def by (rule nth_mem) (simp add: BACKOFF_def)
  then have b: "1000 \<le> b" "b \<le> 30000" by (auto simp: BACKOFF_def)
  have "0 \<le> rnd * of_int b * (3 / 10)" using assms b by (intro mult_nonneg_nonneg) auto
  then have "0 \<le> j" by (simp add: j_def le_floor_iff)
  moreover have "rnd * of_int b \<le> 1 * 30000" using assms b by (intro mult_mono) auto
  then have "j \<le> 9000" by (simp add: j_def floor_le_iff)
  moreover have "backoff_delay n rnd = b + j" by (simp only: backoff_delay_def Let_def b_def j_def)
  ultimately show ?thesis using b by simp
qed

text \<open>The relay URL with the channel hint for the worker's routing.\<close>

definition channel_hint :: "string \<Rightarrow> string \<Rightarrow> string" where
  "channel_hint url ch = url @ (if js_includes url ''?'' then ''&'' else ''?'') @ ''ch='' @ ch"

subsection \<open>Snapshots\<close>

text \<open>A key in a snapshot.\<close>

definition hex_or_null :: "noble \<Rightarrow> bytes option \<Rightarrow> jsval" where
  "hex_or_null X b = (case b of None \<Rightarrow> JNull | Some b \<Rightarrow> JStr (n_bytesToHex X b))"

text \<open>A field that must be a text (\<^verbatim>\<open>hexToBytes\<close> throws on anything else), an optional text and a
  sequence number.  A snapshot that carries another type in a field of text or number is treated
  as unreadable.\<close>

definition text_field :: "jsval \<Rightarrow> string \<Rightarrow> string res" where
  "text_field d k = (case jget d k of JStr v \<Rightarrow> Inr v | _ \<Rightarrow> Inl TypeError)"

definition hex_field :: "noble \<Rightarrow> jsval \<Rightarrow> string \<Rightarrow> bytes res" where
  "hex_field X d k = res_bind (text_field d k) (\<lambda>v. of_lib (n_hexToBytes X v))"

definition opt_hex_field :: "noble \<Rightarrow> jsval \<Rightarrow> string \<Rightarrow> bytes option res" where
  "opt_hex_field X d k = (if truthy (jget d k) then res_bind (hex_field X d k) (\<lambda>b. Inr (Some b)) else Inr None)"

definition opt_key_field :: "jsval \<Rightarrow> string \<Rightarrow> bytes option res" where
  "opt_key_field d k =
     (if truthy (jget d k) then res_bind (text_field d k) (\<lambda>v. res_bind (b64urlDecode v) (\<lambda>b. Inr (Some b)))
      else Inr None)"

definition num_field :: "jsval \<Rightarrow> string \<Rightarrow> int \<Rightarrow> int res" where
  "num_field d k dflt = (case coalesce (jget d k) (JNum (of_int dflt)) of
     JNum q \<Rightarrow> if of_int \<lfloor>q\<rfloor> = q then Inr \<lfloor>q\<rfloor> else Inl TypeError
   | _ \<Rightarrow> Inl TypeError)"

definition opt_num_field :: "jsval \<Rightarrow> string \<Rightarrow> int option res" where
  "opt_num_field d k = (if nullish (jget d k) then Inr None else res_bind (num_field d k 0) (\<lambda>n. Inr (Some n)))"

definition opt_text_field :: "jsval \<Rightarrow> string \<Rightarrow> string option res" where
  "opt_text_field d k = (if nullish (jget d k) then Inr None else res_bind (text_field d k) (\<lambda>v. Inr (Some v)))"

text \<open>The payload of a snapshot text: behind a valid tag, or the text itself; \<open>Inr None\<close> where the
  code returns \<^verbatim>\<open>false\<close>.\<close>

definition is_tagged :: "string \<Rightarrow> bool" where
  "is_tagged snapshot \<longleftrightarrow> 65 < js_length snapshot \<and> utf16_units snapshot ! 64 = of_char (CHR ''.'')"

definition js_parse :: "string \<Rightarrow> jsval res" where
  "js_parse s = (case JSON_parse s of None \<Rightarrow> Inl SyntaxError | Some v \<Rightarrow> Inr v)"

definition snapshot_payload :: "noble \<Rightarrow> string \<Rightarrow> string option res" where
  "snapshot_payload X snapshot =
     (if is_tagged snapshot then
        res_bind (js_parse (js_drop 65 snapshot)) (\<lambda>d0.
          if \<not> truthy (jget d0 ''sendKey'') then Inr None
          else res_bind (hex_field X d0 ''sendKey'') (\<lambda>sendKey.
            case verifySnapshot X sendKey snapshot of
              None \<Rightarrow> Inr None
            | Some json \<Rightarrow> Inr (if json = [] then None else Some json)))
      else Inr (Some snapshot))"

text \<open>Whether a field of the configuration differs from the one in the snapshot.\<close>

definition config_differs :: "noble \<Rightarrow> jsval \<Rightarrow> string \<Rightarrow> jsval \<Rightarrow> bool" where
  "config_differs X d k mine \<longleftrightarrow>
     jhas d k \<and> canonicalJson X (coalesce (jget d k) JNull) \<noteq> canonicalJson X (coalesce mine JNull)"

subsection \<open>Disconnect diagnostics\<close>

record dlog_entry =
  l_ts :: int
  l_side :: role
  l_kind :: string
  l_code :: jsval
  l_reason :: jsval
  l_phase :: string
  l_willReconnect :: bool
  l_channelId :: string

definition RING_SIZE :: nat where "RING_SIZE = 50"

text \<open>The ring buffer; a sink and the console only observe the entry.\<close>

definition recordDisconnect :: "dlog_entry list \<Rightarrow> dlog_entry \<Rightarrow> dlog_entry list" where
  "recordDisconnect ring entry =
     (let ring = ring @ [entry] in if RING_SIZE < length ring then tl ring else ring)"

definition getDisconnectLog :: "dlog_entry list \<Rightarrow> dlog_entry list" where
  "getDisconnectLog ring = ring"

definition clearDisconnectLog :: "dlog_entry list \<Rightarrow> dlog_entry list" where
  "clearDisconnectLog ring = []"

lemma recordDisconnect_fold:
  "length r \<le> RING_SIZE \<Longrightarrow> foldl recordDisconnect r es = drop (length (r @ es) - RING_SIZE) (r @ es)"
proof (induction es arbitrary: r)
  case (Cons e es)
  show ?case
  proof (cases "length r < RING_SIZE")
    case True
    then have "recordDisconnect r e = r @ [e]" by (simp add: recordDisconnect_def Let_def)
    then show ?thesis using Cons(1) [of "r @ [e]"] True by simp
  next
    case False
    then have l: "length r = RING_SIZE" using Cons(2) by simp
    then have ne: "r \<noteq> []" by (auto simp: RING_SIZE_def)
    have rd: "recordDisconnect r e = tl r @ [e]" using l ne by (simp add: recordDisconnect_def Let_def)
    have "foldl recordDisconnect (tl r @ [e]) es = drop (length ((tl r @ [e]) @ es) - RING_SIZE) ((tl r @ [e]) @ es)"
      using l ne by (intro Cons(1)) (simp add: RING_SIZE_def)
    moreover have "drop (length (r @ e # es) - RING_SIZE) (r @ e # es) =
        drop (length ((tl r @ [e]) @ es) - RING_SIZE) ((tl r @ [e]) @ es)"
      using ne l by (cases r) (simp_all add: Suc_diff_le)
    ultimately show ?thesis using rd by simp
  qed
qed simp

end
