(* ===== verification/Ws_Transport.thy ===== *)
theory Ws_Transport
  imports Session_Base Event_System
begin

text \<open>
  \<^verbatim>\<open>walletpair-sdk/src/ws-transport.ts\<close>: the WebSocket transport as a transition system.  Every call of
  \<^verbatim>\<open>connect\<close> makes a socket with a number of its own, which also names its promise; the variables its closures
  share (\<^verbatim>\<open>settled\<close>, the timer, the installed handlers) are a record \<open>conn\<close>.  Several sockets can be alive at a
  time, as in the code.
\<close>

subsection \<open>State\<close>

definition MAX_OUTBOUND_QUEUE :: nat where "MAX_OUTBOUND_QUEUE = 64"
definition MAX_INBOUND_BYTES :: nat where "MAX_INBOUND_BYTES = 128 * 1024"

datatype tstate = TDisconnected | TConnecting | TConnected

record conn =
  c_settled :: bool
  c_timer :: bool
  c_onopen :: bool
  c_onclose :: bool
  c_onerror :: bool

datatype teff =
    TNew nat string                    \<comment> \<open>\<^verbatim>\<open>new WebSocket(url)\<close>\<close>
  | TWire nat string                   \<comment> \<open>\<^verbatim>\<open>ws.send\<close>\<close>
  | TCloseSock nat
  | TOpened
  | TDelivered wmsg
  | TClosed jsval jsval bool
  | TResolve nat
  | TReject nat exn

record transport =
  t_state :: tstate
  t_ws :: "nat option"
  t_url :: string
  t_outbound :: "wmsg list"
  t_messageHandler :: bool
  t_closeHandler :: bool
  t_openHandler :: bool
  t_lastErrored :: bool
  t_conns :: "conn list"
  t_out :: "teff list"

definition transport_init :: "string \<Rightarrow> transport" where
  "transport_init url = \<lparr>t_state = TDisconnected, t_ws = None, t_url = url, t_outbound = [], t_messageHandler = False,
     t_closeHandler = False, t_openHandler = False, t_lastErrored = False, t_conns = [], t_out = []\<rparr>"

definition emit_t :: "transport \<Rightarrow> teff \<Rightarrow> transport" where
  "emit_t s e = s\<lparr>t_out := t_out s @ [e]\<rparr>"

definition upd_conn :: "nat \<Rightarrow> (conn \<Rightarrow> conn) \<Rightarrow> transport \<Rightarrow> transport" where
  "upd_conn i f s = (if i < length (t_conns s) then s\<lparr>t_conns := (t_conns s)[i := f (t_conns s ! i)]\<rparr> else s)"

subsection \<open>Frames\<close>

definition is_number :: "jsval \<Rightarrow> bool" where
  "is_number v = (case v of JNum _ \<Rightarrow> True | _ \<Rightarrow> False)"

definition isWireMessage :: "jsval \<Rightarrow> bool" where
  "isWireMessage m \<longleftrightarrow> is_object m \<and> is_string (jget m ''t'') \<and> is_number (jget m ''v'') \<and> is_string (jget m ''ch'') \<and>
     is_string (jget m ''from'') \<and> is_object (jget m ''body'')"

text \<open>The fields of a frame the sessions read.\<close>

definition wire_message :: "jsval \<Rightarrow> wmsg option" where
  "wire_message m = (case (jget m ''v'', jget m ''t'', jget m ''ch'', jget m ''from'') of
     (JNum q, JStr t, JStr ch, JStr fr) \<Rightarrow>
       if is_object m \<and> is_object (jget m ''body'') then
         Some \<lparr>m_v = q, m_t = t, m_ch = ch, m_ts = jget m ''ts'', m_from = fr, m_body = jget m ''body''\<rparr>
       else None
   | _ \<Rightarrow> None)"

lemma wire_message_iff: "wire_message m \<noteq> None \<longleftrightarrow> isWireMessage m"
  by (auto simp: wire_message_def isWireMessage_def is_string_def is_number_def split: jsval.splits)

definition frame_text :: "wmsg \<Rightarrow> string" where
  "frame_text msg = JSON_stringify (wmsg_json msg)"

subsection \<open>Operations\<close>

definition wires :: "nat \<Rightarrow> wmsg list \<Rightarrow> transport \<Rightarrow> transport" where
  "wires i ms s = fold (\<lambda>m s. emit_t s (TWire i (frame_text m))) ms s"

definition send_t :: "wmsg \<Rightarrow> transport \<Rightarrow> transport" where
  "send_t msg s = (case t_ws s of
     Some i \<Rightarrow> if t_state s = TConnected then wires i [msg] s
       else s\<lparr>t_outbound := (if MAX_OUTBOUND_QUEUE \<le> length (t_outbound s) then tl (t_outbound s) else t_outbound s) @ [msg]\<rparr>
   | None \<Rightarrow> s\<lparr>t_outbound := (if MAX_OUTBOUND_QUEUE \<le> length (t_outbound s) then tl (t_outbound s) else t_outbound s) @ [msg]\<rparr>)"

definition flushOutbound_t :: "transport \<Rightarrow> transport" where
  "flushOutbound_t s = (case t_ws s of
     None \<Rightarrow> s
   | Some i \<Rightarrow> if t_outbound s = [] then s else wires i (t_outbound s) (s\<lparr>t_outbound := []\<rparr>))"

text \<open>\<open>throws\<close>: whether the constructor of the socket throws (a malformed address); the promise is then rejected.\<close>

definition connect_t :: "bool \<Rightarrow> transport \<Rightarrow> transport" where
  "connect_t throws s =
     (let i = length (t_conns s); s = s\<lparr>t_outbound := [], t_state := TConnecting\<rparr>
      in if throws then
           emit_t (s\<lparr>t_conns := t_conns s @ [\<lparr>c_settled = True, c_timer = False, c_onopen = False, c_onclose = False, c_onerror = False\<rparr>]\<rparr>)
             (TReject i TypeError)
         else emit_t (s\<lparr>t_conns := t_conns s @ [\<lparr>c_settled = False, c_timer = True, c_onopen = True, c_onclose = True, c_onerror = True\<rparr>]\<rparr>)
             (TNew i (t_url s)))"

definition disconnect_t :: "transport \<Rightarrow> transport" where
  "disconnect_t s =
     (let s = (case t_ws s of
            None \<Rightarrow> s
          | Some i \<Rightarrow> (emit_t (upd_conn i (\<lambda>c. c\<lparr>c_onclose := False\<rparr>) s) (TCloseSock i))\<lparr>t_ws := None\<rparr>)
      in s\<lparr>t_outbound := [], t_state := TDisconnected\<rparr>)"

subsection \<open>The closures of a socket\<close>

definition timeout_t :: "nat \<Rightarrow> transport \<Rightarrow> transport" where
  "timeout_t i s =
     (let c = t_conns s ! i; s = upd_conn i (\<lambda>c. c\<lparr>c_timer := False\<rparr>) s
      in if c_settled c then s
         else
           (let s = upd_conn i (\<lambda>c. c\<lparr>c_settled := True, c_onopen := False, c_onclose := False, c_onerror := False\<rparr>) s;
                s = (emit_t s (TCloseSock i))\<lparr>t_state := TDisconnected\<rparr>
            in emit_t s (TReject i (Error ''WebSocket connect timed out''))))"

definition open_t :: "nat \<Rightarrow> transport \<Rightarrow> transport" where
  "open_t i s =
     (if c_settled (t_conns s ! i) then s
      else
        (let s = upd_conn i (\<lambda>c. c\<lparr>c_settled := True, c_timer := False\<rparr>) s;
             s = flushOutbound_t (s\<lparr>t_state := TConnected, t_ws := Some i, t_lastErrored := False\<rparr>);
             s = (if t_openHandler s then emit_t s TOpened else s)
         in emit_t s (TResolve i)))"

text \<open>\<open>None\<close> is a binary frame.\<close>

definition message_t :: "string option \<Rightarrow> transport \<Rightarrow> transport" where
  "message_t data s =
     (if \<not> t_messageHandler s then s
      else (case data of
          None \<Rightarrow> s
        | Some text' \<Rightarrow>
            if MAX_INBOUND_BYTES < js_length text' then s
            else (case JSON_parse text' of
                None \<Rightarrow> s
              | Some parsed \<Rightarrow> (case wire_message parsed of None \<Rightarrow> s | Some msg \<Rightarrow> emit_t s (TDelivered msg)))))"

definition close_t :: "nat \<Rightarrow> jsval \<Rightarrow> jsval \<Rightarrow> transport \<Rightarrow> transport" where
  "close_t i code reason s =
     (let c = t_conns s ! i in
      if c_settled c \<and> t_state s \<noteq> TConnected then s
      else
        (let s = upd_conn i (\<lambda>c. c\<lparr>c_timer := False\<rparr>) s;
             wasConnected = (t_state s = TConnected);
             wasError = t_lastErrored s;
             s = s\<lparr>t_lastErrored := False, t_state := TDisconnected, t_ws := None\<rparr>
         in if wasConnected then
              (if t_closeHandler s then emit_t s (TClosed code (if truthy reason then reason else JUndef) wasError) else s)
            else if \<not> c_settled c then
              emit_t (upd_conn i (\<lambda>c. c\<lparr>c_settled := True\<rparr>) s) (TReject i (Error ''WebSocket connection failed''))
            else s))"

definition error_t :: "transport \<Rightarrow> transport" where
  "error_t s = s\<lparr>t_lastErrored := True\<rparr>"

subsection \<open>The transport as a transition system\<close>

datatype tevent =
    TOnMessage | TOnClose | TOnOpen | TSetUrl string | TConnect bool | TSend wmsg | TDisconnect
  | TSockOpen nat | TSockMessage nat "string option" | TSockClose nat jsval jsval | TSockError nat | TSockTimeout nat

text \<open>A handler of a socket runs only while it is installed, a timer only while it is armed.\<close>

definition transport_step :: "tevent \<Rightarrow> transport \<Rightarrow> transport option" where
  "transport_step e s = (case e of
     TOnMessage \<Rightarrow> Some (s\<lparr>t_messageHandler := True\<rparr>)
   | TOnClose \<Rightarrow> Some (s\<lparr>t_closeHandler := True\<rparr>)
   | TOnOpen \<Rightarrow> Some (s\<lparr>t_openHandler := True\<rparr>)
   | TSetUrl url \<Rightarrow> Some (s\<lparr>t_url := url\<rparr>)
   | TConnect throws \<Rightarrow> Some (connect_t throws s)
   | TSend msg \<Rightarrow> Some (send_t msg s)
   | TDisconnect \<Rightarrow> Some (disconnect_t s)
   | TSockOpen i \<Rightarrow> if i < length (t_conns s) \<and> c_onopen (t_conns s ! i) then Some (open_t i s) else None
   | TSockMessage i data \<Rightarrow> if i < length (t_conns s) then Some (message_t data s) else None
   | TSockClose i code reason \<Rightarrow> if i < length (t_conns s) \<and> c_onclose (t_conns s ! i) then Some (close_t i code reason s) else None
   | TSockError i \<Rightarrow> if i < length (t_conns s) \<and> c_onerror (t_conns s ! i) then Some (error_t s) else None
   | TSockTimeout i \<Rightarrow> if i < length (t_conns s) \<and> c_timer (t_conns s ! i) then Some (timeout_t i s) else None)"

inductive transport_trans :: "transport \<Rightarrow> tevent \<Rightarrow> transport \<Rightarrow> bool" where
  "transport_step e s = Some s' \<Longrightarrow> transport_trans s e s'"

inductive_cases transport_transE: "transport_trans s e s'"

subsection \<open>The invariant\<close>

definition eff_settles :: "teff \<Rightarrow> nat list" where
  "eff_settles e = (case e of TResolve i \<Rightarrow> [i] | TReject i _ \<Rightarrow> [i] | _ \<Rightarrow> [])"

definition settlements :: "teff list \<Rightarrow> nat list" where
  "settlements es = concat (map eff_settles es)"

lemma settlements_simps [simp]:
  "settlements [] = []" "settlements (e # es) = eff_settles e @ settlements es" "settlements (es @ fs) = settlements es @ settlements fs"
  by (simp_all add: settlements_def)

lemma eff_settles_simps [simp]:
  "eff_settles (TResolve i) = [i]" "eff_settles (TReject i x) = [i]" "eff_settles (TNew i u) = []" "eff_settles (TWire i z) = []"
  "eff_settles (TCloseSock i) = []" "eff_settles TOpened = []" "eff_settles (TDelivered m) = []" "eff_settles (TClosed v w e) = []"
  by (simp_all add: eff_settles_def)

text \<open>The promises settled belong to distinct sockets whose \<^verbatim>\<open>settled\<close> is set; a connected transport has a socket.\<close>

definition transport_ok :: "transport \<Rightarrow> bool" where
  "transport_ok s \<longleftrightarrow> length (t_outbound s) \<le> MAX_OUTBOUND_QUEUE \<and> (t_state s = TConnected \<longrightarrow> t_ws s \<noteq> None) \<and>
     distinct (settlements (t_out s)) \<and>
     (\<forall>i \<in> set (settlements (t_out s)). i < length (t_conns s) \<and> c_settled (t_conns s ! i))"

lemma emit_t_fields [simp]:
  "t_out (emit_t s e) = t_out s @ [e]" "t_conns (emit_t s e) = t_conns s" "t_outbound (emit_t s e) = t_outbound s"
  "t_state (emit_t s e) = t_state s" "t_ws (emit_t s e) = t_ws s" "t_openHandler (emit_t s e) = t_openHandler s"
  "t_closeHandler (emit_t s e) = t_closeHandler s" "t_messageHandler (emit_t s e) = t_messageHandler s"
  by (simp_all add: emit_t_def)

lemma upd_conn_fields [simp]:
  "t_out (upd_conn i f s) = t_out s" "t_outbound (upd_conn i f s) = t_outbound s" "t_state (upd_conn i f s) = t_state s"
  "t_ws (upd_conn i f s) = t_ws s" "t_openHandler (upd_conn i f s) = t_openHandler s" "t_closeHandler (upd_conn i f s) = t_closeHandler s"
  "length (t_conns (upd_conn i f s)) = length (t_conns s)" "t_lastErrored (upd_conn i f s) = t_lastErrored s"
  by (simp_all add: upd_conn_def)

lemma upd_conn_nth [simp]:
  "j < length (t_conns s) \<Longrightarrow> t_conns (upd_conn i f s) ! j = (if j = i then f (t_conns s ! i) else t_conns s ! j)"
  by (simp add: upd_conn_def nth_list_update)

lemma wires_fields [simp]:
  "t_out (wires i ms s) = t_out s @ map (\<lambda>m. TWire i (frame_text m)) ms" "t_conns (wires i ms s) = t_conns s"
  "t_outbound (wires i ms s) = t_outbound s" "t_state (wires i ms s) = t_state s" "t_ws (wires i ms s) = t_ws s"
  "t_openHandler (wires i ms s) = t_openHandler s"
  by (induction ms arbitrary: s) (simp_all add: wires_def)

lemma settlements_wires [simp]: "settlements (map (\<lambda>m. TWire i (frame_text m)) ms) = []"
  by (induction ms) simp_all

text \<open>An effect that settles nothing, and a change of a socket that keeps \<^verbatim>\<open>settled\<close>, are harmless.\<close>

lemma ok_emit [simp]: "eff_settles e = [] \<Longrightarrow> transport_ok (emit_t s e) = transport_ok s"
  by (simp add: transport_ok_def)

lemma ok_upd_conn: "transport_ok s \<Longrightarrow> (\<And>c. c_settled c \<Longrightarrow> c_settled (f c)) \<Longrightarrow> transport_ok (upd_conn i f s)"
  by (auto simp: transport_ok_def)

lemma ok_settle:
  assumes "transport_ok s" and "i < length (t_conns s)" and "i \<notin> set (settlements (t_out s))" and "c_settled (t_conns s ! i)"
    and "eff_settles e = [i]"
  shows "transport_ok (emit_t s e)"
  using assms by (auto simp: transport_ok_def)

lemma unsettled: "transport_ok s \<Longrightarrow> \<not> c_settled (t_conns s ! i) \<Longrightarrow> i \<notin> set (settlements (t_out s))"
  by (auto simp: transport_ok_def)

lemma ok_send: "transport_ok s \<Longrightarrow> transport_ok (send_t msg s)"
  by (auto simp: transport_ok_def send_t_def MAX_OUTBOUND_QUEUE_def split: option.split)

lemma ok_connect: "transport_ok s \<Longrightarrow> transport_ok (connect_t throws s)"
  by (force simp: transport_ok_def connect_t_def Let_def nth_append)

lemma ok_disconnect: "transport_ok s \<Longrightarrow> transport_ok (disconnect_t s)"
  by (auto simp: transport_ok_def disconnect_t_def Let_def split: option.split)

lemma ok_flush: "transport_ok s \<Longrightarrow> transport_ok (flushOutbound_t s)"
  by (auto simp: transport_ok_def flushOutbound_t_def split: option.split)

lemma flush_fields [simp]:
  "t_conns (flushOutbound_t s) = t_conns s" "settlements (t_out (flushOutbound_t s)) = settlements (t_out s)"
  "t_openHandler (flushOutbound_t s) = t_openHandler s"
  by (simp_all add: flushOutbound_t_def split: option.split)

lemma ok_states:
  assumes "transport_ok s"
  shows "transport_ok (s\<lparr>t_state := TConnected, t_ws := Some i, t_lastErrored := False\<rparr>)"
    "transport_ok (s\<lparr>t_lastErrored := False, t_state := TDisconnected, t_ws := None\<rparr>)" "transport_ok (s\<lparr>t_state := TDisconnected\<rparr>)"
  using assms by (simp_all add: transport_ok_def)

lemma ok_open:
  assumes s: "transport_ok s" and i: "i < length (t_conns s)"
  shows "transport_ok (open_t i s)"
proof (cases "c_settled (t_conns s ! i)")
  case False
  let ?u = "upd_conn i (\<lambda>c. c\<lparr>c_settled := True, c_timer := False\<rparr>) s"
  let ?f = "flushOutbound_t (?u\<lparr>t_state := TConnected, t_ws := Some i, t_lastErrored := False\<rparr>)"
  let ?g = "if t_openHandler ?f then emit_t ?f TOpened else ?f"
  have "transport_ok ?u" using s by (rule ok_upd_conn) simp
  then have "transport_ok (?u\<lparr>t_state := TConnected, t_ws := Some i, t_lastErrored := False\<rparr>)" by (rule ok_states)
  then have "transport_ok ?g" using ok_flush by simp
  moreover have "t_conns ?g = t_conns ?u" "settlements (t_out ?g) = settlements (t_out s)" by simp_all
  ultimately have "transport_ok (emit_t ?g (TResolve i))" using unsettled [OF s False] i by (intro ok_settle) simp_all
  then show ?thesis using False by (simp add: open_t_def Let_def)
qed (simp add: open_t_def s)

lemma ok_message: "transport_ok s \<Longrightarrow> transport_ok (message_t data s)"
  by (simp add: message_t_def split: option.split)

lemma ok_reject:
  assumes s: "transport_ok s" and i: "i < length (t_conns s)" "\<not> c_settled (t_conns s ! i)" and f: "\<And>c. c_settled (f c)"
  shows "transport_ok (emit_t (upd_conn i f s) (TReject i e))"
proof (rule ok_settle)
  show "transport_ok (upd_conn i f s)" using s f by (simp add: ok_upd_conn)
qed (use i f unsettled [OF s i(2)] in simp_all)

lemma ok_timeout:
  assumes s: "transport_ok s" and i: "i < length (t_conns s)"
  shows "transport_ok (timeout_t i s)"
proof (cases "c_settled (t_conns s ! i)")
  case True
  then show ?thesis using s by (simp add: timeout_t_def Let_def ok_upd_conn)
next
  case False
  let ?u = "(upd_conn i (\<lambda>c. c\<lparr>c_timer := False\<rparr>) s)\<lparr>t_state := TDisconnected\<rparr>"
  let ?g = "\<lambda>c. c\<lparr>c_settled := True, c_onopen := False, c_onclose := False, c_onerror := False\<rparr>"
  have "transport_ok (upd_conn i (\<lambda>c. c\<lparr>c_timer := False\<rparr>) s)" using s by (rule ok_upd_conn) simp
  then have u: "transport_ok (emit_t ?u (TCloseSock i))" using ok_states(3) by simp
  have "transport_ok (emit_t (upd_conn i ?g (emit_t ?u (TCloseSock i))) (TReject i e))" for e
    using u i False by (intro ok_reject) simp_all
  moreover have "(emit_t (upd_conn i ?g (upd_conn i (\<lambda>c. c\<lparr>c_timer := False\<rparr>) s)) (TCloseSock i))\<lparr>t_state := TDisconnected\<rparr> =
      upd_conn i ?g (emit_t ?u (TCloseSock i))"
    by (simp add: upd_conn_def emit_t_def)
  ultimately show ?thesis using False by (simp add: timeout_t_def Let_def)
qed

lemma ok_close:
  assumes s: "transport_ok s" and i: "i < length (t_conns s)"
  shows "transport_ok (close_t i code reason s)"
proof -
  let ?u = "(upd_conn i (\<lambda>c. c\<lparr>c_timer := False\<rparr>) s)\<lparr>t_lastErrored := False, t_state := TDisconnected, t_ws := None\<rparr>"
  have "transport_ok (upd_conn i (\<lambda>c. c\<lparr>c_timer := False\<rparr>) s)" using s by (rule ok_upd_conn) simp
  then have u: "transport_ok ?u" by (rule ok_states)
  have "transport_ok (emit_t (upd_conn i (\<lambda>c. c\<lparr>c_settled := True\<rparr>) ?u) (TReject i e))" if "\<not> c_settled (t_conns s ! i)" for e
    using u i that by (intro ok_reject) simp_all
  then show ?thesis using s u by (simp add: close_t_def Let_def)
qed

lemma transport_ok_trans: "transport_ok s \<Longrightarrow> transport_trans s e s' \<Longrightarrow> transport_ok s'"
  by (erule transport_transE, cases e)
    (auto simp: transport_step_def ok_connect ok_send ok_disconnect ok_open ok_message ok_close ok_timeout error_t_def
      split: if_splits, auto simp: transport_ok_def)

interpretation transport_run: inductive_invariant "transport_init url" transport_trans transport_ok
  by unfold_locales (simp add: transport_ok_def transport_init_def MAX_OUTBOUND_QUEUE_def, rule transport_ok_trans)

end
