(* ===== verification/Transport_Theorems.thy ===== *)
theory Transport_Theorems
  imports Ws_Transport
begin

text \<open>
  Properties of the WebSocket transport: its state in every reachable state, the order of the frames
  buffered while a connection opens, and the frame that one side sends arriving at the other.
\<close>

subsection \<open>A concrete transport\<close>

definition demo_transport :: transport where
  "demo_transport = connect_t False ((transport_init ''wss://r'')\<lparr>t_messageHandler := True\<rparr>)"

lemma demo_transport_fields [simp]:
  "t_state demo_transport = TConnecting" "length (t_conns demo_transport) = 1" "t_outbound demo_transport = []"
  "t_conns demo_transport ! 0 = \<lparr>c_settled = False, c_timer = True, c_onopen = True, c_onclose = True, c_onerror = True\<rparr>"
  "t_messageHandler demo_transport" "t_out demo_transport = [TNew 0 ''wss://r'']" "t_ws demo_transport = None"
  by (simp_all add: demo_transport_def connect_t_def transport_init_def Let_def)

lemma demo_transport_reach: "reach (transport_init ''wss://r'') transport_trans demo_transport"
proof -
  have "transport_trans (transport_init ''wss://r'') TOnMessage ((transport_init ''wss://r'')\<lparr>t_messageHandler := True\<rparr>)"
    "transport_trans ((transport_init ''wss://r'')\<lparr>t_messageHandler := True\<rparr>) (TConnect False) demo_transport"
    by (auto simp: transport_trans.simps transport_step_def demo_transport_def)
  then show ?thesis by (blast intro: reach.intros)
qed

subsection \<open>Reachable states\<close>

text \<open>C36. The transport is well formed in every reachable state, also with several sockets alive: at most
  64 frames are buffered, a connected transport has a socket to send on, and no promise of \<^verbatim>\<open>connect\<close> is
  settled twice, nor without its \<^verbatim>\<open>settled\<close> flag.\<close>

theorem transport_wellformed:
  assumes "reach (transport_init url) transport_trans s"
  shows "length (t_outbound s) \<le> 64 \<and> (t_state s = TConnected \<longrightarrow> t_ws s \<noteq> None) \<and> distinct (settlements (t_out s)) \<and>
    set (settlements (t_out s)) \<subseteq> {i. i < length (t_conns s) \<and> c_settled (t_conns s ! i)}"
  using transport_run.inv_reach [OF assms] by (auto simp: transport_ok_def MAX_OUTBOUND_QUEUE_def)

theorem transport_wellformed_witness:
  "\<exists>s. reach (transport_init ''wss://r'') transport_trans s \<and> settlements (t_out s) = [0] \<and> t_state s = TConnected \<and> t_ws s \<noteq> None"
proof -
  let ?s = "open_t 0 demo_transport"
  have "transport_trans demo_transport (TSockOpen 0) ?s" by (simp add: transport_trans.simps transport_step_def)
  then have r: "reach (transport_init ''wss://r'') transport_trans ?s" using demo_transport_reach by (blast intro: reach_step)
  have "settlements (t_out ?s) = [0]" "t_state ?s = TConnected" by (simp_all add: open_t_def flushOutbound_t_def Let_def)
  then show ?thesis using r transport_wellformed [OF r] by blast
qed

subsection \<open>Order\<close>

text \<open>What was sent on a socket.\<close>

definition sent_on :: "nat \<Rightarrow> teff list \<Rightarrow> string list" where
  "sent_on i es = concat (map (\<lambda>e. case e of TWire j z \<Rightarrow> if j = i then [z] else [] | _ \<Rightarrow> []) es)"

lemma sent_on_simps [simp]:
  "sent_on i [] = []" "sent_on i (es @ fs) = sent_on i es @ sent_on i fs"
  "sent_on i (e # es) = (case e of TWire j z \<Rightarrow> if j = i then [z] else [] | _ \<Rightarrow> []) @ sent_on i es"
  "sent_on i (map (\<lambda>m. TWire i (frame_text m)) ms) = map frame_text ms"
  by (simp_all add: sent_on_def) (induction ms, simp_all)

definition take_last :: "nat \<Rightarrow> 'a list \<Rightarrow> 'a list" where
  "take_last n xs = drop (length xs - n) xs"

lemma take_last_snoc:
  "0 < n \<Longrightarrow> take_last n (xs @ [x]) = (if n \<le> length (take_last n xs) then tl (take_last n xs) else take_last n xs) @ [x]"
  by (auto simp: take_last_def Suc_diff_le tl_drop drop_Suc)

lemma send_queues:
  assumes "t_state s \<noteq> TConnected"
  shows "send_t m s = s\<lparr>t_outbound := (if MAX_OUTBOUND_QUEUE \<le> length (t_outbound s) then tl (t_outbound s) else t_outbound s) @ [m]\<rparr>"
  using assms by (simp add: send_t_def split: option.split)

lemma sends_queue:
  assumes "t_state s \<noteq> TConnected" and "t_outbound s = take_last 64 q"
  shows "fold send_t ms s = s\<lparr>t_outbound := take_last 64 (q @ ms)\<rparr>"
  using assms
proof (induction ms arbitrary: s q)
  case (Cons m ms)
  let ?s = "s\<lparr>t_outbound := take_last 64 (q @ [m])\<rparr>"
  have "send_t m s = ?s" using send_queues [OF Cons(2)] Cons(3) take_last_snoc [of 64 q m] by (simp add: MAX_OUTBOUND_QUEUE_def)
  then show ?case using Cons(1) [of ?s "q @ [m]"] Cons(2) by simp
qed simp

lemma sends_direct:
  assumes "t_state s = TConnected" and "t_ws s = Some i"
  shows "fold send_t ms s = wires i ms s"
  using assms by (induction ms arbitrary: s) (simp_all add: send_t_def wires_def)

text \<open>C35. Frames leave in the order in which they were sent: what is sent while a connection opens is
  buffered; when the socket opens, the last 64 of the buffered frames go out on it, in order and each
  once, before everything that is sent afterwards, and the buffer is empty.\<close>

theorem transport_queue_fifo:
  assumes "t_state s \<noteq> TConnected" and "i < length (t_conns s)" and "c_onopen (t_conns s ! i)" and "\<not> c_settled (t_conns s ! i)"
    and "length (t_outbound s) \<le> 64"
  shows "\<exists>u. transport_step (TSockOpen i) (fold send_t before s) = Some u \<and> t_outbound u = [] \<and>
    sent_on i (drop (length (t_out s)) (t_out (fold send_t later u))) =
      map frame_text (take_last 64 (t_outbound s @ before) @ later)"
proof -
  let ?q = "take_last 64 (t_outbound s @ before)" let ?s = "s\<lparr>t_outbound := ?q\<rparr>"
  have f: "fold send_t before s = ?s" using sends_queue [OF assms(1), of "t_outbound s" before] assms(5) by (simp add: take_last_def)
  let ?u = "open_t i ?s"
  have u: "t_outbound ?u = []" "t_state ?u = TConnected" "t_ws ?u = Some i"
    "\<exists>r. t_out ?u = t_out s @ map (\<lambda>m. TWire i (frame_text m)) ?q @ r \<and> sent_on i r = []"
    using assms(4) by (auto simp: open_t_def Let_def flushOutbound_t_def)
  then have "fold send_t later ?u = wires i later ?u" by (simp add: sends_direct)
  moreover have "transport_step (TSockOpen i) (fold send_t before s) = Some ?u" using f assms(2,3) by (simp add: transport_step_def)
  ultimately show ?thesis using u by (intro exI [of _ ?u]) auto
qed

definition demo_ping :: wmsg where "demo_ping = peer_msg ''ping'' ''c'' 0 ''p'' []"

theorem transport_queue_fifo_witness:
  "\<exists>u. transport_step (TSockOpen 0) (fold send_t [demo_ping, demo_ping] demo_transport) = Some u \<and>
     sent_on 0 (drop 1 (t_out (fold send_t [demo_ping] u))) = map frame_text [demo_ping, demo_ping, demo_ping]"
  using transport_queue_fifo [of demo_transport 0 "[demo_ping, demo_ping]" "[demo_ping]"] by (auto simp: take_last_def)

subsection \<open>From one side to the other\<close>

text \<open>A frame that one transport sends is delivered by the other as it was: the text written to the socket
  passes the size limit, the parser and the structural check, and the session gets the message
  with the same version, type, channel, sender and body.\<close>

theorem transport_frame_delivered:
  assumes "t_state a = TConnected" and "t_ws a = Some j" and "json_ok (wmsg_json m)" and "is_object (m_body m)"
    and "js_length (frame_text m) \<le> MAX_INBOUND_BYTES" and "t_messageHandler b" and "i < length (t_conns b)"
  shows "send_t m a = emit_t a (TWire j (frame_text m)) \<and>
    transport_step (TSockMessage i (Some (frame_text m))) b = Some (emit_t b (TDelivered m))"
proof -
  have "JSON_parse (frame_text m) = Some (wmsg_json m)" using JSON_parse_stringify [OF assms(3)] by (simp add: frame_text_def)
  moreover have "wire_message (wmsg_json m) = Some m" using assms(4) by (simp add: wire_message_def wmsg_json_def)
  ultimately show ?thesis using assms by (simp add: send_t_def wires_def transport_step_def message_t_def)
qed

theorem transport_frame_delivered_witness:
  "transport_step (TSockMessage 0 (Some (frame_text demo_ping))) demo_transport = Some (emit_t demo_transport (TDelivered demo_ping))"
proof -
  have t: "frame_text demo_ping = ''{\"v\":1,\"t\":\"ping\",\"ch\":\"c\",\"ts\":0,\"from\":\"p\",\"body\":{}}''" by code_simp
  have "js_length (frame_text demo_ping) \<le> MAX_INBOUND_BYTES" unfolding t by (simp add: utf16_width_def MAX_INBOUND_BYTES_def)
  moreover have "json_ok (wmsg_json demo_ping)" by (simp add: demo_ping_def peer_msg_def wmsg_json_def)
  moreover have "is_object (m_body demo_ping)" by (simp add: demo_ping_def peer_msg_def)
  ultimately show ?thesis
    using transport_frame_delivered [of "demo_transport\<lparr>t_state := TConnected, t_ws := Some 0\<rparr>" 0 demo_ping demo_transport 0] by simp
qed

subsection \<open>Overlapping connections\<close>

text \<open>When a socket that was replaced by a newer one closes, the newer connection is dropped from the state
  although nothing happened to it.\<close>

lemma stale_socket_close:
  assumes "t_state s = TConnected" and "t_ws s = Some j" and "i \<noteq> j" and "t_closeHandler s"
  shows "t_state (close_t i code reason s) = TDisconnected" "t_ws (close_t i code reason s) = None"
    "\<exists>v w e. t_out (close_t i code reason s) = t_out s @ [TClosed v w e]"
  using assms by (auto simp: close_t_def Let_def)

end
