(* ===== verification/Dapp_Session.thy ===== *)
theory Dapp_Session
  imports Session_Base
begin

text \<open>
  \<^verbatim>\<open>walletpair-sdk/src/dapp-session.ts\<close>: the dApp's session object, one function per method (suffix
  \<open>_d\<close>), in the manner of the theory \<open>Wallet_Session\<close>.  A promise returned to the application has a
  number; settling it is an effect.  The timeout of a request is a timer of its own, named by the
  promise it rejects, since an entry of \<^verbatim>\<open>pendingRequests\<close> can be overwritten while its timer runs.
\<close>

subsection \<open>State\<close>

definition PENDING_ACCEPT_TIMEOUT :: int where "PENDING_ACCEPT_TIMEOUT = 60000"

datatype dphase = DIdle | DWaiting | DPending_accept | DConnected | DDisconnected | DClosed

definition dphase_string :: "dphase \<Rightarrow> string" where
  "dphase_string p = (case p of DIdle \<Rightarrow> ''idle'' | DWaiting \<Rightarrow> ''waiting'' | DPending_accept \<Rightarrow> ''pending_accept''
     | DConnected \<Rightarrow> ''connected'' | DDisconnected \<Rightarrow> ''disconnected'' | DClosed \<Rightarrow> ''closed'')"

text \<open>\<^verbatim>\<open>resolve\<close> and \<^verbatim>\<open>reject\<close> of an entry are the number of its promise, which is also its timer.\<close>

record pending_request =
  q_method :: string
  q_params :: jsval
  q_promise :: nat

record request_timer =
  rt_id :: string
  rt_method :: string
  rt_due :: int

datatype dcont =
    DKConnect jsval                      \<comment> \<open>\<^verbatim>\<open>transport.connect()\<close> of \<^verbatim>\<open>connectTransport\<close>; what the promise gives\<close>
  | DKReconnect                          \<comment> \<open>\<^verbatim>\<open>transport.connect()\<close> of \<^verbatim>\<open>doReconnectAttempt\<close>\<close>
  | DKRequest int string string jsval nat  \<comment> \<open>save before the request; seq, id, method, params, promise\<close>
  | DKResend int string string jsval     \<comment> \<open>save before a re-send\<close>
  | DKAccept string                      \<comment> \<open>save before the accept frame; target\<close>
  | DKResponse string nat jsval int      \<comment> \<open>save before the response is handed on; previous recvSeq\<close>
  | DKEvent jsval int                    \<comment> \<open>save before the event is handed on; previous recvSeq\<close>
  | DKSaved
  | DKCleared

datatype deff =
    DSend wmsg
  | DSeal int
  | DPhase dphase
  | DError exn
  | DPairingUri string
  | DFingerprint string
  | DWalletJoined jsval jsval
  | DResponse string bool jsval
  | DEvent jsval jsval
  | DExhausted nat
  | DSave string
  | DClear
  | DConnect
  | DDisconnect
  | DSetUrl string
  | DLog dlog_entry
  | DRemoveAll
  | DResolved nat jsval
  | DRejected nat exn jsval            \<comment> \<open>with the \<^verbatim>\<open>code\<close> set on the error\<close>

record dconfig =
  h_noble :: noble
  h_meta :: jsval
  h_methods :: "string list option"
  h_chains :: "string list option"
  h_url :: string
  h_requestTimeout :: int
  h_autoAccept :: bool
  h_resendOnReconnect :: bool
  h_sessionTtl :: int
  h_heartbeatInterval :: int
  h_maxReconnectAttempts :: int
  h_maxReconnectDurationMs :: int
  h_persist :: pmode
  h_hasClear :: bool
  h_hasSetUrl :: bool

record dsession =
  d_phase :: dphase
  d_channelId :: string
  d_pairingUri :: string
  d_sessionFingerprint :: string
  d_walletCapabilities :: jsval
  d_walletMeta :: jsval
  d_approvedCapabilities :: jsval
  d_approvedWalletMeta :: jsval
  d_approvedWalletPubKeyB64 :: jsval
  d_approvedScopeRecorded :: bool
  d_url :: string                      \<comment> \<open>\<^verbatim>\<open>transport.url\<close>\<close>
  d_meta :: jsval
  d_heartbeatTimer :: bool
  d_livenessTimer :: bool
  d_reconnecting :: bool
  d_ttlTimer :: "int option"
  d_sessionStartTime :: "int option"
  d_privKey :: "bytes option"
  d_pubKeyB64 :: string
  d_remotePubKey :: "bytes option"
  d_sessionKey :: "bytes option"
  d_sendKey :: "bytes option"
  d_recvKey :: "bytes option"
  d_sendSeq :: int
  d_recvSeq :: int
  d_paired :: bool
  d_intentionalClose :: bool
  d_reqCounter :: nat
  d_pending :: "(string, pending_request) jsmap"
  d_requestTimers :: "(nat, request_timer) jsmap"
  d_pendingAcceptTimer :: "int option"
  d_staleAcceptTimers :: "int list"    \<comment> \<open>armed timers whose handle was overwritten\<close>
  d_reconnectTimer :: "int option"
  d_reconnectAttempt :: nat
  d_reconnectStartedAt :: int
  d_konts :: "(nat \<times> dcont) list"
  d_nextK :: nat
  d_out :: "deff list"

definition dapp_init :: "dconfig \<Rightarrow> dsession" where
  "dapp_init h = \<lparr> d_phase = DIdle, d_channelId = [], d_pairingUri = [], d_sessionFingerprint = [],
     d_walletCapabilities = JUndef, d_walletMeta = JUndef, d_approvedCapabilities = JUndef, d_approvedWalletMeta = JUndef,
     d_approvedWalletPubKeyB64 = JUndef, d_approvedScopeRecorded = False, d_url = h_url h, d_meta = h_meta h,
     d_heartbeatTimer = False, d_livenessTimer = False, d_reconnecting = False, d_ttlTimer = None,
     d_sessionStartTime = None, d_privKey = None, d_pubKeyB64 = [], d_remotePubKey = None, d_sessionKey = None,
     d_sendKey = None, d_recvKey = None, d_sendSeq = 0, d_recvSeq = - 1, d_paired = False, d_intentionalClose = False,
     d_reqCounter = 0, d_pending = [], d_requestTimers = [], d_pendingAcceptTimer = None, d_staleAcceptTimers = [], d_reconnectTimer = None,
     d_reconnectAttempt = 0, d_reconnectStartedAt = 0, d_konts = [], d_nextK = 0, d_out = [] \<rparr>"

type_synonym 'a dcomp = "(dsession, 'a) comp"

subsection \<open>Effects, timers, phase\<close>

definition emit_d :: "dsession \<Rightarrow> deff \<Rightarrow> dsession" where
  "emit_d s e = s\<lparr>d_out := d_out s @ [e]\<rparr>"

definition add_kont_d :: "dsession \<Rightarrow> dcont \<Rightarrow> dsession" where
  "add_kont_d s k = s\<lparr>d_konts := d_konts s @ [(d_nextK s, k)], d_nextK := Suc (d_nextK s)\<rparr>"

definition clearLiveness_d :: "dsession \<Rightarrow> dsession" where
  "clearLiveness_d s = s\<lparr>d_livenessTimer := False\<rparr>"

definition stopHeartbeat_d :: "dsession \<Rightarrow> dsession" where
  "stopHeartbeat_d s = clearLiveness_d (s\<lparr>d_heartbeatTimer := False\<rparr>)"

definition startHeartbeat_d :: "dconfig \<Rightarrow> dsession \<Rightarrow> dsession" where
  "startHeartbeat_d h s =
     (let s = stopHeartbeat_d s in if h_heartbeatInterval h \<le> 0 then s else s\<lparr>d_heartbeatTimer := True\<rparr>)"

definition setPhase_d :: "dphase \<Rightarrow> dsession \<Rightarrow> dsession" where
  "setPhase_d p s =
     (if d_phase s = p then s
      else
        (let s = s\<lparr>d_phase := p\<rparr>;
             s = (if p \<noteq> DConnected then stopHeartbeat_d s else s)
         in emit_d s (DPhase p)))"

definition stopReconnect_d :: "dsession \<Rightarrow> dsession" where
  "stopReconnect_d s = s\<lparr>d_reconnectTimer := None\<rparr>"

definition clearPendingAcceptTimer_d :: "dsession \<Rightarrow> dsession" where
  "clearPendingAcceptTimer_d s = s\<lparr>d_pendingAcceptTimer := None\<rparr>"

definition clearSessionTtl_d :: "dsession \<Rightarrow> dsession" where
  "clearSessionTtl_d s = s\<lparr>d_ttlTimer := None\<rparr>"

definition startSessionTtl_d :: "dconfig \<Rightarrow> env \<Rightarrow> dsession \<Rightarrow> dsession" where
  "startSessionTtl_d h E s =
     (let s = clearSessionTtl_d s;
          start = (case d_sessionStartTime s of None \<Rightarrow> e_now E | Some t \<Rightarrow> t);
          elapsed = e_now E - start;
          remaining = max 0 (h_sessionTtl h - elapsed)
      in s\<lparr>d_sessionStartTime := Some start, d_ttlTimer := Some (e_now E + remaining)\<rparr>)"

definition log_d :: "env \<Rightarrow> string \<Rightarrow> jsval \<Rightarrow> jsval \<Rightarrow> bool \<Rightarrow> dsession \<Rightarrow> dsession" where
  "log_d E kind code reason will s = emit_d s (DLog \<lparr>l_ts = e_now E, l_side = Dapp, l_kind = kind,
     l_code = code, l_reason = reason, l_phase = dphase_string (d_phase s), l_willReconnect = will,
     l_channelId = d_channelId s\<rparr>)"

definition sendRaw_d :: "wmsg \<Rightarrow> dsession \<Rightarrow> dsession" where
  "sendRaw_d msg s =
     (if wire_too_large msg then emit_d s (DError (Error ''Message exceeds 64 KB limit''))
      else emit_d s (DSend msg))"

definition send_d :: "env \<Rightarrow> string \<Rightarrow> (string \<times> jsval) list \<Rightarrow> dsession \<Rightarrow> dsession" where
  "send_d E t body s = sendRaw_d (peer_msg t (d_channelId s) (e_now E) (d_pubKeyB64 s) body) s"

text \<open>\<^verbatim>\<open>rejectAllPending\<close>: each entry's timer is cleared and its promise rejected, in order.\<close>

fun reject_entries_d :: "exn \<Rightarrow> (string, pending_request) jsmap \<Rightarrow> dsession \<Rightarrow> dsession" where
  "reject_entries_d e [] s = s"
| "reject_entries_d e ((i, req) # m) s =
     reject_entries_d e m (emit_d (s\<lparr>d_requestTimers := js_delete (d_requestTimers s) (q_promise req)\<rparr>)
       (DRejected (q_promise req) e JUndef))"

definition rejectAllPending_d :: "exn \<Rightarrow> dsession \<Rightarrow> dsession" where
  "rejectAllPending_d e s = (reject_entries_d e (d_pending s) s)\<lparr>d_pending := []\<rparr>"

subsection \<open>Persistence\<close>

definition snapshot_d :: "dconfig \<Rightarrow> bytes \<Rightarrow> dsession \<Rightarrow> jsval" where
  "snapshot_d h priv s = JObj
     [(''channelId'', JStr (d_channelId s)),
      (''privKey'', JStr (n_bytesToHex (h_noble h) priv)),
      (''pubKeyB64'', JStr (d_pubKeyB64 s)),
      (''remotePubKeyB64'', case d_remotePubKey s of None \<Rightarrow> JNull | Some r \<Rightarrow> JStr (b64urlEncode r)),
      (''sendKey'', hex_or_null (h_noble h) (d_sendKey s)),
      (''recvKey'', hex_or_null (h_noble h) (d_recvKey s)),
      (''sendSeq'', JNum (of_int (d_sendSeq s))),
      (''recvSeq'', JNum (of_int (d_recvSeq s))),
      (''reqCounter'', JNum (of_nat (d_reqCounter s))),
      (''paired'', JBool (d_paired s)),
      (''dappMeta'', d_meta s),
      (''approvedScopeRecorded'', JBool (d_approvedScopeRecorded s)),
      (''approvedCapabilities'', coalesce (d_approvedCapabilities s) JNull),
      (''approvedWalletMeta'', coalesce (d_approvedWalletMeta s) JNull),
      (''approvedWalletPubKeyB64'', coalesce (d_approvedWalletPubKeyB64 s) JNull),
      (''sessionStartTime'', case d_sessionStartTime s of None \<Rightarrow> JNull | Some t \<Rightarrow> JNum (of_int t))]"

definition serialize_d :: "dconfig \<Rightarrow> dsession \<Rightarrow> string res" where
  "serialize_d h s = (case d_privKey s of
     None \<Rightarrow> Inl TypeError
   | Some priv \<Rightarrow>
       (let json = JSON_stringify (snapshot_d h priv s)
        in Inr (case d_sendKey s of Some k \<Rightarrow> signSnapshot (h_noble h) k json | None \<Rightarrow> json)))"

definition persistSnapshot_d :: "dconfig \<Rightarrow> dsession \<Rightarrow> bool dcomp" where
  "persistSnapshot_d h s =
     (if h_persist h = PNone then (s, Inr False)
      else (case serialize_d h s of
          Inl e \<Rightarrow> (s, Inl e)
        | Inr saved \<Rightarrow> (emit_d s (DSave saved), Inr (h_persist h = PAsync))))"

definition clearPersistence_d :: "dconfig \<Rightarrow> dsession \<Rightarrow> dsession" where
  "clearPersistence_d h s =
     (if h_persist h = PNone \<or> \<not> h_hasClear h then s
      else
        (let s = emit_d s DClear in if h_persist h = PAsync then add_kont_d s DKCleared else s))"

definition persistSnapshotAsync_d :: "dconfig \<Rightarrow> dsession \<Rightarrow> unit dcomp" where
  "persistSnapshotAsync_d h s =
     andThen (persistSnapshot_d h s) (\<lambda>s promise. (if promise then add_kont_d s DKSaved else s, Inr ()))"

subsection \<open>Close\<close>

definition close_d :: "dconfig \<Rightarrow> env \<Rightarrow> string \<Rightarrow> dsession \<Rightarrow> dsession" where
  "close_d h E reason s =
     (let s = log_d E ''session_close'' JUndef (JStr reason) False s;
          s = s\<lparr>d_intentionalClose := True\<rparr>;
          s = stopReconnect_d (clearSessionTtl_d (clearPendingAcceptTimer_d s));
          s = rejectAllPending_d (Error ''Session closed'') s;
          s = (if d_channelId s \<noteq> [] then send_d E ''close'' [(''reason'', JStr reason)] s else s);
          s = clearPersistence_d h s;
          s = emit_d s DDisconnect
      in setPhase_d DClosed s)"

definition destroy_d :: "dconfig \<Rightarrow> env \<Rightarrow> dsession \<Rightarrow> dsession" where
  "destroy_d h E s =
     (let s = emit_d (close_d h E ''normal'' s) DRemoveAll
      in s\<lparr>d_privKey := map_option (map (\<lambda>_. 0)) (d_privKey s), d_sessionKey := None, d_sendKey := None, d_recvKey := None\<rparr>)"

definition persistenceError_d :: "dconfig \<Rightarrow> env \<Rightarrow> exn \<Rightarrow> dsession \<Rightarrow> dsession \<times> exn" where
  "persistenceError_d h E e s =
     (let wrapped = Error (''Session persistence failed: '' @ exn_message e)
      in (close_d h E ''protocol_error'' (emit_d s (DError wrapped)), wrapped))"

subsection \<open>Sequence numbers and requests\<close>

text \<open>The number and whether it waits for a promise of \<^verbatim>\<open>save\<close>.\<close>

definition nextSendSeq_d :: "dconfig \<Rightarrow> env \<Rightarrow> dsession \<Rightarrow> (int \<times> bool) dcomp" where
  "nextSendSeq_d h E s =
     (if MAX_SEND_SEQ \<le> d_sendSeq s then
        (close_d h E ''normal'' (emit_d s (DError (Error SEQ_LIMIT_MESSAGE))), Inl (Error SEQ_LIMIT_MESSAGE))
      else
        (let seq = d_sendSeq s; s = s\<lparr>d_sendSeq := seq + 1\<rparr>
         in andThen (persistSnapshot_d h s) (\<lambda>s promise. (s, Inr (seq, promise)))))"

definition buildSealedParams :: "string \<Rightarrow> jsval \<Rightarrow> jsval" where
  "buildSealedParams method params =
     JObj (spread [(''_method'', JStr method)]
       (case params of JObj ps \<Rightarrow> ps | _ \<Rightarrow> [(''_params'', coalesce params (JObj []))]))"

definition buildRequestMessage_d :: "dconfig \<Rightarrow> env \<Rightarrow> string \<Rightarrow> string \<Rightarrow> jsval \<Rightarrow> int \<Rightarrow> dsession \<Rightarrow> wmsg dcomp" where
  "buildRequestMessage_d h E i method params seq s = (case d_sendKey s of
     None \<Rightarrow> (s, Inl (Error ''Not connected''))
   | Some key \<Rightarrow>
       (case sealPayload (h_noble h) key (d_channelId s) seq (buildSealedParams method params)
               (Some \<lparr>h_type = AReq, h_from = d_pubKeyB64 s, h_id = i\<rparr>) of
          Inl e \<Rightarrow> (s, Inl e)
        | Inr sealed \<Rightarrow>
            (emit_d s (DSeal seq),
             Inr (peer_msg ''req'' (d_channelId s) (e_now E) (d_pubKeyB64 s) [(''id'', JStr i), (''sealed'', JStr sealed)]))))"

text \<open>The closure \<^verbatim>\<open>send\<close> of \<^verbatim>\<open>request\<close>.\<close>

definition transmit_request_d :: "dconfig \<Rightarrow> env \<Rightarrow> int \<Rightarrow> string \<Rightarrow> string \<Rightarrow> jsval \<Rightarrow> nat \<Rightarrow> dsession \<Rightarrow> unit dcomp" where
  "transmit_request_d h E seq i method params p s =
     andThen (buildRequestMessage_d h E i method params seq s) (\<lambda>s msg.
       let s = s\<lparr>d_requestTimers := js_set (d_requestTimers s) p
                   \<lparr>rt_id = i, rt_method = method, rt_due = e_now E + h_requestTimeout h\<rparr>,
                 d_pending := js_set (d_pending s) i \<lparr>q_method = method, q_params = params, q_promise = p\<rparr>\<rparr>
       in (sendRaw_d msg s, Inr ()))"

text \<open>\<^verbatim>\<open>catch (error) { return Promise.reject(error) }\<close>\<close>

definition or_reject_d :: "nat \<Rightarrow> unit dcomp \<Rightarrow> dsession" where
  "or_reject_d p c = (case snd c of Inl e \<Rightarrow> emit_d (fst c) (DRejected p e JUndef) | Inr _ \<Rightarrow> fst c)"

definition request_d :: "dconfig \<Rightarrow> env \<Rightarrow> string \<Rightarrow> jsval \<Rightarrow> dsession \<Rightarrow> dsession" where
  "request_d h E method params s =
     (let p = d_nextK s; s = s\<lparr>d_nextK := Suc p\<rparr> in
      if d_phase s \<noteq> DConnected \<or> d_sendKey s = None then emit_d s (DRejected p (Error ''Not connected'') JUndef)
      else if MAX_PENDING_REQUESTS \<le> js_size (d_pending s) then
        emit_d s (DRejected p (Error ''Too many pending requests'') JUndef)
      else
        (let s = s\<lparr>d_reqCounter := Suc (d_reqCounter s)\<rparr>;
             i = ''req-'' @ dec_digits (d_reqCounter s)
         in or_reject_d p (andThen (nextSendSeq_d h E s) (\<lambda>s (seq, promise).
              if promise then (add_kont_d s (DKRequest seq i method params p), Inr ())
              else transmit_request_d h E seq i method params p s))))"

definition requestTimeout_fires_d :: "nat \<Rightarrow> request_timer \<Rightarrow> dsession \<Rightarrow> dsession" where
  "requestTimeout_fires_d p t s =
     emit_d (s\<lparr>d_requestTimers := js_delete (d_requestTimers s) p, d_pending := js_delete (d_pending s) (rt_id t)\<rparr>)
       (DRejected p (Error (''Request '' @ rt_method t @ '' timed out'')) JUndef)"

definition transmit_resend_d :: "dconfig \<Rightarrow> env \<Rightarrow> int \<Rightarrow> string \<Rightarrow> string \<Rightarrow> jsval \<Rightarrow> dsession \<Rightarrow> unit dcomp" where
  "transmit_resend_d h E seq i method params s =
     andThen (buildRequestMessage_d h E i method params seq s) (\<lambda>s msg. (sendRaw_d msg s, Inr ()))"

text \<open>The loop of \<^verbatim>\<open>resendPending\<close>; nothing in its body changes the map unless it throws.\<close>

fun resend_entries_d :: "dconfig \<Rightarrow> env \<Rightarrow> (string, pending_request) jsmap \<Rightarrow> dsession \<Rightarrow> unit dcomp" where
  "resend_entries_d h E [] s = (s, Inr ())"
| "resend_entries_d h E ((i, req) # m) s =
     andThen (nextSendSeq_d h E s) (\<lambda>s (seq, promise).
       andThen (if promise then (add_kont_d s (DKResend seq i (q_method req) (q_params req)), Inr ())
                else transmit_resend_d h E seq i (q_method req) (q_params req) s)
         (\<lambda>s _. resend_entries_d h E m s))"

definition resendPending_d :: "dconfig \<Rightarrow> env \<Rightarrow> dsession \<Rightarrow> unit dcomp" where
  "resendPending_d h E s =
     (if d_phase s \<noteq> DConnected \<or> d_sendKey s = None \<or> js_size (d_pending s) = 0 then (s, Inr ())
      else resend_entries_d h E (d_pending s) s)"

definition ping_d :: "env \<Rightarrow> dsession \<Rightarrow> dsession" where
  "ping_d E s = (if d_phase s \<noteq> DConnected then s else send_d E ''ping'' [] s)"

end
