(* ===== verification/Dapp_Handlers.thy ===== *)
theory Dapp_Handlers
  imports Dapp_Session
begin

text \<open>
  \<^verbatim>\<open>walletpair-sdk/src/dapp-session.ts\<close>, continued: pairing, the wallet's join, responses and events,
  reconnecting, timers, continuations, and the transition relation of the whole object.
\<close>

subsection \<open>Pairing\<close>

text \<open>\<^verbatim>\<open>String(v)\<close>\<close>

fun js_string :: "jsval \<Rightarrow> string" where
  "js_string JUndef = ''undefined''"
| "js_string JNull = ''null''"
| "js_string (JBool b) = (if b then ''true'' else ''false'')"
| "js_string (JNum q) = num_to_string q"
| "js_string (JStr s) = s"
| "js_string (JArr vs) = js_join '','' (map (\<lambda>v. if nullish v then [] else js_string v) vs)"
| "js_string (JObj ps) = ''[object Object]''"

definition setTransportChannelHint_d :: "dconfig \<Rightarrow> dsession \<Rightarrow> dsession" where
  "setTransportChannelHint_d h s =
     (if h_hasSetUrl h \<and> d_url s \<noteq> [] \<and> \<not> js_includes (d_url s) ''?ch='' then
        (let url = channel_hint (d_url s) (d_channelId s) in emit_d (s\<lparr>d_url := url\<rparr>) (DSetUrl url))
      else s)"

text \<open>Up to the \<^verbatim>\<open>await\<close>; \<open>result\<close> is what the promise of the caller resolves to.\<close>

definition connectTransport_d :: "dconfig \<Rightarrow> jsval \<Rightarrow> dsession \<Rightarrow> dsession" where
  "connectTransport_d h result s =
     add_kont_d (emit_d (setTransportChannelHint_d h s) DConnect) (DKConnect result)"

definition sendCreate_d :: "env \<Rightarrow> dsession \<Rightarrow> dsession" where
  "sendCreate_d E s = send_d E ''create'' [(''meta'', d_meta s)] s"

definition pairing_of_d :: "dconfig \<Rightarrow> dsession \<Rightarrow> pairing_params" where
  "pairing_of_d h s = \<lparr>pp_ch = d_channelId s, pp_pubkey = d_pubKeyB64 s, pp_relay = d_url s,
     pp_name = js_string (jget (d_meta s) ''name''), pp_url = js_string (jget (d_meta s) ''url''),
     pp_icon = js_string (jget (d_meta s) ''icon''), pp_methods = h_methods h, pp_chains = h_chains h\<rparr>"

definition resetPairing_d :: "dconfig \<Rightarrow> env \<Rightarrow> dsession \<Rightarrow> dsession" where
  "resetPairing_d h E s =
     (let kp = generateX25519KeyPair (h_noble h) (e_priv E);
          s = s\<lparr>d_intentionalClose := False, d_privKey := Some (kp_privateKey kp), d_pubKeyB64 := kp_publicKeyB64 kp,
                d_channelId := generateChannelId (h_noble h) (e_rand E), d_sendSeq := 0, d_recvSeq := - 1,
                d_remotePubKey := None, d_sessionKey := None, d_sendKey := None, d_recvKey := None, d_sessionStartTime := None\<rparr>;
          s = clearSessionTtl_d s
      in s\<lparr>d_approvedCapabilities := JUndef, d_approvedWalletMeta := JUndef, d_approvedWalletPubKeyB64 := JUndef,
           d_approvedScopeRecorded := False, d_reqCounter := 0, d_paired := False\<rparr>)"

definition createPairing_d :: "dconfig \<Rightarrow> env \<Rightarrow> bool \<Rightarrow> dsession \<Rightarrow> string dcomp" where
  "createPairing_d h E deferTransport s =
     (let s = resetPairing_d h E s in
      if d_url s = [] then
        (s, Inl (Error ''DAppSession requires a relay-backed transport (e.g. WebSocketTransport) exposing a \"url\"''))
      else
        andThen (s, buildPairingUri (pairing_of_d h s)) (\<lambda>s uri. let s = s\<lparr>d_pairingUri := uri\<rparr> in
        andThen (s, computeSessionFingerprint (h_noble h) (d_channelId s) (d_pubKeyB64 s)) (\<lambda>s fingerprint.
          let s = s\<lparr>d_sessionFingerprint := fingerprint\<rparr>;
              s = emit_d (emit_d s (DPairingUri uri)) (DFingerprint fingerprint);
              s = (if \<not> deferTransport then connectTransport_d h (JStr uri) s else setPhase_d DWaiting s)
          in (s, Inr uri))))"

subsection \<open>Accepting a wallet\<close>

definition sendAccept_d :: "env \<Rightarrow> string \<Rightarrow> dsession \<Rightarrow> dsession" where
  "sendAccept_d E target s = send_d E ''accept'' [(''target'', JStr target)] s"

definition doAccept_d :: "dconfig \<Rightarrow> env \<Rightarrow> bytes \<Rightarrow> dsession \<Rightarrow> unit dcomp" where
  "doAccept_d h E remote s =
     (let target = b64urlEncode remote;
          s = s\<lparr>d_paired := True, d_approvedCapabilities := d_walletCapabilities s, d_approvedWalletMeta := d_walletMeta s,
                d_approvedWalletPubKeyB64 := JStr target, d_approvedScopeRecorded := True\<rparr>
      in andThen (persistSnapshot_d h s) (\<lambda>s promise.
           (if promise then add_kont_d s (DKAccept target) else sendAccept_d E target s, Inr ())))"

definition acceptWallet_d :: "dconfig \<Rightarrow> env \<Rightarrow> dsession \<Rightarrow> unit dcomp" where
  "acceptWallet_d h E s = (case d_remotePubKey s of
     None \<Rightarrow> (s, Inr ())
   | Some remote \<Rightarrow>
       if d_phase s \<noteq> DPending_accept then (s, Inr ())
       else doAccept_d h E remote (clearPendingAcceptTimer_d s))"

definition rejectWallet_d :: "dconfig \<Rightarrow> env \<Rightarrow> dsession \<Rightarrow> dsession" where
  "rejectWallet_d h E s =
     (if d_remotePubKey s = None then s
      else close_d h E ''normal'' (send_d E ''close'' [(''reason'', JStr ''user_rejected'')] s))"

definition validateCapabilities :: "jsval \<Rightarrow> bool" where
  "validateCapabilities cap \<longleftrightarrow> is_object cap \<and> is_array (jget cap ''methods'') \<and> is_array (jget cap ''events'') \<and>
     is_array (jget cap ''chains'')"

definition sessionContext_d :: "string \<Rightarrow> jsval \<Rightarrow> jsval \<Rightarrow> dsession \<Rightarrow> crypto_context" where
  "sessionContext_d walletPubKeyB64 capabilities walletMeta s = \<lparr>
     cc_dappPubKeyB64 = d_pubKeyB64 s,
     cc_walletPubKeyB64 = walletPubKeyB64,
     cc_capabilities = coalesce capabilities JNull,
     cc_walletMeta = coalesce walletMeta JNull,
     cc_dappName = jstr (jget (d_meta s) ''name'')\<rparr>"

definition isSameApprovedWallet_d :: "dconfig \<Rightarrow> string \<Rightarrow> jsval \<Rightarrow> jsval \<Rightarrow> dsession \<Rightarrow> bool" where
  "isSameApprovedWallet_d h walletPubKeyB64 capabilities walletMeta s \<longleftrightarrow>
     d_paired s \<and> d_approvedWalletPubKeyB64 s = JStr walletPubKeyB64 \<and> d_approvedScopeRecorded s \<and>
     canonicalJson (h_noble h) (d_approvedCapabilities s) = canonicalJson (h_noble h) (coalesce capabilities JNull) \<and>
     canonicalJson (h_noble h) (coalesce (d_approvedWalletMeta s) JNull) = canonicalJson (h_noble h) (coalesce walletMeta JNull)"

text \<open>The declared names that the wallet does not grant.\<close>

definition missing :: "string list option \<Rightarrow> jsval \<Rightarrow> string list" where
  "missing declared granted = (case declared of
     None \<Rightarrow> []
   | Some ns \<Rightarrow> filter (\<lambda>n. JStr n \<notin> set (jelems granted)) ns)"

text \<open>A join that is answered with a \<^verbatim>\<open>close\<close> frame and an error event.\<close>

definition refuseJoin_d :: "env \<Rightarrow> string \<Rightarrow> string \<Rightarrow> dsession \<Rightarrow> dsession" where
  "refuseJoin_d E reason message s =
     emit_d (send_d E ''close'' [(''reason'', JStr reason)] s) (DError (Error message))"

text \<open>From \<^verbatim>\<open>walletJoined\<close> on.  A timer armed for an earlier join is not cleared.\<close>

definition announceJoin_d :: "dconfig \<Rightarrow> env \<Rightarrow> bytes \<Rightarrow> bool \<Rightarrow> jsval \<Rightarrow> jsval \<Rightarrow> dsession \<Rightarrow> unit dcomp" where
  "announceJoin_d h E remote knownWallet capabilities meta s =
     (let s = setPhase_d DPending_accept (emit_d s (DWalletJoined capabilities meta))
      in if h_autoAccept h \<or> knownWallet then doAccept_d h E remote s
         else (s\<lparr>d_staleAcceptTimers := d_staleAcceptTimers s @ (case d_pendingAcceptTimer s of None \<Rightarrow> [] | Some t \<Rightarrow> [t]),
                 d_pendingAcceptTimer := Some (e_now E + PENDING_ACCEPT_TIMEOUT)\<rparr>, Inr ()))"

text \<open>From the validated capabilities on: keys, scope check.\<close>

definition establishJoin_d :: "dconfig \<Rightarrow> env \<Rightarrow> string \<Rightarrow> bytes \<Rightarrow> bytes \<Rightarrow> jsval \<Rightarrow> jsval \<Rightarrow> dsession \<Rightarrow> unit dcomp" where
  "establishJoin_d h E joinPubKey remote rootKey capabilities meta s =
     (let knownWallet = isSameApprovedWallet_d h joinPubKey capabilities meta s;
          s = s\<lparr>d_walletCapabilities := capabilities, d_walletMeta := meta\<rparr>
      in andThen (s, deriveDirectionalSessionKeys (h_noble h) rootKey (d_channelId s)
                       (sessionContext_d joinPubKey capabilities meta s)) (\<lambda>s keys.
         let s = s\<lparr>d_sendKey := Some (dk_dappToWalletKey keys), d_recvKey := Some (dk_walletToDappKey keys)\<rparr>;
             noMethods = missing (h_methods h) (jget capabilities ''methods'');
             noChains = missing (h_chains h) (jget capabilities ''chains'')
         in if truthy capabilities \<and> noMethods \<noteq> [] then
              (refuseJoin_d E ''unsupported_capability'' (''Wallet missing required methods: '' @ js_join '', '' noMethods) s, Inr ())
            else if truthy capabilities \<and> noChains \<noteq> [] then
              (refuseJoin_d E ''unsupported_capability'' (''Wallet missing required chains: '' @ js_join '', '' noChains) s, Inr ())
            else announceJoin_d h E remote knownWallet capabilities meta s))"

text \<open>What a sealed join decrypts to.\<close>

definition openJoin_d :: "dconfig \<Rightarrow> bytes \<Rightarrow> string \<Rightarrow> dsession \<Rightarrow> (jsval \<times> jsval) res" where
  "openJoin_d h rootKey sealed s =
     res_bind (deriveJoinEncryptionKey (h_noble h) rootKey (d_channelId s)) (\<lambda>joinKey.
     res_bind (unsealJoin (h_noble h) joinKey (d_channelId s) sealed) (\<lambda>decrypted.
       if nullish decrypted then Inl TypeError
       else Inr (jget decrypted ''capabilities'', jget decrypted ''meta'')))"

definition handleJoinKeys_d :: "dconfig \<Rightarrow> env \<Rightarrow> wmsg \<Rightarrow> bytes \<Rightarrow> bytes \<Rightarrow> dsession \<Rightarrow> unit dcomp" where
  "handleJoinKeys_d h E msg remote rootKey s =
     (let sealed = jget (m_body msg) ''sealed_join'';
          proceed = (\<lambda>capabilities meta.
            if \<not> nullish capabilities \<and> \<not> validateCapabilities capabilities then
              (refuseJoin_d E ''protocol_error'' ''Malformed wallet capabilities'' s, Inr ())
            else establishJoin_d h E (m_from msg) remote rootKey capabilities meta s)
      in if sealed = JNull \<and> d_paired s then proceed (d_approvedCapabilities s) (d_approvedWalletMeta s)
         else (case sealed of
             JStr sealed \<Rightarrow>
               if sealed = [] then (refuseJoin_d E ''protocol_error'' ''Initial wallet join missing sealed_join'' s, Inr ())
               else (case openJoin_d h rootKey sealed s of
                   Inl e \<Rightarrow> (refuseJoin_d E ''decryption_failed'' ''Failed to decrypt sealed_join'' s, Inr ())
                 | Inr (capabilities, meta) \<Rightarrow> proceed capabilities meta)
           | _ \<Rightarrow> (refuseJoin_d E ''protocol_error'' ''Initial wallet join missing sealed_join'' s, Inr ())))"

definition decodePubKey :: "string \<Rightarrow> bytes res" where
  "decodePubKey k = res_bind (b64urlDecode k) (\<lambda>bs.
     if length bs \<noteq> 32 then Inl (Error ''Invalid wallet public key length'') else Inr bs)"

definition handleJoin_d :: "dconfig \<Rightarrow> env \<Rightarrow> wmsg \<Rightarrow> dsession \<Rightarrow> unit dcomp" where
  "handleJoin_d h E msg s =
     (if m_from msg = [] then (emit_d s (DError (Error ''Malformed wallet join: missing from'')), Inr ())
      else (case decodePubKey (m_from msg) of
          Inl e \<Rightarrow> (refuseJoin_d E ''protocol_error'' ''Malformed wallet public key'' s, Inr ())
        | Inr remote \<Rightarrow>
            (let s = s\<lparr>d_remotePubKey := Some remote\<rparr> in (case d_privKey s of
               None \<Rightarrow> (s, Inl TypeError)
             | Some priv \<Rightarrow>
                 andThen (s, computeSharedSecret (h_noble h) priv remote) (\<lambda>s shared.
                 andThen (s, deriveSessionKey (h_noble h) shared (d_channelId s)) (\<lambda>s rootKey.
                   handleJoinKeys_d h E msg remote rootKey s))))))"

subsection \<open>Responses and events\<close>

text \<open>\<^verbatim>\<open>afterPersist\<close> of the response path.\<close>

definition deliverResponse_d :: "string \<Rightarrow> nat \<Rightarrow> jsval \<Rightarrow> dsession \<Rightarrow> unit dcomp" where
  "deliverResponse_d i p data s =
     (if nullish data then (s, Inl TypeError)
      else (case jget data ''_ok'' of
          JBool True \<Rightarrow>
            (emit_d (emit_d s (DResolved p (jget data ''_result''))) (DResponse i True (jget data ''_result'')), Inr ())
        | JBool False \<Rightarrow>
            (emit_d (emit_d s (DRejected p (Error (js_string (coalesce (jget data ''message'') (JStr ''Request rejected''))))
                 (jget data ''code'')))
               (DResponse i False (JObj [(''code'', jget data ''code''), (''message'', jget data ''message'')])), Inr ())
        | _ \<Rightarrow> (emit_d s (DRejected p (Error ''Response missing _ok field'') JUndef), Inr ())))"

definition openSealed_d :: "dconfig \<Rightarrow> bytes \<Rightarrow> aad_type \<Rightarrow> wmsg \<Rightarrow> jsval \<Rightarrow> jsval \<Rightarrow> dsession \<Rightarrow> unsealed res" where
  "openSealed_d h key t msg i sealed s = (case (i, sealed) of
     (JStr i, JStr z) \<Rightarrow> unsealPayload (h_noble h) key (d_channelId s) z (Some \<lparr>h_type = t, h_from = m_from msg, h_id = i\<rparr>)
   | _ \<Rightarrow> Inl TypeError)"

definition receiveResponse_d :: "dconfig \<Rightarrow> string \<Rightarrow> nat \<Rightarrow> unsealed \<Rightarrow> dsession \<Rightarrow> unit dcomp" where
  "receiveResponse_d h i p u s =
     (if u_seq u \<le> d_recvSeq s then (emit_d s (DRejected p (Error ''Replay detected'') JUndef), Inr ())
      else
        (let prev = d_recvSeq s; s = s\<lparr>d_recvSeq := u_seq u\<rparr>
         in andThen (persistSnapshot_d h s) (\<lambda>s promise.
              if promise then (add_kont_d s (DKResponse i p (u_data u) prev), Inr ())
              else deliverResponse_d i p (u_data u) s)))"

definition handleResponse_d :: "dconfig \<Rightarrow> wmsg \<Rightarrow> dsession \<Rightarrow> unit dcomp" where
  "handleResponse_d h msg s =
     (let rid = jget (m_body msg) ''id''; sealed = jget (m_body msg) ''sealed'' in
      if d_phase s \<noteq> DConnected then (s, Inr ())
      else if (case d_remotePubKey s of None \<Rightarrow> False | Some r \<Rightarrow> m_from msg \<noteq> b64urlEncode r) then (s, Inr ())
      else (case rid of
          JStr i \<Rightarrow> if i = [] then (s, Inr ()) else (case js_get (d_pending s) i of
              None \<Rightarrow> (s, Inr ())
            | Some req \<Rightarrow>
                (let p = q_promise req;
                     s = s\<lparr>d_pending := js_delete (d_pending s) i, d_requestTimers := js_delete (d_requestTimers s) p\<rparr>
                 in case d_recvKey s of
                     None \<Rightarrow> (emit_d s (DRejected p (Error ''Response must be encrypted'') JUndef), Inr ())
                   | Some key \<Rightarrow>
                       if \<not> truthy sealed then (emit_d s (DRejected p (Error ''Response must be encrypted'') JUndef), Inr ())
                       else tryCatch (andThen (s, openSealed_d h key ARes msg rid sealed s) (\<lambda>s u. receiveResponse_d h i p u s))
                              (\<lambda>s e. (emit_d s (DRejected p (Error ''Decryption failed'') JUndef), Inr ()))))
        | _ \<Rightarrow> (s, Inr ())))"

text \<open>\<^verbatim>\<open>afterPersist\<close> of the event path.\<close>

definition deliverEvent_d :: "jsval \<Rightarrow> dsession \<Rightarrow> dsession" where
  "deliverEvent_d data s =
     (let rest = js_delete (own_props data) ''_event'';
          eventData = (if length rest = 1 \<and> js_get rest ''_data'' \<noteq> None then jget (JObj rest) ''_data'' else JObj rest)
      in if jhas data ''_event'' \<and> truthy (jget data ''_event'') then emit_d s (DEvent (jget data ''_event'') eventData)
         else emit_d s (DError (Error ''Event payload missing _event'')))"

definition receiveEvent_d :: "dconfig \<Rightarrow> unsealed \<Rightarrow> dsession \<Rightarrow> unit dcomp" where
  "receiveEvent_d h u s =
     (if u_seq u \<le> d_recvSeq s then (s, Inr ())
      else
        (let prev = d_recvSeq s; s = s\<lparr>d_recvSeq := u_seq u\<rparr>
         in andThen (persistSnapshot_d h s) (\<lambda>s promise.
              (if promise then add_kont_d s (DKEvent (u_data u) prev) else deliverEvent_d (u_data u) s, Inr ()))))"

definition handleEvent_d :: "dconfig \<Rightarrow> wmsg \<Rightarrow> dsession \<Rightarrow> unit dcomp" where
  "handleEvent_d h msg s =
     (let i = jget (m_body msg) ''id''; sealed = jget (m_body msg) ''sealed'' in
      if d_phase s \<noteq> DConnected then (s, Inr ())
      else if (case d_remotePubKey s of None \<Rightarrow> False | Some r \<Rightarrow> m_from msg \<noteq> b64urlEncode r) then (s, Inr ())
      else (case d_recvKey s of
          None \<Rightarrow> (s, Inr ())
        | Some key \<Rightarrow>
            if \<not> truthy sealed \<or> \<not> truthy i then (s, Inr ())
            else tryCatch (andThen (s, openSealed_d h key AEvt msg i sealed s) (\<lambda>s u. receiveEvent_d h u s)) (\<lambda>s e. (s, Inr ()))))"

subsection \<open>Reconnecting\<close>

definition canReconnect_d :: "dsession \<Rightarrow> bool" where
  "canReconnect_d s \<longleftrightarrow> \<not> d_intentionalClose s \<and> d_phase s \<noteq> DClosed"

definition reconnectExhausted_d :: "dconfig \<Rightarrow> env \<Rightarrow> dsession \<Rightarrow> bool" where
  "reconnectExhausted_d h E s =
     (let attemptsCapped = (0 < h_maxReconnectAttempts h \<and> h_maxReconnectAttempts h \<le> int (d_reconnectAttempt s));
          durationCapped = (0 < h_maxReconnectDurationMs h \<and> 0 < d_reconnectStartedAt s \<and>
            h_maxReconnectDurationMs h \<le> e_now E - d_reconnectStartedAt s)
      in attemptsCapped \<or> durationCapped)"

definition giveUpReconnect_d :: "dconfig \<Rightarrow> env \<Rightarrow> dsession \<Rightarrow> dsession" where
  "giveUpReconnect_d h E s =
     (let s = (stopReconnect_d s)\<lparr>d_reconnecting := False\<rparr>;
          attempts = d_reconnectAttempt s;
          s = log_d E ''reconnect_failed'' JUndef (JStr ''reconnect_exhausted'') False s;
          s = rejectAllPending_d (Error ''Reconnect failed: exhausted reconnect attempts'') s;
          s = clearPersistence_d h s;
          s = s\<lparr>d_intentionalClose := True\<rparr>
      in setPhase_d DClosed (emit_d s (DExhausted attempts)))"

definition scheduleReconnect_d :: "dconfig \<Rightarrow> env \<Rightarrow> dsession \<Rightarrow> dsession" where
  "scheduleReconnect_d h E s =
     (if \<not> canReconnect_d s then s
      else
        (let s = (if d_reconnectStartedAt s = 0 then s\<lparr>d_reconnectStartedAt := e_now E\<rparr> else s)
         in if reconnectExhausted_d h E s then giveUpReconnect_d h E s
            else (stopReconnect_d s)\<lparr>d_reconnectTimer := Some (e_now E + backoff_delay (d_reconnectAttempt s) (e_rnd E))\<rparr>))"

definition startReconnect_d :: "dconfig \<Rightarrow> env \<Rightarrow> dsession \<Rightarrow> dsession" where
  "startReconnect_d h E s =
     (let wasReconnecting = d_reconnecting s;
          s = clearPendingAcceptTimer_d (s\<lparr>d_reconnecting := True\<rparr>);
          s = setPhase_d DDisconnected s;
          s = (if \<not> wasReconnecting then s\<lparr>d_reconnectAttempt := 0, d_reconnectStartedAt := 0\<rparr> else s)
      in scheduleReconnect_d h E s)"

definition doReconnectAttempt_d :: "dconfig \<Rightarrow> dsession \<Rightarrow> dsession" where
  "doReconnectAttempt_d h s =
     (if \<not> canReconnect_d s then s
      else add_kont_d (emit_d (setTransportChannelHint_d h s) DConnect) DKReconnect)"

definition reconnectFailed_d :: "dconfig \<Rightarrow> env \<Rightarrow> dsession \<Rightarrow> dsession" where
  "reconnectFailed_d h E s =
     scheduleReconnect_d h E (log_d E ''reconnect_failed'' JUndef JUndef (canReconnect_d s) s)"

definition reconnect_d :: "dconfig \<Rightarrow> dsession \<Rightarrow> dsession" where
  "reconnect_d h s =
     (let s = stopReconnect_d (s\<lparr>d_intentionalClose := False\<rparr>);
          s = (setPhase_d DDisconnected s)\<lparr>d_reconnectAttempt := 0\<rparr>
      in doReconnectAttempt_d h s)"

definition handleTransportClose_d :: "dconfig \<Rightarrow> env \<Rightarrow> jsval \<Rightarrow> jsval \<Rightarrow> bool \<Rightarrow> dsession \<Rightarrow> dsession" where
  "handleTransportClose_d h E code reason wasError s =
     (let willReconnect = canReconnect_d s;
          s = log_d E ''transport_close'' code
                (coalesce reason (if wasError then JStr ''transport_error'' else JUndef)) willReconnect s
      in if \<not> willReconnect then s else startReconnect_d h E s)"

subsection \<open>Timers\<close>

definition reconnectTimer_fires_d :: "dconfig \<Rightarrow> dsession \<Rightarrow> dsession" where
  "reconnectTimer_fires_d h s =
     (let s = doReconnectAttempt_d h (s\<lparr>d_reconnectTimer := None\<rparr>)
      in s\<lparr>d_reconnectAttempt := Suc (d_reconnectAttempt s)\<rparr>)"

definition ttl_fires_d :: "dconfig \<Rightarrow> env \<Rightarrow> dsession \<Rightarrow> dsession" where
  "ttl_fires_d h E s =
     close_d h E ''timeout'' (emit_d (s\<lparr>d_ttlTimer := None\<rparr>) (DError (Error ''Session lifetime expired'')))"

definition pendingAccept_fires_d :: "dconfig \<Rightarrow> env \<Rightarrow> dsession \<Rightarrow> dsession" where
  "pendingAccept_fires_d h E s =
     close_d h E ''timeout'' (emit_d (s\<lparr>d_pendingAcceptTimer := None\<rparr>) (DError (Error ''Pending accept timed out'')))"

definition staleAccept_fires_d :: "dconfig \<Rightarrow> env \<Rightarrow> nat \<Rightarrow> dsession \<Rightarrow> dsession" where
  "staleAccept_fires_d h E i s =
     close_d h E ''timeout'' (emit_d (s\<lparr>d_staleAcceptTimers := take i (d_staleAcceptTimers s) @ drop (Suc i) (d_staleAcceptTimers s)\<rparr>)
       (DError (Error ''Pending accept timed out'')))"

definition heartbeatTick_d :: "env \<Rightarrow> dsession \<Rightarrow> dsession" where
  "heartbeatTick_d E s =
     (if d_phase s \<noteq> DConnected then s
      else
        (let s = ping_d E s in if d_livenessTimer s then s else s\<lparr>d_livenessTimer := True\<rparr>))"

definition liveness_fires_d :: "dconfig \<Rightarrow> env \<Rightarrow> dsession \<Rightarrow> dsession" where
  "liveness_fires_d h E s =
     (let s = s\<lparr>d_livenessTimer := False\<rparr>;
          s = log_d E ''transport_close'' JUndef (JStr ''heartbeat_timeout'') (canReconnect_d s) s;
          s = emit_d s DDisconnect
      in handleTransportClose_d h E JUndef (JStr ''heartbeat_timeout'') False s)"

subsection \<open>Restoring a snapshot\<close>

definition restore_scope_d :: "jsval \<Rightarrow> dsession \<Rightarrow> bool dcomp" where
  "restore_scope_d d s =
     (let s = s\<lparr>d_paired := truthy (jget d ''paired''), d_approvedScopeRecorded := (jget d ''approvedScopeRecorded'' = JBool True),
                d_approvedCapabilities := coalesce (jget d ''approvedCapabilities'') JUndef,
                d_approvedWalletMeta := coalesce (jget d ''approvedWalletMeta'') JUndef,
                d_approvedWalletPubKeyB64 :=
                  coalesce (coalesce (jget d ''approvedWalletPubKeyB64'') (jget d ''remotePubKeyB64'')) JUndef\<rparr>;
          s = s\<lparr>d_walletCapabilities := d_approvedCapabilities s, d_walletMeta := d_approvedWalletMeta s,
                d_meta := coalesce (jget d ''dappMeta'')
                  (if truthy (jget d ''dappName'') then
                     JObj [(''name'', jget d ''dappName''), (''description'', JStr []), (''url'', JStr []), (''icon'', JStr [])]
                   else d_meta s)\<rparr>
      in andThen (s, opt_num_field d ''sessionStartTime'') (\<lambda>s t.
           (setPhase_d DConnected (s\<lparr>d_sessionStartTime := t\<rparr>), Inr True)))"

definition restore_numbers_d :: "jsval \<Rightarrow> dsession \<Rightarrow> bool dcomp" where
  "restore_numbers_d d s =
     andThen (s, num_field d ''sendSeq'' 0) (\<lambda>s n. let s = s\<lparr>d_sendSeq := n\<rparr> in
     andThen (s, num_field d ''recvSeq'' (- 1)) (\<lambda>s n. let s = s\<lparr>d_recvSeq := n\<rparr> in
     andThen (s, if truthy (jget d ''reqCounter'') then num_field d ''reqCounter'' 0 else Inr 0) (\<lambda>s n.
       restore_scope_d d (s\<lparr>d_reqCounter := nat n\<rparr>))))"

definition restore_fields_d :: "dconfig \<Rightarrow> jsval \<Rightarrow> dsession \<Rightarrow> bool dcomp" where
  "restore_fields_d h d s =
     (if \<not> truthy (jget d ''channelId'') \<or> \<not> truthy (jget d ''privKey'') then (s, Inr False)
      else
       andThen (s, text_field d ''channelId'') (\<lambda>s ch. let s = s\<lparr>d_channelId := ch\<rparr> in
       andThen (s, hex_field (h_noble h) d ''privKey'') (\<lambda>s k. let s = s\<lparr>d_privKey := Some k\<rparr> in
       andThen (s, text_field d ''pubKeyB64'') (\<lambda>s pk. let s = s\<lparr>d_pubKeyB64 := pk\<rparr> in
       andThen (s, opt_key_field d ''remotePubKeyB64'') (\<lambda>s r. let s = s\<lparr>d_remotePubKey := r\<rparr> in
       andThen (s, opt_hex_field (h_noble h) d ''sendKey'') (\<lambda>s k. let s = s\<lparr>d_sendKey := k\<rparr> in
       andThen (s, opt_hex_field (h_noble h) d ''recvKey'') (\<lambda>s k. let s = s\<lparr>d_recvKey := k\<rparr> in
       if d_sendKey s = None \<or> d_recvKey s = None then (s, Inr False)
       else restore_numbers_d d s)))))))"

definition restore_d :: "dconfig \<Rightarrow> string \<Rightarrow> dsession \<Rightarrow> bool dcomp" where
  "restore_d h snapshot s =
     tryCatch (andThen (s, snapshot_payload (h_noble h) snapshot) (\<lambda>s p. case p of
         None \<Rightarrow> (s, Inr False)
       | Some json \<Rightarrow> andThen (s, js_parse json) (\<lambda>s d. restore_fields_d h d s)))
      (\<lambda>s e. (s, Inr False))"

definition restoreFromPersistence_d :: "dconfig \<Rightarrow> string option \<Rightarrow> dsession \<Rightarrow> bool dcomp" where
  "restoreFromPersistence_d h loaded s = (case loaded of
     None \<Rightarrow> (s, Inr False)
   | Some json \<Rightarrow> if json = [] then (s, Inr False) else restore_d h json s)"

subsection \<open>Messages\<close>

definition expected_remote :: "bytes option \<Rightarrow> jsval" where
  "expected_remote r = (case r of None \<Rightarrow> JNull | Some b \<Rightarrow> JStr (b64urlEncode b))"

definition handleReady_d :: "dconfig \<Rightarrow> env \<Rightarrow> wmsg \<Rightarrow> dsession \<Rightarrow> unit dcomp" where
  "handleReady_d h E msg s =
     (let s = stopReconnect_d s; state = jget (m_body msg) ''state'' in
      if state = JStr ''connected'' \<and>
         (\<not> truthy (expected_remote (d_remotePubKey s)) \<or> jget (m_body msg) ''remote'' \<noteq> expected_remote (d_remotePubKey s)) then
        (close_d h E ''normal'' (emit_d s (DError (Error ''Connected remote does not match paired wallet''))), Inr ())
      else if state = JStr ''waiting'' then (setPhase_d DWaiting s, Inr ())
      else if state = JStr ''connected'' then
        (let wasReconnecting = d_reconnecting s;
             s = s\<lparr>d_reconnecting := False, d_reconnectAttempt := 0, d_reconnectStartedAt := 0\<rparr>;
             s = startHeartbeat_d h (startSessionTtl_d h E (setPhase_d DConnected s))
         in andThen (persistSnapshotAsync_d h s) (\<lambda>s _.
              if wasReconnecting \<and> h_resendOnReconnect h then resendPending_d h E s else (s, Inr ())))
      else (s, Inr ()))"

definition closeByPeer_d :: "dconfig \<Rightarrow> string \<Rightarrow> dsession \<Rightarrow> dsession" where
  "closeByPeer_d h message s =
     (setPhase_d DClosed (clearPersistence_d h (rejectAllPending_d (Error message) s)))\<lparr>d_intentionalClose := True\<rparr>"

definition handleTerminate_d :: "dconfig \<Rightarrow> env \<Rightarrow> wmsg \<Rightarrow> dsession \<Rightarrow> dsession" where
  "handleTerminate_d h E msg s =
     (let reason = jget (m_body msg) ''reason'';
          recoverable = isRecoverableCloseReason reason;
          s = log_d E ''terminate'' JUndef reason (recoverable \<and> canReconnect_d s) s
      in if \<not> canReconnect_d s then s
         else if recoverable then startReconnect_d h E (emit_d s DDisconnect)
         else closeByPeer_d h (''Session terminated: '' @ js_string (coalesce reason (JStr ''unknown''))) s)"

definition handleMessage_d :: "dconfig \<Rightarrow> env \<Rightarrow> wmsg \<Rightarrow> dsession \<Rightarrow> unit dcomp" where
  "handleMessage_d h E msg s =
     (if m_t msg \<noteq> ''ready'' \<and> m_t msg \<noteq> ''terminate'' \<and> m_from msg = ''_adapter'' then
        (emit_d s (DError (Error ''Rejected message with spoofed _adapter from'')), Inr ())
      else if m_v msg \<noteq> 1 then (close_d h E ''unsupported_version'' s, Inr ())
      else if m_t msg = ''ready'' then handleReady_d h E msg s
      else if m_t msg = ''join'' then handleJoin_d h E msg s
      else if m_t msg = ''res'' then handleResponse_d h msg s
      else if m_t msg = ''evt'' then handleEvent_d h msg s
      else if m_t msg = ''ping'' then (send_d E ''pong'' [] s, Inr ())
      else if m_t msg = ''pong'' then (clearLiveness_d s, Inr ())
      else if m_t msg = ''close'' then
        (if d_phase s \<noteq> DDisconnected then closeByPeer_d h ''Session closed by peer'' s else s, Inr ())
      else if m_t msg = ''terminate'' then (handleTerminate_d h E msg s, Inr ())
      else (s, Inr ()))"

subsection \<open>Continuations\<close>

definition resolve_d :: "dconfig \<Rightarrow> env \<Rightarrow> nat \<Rightarrow> dcont \<Rightarrow> dsession \<Rightarrow> dsession" where
  "resolve_d h E i k s = (case k of
     DKConnect result \<Rightarrow> emit_d (sendCreate_d E (setPhase_d DWaiting s)) (DResolved i result)
   | DKReconnect \<Rightarrow> sendCreate_d E s
   | DKRequest seq rid method params p \<Rightarrow> or_reject_d p (transmit_request_d h E seq rid method params p s)
   | DKResend seq rid method params \<Rightarrow> fst (transmit_resend_d h E seq rid method params s)
   | DKAccept target \<Rightarrow> sendAccept_d E target s
   | DKResponse rid p data prev \<Rightarrow>
       (case deliverResponse_d rid p data s of
          (s, Inr _) \<Rightarrow> s
        | (s, Inl e) \<Rightarrow>
            (let (s, wrapped) = persistenceError_d h E e (s\<lparr>d_recvSeq := prev\<rparr>) in emit_d s (DRejected p wrapped JUndef)))
   | DKEvent data prev \<Rightarrow> deliverEvent_d data s
   | DKSaved \<Rightarrow> s
   | DKCleared \<Rightarrow> s)"

definition rejected_d :: "dconfig \<Rightarrow> env \<Rightarrow> nat \<Rightarrow> exn \<Rightarrow> dcont \<Rightarrow> dsession \<Rightarrow> dsession" where
  "rejected_d h E i e k s = (case k of
     DKConnect result \<Rightarrow> emit_d s (DRejected i e JUndef)
   | DKReconnect \<Rightarrow> reconnectFailed_d h E s
   | DKRequest seq rid method params p \<Rightarrow>
       (let (s, wrapped) = persistenceError_d h E e s in emit_d s (DRejected p wrapped JUndef))
   | DKResend seq rid method params \<Rightarrow> fst (persistenceError_d h E e s)
   | DKAccept target \<Rightarrow> fst (persistenceError_d h E e s)
   | DKResponse rid p data prev \<Rightarrow>
       (let (s, wrapped) = persistenceError_d h E e (s\<lparr>d_recvSeq := prev\<rparr>) in emit_d s (DRejected p wrapped JUndef))
   | DKEvent data prev \<Rightarrow>
       (let (s, wrapped) = persistenceError_d h E e (s\<lparr>d_recvSeq := prev\<rparr>) in emit_d s (DError wrapped))
   | DKSaved \<Rightarrow> fst (persistenceError_d h E e s)
   | DKCleared \<Rightarrow> emit_d s (DError e))"

definition drop_kont_d :: "nat \<Rightarrow> dsession \<Rightarrow> dsession" where
  "drop_kont_d i s = s\<lparr>d_konts := filter (\<lambda>c. fst c \<noteq> i) (d_konts s)\<rparr>"

subsection \<open>The object as a transition system\<close>

datatype devent =
    DCreatePairing bool | DConnectTransport | DAccept | DReject | DRequest string jsval | DPing | DClose string | DDestroy
  | DRestore "string option" | DReconnect
  | DOnMessage wmsg | DOnClose jsval jsval bool
  | DOnTtl | DOnPendingAccept | DOnStaleAccept nat | DOnReconnectTimer | DOnHeartbeat | DOnLiveness | DOnRequestTimeout nat
  | DOnResolve nat | DOnReject nat exn

definition dapp_step :: "dconfig \<Rightarrow> env \<Rightarrow> devent \<Rightarrow> dsession \<Rightarrow> dsession option" where
  "dapp_step h E e s = (case e of
     DCreatePairing deferTransport \<Rightarrow> Some (fst (createPairing_d h E deferTransport s))
   | DConnectTransport \<Rightarrow> Some (connectTransport_d h JUndef s)
   | DAccept \<Rightarrow> Some (fst (acceptWallet_d h E s))
   | DReject \<Rightarrow> Some (rejectWallet_d h E s)
   | DRequest method params \<Rightarrow> Some (request_d h E method params s)
   | DPing \<Rightarrow> Some (ping_d E s)
   | DClose reason \<Rightarrow> Some (close_d h E reason s)
   | DDestroy \<Rightarrow> Some (destroy_d h E s)
   | DRestore loaded \<Rightarrow> Some (fst (restoreFromPersistence_d h loaded s))
   | DReconnect \<Rightarrow> Some (reconnect_d h s)
   | DOnMessage msg \<Rightarrow> Some (fst (handleMessage_d h E msg s))
   | DOnClose code reason wasError \<Rightarrow> Some (handleTransportClose_d h E code reason wasError s)
   | DOnTtl \<Rightarrow> (case d_ttlTimer s of
       Some due \<Rightarrow> if due \<le> e_now E then Some (ttl_fires_d h E s) else None | None \<Rightarrow> None)
   | DOnPendingAccept \<Rightarrow> (case d_pendingAcceptTimer s of
       Some due \<Rightarrow> if due \<le> e_now E then Some (pendingAccept_fires_d h E s) else None | None \<Rightarrow> None)
   | DOnStaleAccept i \<Rightarrow>
       if i < length (d_staleAcceptTimers s) \<and> d_staleAcceptTimers s ! i \<le> e_now E
       then Some (staleAccept_fires_d h E i s) else None
   | DOnReconnectTimer \<Rightarrow> (case d_reconnectTimer s of
       Some due \<Rightarrow> if due \<le> e_now E then Some (reconnectTimer_fires_d h s) else None | None \<Rightarrow> None)
   | DOnHeartbeat \<Rightarrow> if d_heartbeatTimer s then Some (heartbeatTick_d E s) else None
   | DOnLiveness \<Rightarrow> if d_livenessTimer s then Some (liveness_fires_d h E s) else None
   | DOnRequestTimeout p \<Rightarrow> (case js_get (d_requestTimers s) p of
       Some t \<Rightarrow> if rt_due t \<le> e_now E then Some (requestTimeout_fires_d p t s) else None | None \<Rightarrow> None)
   | DOnResolve i \<Rightarrow> map_option (\<lambda>k. resolve_d h E i k (drop_kont_d i s)) (map_of (d_konts s) i)
   | DOnReject i x \<Rightarrow> map_option (\<lambda>k. rejected_d h E i x k (drop_kont_d i s)) (map_of (d_konts s) i))"

inductive dapp_trans :: "dconfig \<Rightarrow> dsession \<Rightarrow> env \<times> devent \<Rightarrow> dsession \<Rightarrow> bool" for h where
  "dapp_step h E e s = Some s' \<Longrightarrow> dapp_trans h s (E, e) s'"

inductive_simps dapp_trans_iff: "dapp_trans h s (E, e) s'"
inductive_cases dapp_transE: "dapp_trans h s l s'"

end
