(* ===== verification/Dapp_Promises.thy ===== *)
theory Dapp_Promises
  imports Dapp_Handlers
begin

text \<open>
  The promises of a dApp session: which are settled, which wait in the table of requests or in a
  continuation, and which are held by the method that runs (the set \<open>P\<close>).  The lemmas say how the
  elementary operations move a promise from one place to the next.
\<close>

definition eff_promises :: "deff \<Rightarrow> nat list" where
  "eff_promises e = (case e of DResolved p _ \<Rightarrow> [p] | DRejected p _ _ \<Rightarrow> [p] | _ \<Rightarrow> [])"

definition kont_promises :: "nat \<times> dcont \<Rightarrow> nat list" where
  "kont_promises c = (case snd c of DKConnect _ \<Rightarrow> [fst c] | DKRequest _ _ _ _ p \<Rightarrow> [p] | DKResponse _ p _ _ \<Rightarrow> [p] | _ \<Rightarrow> [])"

definition settled :: "deff list \<Rightarrow> nat list" where
  "settled es = concat (map eff_promises es)"

definition table_promises :: "(string, pending_request) jsmap \<Rightarrow> nat list" where
  "table_promises m = map (\<lambda>e. q_promise (snd e)) m"

definition kont_pool :: "(nat \<times> dcont) list \<Rightarrow> nat list" where
  "kont_pool ks = concat (map kont_promises ks)"

definition timer_keys :: "dsession \<Rightarrow> nat set" where
  "timer_keys s = set (js_keys (d_requestTimers s))"

text \<open>Settled, in the table, in a continuation, with a timer, held; all below the next number.\<close>

definition pool :: "nat list \<Rightarrow> nat list \<Rightarrow> nat list \<Rightarrow> nat set \<Rightarrow> nat set \<Rightarrow> nat \<Rightarrow> bool" where
  "pool S T K M P N \<longleftrightarrow> distinct (S @ T @ K) \<and> set S \<union> set T \<union> set K \<union> M \<union> P \<subseteq> {..<N} \<and>
     P \<inter> (set S \<union> set T \<union> set K \<union> M) = {} \<and> M \<inter> (set S \<union> set K) = {}"

text \<open>Every request of the table has its own timer.\<close>

definition armed :: "dsession \<Rightarrow> bool" where
  "armed s \<longleftrightarrow> (\<forall>e \<in> set (d_pending s). \<exists>t. js_get (d_requestTimers s) (q_promise (snd e)) = Some t \<and> rt_id t = fst e)"

definition promises_ok :: "nat set \<Rightarrow> dsession \<Rightarrow> bool" where
  "promises_ok P s \<longleftrightarrow> pool (settled (d_out s)) (table_promises (d_pending s)) (kont_pool (d_konts s)) (timer_keys s) P (d_nextK s) \<and> armed s"

lemma promise_list_simps [simp]:
  "settled [] = []" "settled (e # es) = eff_promises e @ settled es" "settled (es @ fs) = settled es @ settled fs"
  "table_promises [] = []" "table_promises (x # m) = q_promise (snd x) # table_promises m"
  "kont_pool [] = []" "kont_pool (c # ks) = kont_promises c @ kont_pool ks" "kont_pool (ks @ ls) = kont_pool ks @ kont_pool ls"
  by (simp_all add: settled_def table_promises_def kont_pool_def)

lemma promises_weaken: "promises_ok P s \<Longrightarrow> Q \<subseteq> P \<Longrightarrow> promises_ok Q s"
  by (auto simp: promises_ok_def pool_def)

subsection \<open>Moves\<close>

lemma pool_settle: "pool S T K M P N \<Longrightarrow> set R \<subseteq> P \<Longrightarrow> distinct R \<Longrightarrow> pool (S @ R) T K M (P - set R) N"
  by (auto simp: pool_def)

lemma pool_new: "pool S T K M P N \<Longrightarrow> pool S T K M (insert N P) (Suc N)"
  by (force simp: pool_def)

lemma pool_await: "pool S T K M P N \<Longrightarrow> set R \<subseteq> insert N P \<Longrightarrow> distinct R \<Longrightarrow> pool S T (K @ R) M (P - set R) (Suc N)"
  by (force simp: pool_def)

lemma pool_resume: "pool S T K M P N \<Longrightarrow> set R \<subseteq> set K \<Longrightarrow> set K' \<subseteq> set K - set R \<Longrightarrow> distinct K' \<Longrightarrow> pool S T K' M (P \<union> set R) N"
  by (auto simp: pool_def)

lemma pool_take: "pool S T K M P N \<Longrightarrow> p \<in> set T \<Longrightarrow> set T' \<subseteq> set T - {p} \<Longrightarrow> distinct T' \<Longrightarrow> M' \<subseteq> M - {p} \<Longrightarrow> pool S T' K M' (insert p P) N"
  by (auto simp: pool_def)

lemma pool_timeout: "pool S T K M P N \<Longrightarrow> p \<in> M \<Longrightarrow> set T' \<subseteq> set T - {p} \<Longrightarrow> distinct T' \<Longrightarrow> M' \<subseteq> M - {p} \<Longrightarrow> pool S T' K M' (insert p P) N"
  by (auto simp: pool_def)

lemma pool_put: "pool S T K M P N \<Longrightarrow> p \<in> P \<Longrightarrow> set T' \<subseteq> insert p (set T) \<Longrightarrow> distinct T' \<Longrightarrow> M' \<subseteq> insert p M \<Longrightarrow> pool S T' K M' (P - {p}) N"
  by (auto simp: pool_def)

lemma promises_cong:
  assumes "d_out s' = d_out s" "d_pending s' = d_pending s" "d_konts s' = d_konts s" "d_requestTimers s' = d_requestTimers s"
    "d_nextK s' = d_nextK s"
  shows "promises_ok P s' = promises_ok P s"
  using assms by (simp add: promises_ok_def armed_def timer_keys_def)

lemma promises_emit:
  assumes "promises_ok P s" and "set (eff_promises e) \<subseteq> P"
  shows "promises_ok (P - set (eff_promises e)) (emit_d s e)"
proof -
  have "distinct (eff_promises e)" by (simp add: eff_promises_def split: deff.split)
  then show ?thesis using assms pool_settle by (simp add: promises_ok_def emit_d_def armed_def timer_keys_def)
qed

lemma promises_new: "promises_ok P s \<Longrightarrow> promises_ok (insert (d_nextK s) P) (s\<lparr>d_nextK := Suc (d_nextK s)\<rparr>)"
  using pool_new by (simp add: promises_ok_def armed_def timer_keys_def)

lemma promises_add_kont:
  assumes "promises_ok P s" and "set (kont_promises (d_nextK s, k)) \<subseteq> insert (d_nextK s) P"
  shows "promises_ok (P - set (kont_promises (d_nextK s, k))) (add_kont_d s k)"
proof -
  have "distinct (kont_promises (d_nextK s, k))" by (simp add: kont_promises_def split: dcont.split)
  then show ?thesis using assms pool_await by (simp add: promises_ok_def add_kont_d_def armed_def timer_keys_def)
qed

lemma kont_pool_filter: "distinct (kont_pool ks) \<Longrightarrow> distinct (kont_pool (filter f ks)) \<and> set (kont_pool (filter f ks)) \<subseteq> set (kont_pool ks)"
  by (induction ks) auto

lemma promises_drop_kont:
  assumes P: "promises_ok P s" and k: "map_of (d_konts s) i = Some k"
  shows "promises_ok (P \<union> set (kont_promises (i, k))) (drop_kont_d i s)"
proof -
  obtain xs ys where ks: "d_konts s = xs @ (i, k) # ys" using map_of_SomeD [OF k] by (meson split_list)
  let ?f = "\<lambda>c :: nat \<times> dcont. fst c \<noteq> i"
  have d: "distinct (kont_pool (d_konts s))" using P by (simp add: promises_ok_def pool_def)
  then have "distinct (kont_pool (xs @ ys))" "set (kont_pool (xs @ ys)) \<subseteq> set (kont_pool (d_konts s)) - set (kont_promises (i, k))"
    by (auto simp: ks)
  moreover have "filter ?f (d_konts s) = filter ?f (xs @ ys)" by (simp add: ks)
  ultimately have "distinct (kont_pool (filter ?f (d_konts s)))"
    "set (kont_pool (filter ?f (d_konts s))) \<subseteq> set (kont_pool (d_konts s)) - set (kont_promises (i, k))"
    using kont_pool_filter [of "xs @ ys" ?f] by auto
  moreover have "set (kont_promises (i, k)) \<subseteq> set (kont_pool (d_konts s))" by (auto simp: ks)
  ultimately have "pool (settled (d_out s)) (table_promises (d_pending s)) (kont_pool (filter ?f (d_konts s))) (timer_keys s)
      (P \<union> set (kont_promises (i, k))) (d_nextK s)"
    using P by (intro pool_resume [where K = "kont_pool (d_konts s)"]) (auto simp: promises_ok_def)
  then show ?thesis using P by (simp add: promises_ok_def drop_kont_d_def armed_def timer_keys_def)
qed

subsection \<open>The table of requests\<close>

lemma table_filter: "distinct (table_promises m) \<Longrightarrow> distinct (table_promises (filter f m)) \<and> set (table_promises (filter f m)) \<subseteq> set (table_promises m)"
  by (induction m) auto

lemma table_delete:
  assumes "distinct (table_promises m)" and "\<And>e. e \<in> set m \<Longrightarrow> q_promise (snd e) = p \<Longrightarrow> fst e = i"
  shows "distinct (table_promises (js_delete m i)) \<and> set (table_promises (js_delete m i)) \<subseteq> set (table_promises m) - {p}"
  using assms table_filter [of m "\<lambda>e. fst e \<noteq> i"] by (auto simp: js_delete_def table_promises_def)

lemma keys_delete: "set (js_keys (js_delete m p)) = set (js_keys m) - {p}"
  by (auto simp: js_keys_def js_delete_def)

lemma armed_delete:
  assumes "armed s" and "set (table_promises (js_delete (d_pending s) i)) \<subseteq> A - {p}"
  shows "armed (s\<lparr>d_pending := js_delete (d_pending s) i, d_requestTimers := js_delete (d_requestTimers s) p\<rparr>)"
proof -
  have "\<exists>t. js_get (js_delete (d_requestTimers s) p) (q_promise (snd e)) = Some t \<and> rt_id t = fst e"
    if "e \<in> set (js_delete (d_pending s) i)" for e
  proof -
    have "q_promise (snd e) \<noteq> p" using assms(2) that by (force simp: table_promises_def)
    moreover have "e \<in> set (d_pending s)" using that by (simp add: js_delete_def)
    ultimately show ?thesis using assms(1) by (simp add: armed_def)
  qed
  then show ?thesis by (simp add: armed_def)
qed

lemma promises_take:
  assumes P: "promises_ok P s" and r: "js_get (d_pending s) i = Some req"
  shows "promises_ok (insert (q_promise req) P)
    (s\<lparr>d_pending := js_delete (d_pending s) i, d_requestTimers := js_delete (d_requestTimers s) (q_promise req)\<rparr>)"
proof -
  let ?p = "q_promise req"
  have m: "(i, req) \<in> set (d_pending s)" using r by (simp add: js_get_def map_of_SomeD)
  have d: "distinct (table_promises (d_pending s))" using P by (simp add: promises_ok_def pool_def)
  have u: "fst e = i" if "e \<in> set (d_pending s)" "q_promise (snd e) = ?p" for e
    using d m that by (auto simp: table_promises_def distinct_map inj_on_def)
  have t: "distinct (table_promises (js_delete (d_pending s) i)) \<and> set (table_promises (js_delete (d_pending s) i)) \<subseteq> set (table_promises (d_pending s)) - {?p}"
    using table_delete [OF d u] .
  have "?p \<in> set (table_promises (d_pending s))" using m by (force simp: table_promises_def)
  moreover have "armed (s\<lparr>d_pending := js_delete (d_pending s) i, d_requestTimers := js_delete (d_requestTimers s) ?p\<rparr>)"
    using P t by (intro armed_delete [of s i "set (table_promises (d_pending s))"]) (auto simp: promises_ok_def)
  moreover have "pool (settled (d_out s)) (table_promises (d_pending s)) (kont_pool (d_konts s)) (timer_keys s) P (d_nextK s)"
    using P by (simp add: promises_ok_def)
  ultimately show ?thesis using t pool_take [of _ "table_promises (d_pending s)" _ "timer_keys s" P _ ?p]
    by (simp add: promises_ok_def timer_keys_def keys_delete)
qed

lemma promises_timeout:
  assumes P: "promises_ok P s" and t: "js_get (d_requestTimers s) p = Some t"
  shows "promises_ok (insert p P)
    (s\<lparr>d_requestTimers := js_delete (d_requestTimers s) p, d_pending := js_delete (d_pending s) (rt_id t)\<rparr>)"
proof -
  have d: "distinct (table_promises (d_pending s))" using P by (simp add: promises_ok_def pool_def)
  have u: "fst e = rt_id t" if "e \<in> set (d_pending s)" "q_promise (snd e) = p" for e
    using P that t by (auto simp: promises_ok_def armed_def)
  have T: "distinct (table_promises (js_delete (d_pending s) (rt_id t))) \<and>
      set (table_promises (js_delete (d_pending s) (rt_id t))) \<subseteq> set (table_promises (d_pending s)) - {p}"
    using table_delete [OF d u] .
  have "p \<in> timer_keys s" using t js_get_None_iff [of "d_requestTimers s" p] by (simp add: timer_keys_def)
  moreover have "armed (s\<lparr>d_requestTimers := js_delete (d_requestTimers s) p, d_pending := js_delete (d_pending s) (rt_id t)\<rparr>)"
    using P T armed_delete [of s "rt_id t" "set (table_promises (d_pending s))" p] by (auto simp: promises_ok_def armed_def)
  moreover have "pool (settled (d_out s)) (table_promises (d_pending s)) (kont_pool (d_konts s)) (timer_keys s) P (d_nextK s)"
    using P by (simp add: promises_ok_def)
  ultimately show ?thesis using T pool_timeout [of _ "table_promises (d_pending s)" _ "timer_keys s" P _ p]
    by (simp add: promises_ok_def timer_keys_def keys_delete)
qed

lemma table_set: "set (js_set m i r) \<subseteq> insert (i, r) (set m)"
  by (induction m i r rule: js_set.induct) auto

lemma table_set_other: "js_map_ok m \<Longrightarrow> e \<in> set (js_set m i r) \<Longrightarrow> e = (i, r) \<or> (e \<in> set m \<and> fst e \<noteq> i)"
  by (induction m i r rule: js_set.induct) (auto simp: js_map_ok_def split: if_splits)

lemma table_promises_set:
  "distinct (table_promises m) \<Longrightarrow> q_promise r \<notin> set (table_promises m) \<Longrightarrow>
     distinct (table_promises (js_set m i r)) \<and> set (table_promises (js_set m i r)) \<subseteq> insert (q_promise r) (set (table_promises m))"
proof (induction m i r rule: js_set.induct)
  case (2 k' v' m k v)
  show ?case
  proof (cases "k' = k")
    case False
    then have "distinct (table_promises (js_set m k v)) \<and> set (table_promises (js_set m k v)) \<subseteq> insert (q_promise v) (set (table_promises m))"
      using 2 by simp
    then show ?thesis using 2(2,3) False by auto
  qed (use 2 in auto)
qed simp

lemma promises_put:
  assumes P: "promises_ok P s" and p: "p \<in> P" "q_promise r = p" "rt_id t = i" and m: "js_map_ok (d_pending s)"
  shows "promises_ok (P - {p}) (s\<lparr>d_requestTimers := js_set (d_requestTimers s) p t, d_pending := js_set (d_pending s) i r\<rparr>)"
proof -
  have d: "distinct (table_promises (d_pending s))" "p \<notin> set (table_promises (d_pending s))" "p \<notin> timer_keys s"
    using P p(1) by (auto simp: promises_ok_def pool_def)
  note T = table_promises_set [OF d(1), of r i]
  have "armed (s\<lparr>d_requestTimers := js_set (d_requestTimers s) p t, d_pending := js_set (d_pending s) i r\<rparr>)"
  proof -
    have "\<exists>u. js_get (js_set (d_requestTimers s) p t) (q_promise (snd e)) = Some u \<and> rt_id u = fst e"
      if "e \<in> set (js_set (d_pending s) i r)" for e
    proof (cases "e = (i, r)")
      case False
      then have e: "e \<in> set (d_pending s)" using table_set_other [OF m that] by blast
      then have "q_promise (snd e) \<noteq> p" using d(2) by (force simp: table_promises_def)
      then show ?thesis using P e by (auto simp: promises_ok_def armed_def)
    qed (simp add: p)
    then show ?thesis by (simp add: armed_def)
  qed
  moreover have "pool (settled (d_out s)) (table_promises (js_set (d_pending s) i r)) (kont_pool (d_konts s)) (insert p (timer_keys s)) (P - {p}) (d_nextK s)"
    using P p T d(2) by (intro pool_put [of _ "table_promises (d_pending s)" _ "timer_keys s"]) (auto simp: promises_ok_def)
  ultimately show ?thesis by (simp add: promises_ok_def timer_keys_def js_keys_set)
qed

end
