(* ===== verification/Send_Ledger.thy ===== *)
theory Send_Ledger
  imports Prelude
begin

text \<open>
  The ledger of sequence numbers that both session objects keep implicitly: numbers already used
  by an encryption in the effect trace, and numbers reserved by a continuation that waits for its
  snapshot to be saved.  The locale \<open>send_ledger\<close> states what a session promises about one effect and
  one continuation; what follows for a whole state is proved once and used by the wallet and the
  dApp through their interpretations.
\<close>

locale send_ledger =
  fixes eff_seqs :: "'e \<Rightarrow> int list"
    and kont_seqs :: "'k \<Rightarrow> int list"
    and saved :: "int \<Rightarrow> 'e list \<Rightarrow> bool"
  assumes eff_distinct: "distinct (eff_seqs e)"
    and kont_distinct: "distinct (kont_seqs k)"
    and saved_snoc: "saved q es \<Longrightarrow> saved q (es @ [e])"
begin

definition sealed_seqs :: "'e list \<Rightarrow> int list" where
  "sealed_seqs es = concat (map eff_seqs es)"

definition reserved_seqs :: "(nat \<times> 'k) list \<Rightarrow> int list" where
  "reserved_seqs ks = concat (map (\<lambda>c. kont_seqs (snd c)) ks)"

text \<open>Relative to the first \<open>n\<close> effects and the counter \<open>b\<close> at that point; \<open>m\<close> is the counter now.\<close>

definition used :: "nat \<Rightarrow> 'e list \<Rightarrow> (nat \<times> 'k) list \<Rightarrow> int list" where
  "used n es ks = sealed_seqs (drop n es) @ reserved_seqs ks"

definition ledger_ok :: "nat \<Rightarrow> int \<Rightarrow> 'e list \<Rightarrow> (nat \<times> 'k) list \<Rightarrow> int \<Rightarrow> bool" where
  "ledger_ok n b es ks m \<longleftrightarrow> n \<le> length es \<and> b \<le> m \<and> distinct (used n es ks) \<and>
     (\<forall>q \<in> set (used n es ks). b \<le> q \<and> q < m) \<and>
     (\<forall>xs e ys q. es = xs @ e # ys \<longrightarrow> n \<le> length xs \<longrightarrow> q \<in> set (eff_seqs e) \<longrightarrow> saved q xs) \<and>
     (\<forall>q \<in> set (reserved_seqs ks). saved q es)"

text \<open>The number \<open>q\<close> may be used or reserved next.\<close>

definition free :: "nat \<Rightarrow> int \<Rightarrow> 'e list \<Rightarrow> (nat \<times> 'k) list \<Rightarrow> int \<Rightarrow> int \<Rightarrow> bool" where
  "free n b es ks m q \<longleftrightarrow> q \<notin> set (used n es ks) \<and> b \<le> q \<and> q < m \<and> saved q es"

lemma seqs_simps [simp]:
  "sealed_seqs [] = []" "sealed_seqs (e # es) = eff_seqs e @ sealed_seqs es"
  "sealed_seqs (es @ fs) = sealed_seqs es @ sealed_seqs fs"
  "reserved_seqs [] = []" "reserved_seqs (c # ks) = kont_seqs (snd c) @ reserved_seqs ks"
  "reserved_seqs (ks @ ls) = reserved_seqs ks @ reserved_seqs ls"
  by (simp_all add: sealed_seqs_def reserved_seqs_def)

lemma ledger_start: "b = m \<Longrightarrow> reserved_seqs ks = [] \<Longrightarrow> ledger_ok (length es) b es ks m"
  by (auto simp: ledger_ok_def used_def)

lemma snoc_split:
  assumes "es @ [e] = xs @ y # ys"
  shows "(es = xs \<and> e = y \<and> ys = []) \<or> (\<exists>zs. es = xs @ y # zs)"
  using assms by (cases ys rule: rev_cases) auto

lemma ledger_emit:
  assumes L: "ledger_ok n b es ks m" and f: "\<And>q. q \<in> set (eff_seqs e) \<Longrightarrow> free n b es ks m q"
  shows "ledger_ok n b (es @ [e]) ks m"
proof -
  have n: "n \<le> length es" using L by (simp add: ledger_ok_def)
  have u: "set (used n (es @ [e]) ks) = set (used n es ks) \<union> set (eff_seqs e)" using n by (auto simp: used_def)
  have d: "distinct (used n (es @ [e]) ks)"
    using L f eff_distinct [of e] n by (auto simp: ledger_ok_def used_def free_def)
  have w: "saved q xs" if "es @ [e] = xs @ y # ys" "n \<le> length xs" "q \<in> set (eff_seqs y)" for xs y ys q
    using snoc_split [OF that(1)] that(2,3) L f by (auto simp: ledger_ok_def free_def)
  have "\<forall>q \<in> set (used n (es @ [e]) ks). b \<le> q \<and> q < m" using L f u by (auto simp: ledger_ok_def free_def)
  moreover have "\<forall>q \<in> set (reserved_seqs ks). saved q (es @ [e])" using L saved_snoc by (simp add: ledger_ok_def)
  ultimately show ?thesis using L n d w by (auto simp: ledger_ok_def)
qed

lemma ledger_add:
  assumes L: "ledger_ok n b es ks m" and f: "\<And>q. q \<in> set (kont_seqs k) \<Longrightarrow> free n b es ks m q"
  shows "ledger_ok n b es (ks @ [(i, k)]) m"
  using L f kont_distinct [of k] by (auto simp: ledger_ok_def used_def free_def)

lemma ledger_bump: "ledger_ok n b es ks m \<Longrightarrow> ledger_ok n b es ks (m + 1)"
  by (fastforce simp: ledger_ok_def)

lemma bump_free:
  assumes "ledger_ok n b es ks m" and "saved m es"
  shows "free n b es ks (m + 1) m"
  using assms by (auto simp: ledger_ok_def free_def)

lemma free_emit:
  assumes "ledger_ok n b es ks m" and "free n b es ks m q" and "q \<notin> set (eff_seqs e)"
  shows "free n b (es @ [e]) ks m q"
  using assms saved_snoc by (auto simp: free_def used_def ledger_ok_def)

lemma distinct_filtered: "distinct (reserved_seqs ks) \<Longrightarrow> distinct (reserved_seqs (filter P ks))"
proof (induction ks)
  case (Cons c ks)
  have "set (reserved_seqs (filter P ks)) \<subseteq> set (reserved_seqs ks)" by (auto simp: reserved_seqs_def)
  then show ?case using Cons by auto
qed simp

lemma reserved_filter: "set (reserved_seqs (filter P ks)) \<subseteq> set (reserved_seqs ks)"
  by (auto simp: reserved_seqs_def)

lemma ledger_filter:
  assumes "ledger_ok n b es ks m"
  shows "ledger_ok n b es (filter P ks) m"
  using assms reserved_filter [of P ks] distinct_filtered [of ks P]
  by (auto simp: ledger_ok_def used_def)

text \<open>Running a continuation frees the numbers it holds.\<close>

lemma filter_free:
  assumes L: "ledger_ok n b es ks m" and k: "(i, k) \<in> set ks" and q: "q \<in> set (kont_seqs k)"
  shows "free n b es (filter (\<lambda>c. fst c \<noteq> i) ks) m q"
proof -
  obtain xs ys where ks: "ks = xs @ (i, k) # ys" using k by (meson split_list)
  have d: "distinct (used n es ks)" using L by (simp add: ledger_ok_def)
  then have "q \<notin> set (reserved_seqs (xs @ ys))" "q \<notin> set (sealed_seqs (drop n es))" using q by (auto simp: ks used_def)
  moreover have "set (reserved_seqs (filter (\<lambda>c. fst c \<noteq> i) ks)) \<subseteq> set (reserved_seqs (xs @ ys))"
    using reserved_filter [of "\<lambda>c. fst c \<noteq> i" "xs @ ys"] by (simp add: ks)
  moreover have "q \<in> set (reserved_seqs ks)" using q by (simp add: ks)
  ultimately show ?thesis using L by (auto simp: free_def used_def ledger_ok_def)
qed

end

end
