(* ===== verification/Dapp_Invariant.thy ===== *)
theory Dapp_Invariant
  imports Dapp_Promises Send_Ledger
begin

text \<open>
  The invariant of a dApp session between two changes of identity (\<^verbatim>\<open>createPairing\<close>, \<^verbatim>\<open>restore\<close>): the
  ledger of sequence numbers, the last number received, the table of requests and the promises,
  and the heartbeat.  \<open>P\<close> is the set of promises the running method holds.  Every method keeps it.
\<close>

subsection \<open>The invariant\<close>

record drun_context =
  y_channelId :: string
  y_recvSeq :: int
  y_promises :: "nat set"

text \<open>The promises that wait: for a timer or an answer, or for a save or a connection.\<close>

definition waiting :: "dsession \<Rightarrow> nat set" where
  "waiting s = timer_keys s \<union> set (kont_pool (d_konts s))"

definition drun_context_of :: "dsession \<Rightarrow> drun_context" where
  "drun_context_of s = \<lparr>y_channelId = d_channelId s, y_recvSeq = d_recvSeq s, y_promises = waiting s\<rparr>"

definition eff_seqs_d :: "deff \<Rightarrow> int list" where
  "eff_seqs_d e = (case e of DSeal q \<Rightarrow> [q] | _ \<Rightarrow> [])"

definition seals_d :: "deff list \<Rightarrow> int list" where
  "seals_d es = concat (map eff_seqs_d es)"

definition kont_seqs_d :: "dcont \<Rightarrow> int list" where
  "kont_seqs_d k = (case k of DKRequest q _ _ _ _ \<Rightarrow> [q] | DKResend q _ _ _ \<Rightarrow> [q] | _ \<Rightarrow> [])"

definition saved_above_d :: "dconfig \<Rightarrow> drun_context \<Rightarrow> int \<Rightarrow> deff list \<Rightarrow> bool" where
  "saved_above_d h c q es \<longleftrightarrow> h_persist h = PNone \<or>
     (\<exists>s saved. serialize_d h s = Inr saved \<and> d_channelId s = y_channelId c \<and> q < d_sendSeq s \<and> DSave saved \<in> set es)"

interpretation dl: send_ledger eff_seqs_d kont_seqs_d "saved_above_d h c"
  by unfold_locales
    (auto simp: eff_seqs_d_def kont_seqs_d_def saved_above_d_def split: deff.split dcont.split)

definition ledger_d :: "dconfig \<Rightarrow> nat \<Rightarrow> int \<Rightarrow> drun_context \<Rightarrow> dsession \<Rightarrow> bool" where
  "ledger_d h n b c s =
     send_ledger.ledger_ok eff_seqs_d kont_seqs_d (saved_above_d h c) n b (d_out s) (d_konts s) (d_sendSeq s)"

definition fresh_d :: "dconfig \<Rightarrow> nat \<Rightarrow> int \<Rightarrow> drun_context \<Rightarrow> int \<Rightarrow> dsession \<Rightarrow> bool" where
  "fresh_d h n b c q s =
     send_ledger.free eff_seqs_d kont_seqs_d (saved_above_d h c) n b (d_out s) (d_konts s) (d_sendSeq s) q"

lemma sealed_seqs_d: "send_ledger.sealed_seqs eff_seqs_d = seals_d"
  by (simp add: fun_eq_iff dl.sealed_seqs_def seals_d_def)

definition failure_d :: "deff \<Rightarrow> bool" where
  "failure_d e = (case e of DError (Error m) \<Rightarrow> starts_with m ''Session persistence failed: '' | _ \<Rightarrow> False)"

definition recv_ok_d :: "nat \<Rightarrow> drun_context \<Rightarrow> dsession \<Rightarrow> bool" where
  "recv_ok_d n c s \<longleftrightarrow> y_recvSeq c \<le> d_recvSeq s \<or> list_ex failure_d (drop n (d_out s))"

definition timers_ok_d :: "dsession \<Rightarrow> bool" where
  "timers_ok_d s \<longleftrightarrow> (d_heartbeatTimer s \<longrightarrow> d_phase s = DConnected) \<and> (d_livenessTimer s \<longrightarrow> d_heartbeatTimer s)"

definition is_request_kont :: "dcont \<Rightarrow> bool" where
  "is_request_kont k = (case k of DKRequest _ _ _ _ _ \<Rightarrow> True | _ \<Rightarrow> False)"

definition table_ok :: "dconfig \<Rightarrow> dsession \<Rightarrow> bool" where
  "table_ok h s \<longleftrightarrow> js_map_ok (d_pending s) \<and>
     (h_persist h \<noteq> PAsync \<longrightarrow> js_size (d_pending s) \<le> MAX_PENDING_REQUESTS \<and> (\<forall>c \<in> set (d_konts s). \<not> is_request_kont (snd c)))"

text \<open>No promise is lost: it is held, settled or waiting.  Continuations have numbers of their own.\<close>

definition kept :: "drun_context \<Rightarrow> nat set \<Rightarrow> dsession \<Rightarrow> bool" where
  "kept c P s \<longleftrightarrow> y_promises c \<subseteq> P \<union> set (settled (d_out s)) \<union> waiting s"

definition konts_ok :: "dsession \<Rightarrow> bool" where
  "konts_ok s \<longleftrightarrow> distinct (map fst (d_konts s)) \<and> (\<forall>c \<in> set (d_konts s). fst c < d_nextK s)"

text \<open>Every wallet announced to the application grants what the dApp declared.\<close>

definition scope_granted :: "dconfig \<Rightarrow> jsval \<Rightarrow> bool" where
  "scope_granted h cap \<longleftrightarrow> (truthy cap \<longrightarrow> validateCapabilities cap \<and> missing (h_methods h) (jget cap ''methods'') = [] \<and>
     missing (h_chains h) (jget cap ''chains'') = [])"

definition joins_ok :: "dconfig \<Rightarrow> nat \<Rightarrow> dsession \<Rightarrow> bool" where
  "joins_ok h n s \<longleftrightarrow> (\<forall>cap meta. DWalletJoined cap meta \<in> set (drop n (d_out s)) \<longrightarrow> scope_granted h cap)"

definition dok :: "dconfig \<Rightarrow> nat \<Rightarrow> int \<Rightarrow> drun_context \<Rightarrow> nat set \<Rightarrow> dsession \<Rightarrow> bool" where
  "dok h n b c P s \<longleftrightarrow> ledger_d h n b c s \<and> d_channelId s = y_channelId c \<and> recv_ok_d n c s \<and> timers_ok_d s \<and>
     table_ok h s \<and> promises_ok P s \<and> kept c P s \<and> konts_ok s \<and> joins_ok h n s"

lemmas dok_defs = dok_def ledger_d_def recv_ok_d_def timers_ok_d_def table_ok_def promises_ok_def armed_def timer_keys_def
  kept_def waiting_def konts_ok_def joins_ok_def

subsection \<open>Fields the invariant does not read\<close>

lemma dok_upd [simp]:
  "dok h n b c P (s\<lparr>d_intentionalClose := v1\<rparr>) = dok h n b c P s"
  "dok h n b c P (s\<lparr>d_walletCapabilities := v2\<rparr>) = dok h n b c P s"
  "dok h n b c P (s\<lparr>d_walletMeta := v3\<rparr>) = dok h n b c P s"
  "dok h n b c P (s\<lparr>d_ttlTimer := v4\<rparr>) = dok h n b c P s"
  "dok h n b c P (s\<lparr>d_sessionStartTime := v5\<rparr>) = dok h n b c P s"
  "dok h n b c P (s\<lparr>d_reconnectTimer := v6\<rparr>) = dok h n b c P s"
  "dok h n b c P (s\<lparr>d_reconnectAttempt := v7\<rparr>) = dok h n b c P s"
  "dok h n b c P (s\<lparr>d_reconnecting := v8\<rparr>) = dok h n b c P s"
  "dok h n b c P (s\<lparr>d_reconnectStartedAt := v9\<rparr>) = dok h n b c P s"
  "dok h n b c P (s\<lparr>d_remotePubKey := v10\<rparr>) = dok h n b c P s"
  "dok h n b c P (s\<lparr>d_sendKey := v11\<rparr>) = dok h n b c P s"
  "dok h n b c P (s\<lparr>d_recvKey := v12\<rparr>) = dok h n b c P s"
  "dok h n b c P (s\<lparr>d_sessionKey := v13\<rparr>) = dok h n b c P s"
  "dok h n b c P (s\<lparr>d_privKey := v14\<rparr>) = dok h n b c P s"
  "dok h n b c P (s\<lparr>d_url := v15\<rparr>) = dok h n b c P s"
  "dok h n b c P (s\<lparr>d_reqCounter := v16\<rparr>) = dok h n b c P s"
  "dok h n b c P (s\<lparr>d_pendingAcceptTimer := v17\<rparr>) = dok h n b c P s"
  "dok h n b c P (s\<lparr>d_staleAcceptTimers := v18\<rparr>) = dok h n b c P s"
  "dok h n b c P (s\<lparr>d_paired := v19\<rparr>) = dok h n b c P s"
  "dok h n b c P (s\<lparr>d_approvedCapabilities := v20\<rparr>) = dok h n b c P s"
  "dok h n b c P (s\<lparr>d_approvedWalletMeta := v21\<rparr>) = dok h n b c P s"
  "dok h n b c P (s\<lparr>d_approvedWalletPubKeyB64 := v22\<rparr>) = dok h n b c P s"
  "dok h n b c P (s\<lparr>d_approvedScopeRecorded := v23\<rparr>) = dok h n b c P s"
  by (simp_all add: dok_defs)

lemma dok_recvSeq: "dok h n b c P s \<Longrightarrow> d_recvSeq s \<le> v \<Longrightarrow> dok h n b c P (s\<lparr>d_recvSeq := v\<rparr>)"
  by (auto simp: dok_defs)

lemma dok_liveness [simp]: "dok h n b c P s \<Longrightarrow> dok h n b c P (s\<lparr>d_livenessTimer := False\<rparr>)"
  by (simp add: dok_defs)

lemma dok_length: "dok h n b c P s \<Longrightarrow> n \<le> length (d_out s)"
  by (simp add: dok_def ledger_d_def dl.ledger_ok_def)

lemma emit_d_fields [simp]:
  "d_sendSeq (emit_d s e) = d_sendSeq s" "d_konts (emit_d s e) = d_konts s" "d_pending (emit_d s e) = d_pending s"
  "d_requestTimers (emit_d s e) = d_requestTimers s" "d_phase (emit_d s e) = d_phase s" "d_nextK (emit_d s e) = d_nextK s"
  "d_heartbeatTimer (emit_d s e) = d_heartbeatTimer s" "d_livenessTimer (emit_d s e) = d_livenessTimer s"
  "d_out (emit_d s e) = d_out s @ [e]" "d_sendKey (emit_d s e) = d_sendKey s" "d_recvKey (emit_d s e) = d_recvKey s"
  "d_recvSeq (emit_d s e) = d_recvSeq s" "d_channelId (emit_d s e) = d_channelId s" "d_pubKeyB64 (emit_d s e) = d_pubKeyB64 s"
  "d_remotePubKey (emit_d s e) = d_remotePubKey s" "d_privKey (emit_d s e) = d_privKey s"
  "d_intentionalClose (emit_d s e) = d_intentionalClose s" "d_reconnectTimer (emit_d s e) = d_reconnectTimer s"
  by (simp_all add: emit_d_def)

subsection \<open>Effects, continuations, the table\<close>

lemma dok_emitI:
  assumes "dok h n b c P s" and "\<And>q. e = DSeal q \<Longrightarrow> fresh_d h n b c q s" and "set (eff_promises e) \<subseteq> P"
    and "\<And>cap meta. e = DWalletJoined cap meta \<Longrightarrow> scope_granted h cap"
  shows "dok h n b c (P - set (eff_promises e)) (emit_d s e)"
proof -
  have "ledger_d h n b c (emit_d s e)"
    using assms(1,2) unfolding dok_def ledger_d_def fresh_d_def
    by (auto intro!: dl.ledger_emit simp: eff_seqs_d_def split: deff.splits)
  moreover have "promises_ok (P - set (eff_promises e)) (emit_d s e)"
    using assms(1,3) promises_emit by (simp add: dok_def)
  moreover have "recv_ok_d n c (emit_d s e)" using assms(1) by (auto simp: dok_def recv_ok_d_def)
  moreover have "kept c (P - set (eff_promises e)) (emit_d s e)"
    using assms(1) by (auto simp: dok_def kept_def waiting_def timer_keys_def)
  moreover have "joins_ok h n (emit_d s e)" using assms(1,4) dok_length [OF assms(1)] by (auto simp: dok_def joins_ok_def)
  ultimately show ?thesis using assms(1) by (simp add: dok_def timers_ok_d_def table_ok_def konts_ok_def)
qed

definition benign_d :: "deff \<Rightarrow> bool" where
  "benign_d e = (case e of DSeal _ \<Rightarrow> False | DResolved _ _ \<Rightarrow> False | DRejected _ _ _ \<Rightarrow> False
     | DWalletJoined _ _ \<Rightarrow> False | _ \<Rightarrow> True)"

lemma benign_d_simps [simp]:
  "benign_d (DSend m)" "benign_d (DPhase p)" "benign_d (DError x)" "benign_d (DPairingUri u)" "benign_d (DFingerprint f)"
  "benign_d (DResponse i o' r)" "benign_d (DEvent v w)" "benign_d (DExhausted k)"
  "benign_d (DSave t)" "benign_d DClear" "benign_d DConnect" "benign_d DDisconnect" "benign_d (DSetUrl u)" "benign_d (DLog l)"
  "benign_d DRemoveAll"
  by (simp_all add: benign_d_def)

lemma dok_emit [simp]: "dok h n b c P s \<Longrightarrow> benign_d e \<Longrightarrow> dok h n b c P (emit_d s e)"
  using dok_emitI [of h n b c P s e] by (auto simp: benign_d_def eff_promises_def split: deff.splits)

lemma dok_joined: "dok h n b c P s \<Longrightarrow> scope_granted h v \<Longrightarrow> dok h n b c P (emit_d s (DWalletJoined v w))"
  using dok_emitI [of h n b c P s "DWalletJoined v w"] by (simp add: eff_promises_def)

lemma dok_seal: "dok h n b c P s \<Longrightarrow> fresh_d h n b c q s \<Longrightarrow> dok h n b c P (emit_d s (DSeal q))"
  using dok_emitI [of h n b c P s "DSeal q"] by (simp add: eff_promises_def)

lemma dok_settle:
  assumes "dok h n b c (insert p P) s" and "p \<notin> P"
  shows "dok h n b c P (emit_d s (DResolved p v))" "dok h n b c P (emit_d s (DRejected p e w))"
proof -
  have "insert p P - {p} = P" using assms(2) by blast
  then show "dok h n b c P (emit_d s (DResolved p v))" "dok h n b c P (emit_d s (DRejected p e w))"
    using dok_emitI [OF assms(1), of "DResolved p v"] dok_emitI [OF assms(1), of "DRejected p e w"]
    by (simp_all add: eff_promises_def)
qed

lemma dok_new: "dok h n b c P s \<Longrightarrow> dok h n b c (insert (d_nextK s) P) (s\<lparr>d_nextK := Suc (d_nextK s)\<rparr>)"
  using promises_new
  by (auto simp: dok_def ledger_d_def recv_ok_d_def timers_ok_d_def table_ok_def kept_def waiting_def timer_keys_def konts_ok_def joins_ok_def
      less_Suc_eq)

lemma dok_new_notin: "dok h n b c P s \<Longrightarrow> d_nextK s \<notin> P"
  by (auto simp: dok_def promises_ok_def pool_def)

lemma dok_add_kontI:
  assumes "dok h n b c P s" and "\<And>q. q \<in> set (kont_seqs_d k) \<Longrightarrow> fresh_d h n b c q s"
    and "set (kont_promises (d_nextK s, k)) \<subseteq> insert (d_nextK s) P" and "is_request_kont k \<Longrightarrow> h_persist h = PAsync"
  shows "dok h n b c (P - set (kont_promises (d_nextK s, k))) (add_kont_d s k)"
proof -
  have "ledger_d h n b c (add_kont_d s k)"
    using assms(1,2) by (simp add: dok_def ledger_d_def add_kont_d_def fresh_d_def dl.ledger_add)
  moreover have "promises_ok (P - set (kont_promises (d_nextK s, k))) (add_kont_d s k)"
    using assms(1,3) promises_add_kont by (simp add: dok_def)
  moreover have "kept c (P - set (kont_promises (d_nextK s, k))) (add_kont_d s k)" "konts_ok (add_kont_d s k)"
    using assms(1) by (auto simp: dok_def kept_def waiting_def timer_keys_def konts_ok_def add_kont_d_def less_Suc_eq)
  ultimately show ?thesis using assms(1,4)
    by (auto simp: dok_def recv_ok_d_def timers_ok_d_def table_ok_def joins_ok_def add_kont_d_def)
qed

definition plain_kont :: "dcont \<Rightarrow> bool" where
  "plain_kont k = (case k of DKConnect _ \<Rightarrow> True | DKReconnect \<Rightarrow> True | DKAccept _ \<Rightarrow> True | DKEvent _ _ \<Rightarrow> True
     | DKSaved \<Rightarrow> True | DKCleared \<Rightarrow> True | _ \<Rightarrow> False)"

lemma plain_kont_simps [simp]:
  "plain_kont (DKConnect v)" "plain_kont DKReconnect" "plain_kont (DKAccept a)" "plain_kont (DKEvent v q)"
  "plain_kont DKSaved" "plain_kont DKCleared"
  by (simp_all add: plain_kont_def)

lemma dok_add_plain [simp]:
  assumes "dok h n b c P s" and "plain_kont k"
  shows "dok h n b c P (add_kont_d s k)"
proof -
  have k: "kont_seqs_d k = []" "set (kont_promises (d_nextK s, k)) \<subseteq> {d_nextK s}" "\<not> is_request_kont k"
    using assms(2) by (simp_all add: plain_kont_def kont_seqs_d_def kont_promises_def is_request_kont_def split: dcont.splits)
  then have "P - set (kont_promises (d_nextK s, k)) = P" using dok_new_notin [OF assms(1)] by auto
  moreover have "dok h n b c (P - set (kont_promises (d_nextK s, k))) (add_kont_d s k)"
    using assms(1) k by (intro dok_add_kontI) auto
  ultimately show ?thesis by simp
qed

lemma dok_take:
  assumes "dok h n b c P s" and "js_get (d_pending s) i = Some req"
  shows "dok h n b c (insert (q_promise req) P)
      (s\<lparr>d_pending := js_delete (d_pending s) i, d_requestTimers := js_delete (d_requestTimers s) (q_promise req)\<rparr>)"
    and "q_promise req \<notin> P"
proof -
  show "dok h n b c (insert (q_promise req) P)
      (s\<lparr>d_pending := js_delete (d_pending s) i, d_requestTimers := js_delete (d_requestTimers s) (q_promise req)\<rparr>)"
    using assms promises_take js_size_delete_le [of "d_pending s" i]
    by (auto simp: dok_def ledger_d_def recv_ok_d_def timers_ok_d_def table_ok_def kept_def waiting_def timer_keys_def keys_delete konts_ok_def joins_ok_def)
  have "(i, req) \<in> set (d_pending s)" using assms(2) by (simp add: js_get_def map_of_SomeD)
  then have "q_promise req \<in> set (table_promises (d_pending s))" by (force simp: table_promises_def)
  then show "q_promise req \<notin> P" using assms(1) by (auto simp: dok_def promises_ok_def pool_def)
qed

lemma dok_timeout:
  assumes "dok h n b c P s" and "js_get (d_requestTimers s) p = Some t"
  shows "dok h n b c (insert p P) (s\<lparr>d_requestTimers := js_delete (d_requestTimers s) p, d_pending := js_delete (d_pending s) (rt_id t)\<rparr>)"
    and "p \<notin> P"
proof -
  show "dok h n b c (insert p P) (s\<lparr>d_requestTimers := js_delete (d_requestTimers s) p, d_pending := js_delete (d_pending s) (rt_id t)\<rparr>)"
    using assms promises_timeout js_size_delete_le [of "d_pending s" "rt_id t"]
    by (auto simp: dok_def ledger_d_def recv_ok_d_def timers_ok_d_def table_ok_def kept_def waiting_def timer_keys_def keys_delete konts_ok_def joins_ok_def)
  have "p \<in> timer_keys s" using assms(2) js_get_None_iff [of "d_requestTimers s" p] by (simp add: timer_keys_def)
  then show "p \<notin> P" using assms(1) by (auto simp: dok_def promises_ok_def pool_def)
qed

lemma dok_put:
  assumes "dok h n b c (insert p P) s" and "p \<notin> P" and "q_promise r = p" and "rt_id t = i"
    and "h_persist h \<noteq> PAsync \<Longrightarrow> js_size (d_pending s) < MAX_PENDING_REQUESTS"
  shows "dok h n b c P (s\<lparr>d_requestTimers := js_set (d_requestTimers s) p t, d_pending := js_set (d_pending s) i r\<rparr>)"
proof -
  have "insert p P - {p} = P" using assms(2) by blast
  then have "promises_ok P (s\<lparr>d_requestTimers := js_set (d_requestTimers s) p t, d_pending := js_set (d_pending s) i r\<rparr>)"
    using promises_put [of "insert p P" s p r t i] assms(1,3,4) by (simp add: dok_def table_ok_def)
  moreover have "table_ok h (s\<lparr>d_requestTimers := js_set (d_requestTimers s) p t, d_pending := js_set (d_pending s) i r\<rparr>)"
    using assms(1,5) by (auto simp: dok_def table_ok_def js_size_set)
  moreover have "kept c P (s\<lparr>d_requestTimers := js_set (d_requestTimers s) p t, d_pending := js_set (d_pending s) i r\<rparr>)"
    using assms(1) by (auto simp: dok_def kept_def waiting_def timer_keys_def js_keys_set)
  ultimately show ?thesis using assms(1) by (simp add: dok_def ledger_d_def recv_ok_d_def timers_ok_d_def konts_ok_def joins_ok_def)
qed

lemma kont_pool_dropped:
  assumes "distinct (map fst ks)" and "map_of ks i = Some k"
  shows "set (kont_pool ks) \<subseteq> set (kont_promises (i, k)) \<union> set (kont_pool (filter (\<lambda>c. fst c \<noteq> i) ks))"
proof
  fix p assume "p \<in> set (kont_pool ks)"
  then obtain x where x: "x \<in> set ks" "p \<in> set (kont_promises x)" by (auto simp: kont_pool_def)
  show "p \<in> set (kont_promises (i, k)) \<union> set (kont_pool (filter (\<lambda>c. fst c \<noteq> i) ks))"
  proof (cases "fst x = i")
    case True
    then have "snd x = k" using x(1) assms by (metis map_of_is_SomeI option.inject prod.collapse)
    then show ?thesis using x(2) True by (metis Un_iff prod.collapse)
  next
    case False
    then have "x \<in> set (filter (\<lambda>c. fst c \<noteq> i) ks)" using x(1) by simp
    then show ?thesis using x(2) unfolding kont_pool_def set_concat set_map by blast
  qed
qed

lemma dok_drop_kont:
  assumes "dok h n b c P s" and "map_of (d_konts s) i = Some k"
  shows "dok h n b c (P \<union> set (kont_promises (i, k))) (drop_kont_d i s)"
proof -
  have "ledger_d h n b c (drop_kont_d i s)"
    using assms dl.ledger_filter by (simp add: dok_def ledger_d_def drop_kont_d_def)
  moreover have "promises_ok (P \<union> set (kont_promises (i, k))) (drop_kont_d i s)"
    using assms promises_drop_kont by (simp add: dok_def)
  moreover have "kept c (P \<union> set (kont_promises (i, k))) (drop_kont_d i s)" "konts_ok (drop_kont_d i s)"
    using assms kont_pool_dropped [of "d_konts s" i k]
    by (auto simp: dok_def kept_def waiting_def timer_keys_def konts_ok_def drop_kont_d_def distinct_map_filter)
  ultimately show ?thesis using assms(1) by (simp add: dok_def recv_ok_d_def timers_ok_d_def table_ok_def joins_ok_def drop_kont_d_def)
qed

lemma fresh_kont_d:
  assumes "dok h n b c P s" and "map_of (d_konts s) i = Some k" and "q \<in> set (kont_seqs_d k)"
  shows "fresh_d h n b c q (drop_kont_d i s)"
  using assms map_of_SomeD [OF assms(2)] dl.filter_free
  by (simp add: dok_def ledger_d_def fresh_d_def drop_kont_d_def)

end
