(* ===== verification/Dapp_Runs.thy ===== *)
theory Dapp_Runs
  imports Dapp_Invariant Event_System
begin

text \<open>
  Every method, timer and continuation of the dApp session keeps the invariant of \<open>Dapp_Invariant\<close>; the
  runs of a session are interpreted as an invariant of the event system.
\<close>

subsection \<open>Phase, timers, persistence, close\<close>

lemma dok_clearLiveness [simp]: "dok h n b c P s \<Longrightarrow> dok h n b c P (clearLiveness_d s)"
  by (simp add: clearLiveness_d_def)

lemma dok_startHeartbeat [simp]: "dok h n b c P s \<Longrightarrow> d_phase s = DConnected \<Longrightarrow> dok h n b c P (startHeartbeat_d k s)"
  by (simp add: startHeartbeat_d_def stopHeartbeat_d_def clearLiveness_d_def dok_defs Let_def)

lemma dok_setPhase [simp]:
  assumes "dok h n b c P s"
  shows "dok h n b c P (setPhase_d p s)"
proof -
  have "dok h n b c P ((s\<lparr>d_phase := p\<rparr>)\<lparr>d_heartbeatTimer := False, d_livenessTimer := False\<rparr>)"
    and "p = DConnected \<Longrightarrow> dok h n b c P (s\<lparr>d_phase := p\<rparr>)"
    using assms by (simp_all add: dok_defs)
  then show ?thesis using assms
    by (auto simp: setPhase_d_def Let_def stopHeartbeat_d_def clearLiveness_d_def)
qed

lemma setPhase_d_phase [simp]: "d_phase (setPhase_d p s) = p"
  by (simp add: setPhase_d_def Let_def stopHeartbeat_d_def clearLiveness_d_def)

lemma dok_plain_ops [simp]:
  assumes "dok h n b c P s"
  shows "dok h n b c P (stopReconnect_d s)" "dok h n b c P (clearSessionTtl_d s)" "dok h n b c P (startSessionTtl_d k E s)"
    "dok h n b c P (clearPendingAcceptTimer_d s)" "dok h n b c P (log_d E k' v w x s)" "dok h n b c P (sendRaw_d m s)"
    "dok h n b c P (send_d E tt body s)"
  using assms
  by (simp_all add: stopReconnect_d_def clearSessionTtl_d_def startSessionTtl_d_def clearPendingAcceptTimer_d_def log_d_def
      sendRaw_d_def send_d_def Let_def)

lemma emit_pending: "(emit_d s e)\<lparr>d_pending := m\<rparr> = emit_d (s\<lparr>d_pending := m\<rparr>) e"
  by (simp add: emit_d_def)

lemma dok_reject_entries:
  "js_map_ok m \<Longrightarrow> dok h n b c P (s\<lparr>d_pending := m\<rparr>) \<Longrightarrow> dok h n b c P ((reject_entries_d e m s)\<lparr>d_pending := []\<rparr>)"
proof (induction m arbitrary: s)
  case (Cons a m)
  obtain i req where a: "a = (i, req)" by fastforce
  let ?p = "q_promise req" let ?s = "s\<lparr>d_requestTimers := js_delete (d_requestTimers s) ?p\<rparr>"
  have m: "js_delete ((i, req) # m) i = m" using js_delete_hd Cons(2) a by simp
  have sw: "s\<lparr>d_pending := m, d_requestTimers := js_delete (d_requestTimers s) ?p\<rparr> = ?s\<lparr>d_pending := m\<rparr>" by simp
  have "dok h n b c (insert ?p P) (?s\<lparr>d_pending := m\<rparr>)" "?p \<notin> P"
    using dok_take [OF Cons(3), of i req] m unfolding sw [symmetric] by (simp_all add: a)
  then have "dok h n b c P ((emit_d ?s (DRejected ?p e JUndef))\<lparr>d_pending := m\<rparr>)"
    using dok_settle(2) by (simp add: emit_pending)
  moreover have "js_map_ok m" using Cons(2) by (simp add: js_map_ok_def)
  ultimately show ?case using Cons(1) by (simp add: a)
qed simp

lemma dok_rejectAllPending [simp]:
  assumes "dok h n b c P s"
  shows "dok h n b c P (rejectAllPending_d e s)"
  using dok_reject_entries [of "d_pending s" h n b c P s e] assms by (simp add: rejectAllPending_d_def dok_def table_ok_def)

lemma dok_clearPersistence [simp]: "dok h n b c P s \<Longrightarrow> dok h n b c P (clearPersistence_d k s)"
  by (simp add: clearPersistence_d_def Let_def)

lemma dok_persistSnapshot [simp]: "dok h n b c P s \<Longrightarrow> dok h n b c P (fst (persistSnapshot_d k s))"
  by (simp add: persistSnapshot_d_def split: sum.split)

lemma dok_persistSnapshotAsync [simp]: "dok h n b c P s \<Longrightarrow> dok h n b c P (fst (persistSnapshotAsync_d k s))"
  unfolding persistSnapshotAsync_d_def by (rule andThen_inv) auto

lemma dok_close [simp]: "dok h n b c P s \<Longrightarrow> dok h n b c P (close_d k E r s)"
  by (simp add: close_d_def Let_def)

lemma dok_destroy [simp]: "dok h n b c P s \<Longrightarrow> dok h n b c P (destroy_d k E s)"
  by (simp add: destroy_d_def Let_def)

lemma dok_persistenceError [simp]: "dok h n b c P s \<Longrightarrow> dok h n b c P (fst (persistenceError_d k E e s))"
  by (simp add: persistenceError_d_def Let_def)

lemma dok_failure:
  assumes "dok h n b c P s"
  shows "dok h n b c P (fst (persistenceError_d k E e (s\<lparr>d_recvSeq := v\<rparr>)))"
proof -
  let ?e = "DError (Error (''Session persistence failed: '' @ exn_message e))"
  have "failure_d ?e" by (simp add: failure_d_def starts_with_append)
  then have "dok h n b c P ((emit_d s ?e)\<lparr>d_recvSeq := v\<rparr>)"
    using dok_emit [OF assms, of ?e] dok_length [OF assms] by (simp add: dok_defs)
  moreover have "(emit_d s ?e)\<lparr>d_recvSeq := v\<rparr> = emit_d (s\<lparr>d_recvSeq := v\<rparr>) ?e" by (simp add: emit_d_def)
  ultimately show ?thesis by (simp add: persistenceError_d_def Let_def)
qed

subsection \<open>Sending\<close>

lemma dok_bump: "dok h n b c P s \<Longrightarrow> dok h n b c P (s\<lparr>d_sendSeq := d_sendSeq s + 1\<rparr>)"
  using dl.ledger_bump by (auto simp: dok_defs)

lemma persistSnapshot_saves_d:
  assumes "persistSnapshot_d h s = (s', Inr promise)" and "q < d_sendSeq s" and "d_channelId s = y_channelId c"
  shows "saved_above_d h c q (d_out s')"
proof (cases "h_persist h = PNone")
  case False
  then obtain t where "serialize_d h s = Inr t" "s' = emit_d s (DSave t)"
    using assms(1) by (auto simp: persistSnapshot_d_def split: sum.splits)
  then show ?thesis using assms(2,3) by (auto simp: saved_above_d_def)
qed (simp add: saved_above_d_def)

lemma dok_nextSendSeq [simp]: "dok h n b c P s \<Longrightarrow> dok h n b c P (fst (nextSendSeq_d h E s))"
  by (auto simp: nextSendSeq_d_def Let_def intro!: andThen_inv [where P = "dok h n b c P"] dok_persistSnapshot dok_bump)

lemma nextSendSeq_d_facts:
  assumes s: "dok h n b c P s" and "nextSendSeq_d h E s = (s', Inr (q, promise))"
  shows "dok h n b c P s'" "fresh_d h n b c q s'" "d_pending s' = d_pending s" "d_nextK s' = d_nextK s"
    "promise \<Longrightarrow> h_persist h = PAsync"
proof -
  let ?t = "s\<lparr>d_sendSeq := d_sendSeq s + 1\<rparr>"
  have eq: "q = d_sendSeq s" "persistSnapshot_d h ?t = (s', Inr promise)"
    using assms(2) by (auto simp: nextSendSeq_d_def Let_def andThen_def prod_eq_iff split: if_splits sum.splits)
  show s': "dok h n b c P s'" using dok_persistSnapshot [OF dok_bump [OF s], of h] eq(2) by simp
  have f: "d_sendSeq s' = d_sendSeq s + 1" "d_konts s' = d_konts s" "d_out s' = d_out s \<or> (\<exists>t. d_out s' = d_out s @ [DSave t])"
    using eq(2) by (auto simp: persistSnapshot_d_def split: if_splits sum.splits)
  show "d_pending s' = d_pending s" "d_nextK s' = d_nextK s" "promise \<Longrightarrow> h_persist h = PAsync"
    using eq(2) by (auto simp: persistSnapshot_d_def split: if_splits sum.splits)
  have "saved_above_d h c q (d_out s')"
    using persistSnapshot_saves_d [OF eq(2), of q c] eq(1) s by (simp add: dok_def)
  moreover have "ledger_d h n b c s" using s by (simp add: dok_def)
  then have "q \<notin> set (send_ledger.used eff_seqs_d kont_seqs_d n (d_out s') (d_konts s'))" "b \<le> q"
    using f dok_length [OF s] eq(1) by (auto simp: ledger_d_def dl.ledger_ok_def dl.used_def eff_seqs_d_def)
  ultimately show "fresh_d h n b c q s'" using f(1) eq(1) by (simp add: fresh_d_def dl.free_def)
qed

lemma dok_buildRequest:
  assumes "dok h n b c P s" and "fresh_d h n b c q s"
  shows "dok h n b c P (fst (buildRequestMessage_d h E i mt params q s))"
  using assms dok_seal [OF assms] by (simp add: buildRequestMessage_d_def split: option.split sum.split)

lemma buildRequest_pending [simp]: "d_pending (fst (buildRequestMessage_d h E i mt params q s)) = d_pending s"
  by (simp add: buildRequestMessage_d_def split: option.split sum.split)

lemma dok_resend:
  assumes "dok h n b c P s" and "fresh_d h n b c q s"
  shows "dok h n b c P (fst (transmit_resend_d h E q i mt params s))"
  unfolding transmit_resend_d_def by (rule andThen_inv [where P = "dok h n b c P"]) (simp_all add: dok_buildRequest assms)

lemma dok_transmit_request:
  assumes s: "dok h n b c (insert p P) s" and "fresh_d h n b c q s" and p: "p \<notin> P"
    and room: "h_persist h \<noteq> PAsync \<Longrightarrow> js_size (d_pending s) < MAX_PENDING_REQUESTS"
  shows "dok h n b c P (or_reject_d p (transmit_request_d h E q i mt params p s))"
proof (cases "buildRequestMessage_d h E i mt params q s")
  case (Pair s1 r)
  have s1: "dok h n b c (insert p P) s1" "d_pending s1 = d_pending s"
    using dok_buildRequest [OF assms(1,2), of E i mt params] buildRequest_pending [of h E i mt params q s] Pair by simp_all
  show ?thesis
  proof (cases r)
    case (Inl e)
    then show ?thesis using dok_settle(2) [OF s1(1) p] by (simp add: or_reject_d_def transmit_request_d_def Pair)
  next
    case (Inr msg)
    let ?t = "\<lparr>rt_id = i, rt_method = mt, rt_due = e_now E + h_requestTimeout h\<rparr>"
    let ?r = "\<lparr>q_method = mt, q_params = params, q_promise = p\<rparr>"
    have "dok h n b c P (s1\<lparr>d_requestTimers := js_set (d_requestTimers s1) p ?t, d_pending := js_set (d_pending s1) i ?r\<rparr>)"
      using s1 p room by (intro dok_put) simp_all
    then show ?thesis by (simp add: or_reject_d_def transmit_request_d_def Pair Inr Let_def)
  qed
qed

lemma dok_request_body:
  assumes s: "dok h n b c (insert (d_nextK s) P) (s\<lparr>d_nextK := Suc (d_nextK s)\<rparr>)" and p: "d_nextK s \<notin> P"
  shows "dok h n b c P (request_d h E mt params s)"
proof -
  let ?p = "d_nextK s" let ?s = "s\<lparr>d_nextK := Suc (d_nextK s)\<rparr>"
  let ?u = "?s\<lparr>d_reqCounter := Suc (d_reqCounter s)\<rparr>" let ?c = "\<lambda>i. andThen (nextSendSeq_d h E ?u) (\<lambda>s (seq, promise).
      if promise then (add_kont_d s (DKRequest seq i mt params ?p), Inr ()) else transmit_request_d h E seq i mt params ?p s)"
  have "dok h n b c P (or_reject_d ?p (?c i))" if "js_size (d_pending s) < MAX_PENDING_REQUESTS" for i
  proof (cases "nextSendSeq_d h E ?u")
    case (Pair s1 r)
    have u: "dok h n b c (insert ?p P) ?u" using s by simp
    have s1: "dok h n b c (insert ?p P) s1" using dok_nextSendSeq [OF u, of E] Pair by simp
    show ?thesis
    proof (cases r)
      case (Inl e)
      then show ?thesis using dok_settle(2) [OF s1 p] Pair by (simp add: or_reject_d_def)
    next
      case (Inr qp)
      obtain q promise where qp: "qp = (q, promise)" by fastforce
      note f = nextSendSeq_d_facts [OF u, of E s1 q promise]
      have eq: "nextSendSeq_d h E ?u = (s1, Inr (q, promise))" using Pair Inr qp by simp
      show ?thesis
      proof (cases promise)
        case True
        have ne: "insert ?p P - {?p} = P" using p by blast
        have "dok h n b c (insert ?p P - set (kont_promises (d_nextK s1, DKRequest q i mt params ?p)))
            (add_kont_d s1 (DKRequest q i mt params ?p))"
          using f(2,5) [OF eq] s1 True by (intro dok_add_kontI) (auto simp: kont_seqs_d_def kont_promises_def)
        then show ?thesis using True ne by (simp add: or_reject_d_def eq kont_promises_def)
      next
        case False
        have "js_size (d_pending s1) < MAX_PENDING_REQUESTS" using f(3) [OF eq] that by simp
        then show ?thesis using dok_transmit_request [OF s1 f(2) [OF eq] p] False by (simp add: eq)
      qed
    qed
  qed
  then show ?thesis using dok_settle(2) [OF s p] by (simp add: request_d_def Let_def not_le)
qed

lemma dok_request [simp]: "dok h n b c P s \<Longrightarrow> dok h n b c P (request_d h E mt params s)"
  by (intro dok_request_body dok_new dok_new_notin)

text \<open>The promise a request returns is one of those that are not lost.\<close>

lemma dok_request_keeps:
  assumes "dok h n b c {} s"
  shows "dok h n b (c\<lparr>y_promises := {d_nextK s}\<rparr>) {} (request_d h E mt params s)"
proof (rule dok_request_body)
  show "dok h n b (c\<lparr>y_promises := {d_nextK s}\<rparr>) {d_nextK s} (s\<lparr>d_nextK := Suc (d_nextK s)\<rparr>)"
    using dok_new [OF assms] by (simp add: dok_def kept_def ledger_d_def recv_ok_d_def joins_ok_def saved_above_d_def [abs_def])
qed simp

lemma dok_resend_entries: "dok h n b c P s \<Longrightarrow> dok h n b c P (fst (resend_entries_d h E m s))"
proof (induction m arbitrary: s)
  case (Cons a m)
  obtain i req where a: "a = (i, req)" by fastforce
  show ?case
  proof (cases "nextSendSeq_d h E s")
    case (Pair s1 r)
    have s1: "dok h n b c P s1" using dok_nextSendSeq [OF Cons(2), of E] Pair by simp
    show ?thesis
    proof (cases r)
      case (Inr qp)
      obtain q promise where qp: "qp = (q, promise)" by fastforce
      have f: "fresh_d h n b c q s1" using nextSendSeq_d_facts(2) [OF Cons(2)] Pair Inr qp by simp
      have "dok h n b c (P - set (kont_promises (d_nextK s1, DKResend q i (q_method req) (q_params req))))
          (add_kont_d s1 (DKResend q i (q_method req) (q_params req)))"
        using s1 f by (intro dok_add_kontI) (auto simp: kont_seqs_d_def kont_promises_def is_request_kont_def)
      then have k: "dok h n b c P (add_kont_d s1 (DKResend q i (q_method req) (q_params req)))" by (simp add: kont_promises_def)
      have t: "dok h n b c P (fst (transmit_resend_d h E q i (q_method req) (q_params req) s1))" using dok_resend [OF s1 f] .
      show ?thesis unfolding a using Pair Inr qp k t Cons(1)
        by (auto intro!: andThen_inv [where P = "dok h n b c P"])
    qed (use s1 Pair a in simp)
  qed
qed simp

lemma dok_resendPending [simp]: "dok h n b c P s \<Longrightarrow> dok h n b c P (fst (resendPending_d h E s))"
  by (simp add: resendPending_d_def dok_resend_entries)

lemma dok_ping [simp]: "dok h n b c P s \<Longrightarrow> dok h n b c P (ping_d E s)"
  by (simp add: ping_d_def)

subsection \<open>Joining\<close>

lemma dok_hint [simp]: "dok h n b c P s \<Longrightarrow> dok h n b c P (setTransportChannelHint_d k s)"
  by (simp add: setTransportChannelHint_d_def Let_def)

lemma dok_connectTransport [simp]: "dok h n b c P s \<Longrightarrow> dok h n b c P (connectTransport_d k r s)"
  by (simp add: connectTransport_d_def)

lemma dok_sends [simp]:
  assumes "dok h n b c P s"
  shows "dok h n b c P (sendCreate_d E s)" "dok h n b c P (sendAccept_d E a s)" "dok h n b c P (refuseJoin_d E r m s)"
    "dok h n b c P (rejectWallet_d k E s)"
  using assms by (simp_all add: sendCreate_d_def sendAccept_d_def refuseJoin_d_def rejectWallet_d_def)

lemma dok_doAccept [simp]: "dok h n b c P s \<Longrightarrow> dok h n b c P (fst (doAccept_d k E r s))"
  by (auto simp: doAccept_d_def Let_def intro!: andThen_inv [where P = "dok h n b c P"])

lemma dok_acceptWallet [simp]: "dok h n b c P s \<Longrightarrow> dok h n b c P (fst (acceptWallet_d k E s))"
  by (simp add: acceptWallet_d_def split: option.split)

lemma dok_announce: "dok h n b c P s \<Longrightarrow> scope_granted h v \<Longrightarrow> dok h n b c P (fst (announceJoin_d k E r kw v w s))"
  by (simp add: announceJoin_d_def Let_def dok_joined)

lemma dok_establish:
  assumes "dok h n b c P s" and "nullish v \<or> validateCapabilities v"
  shows "dok h n b c P (fst (establishJoin_d h E j r rk v w s))"
proof -
  have "scope_granted h v" if "\<not> (truthy v \<and> missing (h_methods h) (jget v ''methods'') \<noteq> [])"
      "\<not> (truthy v \<and> missing (h_chains h) (jget v ''chains'') \<noteq> [])"
    using that assms(2) by (cases v) (auto simp: scope_granted_def)
  note granted = this
  show ?thesis using assms(1) granted unfolding establishJoin_d_def Let_def
    by (intro andThen_inv [where P = "dok h n b c P"]) (auto intro: dok_announce)
qed

lemma dok_joinKeys [simp]: "dok h n b c P s \<Longrightarrow> dok h n b c P (fst (handleJoinKeys_d h E msg r rk s))"
  by (simp add: handleJoinKeys_d_def Let_def dok_establish split: jsval.split sum.split)

lemma dok_join [simp]: "dok h n b c P s \<Longrightarrow> dok h n b c P (fst (handleJoin_d h E msg s))"
  by (auto simp: handleJoin_d_def Let_def intro!: andThen_inv [where P = "dok h n b c P"] split: sum.split option.split)

subsection \<open>Responses and events\<close>

lemma dok_deliverResponse:
  assumes s: "dok h n b c (insert p P) s" and p: "p \<notin> P"
  shows "dok h n b c P (fst (deliverResponse_d i p data s)) \<or> deliverResponse_d i p data s = (s, Inl TypeError)"
  using dok_settle [OF s p] by (simp add: deliverResponse_d_def split: jsval.split bool.split)

lemma dok_receiveResponse:
  assumes s: "dok h n b c (insert p P) s" and p: "p \<notin> P"
  shows "dok h n b c P (fst (tryCatch (receiveResponse_d h i p u s) (\<lambda>s e. (emit_d s (DRejected p (Error m) JUndef), Inr ()))))"
proof (cases "u_seq u \<le> d_recvSeq s")
  case True
  then show ?thesis using dok_settle(2) [OF s p] by (simp add: receiveResponse_d_def)
next
  case False
  let ?s = "s\<lparr>d_recvSeq := u_seq u\<rparr>"
  have s': "dok h n b c (insert p P) ?s" using s False by (intro dok_recvSeq) auto
  obtain s1 r where e: "persistSnapshot_d h ?s = (s1, r)" by fastforce
  have s1: "dok h n b c (insert p P) s1" using dok_persistSnapshot [OF s', of h] e by simp
  show ?thesis
  proof (cases r)
    case (Inl x)
    then show ?thesis using dok_settle(2) [OF s1 p] False e by (simp add: receiveResponse_d_def Let_def)
  next
    case (Inr promise)
    have "dok h n b c (insert p P - set (kont_promises (d_nextK s1, DKResponse i p (u_data u) (d_recvSeq s))))
        (add_kont_d s1 (DKResponse i p (u_data u) (d_recvSeq s)))"
      using s1 by (intro dok_add_kontI) (auto simp: kont_seqs_d_def kont_promises_def is_request_kont_def)
    moreover have "insert p P - {p} = P" using p by blast
    ultimately have k: "dok h n b c P (add_kont_d s1 (DKResponse i p (u_data u) (d_recvSeq s)))" by (simp add: kont_promises_def)
    have "dok h n b c P (fst (tryCatch (deliverResponse_d i p (u_data u) s1) (\<lambda>s e. (emit_d s (DRejected p (Error m) JUndef), Inr ()))))"
    proof (cases "deliverResponse_d i p (u_data u) s1 = (s1, Inl TypeError)")
      case True
      then show ?thesis using dok_settle(2) [OF s1 p] by simp
    next
      case False
      then have "\<not> nullish (u_data u)" by (auto simp: deliverResponse_d_def)
      then have "snd (deliverResponse_d i p (u_data u) s1) = Inr ()"
        by (simp add: deliverResponse_d_def split: jsval.split bool.split)
      then show ?thesis using dok_deliverResponse [OF s1 p, of i "u_data u"] False by (simp add: tryCatch_def)
    qed
    then show ?thesis using False e Inr k by (simp add: receiveResponse_d_def Let_def)
  qed
qed

lemma dok_handleResponse [simp]:
  assumes "dok h n b c P s"
  shows "dok h n b c P (fst (handleResponse_d h msg s))"
proof -
  let ?sealed = "jget (m_body msg) ''sealed''"
  have "dok h n b c P (fst (case d_recvKey t of
      None \<Rightarrow> (emit_d t (DRejected p (Error ''Response must be encrypted'') JUndef), Inr ())
    | Some key \<Rightarrow>
        if \<not> truthy ?sealed then (emit_d t (DRejected p (Error ''Response must be encrypted'') JUndef), Inr ())
        else tryCatch (andThen (t, openSealed_d h key ARes msg (JStr i) ?sealed t) (\<lambda>s u. receiveResponse_d h i p u s))
               (\<lambda>s e. (emit_d s (DRejected p (Error ''Decryption failed'') JUndef), Inr ()))))"
    if t: "dok h n b c (insert p P) t" "p \<notin> P" for i p t
  proof (cases "d_recvKey t")
    case (Some key)
    show ?thesis using Some dok_settle(2) [OF t] dok_receiveResponse [OF t]
      by (cases "openSealed_d h key ARes msg (JStr i) ?sealed t") simp_all
  qed (use dok_settle(2) [OF t] in simp)
  note taken = this
  show ?thesis
  proof (cases "\<exists>i req. jget (m_body msg) ''id'' = JStr i \<and> js_get (d_pending s) i = Some req")
    case True
    then obtain i req where r: "jget (m_body msg) ''id'' = JStr i" "js_get (d_pending s) i = Some req" by blast
    show ?thesis using assms r taken [OF dok_take [OF assms r(2)], of i] by (simp add: handleResponse_d_def Let_def)
  next
    case False
    then show ?thesis using assms by (auto simp: handleResponse_d_def Let_def split: jsval.split option.split)
  qed
qed

lemma dok_deliverEvent [simp]: "dok h n b c P s \<Longrightarrow> dok h n b c P (deliverEvent_d data s)"
  by (simp add: deliverEvent_d_def Let_def)

lemma dok_receiveEvent [simp]: "dok h n b c P s \<Longrightarrow> dok h n b c P (fst (receiveEvent_d k u s))"
  by (auto simp: receiveEvent_d_def Let_def intro!: andThen_inv [where P = "dok h n b c P"] dok_persistSnapshot dok_recvSeq)

lemma dok_handleEvent [simp]:
  assumes "dok h n b c P s"
  shows "dok h n b c P (fst (handleEvent_d k msg s))"
proof -
  have "dok h n b c P (fst (tryCatch (andThen (s, r) (\<lambda>s u. receiveEvent_d k u s)) (\<lambda>s e. (s, Inr ()))))" for r
    using assms by (intro tryCatch_inv [where P = "dok h n b c P"] andThen_inv [where P = "dok h n b c P"]) auto
  then show ?thesis using assms by (simp add: handleEvent_d_def Let_def split: option.split)
qed

subsection \<open>Reconnecting, timers, messages\<close>

lemma dok_giveUp [simp]: "dok h n b c P s \<Longrightarrow> dok h n b c P (giveUpReconnect_d k E s)"
  by (simp add: giveUpReconnect_d_def Let_def)

lemma dok_schedule [simp]: "dok h n b c P s \<Longrightarrow> dok h n b c P (scheduleReconnect_d k E s)"
  by (simp add: scheduleReconnect_d_def Let_def)

lemma dok_reconnecting [simp]:
  assumes "dok h n b c P s"
  shows "dok h n b c P (startReconnect_d k E s)" "dok h n b c P (doReconnectAttempt_d k s)"
    "dok h n b c P (reconnectFailed_d k E s)"
  using assms by (simp_all add: startReconnect_d_def doReconnectAttempt_d_def reconnectFailed_d_def Let_def)

lemma dok_reconnect [simp]: "dok h n b c P s \<Longrightarrow> dok h n b c P (reconnect_d k s)"
  by (simp add: reconnect_d_def Let_def)

lemma dok_transportClose [simp]: "dok h n b c P s \<Longrightarrow> dok h n b c P (handleTransportClose_d k E v w x s)"
  by (simp add: handleTransportClose_d_def Let_def)

lemma ping_d_fields [simp]: "d_heartbeatTimer (ping_d E s) = d_heartbeatTimer s" "d_phase (ping_d E s) = d_phase s"
  by (simp_all add: ping_d_def send_d_def sendRaw_d_def)

lemma dok_timers [simp]:
  assumes "dok h n b c P s"
  shows "dok h n b c P (reconnectTimer_fires_d k s)" "dok h n b c P (ttl_fires_d k E s)" "dok h n b c P (liveness_fires_d k E s)"
    "dok h n b c P (pendingAccept_fires_d k E s)" "dok h n b c P (staleAccept_fires_d k E i s)"
  using assms
  by (simp_all add: reconnectTimer_fires_d_def ttl_fires_d_def liveness_fires_d_def pendingAccept_fires_d_def staleAccept_fires_d_def Let_def)

lemma dok_heartbeatTick [simp]:
  assumes "dok h n b c P s" and "d_heartbeatTimer s"
  shows "dok h n b c P (heartbeatTick_d E s)"
proof -
  have "dok h n b c P (t\<lparr>d_livenessTimer := True\<rparr>)" if "dok h n b c P t" "d_heartbeatTimer t" for t
    using that by (simp add: dok_defs)
  then show ?thesis using assms by (simp add: heartbeatTick_d_def Let_def)
qed

lemma dok_requestTimeout:
  assumes "dok h n b c P s" and "js_get (d_requestTimers s) p = Some t"
  shows "dok h n b c P (requestTimeout_fires_d p t s)"
  using dok_settle(2) [OF dok_timeout [OF assms]] by (simp add: requestTimeout_fires_d_def)

lemma dok_handleReady [simp]:
  assumes "dok h n b c P s"
  shows "dok h n b c P (fst (handleReady_d h E msg s))"
proof -
  have "d_phase (startSessionTtl_d h E (setPhase_d DConnected t)) = DConnected" for t
    by (simp add: startSessionTtl_d_def clearSessionTtl_d_def Let_def)
  then show ?thesis using assms
    by (auto simp: handleReady_d_def Let_def intro!: andThen_inv [where P = "dok h n b c P"])
qed

lemma dok_closeByPeer [simp]: "dok h n b c P s \<Longrightarrow> dok h n b c P (closeByPeer_d k m s)"
  by (simp add: closeByPeer_d_def)

lemma dok_handleTerminate [simp]: "dok h n b c P s \<Longrightarrow> dok h n b c P (handleTerminate_d k E msg s)"
  by (simp add: handleTerminate_d_def Let_def)

lemma dok_handleMessage [simp]: "dok h n b c P s \<Longrightarrow> dok h n b c P (fst (handleMessage_d h E msg s))"
  by (simp add: handleMessage_d_def)

subsection \<open>Continuations and runs\<close>

lemma dok_resume:
  assumes "dok h n b c {} s" and "map_of (d_konts s) i = Some k"
  shows "kont_promises (i, k) = [] \<Longrightarrow> dok h n b c {} (drop_kont_d i s)"
    and "kont_promises (i, k) = [p] \<Longrightarrow> dok h n b c (insert p {}) (drop_kont_d i s)"
  using dok_drop_kont [OF assms] by simp_all

lemma dok_failure_settle:
  assumes "dok h n b c (insert p {}) s"
  shows "dok h n b c {} (case persistenceError_d k E e (s\<lparr>d_recvSeq := v\<rparr>) of (s, w) \<Rightarrow> emit_d s (DRejected p w JUndef))"
    and "dok h n b c {} (case persistenceError_d k E e s of (s, w) \<Rightarrow> emit_d s (DRejected p w JUndef))"
  using dok_settle(2) [OF dok_failure [OF assms, of k E e v]] dok_settle(2) [OF dok_persistenceError [OF assms, of k E e]]
  by (simp_all add: case_prod_beta)

lemma dok_resolve:
  assumes s: "dok h n b c {} s" and k: "map_of (d_konts s) i = Some k"
  shows "dok h n b c {} (resolve_d h E i k (drop_kont_d i s))"
proof (cases k)
  case (DKConnect result)
  then have "dok h n b c (insert i {}) (drop_kont_d i s)" using dok_resume(2) [OF s k] by (simp add: kont_promises_def)
  then have "dok h n b c (insert i {}) (sendCreate_d E (setPhase_d DWaiting (drop_kont_d i s)))" by simp
  then show ?thesis using dok_settle(1) DKConnect by (simp add: resolve_d_def)
next
  case (DKRequest q rid mt params p)
  have t: "dok h n b c (insert p {}) (drop_kont_d i s)" using dok_resume(2) [OF s k] DKRequest by (simp add: kont_promises_def)
  have f: "fresh_d h n b c q (drop_kont_d i s)" using fresh_kont_d [OF s k] DKRequest by (simp add: kont_seqs_d_def)
  have "h_persist h = PAsync"
    using s map_of_SomeD [OF k] DKRequest by (force simp: dok_def table_ok_def is_request_kont_def)
  then show ?thesis using dok_transmit_request [OF t f] DKRequest by (simp add: resolve_d_def)
next
  case (DKResend q rid mt params)
  have f: "fresh_d h n b c q (drop_kont_d i s)" using fresh_kont_d [OF s k] DKResend by (simp add: kont_seqs_d_def)
  show ?thesis using dok_resend [OF dok_resume(1) [OF s k] f] DKResend by (simp add: resolve_d_def kont_promises_def)
next
  case (DKResponse rid p data prev)
  let ?t = "drop_kont_d i s"
  have t: "dok h n b c (insert p {}) ?t" using dok_resume(2) [OF s k] DKResponse by (simp add: kont_promises_def)
  show ?thesis
  proof (cases "nullish data")
    case True
    then show ?thesis using dok_failure_settle(1) [OF t] DKResponse by (simp add: resolve_d_def deliverResponse_d_def Let_def)
  next
    case False
    then have "snd (deliverResponse_d rid p data ?t) = Inr ()"
      by (simp add: deliverResponse_d_def split: jsval.split bool.split)
    then show ?thesis using dok_deliverResponse [OF t, of rid data] DKResponse
      by (cases "deliverResponse_d rid p data ?t") (auto simp: resolve_d_def)
  qed
next
  case (DKEvent data prev)
  then show ?thesis using dok_resume(1) [OF s k] by (simp add: resolve_d_def kont_promises_def)
qed (use dok_resume(1) [OF s k] in \<open>simp_all add: resolve_d_def kont_promises_def\<close>)

lemma dok_rejected:
  assumes s: "dok h n b c {} s" and k: "map_of (d_konts s) i = Some k"
  shows "dok h n b c {} (rejected_d h E i e k (drop_kont_d i s))"
proof (cases k)
  case (DKConnect result)
  then have "dok h n b c (insert i {}) (drop_kont_d i s)" using dok_resume(2) [OF s k] by (simp add: kont_promises_def)
  then show ?thesis using dok_settle(2) DKConnect by (simp add: rejected_d_def)
next
  case (DKRequest q rid mt params p)
  have t: "dok h n b c (insert p {}) (drop_kont_d i s)" using dok_resume(2) [OF s k] DKRequest by (simp add: kont_promises_def)
  then show ?thesis using dok_failure_settle(2) [OF t] DKRequest by (simp add: rejected_d_def)
next
  case (DKResponse rid p data prev)
  have t: "dok h n b c (insert p {}) (drop_kont_d i s)" using dok_resume(2) [OF s k] DKResponse by (simp add: kont_promises_def)
  then show ?thesis using dok_failure_settle(1) [OF t] DKResponse by (simp add: rejected_d_def)
next
  case (DKEvent data prev)
  then show ?thesis using dok_failure [OF dok_resume(1) [OF s k], of h E e prev]
    by (simp add: rejected_d_def case_prod_beta kont_promises_def)
qed (use dok_resume(1) [OF s k] in \<open>simp_all add: rejected_d_def kont_promises_def\<close>)

text \<open>The events of one session: everything but a change of the keys and numbers.\<close>

definition same_session_d :: "devent \<Rightarrow> bool" where
  "same_session_d e = (case e of DCreatePairing _ \<Rightarrow> False | DRestore _ \<Rightarrow> False | _ \<Rightarrow> True)"

lemma dok_step:
  assumes "dok h n b c {} s" and "dapp_step h E e s = Some s'" and "same_session_d e"
  shows "dok h n b c {} s'"
proof (cases e)
  case (DOnResolve i)
  then show ?thesis using assms dok_resolve by (auto simp: dapp_step_def)
next
  case (DOnReject i x)
  then show ?thesis using assms dok_rejected by (auto simp: dapp_step_def)
next
  case (DOnRequestTimeout p)
  then show ?thesis using assms dok_requestTimeout by (auto simp: dapp_step_def split: option.splits if_splits)
qed (use assms in \<open>auto simp: dapp_step_def same_session_d_def split: option.splits if_splits\<close>)

inductive dsession_trans :: "dconfig \<Rightarrow> dsession \<Rightarrow> env \<times> devent \<Rightarrow> dsession \<Rightarrow> bool" for h where
  "dapp_trans h s l s' \<Longrightarrow> same_session_d (snd l) \<Longrightarrow> dsession_trans h s l s'"

inductive_cases dsession_transE: "dsession_trans h s l s'"

lemma dok_trans:
  assumes "dok h n b c {} s" and "dsession_trans h s l s'"
  shows "dok h n b c {} s'"
  using assms(2) by (cases rule: dsession_trans.cases) (auto elim!: dapp_transE intro: dok_step [OF assms(1)])

lemma dok_steps: "steps (dsession_trans h) s es s' \<Longrightarrow> dok h n b c {} s \<Longrightarrow> dok h n b c {} s'"
  by (induction rule: steps.induct) (auto intro: dok_trans)

text \<open>A run starts with no send waiting for its save, the table within its bound, the promises accounted for.\<close>

definition reserved_d :: "dsession \<Rightarrow> int list" where
  "reserved_d s = concat (map (\<lambda>c. kont_seqs_d (snd c)) (d_konts s))"

definition drun_start :: "dconfig \<Rightarrow> dsession \<Rightarrow> bool" where
  "drun_start h s \<longleftrightarrow> reserved_d s = [] \<and> timers_ok_d s \<and> table_ok h s \<and> promises_ok {} s \<and> konts_ok s"

definition drun_ok :: "dconfig \<Rightarrow> dsession \<Rightarrow> dsession \<Rightarrow> bool" where
  "drun_ok h s0 s \<longleftrightarrow> (drun_start h s0 \<longrightarrow> dok h (length (d_out s0)) (d_sendSeq s0) (drun_context_of s0) {} s)"

lemma drun_start_dok: "drun_start h s \<Longrightarrow> dok h (length (d_out s)) (d_sendSeq s) (drun_context_of s) {} s"
  using dl.ledger_start
  by (auto simp: drun_start_def reserved_d_def dl.reserved_seqs_def dok_def ledger_d_def recv_ok_d_def kept_def joins_ok_def drun_context_of_def)

interpretation dapp_run: inductive_invariant s0 "dsession_trans h" "drun_ok h s0"
proof
  show "drun_ok h s0 s0" by (simp add: drun_ok_def drun_start_dok)
  show "drun_ok h s0 s'" if "drun_ok h s0 s" "dsession_trans h s e s'" for s e s'
    using that unfolding drun_ok_def by (blast intro: dok_trans)
qed

lemma drun_steps:
  assumes "steps (dsession_trans h) s0 es s" and "drun_start h s0"
  shows "dok h (length (d_out s0)) (d_sendSeq s0) (drun_context_of s0) {} s"
  using dapp_run.inv_steps [OF assms(1), of s0] drun_start_dok [OF assms(2)] assms(2) by (simp add: drun_ok_def)

end
