(* ===== verification/Session_Recovery.thy ===== *)
theory Session_Recovery
  imports Session_Base Crypto_Theorems
begin

text \<open>
  What both session objects share when they recover: reading back a signed snapshot, and the
  argument that a streak of failing reconnect attempts ends.  The latter is the locale
  \<open>retry_rounds\<close>; each session interprets it.
\<close>

subsection \<open>Signed snapshots\<close>

lemma utf16_units_ascii_append: "is_ascii a \<Longrightarrow> utf16_units (a @ s) = map of_char a @ utf16_units s"
  by (induction a) (simp_all add: is_ascii_def)

lemma tagged_snapshot:
  assumes "noble_spec X" and "json \<noteq> []" and "utf16_width (hd json) \<noteq> 0"
  shows "is_tagged (signSnapshot X k json)" "js_drop 65 (signSnapshot X k json) = json"
proof -
  let ?t = "n_bytesToHex X (n_hmac X (deriveSnapshotHmacKey X k) (n_utf8ToBytes X json))"
  have t: "list_all lower_hex ?t" "length ?t = 64"
    using hex_facts(2,3) [OF assms(1)] assms(1) by (simp_all add: noble_spec_def mac_spec_def)
  then have a: "is_ascii ?t" by (intro lower_hex_ascii)
  have s: "signSnapshot X k json = (?t @ ''.'') @ json" by (simp add: signSnapshot_def)
  have a2: "is_ascii (?t @ ''.'')" using a by (simp add: is_ascii_def)
  have "0 < js_length json" using assms(2,3) by (cases json) auto
  moreover have "utf16_units ((?t @ ''.'') @ json) ! 64 = of_char (CHR ''.'')"
    using t(2) by (simp only: utf16_units_ascii_append [OF a2]) (simp add: nth_append)
  ultimately show "is_tagged (signSnapshot X k json)"
    using t(2) js_length_ascii [OF a2] by (simp only: is_tagged_def s js_length_append) simp
  show "js_drop 65 (signSnapshot X k json) = json"
    using js_drop_ascii_prefix [OF a2, of json] t(2) assms(2,3) unfolding s by simp
qed

lemma num_field_int: "jget d k = JNum (of_int i) \<Longrightarrow> num_field d k v = Inr i"
  by (simp add: num_field_def coalesce_def)

lemma hex_fields:
  assumes "noble_spec X" and "jget d k = JStr (n_bytesToHex X b)" and "b \<noteq> []"
  shows "truthy (jget d k)" "hex_field X d k = Inr b" "opt_hex_field X d k = Inr (Some b)"
proof -
  have "n_bytesToHex X b \<noteq> []" using hex_facts(2) [OF assms(1), of b] assms(3) by (cases b) auto
  then show "truthy (jget d k)" "hex_field X d k = Inr b" "opt_hex_field X d k = Inr (Some b)"
    using assms(2) hex_facts(1) [OF assms(1)] by (simp_all add: hex_field_def text_field_def opt_hex_field_def)
qed

lemma b64url_text: "length (text_encode (b64urlEncode bs)) = (4 * length bs + 2) div 3"
proof -
  have "is_ascii (b64urlEncode bs)"
    using b64urlEncode_alphabet [of bs] by (fastforce simp: is_ascii_def list_all_iff b64url_alphabet_def Let_def)
  then show ?thesis by (simp add: text_encode_ascii b64urlEncode_length)
qed

subsection \<open>Reconnect streaks\<close>

text \<open>Rounds far enough apart for the timer, whatever the jitter.\<close>

fun spaced :: "int \<Rightarrow> (env \<times> exn) list \<Rightarrow> bool" where
  "spaced t [] = True"
| "spaced t ((E, x) # ls) = (t + 39000 \<le> e_now E \<and> 0 \<le> e_rnd E \<and> e_rnd E < 1 \<and> spaced (e_now E) ls)"

locale retry_rounds =
  fixes attempt :: "'s \<Rightarrow> env \<times> exn \<Rightarrow> 's"
    and retrying :: "int \<Rightarrow> nat \<Rightarrow> 's \<Rightarrow> bool"
    and given_up :: "'s \<Rightarrow> bool"
    and limit :: int
  assumes below: "retrying t a s \<Longrightarrow> int a < limit"
    and progress: "retrying t a s \<Longrightarrow> t + 39000 \<le> e_now E \<Longrightarrow> 0 \<le> e_rnd E \<Longrightarrow> e_rnd E < 1 \<Longrightarrow>
      given_up (attempt s (E, x)) \<or> retrying (e_now E) (Suc a) (attempt s (E, x))"
    and absorbing: "given_up s \<Longrightarrow> attempt s l = s"
begin

lemma stays_given_up: "given_up s \<Longrightarrow> foldl attempt s ls = s"
  by (induction ls) (simp_all add: absorbing)

lemma gives_up:
  assumes "retrying t a s" and "spaced t ls" and "limit \<le> int (a + length ls)"
  shows "given_up (foldl attempt s ls)"
  using assms
proof (induction ls arbitrary: s t a)
  case Nil
  then show ?case using below [of t a s] by simp
next
  case (Cons l ls)
  obtain E x where l: "l = (E, x)" by fastforce
  then have E: "t + 39000 \<le> e_now E" "0 \<le> e_rnd E" "e_rnd E < 1" "spaced (e_now E) ls" using Cons(3) by simp_all
  consider "given_up (attempt s l)" | "retrying (e_now E) (Suc a) (attempt s l)"
    using progress [OF Cons(2) E(1-3)] l by blast
  then show ?case
  proof cases
    case 1
    then show ?thesis using stays_given_up by simp
  next
    case 2
    then show ?thesis using Cons(1) [OF 2 E(4)] Cons(4) by simp
  qed
qed

end

end
