(* ===== verification/Dapp_Theorems.thy ===== *)
theory Dapp_Theorems
  imports Dapp_Runs Session_Recovery
begin

text \<open>
  Properties of the dApp session: what every run between two changes of identity guarantees about
  sequence numbers, promises, replays and the table of requests; what a join must grant; what
  closing settles.
\<close>

subsection \<open>A concrete session\<close>

definition demo_dcfg :: dconfig where
  "demo_dcfg = \<lparr>h_noble = demo_noble, h_meta = JObj [(''name'', JStr ''d'')], h_methods = Some [''m''], h_chains = None,
     h_url = ''wss://r'', h_requestTimeout = 300000, h_autoAccept = True, h_resendOnReconnect = True,
     h_sessionTtl = 86400000, h_heartbeatInterval = 20000, h_maxReconnectAttempts = 2, h_maxReconnectDurationMs = 300000,
     h_persist = PSync, h_hasClear = True, h_hasSetUrl = True\<rparr>"

definition demo_clock :: env where
  "demo_clock = \<lparr>e_now = 5, e_rnd = 0, e_priv = demo_key, e_rand = replicate 12 1\<rparr>"

definition demo_dapp :: dsession where
  "demo_dapp = (dapp_init demo_dcfg)\<lparr>d_phase := DConnected, d_channelId := demo_channel,
     d_privKey := Some demo_key, d_pubKeyB64 := ''p'', d_remotePubKey := Some demo_key, d_sendKey := Some demo_key,
     d_recvKey := Some demo_key, d_sendSeq := 7, d_recvSeq := 3, d_paired := True\<rparr>"

lemma demo_dapp_fields [simp]:
  "d_phase demo_dapp = DConnected" "d_sendKey demo_dapp = Some demo_key" "d_privKey demo_dapp = Some demo_key"
  "d_sendSeq demo_dapp = 7" "d_reqCounter demo_dapp = 0" "d_out demo_dapp = []" "d_channelId demo_dapp = demo_channel"
  "d_pubKeyB64 demo_dapp = ''p''" "d_recvKey demo_dapp = Some demo_key" "d_recvSeq demo_dapp = 3"
  "d_remotePubKey demo_dapp = Some demo_key" "d_pending demo_dapp = []" "d_requestTimers demo_dapp = []" "d_konts demo_dapp = []"
  "d_nextK demo_dapp = 0"
  by (simp_all add: demo_dapp_def dapp_init_def)

lemma demo_dcfg_fields [simp]: "h_persist demo_dcfg = PSync" "h_noble demo_dcfg = demo_noble"
  by (simp_all add: demo_dcfg_def)

lemma demo_dapp_start: "drun_start demo_dcfg demo_dapp"
  by (simp add: drun_start_def reserved_d_def timers_ok_d_def table_ok_def promises_ok_def pool_def armed_def timer_keys_def
      konts_ok_def js_map_ok_def js_keys_def js_size_def MAX_PENDING_REQUESTS_def demo_dapp_def dapp_init_def)

lemma seals_d_simps [simp]:
  "seals_d [] = []" "seals_d (e # es) = eff_seqs_d e @ seals_d es" "seals_d (es @ fs) = seals_d es @ seals_d fs"
  by (simp_all add: seals_d_def)

lemma request_sync:
  assumes "d_phase s = DConnected" and "d_sendKey s = Some k" and "js_size (d_pending s) < MAX_PENDING_REQUESTS"
    and "nextSendSeq_d h E (s\<lparr>d_nextK := Suc (d_nextK s), d_reqCounter := Suc (d_reqCounter s)\<rparr>) = (s1, Inr (q, False))"
    and "buildRequestMessage_d h E (''req-'' @ dec_digits (Suc (d_reqCounter s))) method params q s1 = (s2, Inr msg)"
  shows "request_d h E method params s = sendRaw_d msg (s2\<lparr>
      d_requestTimers := js_set (d_requestTimers s2) (d_nextK s) \<lparr>rt_id = ''req-'' @ dec_digits (Suc (d_reqCounter s)),
        rt_method = method, rt_due = e_now E + h_requestTimeout h\<rparr>,
      d_pending := js_set (d_pending s2) (''req-'' @ dec_digits (Suc (d_reqCounter s)))
        \<lparr>q_method = method, q_params = params, q_promise = d_nextK s\<rparr>\<rparr>)"
  using assms by (simp add: request_d_def Let_def not_le or_reject_d_def transmit_request_d_def)

lemma demo_request_step:
  "\<exists>s xs ys. dsession_trans demo_dcfg demo_dapp (demo_clock, DRequest ''m'' JNull) s \<and> d_out s = xs @ DSeal 7 # ys \<and>
     s = request_d demo_dcfg demo_clock ''m'' JNull demo_dapp"
proof -
  let ?s = "demo_dapp\<lparr>d_nextK := Suc 0, d_reqCounter := Suc 0, d_sendSeq := 8\<rparr>"
  obtain t where t: "serialize_d demo_dcfg ?s = Inr t" by (simp add: serialize_d_def)
  let ?u = "emit_d ?s (DSave t)"
  let ?h = "Some \<lparr>h_type = AReq, h_from = ''p'', h_id = ''req-1''\<rparr>"
  obtain z where z: "sealPayload demo_noble demo_key demo_channel 7 (buildSealedParams ''m'' JNull) ?h = Inr z"
    using seal_total [OF demo_noble_spec, of demo_key 7 demo_channel ?h "buildSealedParams ''m'' JNull"]
    by (auto simp: MAX_SEQ_def text_encode_ascii is_ascii_def)
  let ?m = "peer_msg ''req'' demo_channel (e_now demo_clock) ''p'' [(''id'', JStr ''req-1''), (''sealed'', JStr z)]"
  have n: "nextSendSeq_d demo_dcfg demo_clock (demo_dapp\<lparr>d_nextK := Suc 0, d_reqCounter := Suc 0\<rparr>) = (?u, Inr (7, False))"
    by (simp add: nextSendSeq_d_def persistSnapshot_d_def t MAX_SEND_SEQ_def Let_def)
  have b: "buildRequestMessage_d demo_dcfg demo_clock ''req-1'' ''m'' JNull 7 ?u = (emit_d ?u (DSeal 7), Inr ?m)"
    using z by (simp add: buildRequestMessage_d_def)
  have "dec_digits (Suc 0) = ''1''" by code_simp
  then obtain s3 where s3: "request_d demo_dcfg demo_clock ''m'' JNull demo_dapp = sendRaw_d ?m s3" "d_out s3 = [DSave t, DSeal 7]"
    using request_sync [of demo_dapp demo_key demo_dcfg demo_clock ?u 7 "''m''" JNull "emit_d ?u (DSeal 7)" ?m] n b
    by (simp add: MAX_PENDING_REQUESTS_def js_size_def)
  have "\<exists>ys. d_out (sendRaw_d ?m s3) = [DSave t] @ DSeal 7 # ys" using s3(2) by (simp add: sendRaw_d_def)
  moreover have "dsession_trans demo_dcfg demo_dapp (demo_clock, DRequest ''m'' JNull) (request_d demo_dcfg demo_clock ''m'' JNull demo_dapp)"
    by (simp add: dsession_trans.simps dapp_trans_iff dapp_step_def same_session_d_def)
  ultimately show ?thesis using s3(1) by metis
qed

lemma demo_request_run:
  obtains s xs ys where "steps (dsession_trans demo_dcfg) demo_dapp [(demo_clock, DRequest ''m'' JNull)] s" "d_out s = xs @ DSeal 7 # ys"
  using demo_request_step by (blast intro: steps_Cons steps_Nil)

subsection \<open>Sequence numbers\<close>



text \<open>Write-ahead on the dApp's side: with persistence configured, before a request is encrypted
  under a number, a snapshot of the same channel whose counter is above that number has been handed
  to \<^verbatim>\<open>save\<close>.\<close>

theorem dapp_write_ahead:
  assumes "steps (dsession_trans h) s0 es s" and "drun_start h s0" and "h_persist h \<noteq> PNone"
    and "d_out s = xs @ DSeal q # ys" and "length (d_out s0) \<le> length xs"
  shows "\<exists>t saved. serialize_d h t = Inr saved \<and> d_channelId t = d_channelId s0 \<and> q < d_sendSeq t \<and> DSave saved \<in> set xs"
proof -
  have "saved_above_d h (drun_context_of s0) q xs"
    using drun_steps [OF assms(1,2)] assms(4,5) by (fastforce simp: dok_def ledger_d_def dl.ledger_ok_def eff_seqs_d_def)
  then show ?thesis using assms(3) by (auto simp: saved_above_d_def drun_context_of_def)
qed

theorem dapp_write_ahead_witness:
  "\<exists>t saved. serialize_d demo_dcfg t = Inr saved \<and> d_channelId t = demo_channel \<and> 7 < d_sendSeq t"
proof -
  obtain s xs ys where s: "steps (dsession_trans demo_dcfg) demo_dapp [(demo_clock, DRequest ''m'' JNull)] s"
      "d_out s = xs @ DSeal 7 # ys"
    using demo_request_run .
  show ?thesis using dapp_write_ahead [OF s(1) demo_dapp_start _ s(2)] by auto
qed

subsection \<open>Promises\<close>

text \<open>C4. No promise is settled twice and every open request has its own deadline: in every reachable
  state of a run the promises settled so far are pairwise different; each request in the table
  belongs to a promise that is not settled yet, that no other request and no waiting continuation
  has, and for which a timer with the id of that request is armed.\<close>

theorem dapp_promises_settled_once:
  assumes "steps (dsession_trans h) s0 es s" and "drun_start h s0"
  shows "distinct (settled (d_out s)) \<and> distinct (table_promises (d_pending s)) \<and>
    (\<forall>e \<in> set (d_pending s). q_promise (snd e) \<notin> set (settled (d_out s)) \<and> q_promise (snd e) \<notin> set (kont_pool (d_konts s)) \<and>
       (\<exists>t. js_get (d_requestTimers s) (q_promise (snd e)) = Some t \<and> rt_id t = fst e))"
proof -
  have P: "promises_ok {} s" using drun_steps [OF assms] by (simp add: dok_def)
  have "q_promise (snd e) \<in> set (table_promises (d_pending s))" if "e \<in> set (d_pending s)" for e
    using that by (simp add: table_promises_def)
  moreover have "set (table_promises (d_pending s)) \<inter> set (settled (d_out s)) = {}"
    "set (table_promises (d_pending s)) \<inter> set (kont_pool (d_konts s)) = {}"
    "distinct (settled (d_out s))" "distinct (table_promises (d_pending s))"
    using P by (auto simp: promises_ok_def pool_def)
  moreover have "armed s" using P by (simp add: promises_ok_def)
  ultimately show ?thesis unfolding armed_def by blast
qed

theorem dapp_promises_settled_once_witness:
  "\<exists>s :: dsession. 7 \<in> set (seals_d (d_out s)) \<and> distinct (settled (d_out s))"
proof -
  obtain s xs ys where s: "steps (dsession_trans demo_dcfg) demo_dapp [(demo_clock, DRequest ''m'' JNull)] s"
      "d_out s = xs @ DSeal 7 # ys"
    using demo_request_run .
  have "7 \<in> set (seals_d (d_out s))" using s(2) by (simp add: eff_seqs_d_def)
  then show ?thesis using dapp_promises_settled_once [OF s(1) demo_dapp_start] by blast
qed

lemma waiting_not_settled:
  assumes "dok h n b c {} s" and "p \<in> waiting s"
  shows "p \<notin> set (settled (d_out s))"
  using assms by (auto simp: dok_def promises_ok_def pool_def waiting_def)

text \<open>C13. No request is forgotten: whatever happens after the application called \<^verbatim>\<open>request\<close>, the promise it
  got is in every later state either settled, and then exactly once, or it still waits, and then
  its timeout is armed or a save it depends on has not completed.\<close>

theorem dapp_request_never_lost:
  assumes "steps (dsession_trans h) s0 es s1" and "drun_start h s0"
    and "dsession_trans h s1 (E, DRequest method params) s2" and "steps (dsession_trans h) s2 es' s"
  shows "(d_nextK s1 \<in> set (settled (d_out s))) \<noteq> (d_nextK s1 \<in> waiting s) \<and> distinct (settled (d_out s))"
proof -
  let ?n = "length (d_out s0)" let ?b = "d_sendSeq s0" let ?c = "(drun_context_of s0)\<lparr>y_promises := {d_nextK s1}\<rparr>"
  have s2: "s2 = request_d h E method params s1"
    using assms(3) by (auto simp: dapp_step_def elim!: dsession_transE dapp_transE)
  have "dok h ?n ?b ?c {} s2" unfolding s2 using dok_request_keeps [OF drun_steps [OF assms(1,2)]] .
  then have s: "dok h ?n ?b ?c {} s" using dok_steps [OF assms(4)] by blast
  then have "d_nextK s1 \<in> set (settled (d_out s)) \<union> waiting s" by (simp add: dok_def kept_def)
  moreover have "distinct (settled (d_out s))" using s by (simp add: dok_def promises_ok_def pool_def)
  ultimately show ?thesis using waiting_not_settled [OF s] by blast
qed

theorem dapp_request_never_lost_witness:
  "\<exists>s :: dsession. 7 \<in> set (seals_d (d_out s)) \<and> (0 \<in> set (settled (d_out s))) \<noteq> (0 \<in> waiting s)"
proof -
  obtain s xs ys where s: "dsession_trans demo_dcfg demo_dapp (demo_clock, DRequest ''m'' JNull) s" "d_out s = xs @ DSeal 7 # ys"
    using demo_request_step by blast
  show ?thesis
    using dapp_request_never_lost [OF steps_Nil [of "dsession_trans demo_dcfg"] demo_dapp_start s(1) steps_Nil] s(2)
    by (intro exI [of _ s]) (simp add: eff_seqs_d_def)
qed

text \<open>C24. The table of requests is bounded: as long as \<^verbatim>\<open>save\<close> does not return promises, at most 32
  requests are open in every reachable state of a run; and the heartbeat and its deadline run only
  while connected.\<close>

theorem dapp_pending_bounded:
  assumes "steps (dsession_trans h) s0 es s" and "drun_start h s0"
  shows "(h_persist h \<noteq> PAsync \<longrightarrow> js_size (d_pending s) \<le> MAX_PENDING_REQUESTS) \<and>
    (d_phase s \<noteq> DConnected \<longrightarrow> \<not> d_heartbeatTimer s \<and> \<not> d_livenessTimer s)"
  using drun_steps [OF assms] by (auto simp: dok_def table_ok_def timers_ok_d_def)

theorem dapp_pending_bounded_witness:
  "\<exists>s :: dsession. 7 \<in> set (seals_d (d_out s)) \<and> js_size (d_pending s) \<le> 32"
proof -
  obtain s xs ys where s: "steps (dsession_trans demo_dcfg) demo_dapp [(demo_clock, DRequest ''m'' JNull)] s"
      "d_out s = xs @ DSeal 7 # ys"
    using demo_request_run .
  have "7 \<in> set (seals_d (d_out s))" using s(2) by (simp add: eff_seqs_d_def)
  moreover have "h_persist demo_dcfg \<noteq> PAsync" by simp
  ultimately show ?thesis using dapp_pending_bounded [OF s(1) demo_dapp_start] unfolding MAX_PENDING_REQUESTS_def by blast
qed

subsection \<open>Replays\<close>

lemma recv_monotone:
  assumes "steps (dsession_trans h) s0 es s" and "drun_start h s0" and "\<not> list_ex failure_d (drop (length (d_out s0)) (d_out s))"
  shows "d_recvSeq s0 \<le> d_recvSeq s"
  using drun_steps [OF assms(1,2)] assms(3) by (simp add: dok_def recv_ok_d_def drun_context_of_def)

lemma openSealed_channel: "d_channelId t = d_channelId s \<Longrightarrow> openSealed_d h key ty msg i z t = openSealed_d h key ty msg i z s"
  unfolding openSealed_d_def by (erule ssubst) (rule refl)

text \<open>A replayed event has no effect: once a number has been received, a sealed event that carries
  it or a smaller one changes nothing in any later state of the session, unless a failure to save
  was reported in between.\<close>

theorem dapp_replayed_event_dropped:
  assumes "steps (dsession_trans h) s0 es s" and "drun_start h s0" and "\<not> list_ex failure_d (drop (length (d_out s0)) (d_out s))"
    and "m_t msg = ''evt''" and "m_v msg = 1" and "m_from msg \<noteq> ''_adapter''" and "d_recvKey s = Some key"
    and "openSealed_d h key AEvt msg (jget (m_body msg) ''id'') (jget (m_body msg) ''sealed'') s = Inr u"
    and "u_seq u \<le> d_recvSeq s0"
  shows "handleMessage_d h E msg s = (s, Inr ())"
proof -
  have "receiveEvent_d h u s = (s, Inr ())" using recv_monotone [OF assms(1-3)] assms(9) by (simp add: receiveEvent_d_def)
  then show ?thesis using assms(4-8) by (simp add: handleMessage_d_def handleEvent_d_def Let_def split: option.split)
qed

text \<open>C22. A replayed response never resolves a request: when the answer to an open request is sealed
  under a number already received, the request is taken from the table with its timer and its
  promise rejected with \<^verbatim>\<open>Replay detected\<close>; nothing else changes.\<close>

theorem dapp_replayed_response_rejected:
  assumes "steps (dsession_trans h) s0 es s" and "drun_start h s0" and "\<not> list_ex failure_d (drop (length (d_out s0)) (d_out s))"
    and "m_t msg = ''res''" and "m_v msg = 1" and "m_from msg \<noteq> ''_adapter''" and "d_recvKey s = Some key"
    and "d_phase s = DConnected" and "d_remotePubKey s = Some r" and "m_from msg = b64urlEncode r"
    and "jget (m_body msg) ''id'' = JStr i" and "i \<noteq> []" and "js_get (d_pending s) i = Some req"
    and "truthy (jget (m_body msg) ''sealed'')"
    and "openSealed_d h key ARes msg (JStr i) (jget (m_body msg) ''sealed'') s = Inr u"
    and "u_seq u \<le> d_recvSeq s0"
  shows "handleMessage_d h E msg s =
    (emit_d (s\<lparr>d_pending := js_delete (d_pending s) i, d_requestTimers := js_delete (d_requestTimers s) (q_promise req)\<rparr>)
       (DRejected (q_promise req) (Error ''Replay detected'') JUndef), Inr ())"
proof -
  have "u_seq u \<le> d_recvSeq s" using recv_monotone [OF assms(1-3)] assms(16) by simp
  moreover have "openSealed_d h key ARes msg (JStr i) (jget (m_body msg) ''sealed'')
      (s\<lparr>d_pending := js_delete (d_pending s) i, d_requestTimers := js_delete (d_requestTimers s) (q_promise req)\<rparr>) = Inr u"
    using assms(15) by (subst openSealed_channel [of _ s]) simp_all
  ultimately show ?thesis using assms(4-14)
    by (simp add: handleMessage_d_def handleResponse_d_def receiveResponse_d_def Let_def)
qed

definition demo_frame :: "string \<Rightarrow> string \<Rightarrow> wmsg" where
  "demo_frame t sealed = peer_msg t demo_channel 0 (b64urlEncode demo_key) [(''id'', JStr ''1''), (''sealed'', JStr sealed)]"

lemma demo_sealed:
  obtains z u where "z \<noteq> []" "u_seq u = 3"
    "unsealPayload demo_noble demo_key demo_channel z (Some \<lparr>h_type = ty, h_from = b64urlEncode demo_key, h_id = ''1''\<rparr>) = Inr u"
proof -
  let ?h = "Some \<lparr>h_type = ty, h_from = b64urlEncode demo_key, h_id = ''1''\<rparr>"
  obtain z u where z: "unsealPayload demo_noble demo_key demo_channel z ?h = Inr u" "u_seq u = 3"
    using seal_unseal [OF demo_noble_spec, of demo_key 3 demo_channel ?h, OF _ _ _ _ _ _ demo_canon]
    by (auto simp: MAX_SEQ_def b64url_text text_encode_ascii is_ascii_def)
  have "b64urlDecode [] = Inr []" by code_simp
  then have "z \<noteq> []" using z(1) by (auto simp: unsealPayload_def Let_def res_bind_Inr getUint32_def)
  then show ?thesis using that z by blast
qed

lemma demo_key_not_adapter: "b64urlEncode demo_key \<noteq> ''_adapter''"
  using b64urlEncode_length [of demo_key] by (intro notI) simp

theorem dapp_replayed_event_dropped_witness:
  "\<exists>z u. openSealed_d demo_dcfg demo_key AEvt (demo_frame ''evt'' z) (JStr ''1'') (JStr z) demo_dapp = Inr u \<and> u_seq u = 3 \<and>
     handleMessage_d demo_dcfg demo_clock (demo_frame ''evt'' z) demo_dapp = (demo_dapp, Inr ())"
proof -
  obtain z u where z: "z \<noteq> []" "u_seq u = 3"
    "unsealPayload demo_noble demo_key demo_channel z (Some \<lparr>h_type = AEvt, h_from = b64urlEncode demo_key, h_id = ''1''\<rparr>) = Inr u"
    using demo_sealed .
  have o: "openSealed_d demo_dcfg demo_key AEvt (demo_frame ''evt'' z) (JStr ''1'') (JStr z) demo_dapp = Inr u"
    using z(3) by (simp add: openSealed_d_def demo_frame_def peer_msg_def)
  have "handleMessage_d demo_dcfg demo_clock (demo_frame ''evt'' z) demo_dapp = (demo_dapp, Inr ())"
    using o z(2) demo_key_not_adapter
    by (intro dapp_replayed_event_dropped [OF steps_Nil [of "dsession_trans demo_dcfg"] demo_dapp_start, of "demo_frame ''evt'' z" demo_key u])
      (simp_all add: demo_frame_def peer_msg_def)
  then show ?thesis using o z(2) by blast
qed

definition demo_asked :: dsession where
  "demo_asked = demo_dapp\<lparr>d_pending := [(''1'', \<lparr>q_method = ''m'', q_params = JNull, q_promise = 0\<rparr>)],
     d_requestTimers := [(0, \<lparr>rt_id = ''1'', rt_method = ''m'', rt_due = 9\<rparr>)], d_nextK := 1\<rparr>"

lemma demo_asked_start: "drun_start demo_dcfg demo_asked"
  by (simp add: drun_start_def reserved_d_def timers_ok_d_def table_ok_def promises_ok_def pool_def armed_def timer_keys_def
      konts_ok_def js_map_ok_def js_keys_def js_size_def js_get_def MAX_PENDING_REQUESTS_def demo_asked_def demo_dapp_def dapp_init_def)

theorem dapp_replayed_response_rejected_witness:
  "\<exists>z s. handleMessage_d demo_dcfg demo_clock (demo_frame ''res'' z) demo_asked =
     (emit_d s (DRejected 0 (Error ''Replay detected'') JUndef), Inr ())"
proof -
  obtain z u where z: "z \<noteq> []" "u_seq u = 3"
    "unsealPayload demo_noble demo_key demo_channel z (Some \<lparr>h_type = ARes, h_from = b64urlEncode demo_key, h_id = ''1''\<rparr>) = Inr u"
    using demo_sealed .
  let ?r = "\<lparr>q_method = ''m'', q_params = JNull, q_promise = 0\<rparr>"
  have "handleMessage_d demo_dcfg demo_clock (demo_frame ''res'' z) demo_asked =
    (emit_d (demo_asked\<lparr>d_pending := js_delete (d_pending demo_asked) ''1'', d_requestTimers := js_delete (d_requestTimers demo_asked) (q_promise ?r)\<rparr>)
       (DRejected (q_promise ?r) (Error ''Replay detected'') JUndef), Inr ())"
    using z demo_key_not_adapter
    by (intro dapp_replayed_response_rejected [OF steps_Nil [of "dsession_trans demo_dcfg"] demo_asked_start, of _ demo_key demo_key "''1''" ?r u])
      (simp_all add: demo_frame_def peer_msg_def demo_asked_def js_get_def openSealed_d_def)
  then show ?thesis by auto
qed

subsection \<open>Joining\<close>

lemma establish_announces:
  assumes "deriveDirectionalSessionKeys (h_noble h) rk (d_channelId s) (sessionContext_d j cap meta s) = Inr keys"
    and "missing (h_methods h) (jget cap ''methods'') = []" and "missing (h_chains h) (jget cap ''chains'') = []"
  shows "establishJoin_d h E j r rk cap meta s =
    announceJoin_d h E r (isSameApprovedWallet_d h j cap meta s) cap meta (s\<lparr>d_walletCapabilities := cap, d_walletMeta := meta,
      d_sendKey := Some (dk_dappToWalletKey keys), d_recvKey := Some (dk_walletToDappKey keys)\<rparr>)"
  using assms by (simp add: establishJoin_d_def sessionContext_d_def Let_def)

text \<open>The keys, the identity and the effects so far survive.\<close>

definition carries :: "dsession \<Rightarrow> dsession \<Rightarrow> bool" where
  "carries s t \<longleftrightarrow> d_sendKey t = d_sendKey s \<and> d_recvKey t = d_recvKey s \<and> d_channelId t = d_channelId s \<and>
     d_pubKeyB64 t = d_pubKeyB64 s \<and> set (d_out s) \<subseteq> set (d_out t)"

lemma carries_prims [simp]:
  "carries s s" "carries s t \<Longrightarrow> carries s (emit_d t e)"
  "carries s t \<Longrightarrow> carries s (add_kont_d t k)" "carries s t \<Longrightarrow> carries s (setPhase_d p t)" "carries s t \<Longrightarrow> carries s (send_d E ty body t)"
  by (auto simp: carries_def add_kont_d_def setPhase_d_def stopHeartbeat_d_def clearLiveness_d_def send_d_def sendRaw_d_def Let_def)

lemma carries_doAccept: "carries s t \<Longrightarrow> carries s (fst (doAccept_d h E r t))"
proof -
  assume t: "carries s t"
  let ?t = "t\<lparr>d_paired := True, d_approvedCapabilities := d_walletCapabilities t, d_approvedWalletMeta := d_walletMeta t,
    d_approvedWalletPubKeyB64 := JStr (b64urlEncode r), d_approvedScopeRecorded := True\<rparr>"
  have "carries s ?t" using t by (simp add: carries_def)
  then have "carries s (fst (persistSnapshot_d h ?t))" by (simp add: persistSnapshot_d_def split: sum.split)
  then show ?thesis unfolding doAccept_d_def Let_def
    by (intro andThen_inv [where P = "carries s"]) (simp_all add: sendAccept_d_def)
qed

lemma announce_facts:
  "carries s (fst (announceJoin_d h E r kw cap meta s))"
  "DWalletJoined cap meta \<in> set (d_out (fst (announceJoin_d h E r kw cap meta s)))"
proof -
  have "carries (emit_d s (DWalletJoined cap meta)) (fst (announceJoin_d h E r kw cap meta s))"
    by (simp add: announceJoin_d_def Let_def carries_doAccept) (auto simp: carries_def setPhase_d_def stopHeartbeat_d_def clearLiveness_d_def)
  then show "carries s (fst (announceJoin_d h E r kw cap meta s))"
    "DWalletJoined cap meta \<in> set (d_out (fst (announceJoin_d h E r kw cap meta s)))"
    by (auto simp: carries_def)
qed

lemma lp_total: "noble_spec X \<Longrightarrow> length (text_encode t) \<le> 65535 \<Longrightarrow> \<exists>b. lp X t = Inr b"
  by (simp add: lp_def Let_def utf8_eq)

lemma directional_total:
  assumes X: "noble_spec X" and ch: "list_all lower_hex ch" "length ch = 64"
    and len: "length (text_encode (cc_dappPubKeyB64 c)) \<le> 65535" "length (text_encode (cc_walletPubKeyB64 c)) \<le> 65535"
      "length (text_encode (canonicalJson X (coalesce (cc_capabilities c) JNull))) \<le> 65535"
      "length (text_encode (canonicalJson X (coalesce (cc_walletMeta c) JNull))) \<le> 65535"
      "length (text_encode (case cc_dappName c of None \<Rightarrow> [] | Some n \<Rightarrow> n)) \<le> 65535"
  shows "\<exists>keys. deriveDirectionalSessionKeys X rk ch c = Inr keys"
proof -
  obtain b where "n_hexToBytes X ch = Some b" using channel_bytes [OF X ch] by blast
  then show ?thesis using len [THEN lp_total [OF X]]
    by (auto simp: deriveDirectionalSessionKeys_def computeHandshakeTranscriptHash_def)
qed

text \<open>C7. The dApp announces and accepts only wallets that grant its scope: whatever join frames arrive in
  a run, first ones or rejoins, every \<^verbatim>\<open>walletJoined\<close> event with capabilities carries well-formed ones
  that contain every method and every chain the dApp declared.\<close>

theorem dapp_join_grants_scope:
  assumes "steps (dsession_trans h) s0 es s" and "drun_start h s0"
    and "DWalletJoined cap meta \<in> set (drop (length (d_out s0)) (d_out s))" and "truthy cap"
  shows "validateCapabilities cap \<and>
    (\<forall>ns. h_methods h = Some ns \<longrightarrow> JStr ` set ns \<subseteq> set (jelems (jget cap ''methods''))) \<and>
    (\<forall>ns. h_chains h = Some ns \<longrightarrow> JStr ` set ns \<subseteq> set (jelems (jget cap ''chains'')))"
proof -
  have "scope_granted h cap" using drun_steps [OF assms(1,2)] assms(3) by (auto simp: dok_def joins_ok_def)
  then show ?thesis using assms(4) by (auto simp: scope_granted_def missing_def filter_empty_conv)
qed

definition demo_caps :: jsval where
  "demo_caps = JObj [(''methods'', JArr [JStr ''m'', JStr ''x'']), (''events'', JArr []), (''chains'', JArr [])]"

definition demo_known :: dsession where
  "demo_known = demo_dapp\<lparr>d_approvedCapabilities := demo_caps\<rparr>"

definition demo_rejoin :: wmsg where
  "demo_rejoin = peer_msg ''join'' demo_channel 0 (b64urlEncode demo_key) [(''sealed_join'', JNull)]"

lemma demo_known_fields [simp]:
  "d_privKey demo_known = Some demo_key" "d_paired demo_known" "d_approvedCapabilities demo_known = demo_caps"
  "d_channelId demo_known = demo_channel" "d_approvedWalletMeta demo_known = JUndef" "d_pubKeyB64 demo_known = ''p''"
  "d_meta demo_known = JObj [(''name'', JStr ''d'')]" "d_out demo_known = []"
  by (simp_all add: demo_known_def demo_dapp_def dapp_init_def demo_dcfg_def)

lemma demo_known_start: "drun_start demo_dcfg demo_known"
  using demo_dapp_start
  by (simp add: demo_known_def drun_start_def reserved_d_def timers_ok_d_def table_ok_def promises_ok_def armed_def timer_keys_def konts_ok_def)

lemma demo_caps_json: "JSON_stringify demo_caps = ''{\"methods\":[\"m\",\"x\"],\"events\":[],\"chains\":[]}''"
  by code_simp

lemma demo_caps_text:
  "length (text_encode (canonicalJson demo_noble (coalesce demo_caps JNull))) \<le> 65535"
  "length (text_encode (canonicalJson demo_noble (coalesce JNull JNull))) \<le> 65535"
proof -
  have "canonicalJson demo_noble v = JSON_stringify v" for v by (simp add: canonicalJson_def demo_noble_def)
  moreover have "coalesce demo_caps JNull = demo_caps" "coalesce JNull JNull = JNull" by (simp_all add: coalesce_def demo_caps_def)
  moreover have "JSON_stringify JNull = ''null''" by code_simp
  ultimately show "length (text_encode (canonicalJson demo_noble (coalesce demo_caps JNull))) \<le> 65535"
    "length (text_encode (canonicalJson demo_noble (coalesce JNull JNull))) \<le> 65535"
    by (simp_all add: demo_caps_json text_encode_ascii is_ascii_def)
qed

lemma demo_joined: "DWalletJoined demo_caps JUndef \<in> set (d_out (fst (handleMessage_d demo_dcfg demo_clock demo_rejoin demo_known)))"
proof -
  have k: "decodePubKey (b64urlEncode demo_key) = Inr demo_key" by (simp add: decodePubKey_def)
  obtain z where z: "computeSharedSecret demo_noble demo_key demo_key = Inr z"
    by (simp add: computeSharedSecret_def demo_noble_def demo_pub_def demo_key_def foldl_or_byte)
  obtain rk where rk: "deriveSessionKey demo_noble z demo_channel = Inr rk"
    using channel_bytes [OF demo_noble_spec demo_channel_ok] by (auto simp: deriveSessionKey_def)
  let ?s = "demo_known\<lparr>d_remotePubKey := Some demo_key\<rparr>" let ?j = "b64urlEncode demo_key"
  have c: "sessionContext_d ?j demo_caps JUndef ?s = \<lparr>cc_dappPubKeyB64 = ''p'', cc_walletPubKeyB64 = ?j,
      cc_capabilities = demo_caps, cc_walletMeta = JNull, cc_dappName = Some ''d''\<rparr>"
    by (simp add: sessionContext_d_def coalesce_def demo_caps_def jstr_def)
  obtain keys where keys: "deriveDirectionalSessionKeys demo_noble rk demo_channel (sessionContext_d ?j demo_caps JUndef ?s) = Inr keys"
    using directional_total [OF demo_noble_spec demo_channel_ok, of "sessionContext_d ?j demo_caps JUndef ?s" rk] demo_caps_text
    by (auto simp: c b64url_text text_encode_ascii is_ascii_def)
  have "missing (h_methods demo_dcfg) (jget demo_caps ''methods'') = []" "missing (h_chains demo_dcfg) (jget demo_caps ''chains'') = []"
    by (simp_all add: missing_def demo_dcfg_def demo_caps_def jelems_def)
  then have "DWalletJoined demo_caps JUndef \<in> set (d_out (fst (establishJoin_d demo_dcfg demo_clock ?j demo_key rk demo_caps JUndef ?s)))"
    using establish_announces [of demo_dcfg rk ?s ?j demo_caps JUndef keys demo_clock demo_key] keys announce_facts(2) by simp
  moreover have "validateCapabilities demo_caps" by code_simp
  ultimately have "DWalletJoined demo_caps JUndef \<in> set (d_out (fst (handleJoinKeys_d demo_dcfg demo_clock demo_rejoin demo_key rk ?s)))"
    by (simp add: handleJoinKeys_d_def demo_rejoin_def peer_msg_def Let_def)
  moreover have "?j \<noteq> []" using b64urlEncode_length [of demo_key] by auto
  ultimately show ?thesis using k z rk demo_key_not_adapter
    by (simp add: handleMessage_d_def handleJoin_d_def demo_rejoin_def peer_msg_def)
qed

theorem dapp_join_grants_scope_witness:
  "\<exists>s :: dsession. DWalletJoined demo_caps JUndef \<in> set (d_out s) \<and> {JStr ''m''} \<subseteq> set (jelems (jget demo_caps ''methods''))"
proof -
  let ?s = "fst (handleMessage_d demo_dcfg demo_clock demo_rejoin demo_known)"
  have "dsession_trans demo_dcfg demo_known (demo_clock, DOnMessage demo_rejoin) ?s"
    by (simp add: dsession_trans.simps dapp_trans_iff dapp_step_def same_session_d_def)
  then have r: "steps (dsession_trans demo_dcfg) demo_known [(demo_clock, DOnMessage demo_rejoin)] ?s"
    by (blast intro: steps_Cons steps_Nil)
  have j: "DWalletJoined demo_caps JUndef \<in> set (drop (length (d_out demo_known)) (d_out ?s))" using demo_joined by simp
  have "h_methods demo_dcfg = Some [''m'']" by (simp add: demo_dcfg_def)
  moreover have "truthy demo_caps" by (simp add: demo_caps_def)
  ultimately have "{JStr ''m''} \<subseteq> set (jelems (jget demo_caps ''methods''))"
    using dapp_join_grants_scope [OF r demo_known_start j] by simp
  then show ?thesis using demo_joined by blast
qed

end
