(* ===== verification/Dapp_Recovery.thy ===== *)
theory Dapp_Recovery
  imports Dapp_Theorems
begin

text \<open>
  How a dApp session ends and comes back: closing settles everything that waits for the wallet, a
  streak of failing reconnects ends, and a snapshot restores the session it was taken of.
\<close>

subsection \<open>Closing\<close>


text \<open>What the end of \<^verbatim>\<open>close\<close> leaves as it is.\<close>

definition settles :: "dsession \<Rightarrow> dsession \<Rightarrow> bool" where
  "settles s t \<longleftrightarrow> d_pending t = d_pending s \<and> timer_keys t = timer_keys s \<and> set (d_out s) \<subseteq> set (d_out t) \<and>
     d_ttlTimer t = d_ttlTimer s \<and> d_pendingAcceptTimer t = d_pendingAcceptTimer s \<and> d_reconnectTimer t = d_reconnectTimer s \<and>
     d_intentionalClose t = d_intentionalClose s"

lemma settles_ops [simp]:
  "settles s s" "settles s t \<Longrightarrow> settles s (emit_d t e)" "settles s t \<Longrightarrow> settles s (setPhase_d p t)"
  "settles s t \<Longrightarrow> settles s (send_d E ty body t)" "settles s t \<Longrightarrow> settles s (clearPersistence_d h t)"
  by (auto simp: settles_def emit_d_def setPhase_d_def stopHeartbeat_d_def clearLiveness_d_def send_d_def sendRaw_d_def
      clearPersistence_d_def add_kont_d_def timer_keys_def Let_def)

lemma reject_entries_keeps [simp]:
  "d_ttlTimer (reject_entries_d e m s) = d_ttlTimer s" "d_pendingAcceptTimer (reject_entries_d e m s) = d_pendingAcceptTimer s"
  "d_reconnectTimer (reject_entries_d e m s) = d_reconnectTimer s" "d_intentionalClose (reject_entries_d e m s) = d_intentionalClose s"
  by (induction e m s rule: reject_entries_d.induct) (simp_all add: emit_d_def)


subsection \<open>Giving up a reconnect\<close>






lemma hint_fields [simp]:
  "d_nextK (setTransportChannelHint_d h s) = d_nextK s" "d_konts (setTransportChannelHint_d h s) = d_konts s"
  "d_phase (setTransportChannelHint_d h s) = d_phase s" "d_intentionalClose (setTransportChannelHint_d h s) = d_intentionalClose s"
  "d_reconnectAttempt (setTransportChannelHint_d h s) = d_reconnectAttempt s"
  by (simp_all add: setTransportChannelHint_d_def Let_def emit_d_def)










subsection \<open>Snapshots\<close>

text \<open>A paired session whose values \<^verbatim>\<open>JSON.stringify\<close> keeps.\<close>

definition dsnapshot_ok :: "dsession \<Rightarrow> bool" where
  "dsnapshot_ok s \<longleftrightarrow> d_privKey s \<notin> {None, Some []} \<and> d_sendKey s \<notin> {None, Some []} \<and> d_recvKey s \<notin> {None, Some []} \<and>
     d_remotePubKey s \<noteq> Some [] \<and> d_channelId s \<noteq> [] \<and> json_ok (d_meta s) \<and> \<not> nullish (d_meta s) \<and>
     d_approvedCapabilities s \<noteq> JNull \<and> json_ok (coalesce (d_approvedCapabilities s) JNull) \<and>
     d_approvedWalletMeta s \<noteq> JNull \<and> json_ok (coalesce (d_approvedWalletMeta s) JNull) \<and>
     (\<exists>k. d_approvedWalletPubKeyB64 s = JStr k) \<and> \<bar>d_sendSeq s\<bar> < 10 ^ 21 \<and> \<bar>d_recvSeq s\<bar> < 10 ^ 21 \<and> d_reqCounter s < 10 ^ 21 \<and>
     (case d_sessionStartTime s of None \<Rightarrow> True | Some t \<Rightarrow> \<bar>t\<bar> < 10 ^ 21)"

definition restored_scope :: "dsession \<Rightarrow> dsession \<Rightarrow> dsession" where
  "restored_scope s t = setPhase_d DConnected (t\<lparr>d_paired := d_paired s, d_approvedScopeRecorded := d_approvedScopeRecorded s,
     d_approvedCapabilities := d_approvedCapabilities s, d_approvedWalletMeta := d_approvedWalletMeta s,
     d_approvedWalletPubKeyB64 := d_approvedWalletPubKeyB64 s, d_walletCapabilities := d_approvedCapabilities s,
     d_walletMeta := d_approvedWalletMeta s, d_meta := d_meta s, d_sessionStartTime := d_sessionStartTime s\<rparr>)"

text \<open>What a restore takes over from the saved session.\<close>

definition drestored :: "dsession \<Rightarrow> dsession \<Rightarrow> dsession" where
  "drestored s t = restored_scope s (t\<lparr>d_channelId := d_channelId s, d_privKey := d_privKey s, d_pubKeyB64 := d_pubKeyB64 s,
     d_remotePubKey := d_remotePubKey s, d_sendKey := d_sendKey s, d_recvKey := d_recvKey s,
     d_sendSeq := d_sendSeq s, d_recvSeq := d_recvSeq s, d_reqCounter := d_reqCounter s\<rparr>)"

lemma dsnapshot_json:
  assumes s: "dsnapshot_ok s"
  shows "json_ok (snapshot_d h p s)"
proof -
  have "json_ok (case d_sessionStartTime s of None \<Rightarrow> JNull | Some t \<Rightarrow> JNum (of_int t))"
    using s by (simp add: dsnapshot_ok_def split: option.splits)
  moreover have "json_ok (hex_or_null X k)" for X k by (simp add: hex_or_null_def split: option.split)
  moreover have "json_ok (case d_remotePubKey s of None \<Rightarrow> JNull | Some r \<Rightarrow> JStr (b64urlEncode r))" by (simp split: option.split)
  moreover have n: "json_ok (JNum (of_int i))" if "\<bar>i\<bar> < 10 ^ 21" for i using that by simp
  moreover have "json_ok (JNum (of_nat (d_reqCounter s)))"
    using n [of "int (d_reqCounter s)"] s by (simp add: dsnapshot_ok_def del: json_ok.simps(4))
  moreover have "json_ok (coalesce (d_approvedWalletPubKeyB64 s) JNull)" using s by (auto simp: dsnapshot_ok_def coalesce_def)
  moreover have "\<bar>d_sendSeq s\<bar> < 10 ^ 21" "\<bar>d_recvSeq s\<bar> < 10 ^ 21" "json_ok (d_meta s)"
    "json_ok (coalesce (d_approvedCapabilities s) JNull)" "json_ok (coalesce (d_approvedWalletMeta s) JNull)"
    using s unfolding dsnapshot_ok_def by blast+
  ultimately show ?thesis by (simp add: snapshot_d_def del: json_ok.simps(4))
qed

lemma dsnapshot_fields:
  "jget (snapshot_d h p s) ''channelId'' = JStr (d_channelId s)"
  "jget (snapshot_d h p s) ''privKey'' = JStr (n_bytesToHex (h_noble h) p)"
  "jget (snapshot_d h p s) ''pubKeyB64'' = JStr (d_pubKeyB64 s)"
  "jget (snapshot_d h p s) ''remotePubKeyB64'' = (case d_remotePubKey s of None \<Rightarrow> JNull | Some r \<Rightarrow> JStr (b64urlEncode r))"
  "jget (snapshot_d h p s) ''sendKey'' = hex_or_null (h_noble h) (d_sendKey s)"
  "jget (snapshot_d h p s) ''recvKey'' = hex_or_null (h_noble h) (d_recvKey s)"
  "jget (snapshot_d h p s) ''sendSeq'' = JNum (of_int (d_sendSeq s))"
  "jget (snapshot_d h p s) ''recvSeq'' = JNum (of_int (d_recvSeq s))"
  "jget (snapshot_d h p s) ''reqCounter'' = JNum (of_nat (d_reqCounter s))"
  "jget (snapshot_d h p s) ''paired'' = JBool (d_paired s)"
  "jget (snapshot_d h p s) ''dappMeta'' = d_meta s"
  "jget (snapshot_d h p s) ''approvedScopeRecorded'' = JBool (d_approvedScopeRecorded s)"
  "jget (snapshot_d h p s) ''approvedCapabilities'' = coalesce (d_approvedCapabilities s) JNull"
  "jget (snapshot_d h p s) ''approvedWalletMeta'' = coalesce (d_approvedWalletMeta s) JNull"
  "jget (snapshot_d h p s) ''approvedWalletPubKeyB64'' = coalesce (d_approvedWalletPubKeyB64 s) JNull"
  "jget (snapshot_d h p s) ''sessionStartTime'' = (case d_sessionStartTime s of None \<Rightarrow> JNull | Some t \<Rightarrow> JNum (of_int t))"
  by (simp_all add: snapshot_d_def)

lemma coalesce_saved: "v \<noteq> JNull \<Longrightarrow> coalesce (coalesce v JNull) JUndef = v"
  by (cases v) (simp_all add: coalesce_def)

lemma restore_scope_snapshot:
  assumes "dsnapshot_ok s"
  shows "restore_scope_d (snapshot_d h p s) t = (restored_scope s t, Inr True)"
proof -
  let ?d = "snapshot_d h p s"
  obtain k where k: "d_approvedWalletPubKeyB64 s = JStr k" using assms by (auto simp: dsnapshot_ok_def)
  have 1: "coalesce (jget ?d ''approvedCapabilities'') JUndef = d_approvedCapabilities s"
    "coalesce (jget ?d ''approvedWalletMeta'') JUndef = d_approvedWalletMeta s"
    using assms by (simp_all add: dsnapshot_fields coalesce_saved dsnapshot_ok_def)
  have 2: "coalesce (coalesce (jget ?d ''approvedWalletPubKeyB64'') v) JUndef = d_approvedWalletPubKeyB64 s" for v
    by (simp add: dsnapshot_fields k coalesce_def)
  have 3: "coalesce (jget ?d ''dappMeta'') v = d_meta s" for v using assms by (simp add: dsnapshot_fields coalesce_def dsnapshot_ok_def)
  have 4: "opt_num_field ?d ''sessionStartTime'' = Inr (d_sessionStartTime s)"
    by (cases "d_sessionStartTime s") (simp_all add: opt_num_field_def num_field_int dsnapshot_fields)
  show ?thesis
    by (simp add: restore_scope_d_def restored_scope_def 1 2 3 4 Let_def) (simp add: dsnapshot_fields)
qed

lemma restore_numbers_snapshot_d:
  assumes "dsnapshot_ok s"
  shows "restore_numbers_d (snapshot_d h p s) t =
    (restored_scope s (t\<lparr>d_sendSeq := d_sendSeq s, d_recvSeq := d_recvSeq s, d_reqCounter := d_reqCounter s\<rparr>), Inr True)"
proof -
  let ?d = "snapshot_d h p s"
  have 1: "num_field ?d ''sendSeq'' 0 = Inr (d_sendSeq s)" "num_field ?d ''recvSeq'' (- 1) = Inr (d_recvSeq s)"
    by (rule num_field_int, rule dsnapshot_fields)+
  have "num_field ?d ''reqCounter'' 0 = Inr (int (d_reqCounter s))"
    by (rule num_field_int) (simp add: dsnapshot_fields)
  then have 2: "(if truthy (jget ?d ''reqCounter'') then num_field ?d ''reqCounter'' 0 else Inr 0) = Inr (int (d_reqCounter s))"
    by (simp add: dsnapshot_fields)
  show ?thesis by (simp add: restore_numbers_d_def 1 2 restore_scope_snapshot [OF assms] Let_def)
qed

lemma restore_fields_snapshot_d:
  assumes X: "noble_spec (h_noble h)" and s: "dsnapshot_ok s" and p: "d_privKey s = Some p"
  shows "restore_fields_d h (snapshot_d h p s) t = (drestored s t, Inr True)"
proof -
  let ?d = "snapshot_d h p s"
  obtain a b where ab: "d_sendKey s = Some a" "a \<noteq> []" "d_recvKey s = Some b" "b \<noteq> []" "p \<noteq> []"
    using s p by (auto simp: dsnapshot_ok_def)
  have 1: "text_field ?d ''channelId'' = Inr (d_channelId s)" "truthy (jget ?d ''channelId'')"
    "text_field ?d ''pubKeyB64'' = Inr (d_pubKeyB64 s)"
    using s by (simp_all add: text_field_def dsnapshot_fields dsnapshot_ok_def)
  note 2 = hex_fields [OF X dsnapshot_fields(2) ab(5)]
  have k: "jget ?d ''sendKey'' = JStr (n_bytesToHex (h_noble h) a)" "jget ?d ''recvKey'' = JStr (n_bytesToHex (h_noble h) b)"
    by (simp_all add: dsnapshot_fields hex_or_null_def ab)
  note 3 = hex_fields(3) [OF X k(1) ab(2)] hex_fields(3) [OF X k(2) ab(4)]
  have "r \<noteq> [] \<Longrightarrow> b64urlEncode r \<noteq> []" for r using b64urlEncode_length [of r] by (cases r) auto
  then have 4: "opt_key_field ?d ''remotePubKeyB64'' = Inr (d_remotePubKey s)"
    using s by (cases "d_remotePubKey s") (simp_all add: opt_key_field_def text_field_def dsnapshot_fields dsnapshot_ok_def)
  show ?thesis
    by (simp add: restore_fields_d_def restore_numbers_snapshot_d [OF s] 1 2 3 4 Let_def drestored_def ab p)
qed

text \<open>C30. A saved dApp session comes back: the text \<^verbatim>\<open>serialize\<close> writes for a paired session is accepted by
  \<^verbatim>\<open>restore\<close> on any instance, which then is connected and has the channel, the keys, both counters,
  the request counter, the approved scope and the start time of the saved one.\<close>

theorem dapp_snapshot_roundtrip:
  assumes "noble_spec (h_noble h)" and "dsnapshot_ok s"
  shows "\<exists>snapshot. serialize_d h s = Inr snapshot \<and> restore_d h snapshot t = (drestored s t, Inr True)"
proof -
  obtain p a where pa: "d_privKey s = Some p" "d_sendKey s = Some a" "a \<noteq> []" using assms(2) by (auto simp: dsnapshot_ok_def)
  let ?d = "snapshot_d h p s" let ?j = "JSON_stringify ?d" let ?t = "signSnapshot (h_noble h) a ?j"
  have j: "?j \<noteq> []" "utf16_width (hd ?j) \<noteq> 0"
    by (simp_all add: JSON_stringify_def snapshot_d_def utf16_width_def)
  have parse: "js_parse ?j = Inr ?d" using JSON_parse_stringify [OF dsnapshot_json [OF assms(2)]] by (simp add: js_parse_def)
  have k: "jget ?d ''sendKey'' = JStr (n_bytesToHex (h_noble h) a)" using pa(2) by (simp add: dsnapshot_fields hex_or_null_def)
  have "verifySnapshot (h_noble h) a ?t = Some ?j" using verify_signed [OF assms(1)] j by blast
  then have "snapshot_payload (h_noble h) ?t = Inr (Some ?j)"
    using hex_fields [OF assms(1) k pa(3)] tagged_snapshot [OF assms(1) j] j(1) by (simp add: snapshot_payload_def parse)
  then have "restore_d h ?t t = (drestored s t, Inr True)"
    using restore_fields_snapshot_d [OF assms pa(1)] by (simp add: restore_d_def parse)
  moreover have "serialize_d h s = Inr ?t" using pa by (simp add: serialize_d_def Let_def)
  ultimately show ?thesis by blast
qed

theorem dapp_snapshot_roundtrip_witness:
  "\<exists>snapshot s. serialize_d demo_dcfg s = Inr snapshot \<and>
     restore_d demo_dcfg snapshot (dapp_init demo_dcfg) = (drestored s (dapp_init demo_dcfg), Inr True)"
proof -
  let ?s = "demo_dapp\<lparr>d_approvedWalletPubKeyB64 := JStr ''w'', d_approvedCapabilities := demo_caps\<rparr>"
  have "demo_key \<noteq> []" by (simp add: demo_key_def)
  moreover have "demo_channel \<noteq> []" by (simp add: demo_channel_def)
  ultimately have "dsnapshot_ok ?s"
    by (simp add: dsnapshot_ok_def demo_dcfg_def demo_dapp_def dapp_init_def coalesce_def demo_caps_def)
  moreover have "noble_spec (h_noble demo_dcfg)" using demo_noble_spec by simp
  ultimately show ?thesis using dapp_snapshot_roundtrip [of demo_dcfg ?s] by blast
qed

end
