(* ===== verification/Wallet_Session.thy ===== *)
theory Wallet_Session
  imports Session_Base
begin

text \<open>
  \<^verbatim>\<open>walletpair-sdk/src/wallet-session.ts\<close>: the wallet's session object, one function per method
  (suffix \<open>_w\<close>).  A promise the code waits for is an entry of \<open>w_konts\<close> holding what the code does
  when it settles.  Timers are the fields \<open>w_ttlTimer\<close>, \<open>w_reconnectTimer\<close> (with their due time),
  \<open>w_heartbeatTimer\<close> and \<open>w_livenessTimer\<close>; firing one is an event.  Overwriting key bytes with zeros before dropping
  them has no other effect and is modelled for \<^verbatim>\<open>destroy\<close> only.
\<close>

subsection \<open>State\<close>

definition IDEMPOTENCY_CACHE_LIMIT :: nat where "IDEMPOTENCY_CACHE_LIMIT = 1024"
definition IDEMPOTENCY_RESPONSE_LIMIT_BYTES :: nat where "IDEMPOTENCY_RESPONSE_LIMIT_BYTES = 16 * 1024"
definition BROADCAST_CACHE_LIMIT :: nat where "BROADCAST_CACHE_LIMIT = 256"

datatype wphase = WIdle | WWaiting | WWaiting_accept | WConnected | WDisconnected | WClosed

definition wphase_string :: "wphase \<Rightarrow> string" where
  "wphase_string p = (case p of WIdle \<Rightarrow> ''idle'' | WWaiting \<Rightarrow> ''waiting'' | WWaiting_accept \<Rightarrow> ''waiting_accept''
     | WConnected \<Rightarrow> ''connected'' | WDisconnected \<Rightarrow> ''disconnected'' | WClosed \<Rightarrow> ''closed'')"

record pending_record =
  pr_paramsHash :: string
  pr_method :: string

record cached_response =
  cr_paramsHash :: string
  cr_method :: string
  cr_ok :: bool
  cr_data :: jsval
  cr_tooLarge :: bool

datatype wcont =
    KConfirm                                     \<comment> \<open>\<^verbatim>\<open>transport.connect()\<close> of \<^verbatim>\<open>confirmJoin\<close>\<close>
  | KRejoin                                      \<comment> \<open>\<^verbatim>\<open>transport.connect()\<close> of \<^verbatim>\<open>doReconnectAttempt\<close>\<close>
  | KJoin wmsg bool                              \<comment> \<open>save before the join frame; whether reconnecting\<close>
  | KRequest string jsval bytes int              \<comment> \<open>save before \<^verbatim>\<open>processRequest\<close>; previous recvSeq\<close>
  | KResponse int jsval bool jsval bool bool     \<comment> \<open>seq, id, ok, data, cache it?, observed?\<close>
  | KEvent int string string jsval               \<comment> \<open>seq, event id, event, data\<close>
  | KSaved                                       \<comment> \<open>\<^verbatim>\<open>persistSnapshotAsync\<close>\<close>
  | KCleared                                     \<comment> \<open>\<^verbatim>\<open>clearPersistence\<close>\<close>

datatype weff =
    WSend wmsg
  | WSeal int                  \<comment> \<open>a payload was encrypted under \<^verbatim>\<open>sendKey\<close> with this sequence number\<close>
  | WPhase wphase
  | WError exn
  | WRequest string string jsval
  | WFingerprint string
  | WExhausted nat
  | WSave string
  | WClear
  | WConnect
  | WDisconnect
  | WSetUrl string
  | WLog dlog_entry
  | WRemoveAll
  | WSettled nat "bool res"    \<comment> \<open>the promise returned to the application settles\<close>

record wconfig =
  g_noble :: noble
  g_capabilities :: jsval
  g_meta :: jsval
  g_sessionTtl :: int
  g_heartbeatInterval :: int
  g_maxReconnectAttempts :: int
  g_maxReconnectDurationMs :: int
  g_persist :: pmode
  g_hasClear :: bool
  g_hasSetUrl :: bool

record wsession =
  w_phase :: wphase
  w_channelId :: string
  w_sessionFingerprint :: string
  w_privKey :: "bytes option"
  w_pubKeyB64 :: string
  w_remotePubKey :: "bytes option"
  w_sessionKey :: "bytes option"
  w_sendKey :: "bytes option"
  w_recvKey :: "bytes option"
  w_sendSeq :: int
  w_recvSeq :: int
  w_relayUrl :: string
  w_dappName :: "string option"
  w_intentionalClose :: bool
  w_evtCounter :: nat
  w_dappDeclaredMethods :: "string list option"
  w_dappDeclaredChains :: "string list option"
  w_effectiveCapabilities :: jsval
  w_ttlTimer :: "int option"
  w_sessionStartTime :: "int option"
  w_heartbeatTimer :: bool
  w_livenessTimer :: bool
  w_reconnectTimer :: "int option"
  w_reconnectAttempt :: nat
  w_reconnecting :: bool
  w_reconnectStartedAt :: int
  w_pending :: "(string, pending_record) jsmap"
  w_idempotency :: "(string, cached_response) jsmap"
  w_broadcast :: "(string, cached_response) jsmap"
  w_konts :: "(nat \<times> wcont) list"
  w_nextK :: nat
  w_out :: "weff list"

definition wallet_init :: "wconfig \<Rightarrow> wsession" where
  "wallet_init g = \<lparr> w_phase = WIdle, w_channelId = [], w_sessionFingerprint = [], w_privKey = None,
     w_pubKeyB64 = [], w_remotePubKey = None, w_sessionKey = None, w_sendKey = None, w_recvKey = None,
     w_sendSeq = 0, w_recvSeq = - 1, w_relayUrl = [], w_dappName = None, w_intentionalClose = False,
     w_evtCounter = 0, w_dappDeclaredMethods = None, w_dappDeclaredChains = None,
     w_effectiveCapabilities = JObj (own_props (g_capabilities g)),
     w_ttlTimer = None, w_sessionStartTime = None, w_heartbeatTimer = False, w_livenessTimer = False,
     w_reconnectTimer = None, w_reconnectAttempt = 0, w_reconnecting = False, w_reconnectStartedAt = 0,
     w_pending = [], w_idempotency = [], w_broadcast = [], w_konts = [], w_nextK = 0, w_out = [] \<rparr>"

type_synonym 'a wcomp = "(wsession, 'a) comp"

subsection \<open>Effects, timers, phase\<close>

definition emit_w :: "wsession \<Rightarrow> weff \<Rightarrow> wsession" where
  "emit_w s e = s\<lparr>w_out := w_out s @ [e]\<rparr>"

definition add_kont_w :: "wsession \<Rightarrow> wcont \<Rightarrow> wsession" where
  "add_kont_w s k = s\<lparr>w_konts := w_konts s @ [(w_nextK s, k)], w_nextK := Suc (w_nextK s)\<rparr>"

definition clearLiveness_w :: "wsession \<Rightarrow> wsession" where
  "clearLiveness_w s = s\<lparr>w_livenessTimer := False\<rparr>"

definition stopHeartbeat_w :: "wsession \<Rightarrow> wsession" where
  "stopHeartbeat_w s = clearLiveness_w (s\<lparr>w_heartbeatTimer := False\<rparr>)"

definition startHeartbeat_w :: "wconfig \<Rightarrow> wsession \<Rightarrow> wsession" where
  "startHeartbeat_w g s =
     (let s = stopHeartbeat_w s in if g_heartbeatInterval g \<le> 0 then s else s\<lparr>w_heartbeatTimer := True\<rparr>)"

definition setPhase_w :: "wphase \<Rightarrow> wsession \<Rightarrow> wsession" where
  "setPhase_w p s =
     (if w_phase s = p then s
      else
        (let s = s\<lparr>w_phase := p\<rparr>;
             s = (if p \<noteq> WConnected then stopHeartbeat_w s else s)
         in emit_w s (WPhase p)))"

definition stopReconnect_w :: "wsession \<Rightarrow> wsession" where
  "stopReconnect_w s = s\<lparr>w_reconnectTimer := None\<rparr>"

definition clearSessionTtl_w :: "wsession \<Rightarrow> wsession" where
  "clearSessionTtl_w s = s\<lparr>w_ttlTimer := None\<rparr>"

definition startSessionTtl_w :: "wconfig \<Rightarrow> env \<Rightarrow> wsession \<Rightarrow> wsession" where
  "startSessionTtl_w g E s =
     (let s = clearSessionTtl_w s;
          start = (case w_sessionStartTime s of None \<Rightarrow> e_now E | Some t \<Rightarrow> t);
          elapsed = e_now E - start;
          remaining = max 0 (g_sessionTtl g - elapsed)
      in s\<lparr>w_sessionStartTime := Some start, w_ttlTimer := Some (e_now E + remaining)\<rparr>)"

definition log_w :: "env \<Rightarrow> string \<Rightarrow> jsval \<Rightarrow> jsval \<Rightarrow> bool \<Rightarrow> wsession \<Rightarrow> wsession" where
  "log_w E kind code reason will s = emit_w s (WLog \<lparr>l_ts = e_now E, l_side = Wallet, l_kind = kind,
     l_code = code, l_reason = reason, l_phase = wphase_string (w_phase s), l_willReconnect = will,
     l_channelId = w_channelId s\<rparr>)"

definition clearCaches_w :: "wsession \<Rightarrow> wsession" where
  "clearCaches_w s = s\<lparr>w_pending := [], w_idempotency := [], w_broadcast := []\<rparr>"

definition sendRaw_w :: "wmsg \<Rightarrow> wsession \<Rightarrow> wsession" where
  "sendRaw_w msg s =
     (if wire_too_large msg then emit_w s (WError (Error ''Message exceeds 64 KB limit''))
      else emit_w s (WSend msg))"

definition send_w :: "env \<Rightarrow> string \<Rightarrow> (string \<times> jsval) list \<Rightarrow> wsession \<Rightarrow> wsession" where
  "send_w E t body s = sendRaw_w (peer_msg t (w_channelId s) (e_now E) (w_pubKeyB64 s) body) s"

subsection \<open>Persistence\<close>

definition snapshot_w :: "wconfig \<Rightarrow> bytes \<Rightarrow> wsession \<Rightarrow> jsval" where
  "snapshot_w g priv s = JObj
     [(''channelId'', JStr (w_channelId s)),
      (''privKey'', JStr (n_bytesToHex (g_noble g) priv)),
      (''pubKeyB64'', JStr (w_pubKeyB64 s)),
      (''remotePubKeyB64'', case w_remotePubKey s of None \<Rightarrow> JNull | Some r \<Rightarrow> JStr (b64urlEncode r)),
      (''sendKey'', hex_or_null (g_noble g) (w_sendKey s)),
      (''recvKey'', hex_or_null (g_noble g) (w_recvKey s)),
      (''sendSeq'', JNum (of_int (w_sendSeq s))),
      (''recvSeq'', JNum (of_int (w_recvSeq s))),
      (''relayUrl'', JStr (w_relayUrl s)),
      (''capabilities'', g_capabilities g),
      (''meta'', coalesce (g_meta g) JNull),
      (''dappName'', case w_dappName s of None \<Rightarrow> JNull | Some n \<Rightarrow> JStr n),
      (''sessionStartTime'', case w_sessionStartTime s of None \<Rightarrow> JNull | Some t \<Rightarrow> JNum (of_int t))]"

definition serialize_w :: "wconfig \<Rightarrow> wsession \<Rightarrow> string res" where
  "serialize_w g s = (case w_privKey s of
     None \<Rightarrow> Inl TypeError
   | Some priv \<Rightarrow>
       (let json = JSON_stringify (snapshot_w g priv s)
        in Inr (case w_sendKey s of Some k \<Rightarrow> signSnapshot (g_noble g) k json | None \<Rightarrow> json)))"

text \<open>\<open>True\<close>: \<^verbatim>\<open>save\<close> returned a promise.\<close>

definition persistSnapshot_w :: "wconfig \<Rightarrow> wsession \<Rightarrow> bool wcomp" where
  "persistSnapshot_w g s =
     (if g_persist g = PNone then (s, Inr False)
      else (case serialize_w g s of
          Inl e \<Rightarrow> (s, Inl e)
        | Inr text \<Rightarrow> (emit_w s (WSave text), Inr (g_persist g = PAsync))))"

definition clearPersistence_w :: "wconfig \<Rightarrow> wsession \<Rightarrow> wsession" where
  "clearPersistence_w g s =
     (if g_persist g = PNone \<or> \<not> g_hasClear g then s
      else
        (let s = emit_w s WClear in if g_persist g = PAsync then add_kont_w s KCleared else s))"

definition persistSnapshotAsync_w :: "wconfig \<Rightarrow> wsession \<Rightarrow> unit wcomp" where
  "persistSnapshotAsync_w g s =
     andThen (persistSnapshot_w g s) (\<lambda>s promise. (if promise then add_kont_w s KSaved else s, Inr ()))"

subsection \<open>Close\<close>

definition close_w :: "wconfig \<Rightarrow> env \<Rightarrow> string \<Rightarrow> wsession \<Rightarrow> wsession" where
  "close_w g E reason s =
     (let s = log_w E ''session_close'' JUndef (JStr reason) False s;
          s = s\<lparr>w_intentionalClose := True\<rparr>;
          s = clearSessionTtl_w (stopReconnect_w s);
          s = clearCaches_w s;
          s = (if w_channelId s \<noteq> [] then send_w E ''close'' [(''reason'', JStr reason)] s else s);
          s = clearPersistence_w g s;
          s = emit_w s WDisconnect
      in setPhase_w WClosed s)"

definition wipe :: "bytes option \<Rightarrow> bytes option" where
  "wipe b = map_option (map (\<lambda>_. 0)) b"

definition destroy_w :: "wconfig \<Rightarrow> env \<Rightarrow> wsession \<Rightarrow> wsession" where
  "destroy_w g E s =
     (let s = emit_w (close_w g E ''normal'' s) WRemoveAll
      in clearCaches_w (s\<lparr>w_privKey := wipe (w_privKey s), w_sessionKey := None, w_sendKey := None, w_recvKey := None\<rparr>))"

definition persistenceError_w :: "wconfig \<Rightarrow> env \<Rightarrow> exn \<Rightarrow> wsession \<Rightarrow> wsession \<times> exn" where
  "persistenceError_w g E e s =
     (let wrapped = Error (''Session persistence failed: '' @ exn_message e)
      in (close_w g E ''protocol_error'' (emit_w s (WError wrapped)), wrapped))"

subsection \<open>Sequence numbers\<close>

text \<open>\<open>None\<close>: null; \<open>Some (seq, promise)\<close>.\<close>

definition nextSendSeq_w :: "wconfig \<Rightarrow> env \<Rightarrow> wsession \<Rightarrow> (int \<times> bool) option wcomp" where
  "nextSendSeq_w g E s =
     (if MAX_SEND_SEQ \<le> w_sendSeq s then
        (close_w g E ''normal'' (emit_w s (WError (Error SEQ_LIMIT_MESSAGE))),
         Inr None)
      else
        (let seq = w_sendSeq s; s = s\<lparr>w_sendSeq := seq + 1\<rparr>
         in andThen (persistSnapshot_w g s) (\<lambda>s promise. (s, Inr (Some (seq, promise))))))"

text \<open>\<^verbatim>\<open>sealPayload\<close> under the send key, with the encryption in the trace.\<close>

definition seal_w :: "wconfig \<Rightarrow> bytes \<Rightarrow> int \<Rightarrow> jsval \<Rightarrow> aad_type \<Rightarrow> jsval \<Rightarrow> wsession \<Rightarrow> string wcomp" where
  "seal_w g key seq data t rid s = (case rid of
     JStr i \<Rightarrow> (case sealPayload (g_noble g) key (w_channelId s) seq data
                       (Some \<lparr>h_type = t, h_from = w_pubKeyB64 s, h_id = i\<rparr>) of
                  Inl e \<Rightarrow> (s, Inl e)
                | Inr sealed \<Rightarrow> (emit_w s (WSeal seq), Inr sealed))
   | _ \<Rightarrow> (s, Inl LibError))"

subsection \<open>Responses and the request caches\<close>

function evict :: "nat \<Rightarrow> (string, 'v) jsmap \<Rightarrow> (string, 'v) jsmap" where
  "evict limit m =
     (if limit < js_size m then
        (case m of
           [] \<Rightarrow> m
         | (oldest, _) # _ \<Rightarrow> if oldest = [] then m else evict limit (js_delete m oldest))
      else m)"
  by pat_completeness auto
termination
  by (relation "measure (\<lambda>(l, m). js_size m)") (auto intro!: js_size_delete_less)

declare evict.simps [simp del]

definition cacheProcessedResponse_w :: "string \<Rightarrow> bool \<Rightarrow> jsval \<Rightarrow> wsession \<Rightarrow> wsession" where
  "cacheProcessedResponse_w rid ok data s = (case js_get (w_pending s) rid of
     None \<Rightarrow> s
   | Some pending \<Rightarrow>
       (let s = s\<lparr>w_pending := js_delete (w_pending s) rid\<rparr>;
            serialized = JSON_stringify (coalesce data JNull);
            tooLarge = (IDEMPOTENCY_RESPONSE_LIMIT_BYTES < length (text_encode serialized));
            entry = \<lparr>cr_paramsHash = pr_paramsHash pending, cr_method = pr_method pending, cr_ok = ok,
                     cr_data = (if tooLarge then JNull else data), cr_tooLarge = tooLarge\<rparr>;
            s = s\<lparr>w_idempotency := evict IDEMPOTENCY_CACHE_LIMIT (js_set (w_idempotency s) rid entry)\<rparr>
        in if pr_method pending = ''wallet_sendTransaction'' \<and> ok then
             s\<lparr>w_broadcast := evict BROADCAST_CACHE_LIMIT (js_set (w_broadcast s) rid
                \<lparr>cr_paramsHash = pr_paramsHash pending, cr_method = pr_method pending, cr_ok = ok,
                 cr_data = data, cr_tooLarge = False\<rparr>)\<rparr>
           else s))"

text \<open>The closure \<^verbatim>\<open>send\<close> of \<^verbatim>\<open>sendResponse\<close> at a reserved sequence number.\<close>

definition responsePayload :: "bool \<Rightarrow> jsval \<Rightarrow> jsval" where
  "responsePayload ok data =
     (if ok then JObj [(''_ok'', JBool True), (''_result'', data)]
      else JObj (spread [(''_ok'', JBool False)] (own_props data)))"

definition transmit_response_w :: "wconfig \<Rightarrow> env \<Rightarrow> int \<Rightarrow> jsval \<Rightarrow> bool \<Rightarrow> jsval \<Rightarrow> wsession \<Rightarrow> bool wcomp" where
  "transmit_response_w g E seq rid ok data s = (case w_sendKey s of
     None \<Rightarrow> (s, Inr False)
   | Some key \<Rightarrow>
       andThen (seal_w g key seq (responsePayload ok data) ARes rid s) (\<lambda>s sealed.
         (send_w E ''res'' [(''id'', rid), (''sealed'', JStr sealed)] s, Inr True)))"

definition afterSend_w :: "bool \<Rightarrow> jsval \<Rightarrow> bool \<Rightarrow> jsval \<Rightarrow> bool \<Rightarrow> wsession \<Rightarrow> wsession" where
  "afterSend_w cache rid ok data sent s = (case rid of
     JStr i \<Rightarrow> if cache \<and> sent then cacheProcessedResponse_w i ok data s else s
   | _ \<Rightarrow> s)"

text \<open>What a send returns: a boolean at once, or a promise (its number).\<close>

datatype wret = WBool bool | WPromise nat

text \<open>\<^verbatim>\<open>sendResponse\<close>, then the caching that \<^verbatim>\<open>approve\<close> and \<^verbatim>\<open>reject\<close> add (\<open>cache\<close>); \<open>observed\<close> tells
  whether the result is passed to \<^verbatim>\<open>observeSend\<close>.\<close>

definition sendResponse_w :: "wconfig \<Rightarrow> env \<Rightarrow> bool \<Rightarrow> bool \<Rightarrow> jsval \<Rightarrow> bool \<Rightarrow> jsval \<Rightarrow> wsession \<Rightarrow> wret wcomp" where
  "sendResponse_w g E cache observed rid ok data s =
     (if w_sendKey s = None then (s, Inr (WBool False))
      else andThen (nextSendSeq_w g E s) (\<lambda>s r. case r of
          None \<Rightarrow> (s, Inr (WBool False))
        | Some (seq, True) \<Rightarrow>
            (add_kont_w s (KResponse seq rid ok data cache observed), Inr (WPromise (w_nextK s)))
        | Some (seq, False) \<Rightarrow>
            andThen (transmit_response_w g E seq rid ok data s) (\<lambda>s sent.
              (afterSend_w cache rid ok data sent s, Inr (WBool sent)))))"

definition approve_w :: "wconfig \<Rightarrow> env \<Rightarrow> string \<Rightarrow> jsval \<Rightarrow> wsession \<Rightarrow> wret wcomp" where
  "approve_w g E requestId result s = sendResponse_w g E True False (JStr requestId) True result s"

definition error_object :: "string \<Rightarrow> string \<Rightarrow> jsval" where
  "error_object code message = JObj [(''code'', JStr code), (''message'', JStr message)]"

definition reject_w :: "wconfig \<Rightarrow> env \<Rightarrow> string \<Rightarrow> string \<Rightarrow> string \<Rightarrow> wsession \<Rightarrow> wret wcomp" where
  "reject_w g E requestId code message s =
     sendResponse_w g E True False (JStr requestId) False (error_object code message) s"

text \<open>\<^verbatim>\<open>observeSend(this.reject(...))\<close>\<close>

definition observed_reject_w :: "wconfig \<Rightarrow> env \<Rightarrow> jsval \<Rightarrow> string \<Rightarrow> string \<Rightarrow> wsession \<Rightarrow> unit wcomp" where
  "observed_reject_w g E rid code message s =
     andThen (sendResponse_w g E True True rid False (error_object code message) s) (\<lambda>s _. (s, Inr ()))"

subsection \<open>Events and pings\<close>

definition eventPayload :: "string \<Rightarrow> jsval \<Rightarrow> jsval" where
  "eventPayload event data =
     JObj (spread [(''_event'', JStr event)] (if is_object data then own_props data else [(''_data'', data)]))"

definition transmit_event_w :: "wconfig \<Rightarrow> env \<Rightarrow> int \<Rightarrow> string \<Rightarrow> string \<Rightarrow> jsval \<Rightarrow> wsession \<Rightarrow> bool wcomp" where
  "transmit_event_w g E seq evtId event data s = (case w_sendKey s of
     None \<Rightarrow> (s, Inr False)
   | Some key \<Rightarrow>
       andThen (seal_w g key seq (eventPayload event data) AEvt (JStr evtId) s) (\<lambda>s sealed.
         (send_w E ''evt'' [(''id'', JStr evtId), (''sealed'', JStr sealed)] s, Inr True)))"

definition pushEvent_w :: "wconfig \<Rightarrow> env \<Rightarrow> string \<Rightarrow> jsval \<Rightarrow> wsession \<Rightarrow> wret wcomp" where
  "pushEvent_w g E event data s =
     (if w_phase s \<noteq> WConnected \<or> w_sendKey s = None then (s, Inr (WBool False))
      else andThen (nextSendSeq_w g E s) (\<lambda>s r.
        let s = s\<lparr>w_evtCounter := Suc (w_evtCounter s)\<rparr>;
            evtId = ''evt-'' @ dec_digits (w_evtCounter s)
        in case r of
            None \<Rightarrow> (s, Inr (WBool False))
          | Some (seq, True) \<Rightarrow> (add_kont_w s (KEvent seq evtId event data), Inr (WPromise (w_nextK s)))
          | Some (seq, False) \<Rightarrow>
              andThen (transmit_event_w g E seq evtId event data s) (\<lambda>s sent. (s, Inr (WBool sent)))))"

definition ping_w :: "env \<Rightarrow> wsession \<Rightarrow> wsession" where
  "ping_w E s = (if w_phase s \<noteq> WConnected then s else send_w E ''ping'' [] s)"

subsection \<open>Joining\<close>

text \<open>The declared scope is compared with the wallet's but the comparison has no effect.\<close>

definition pass_through :: "jsval \<Rightarrow> string \<Rightarrow> (string \<times> jsval) list" where
  "pass_through base k = (if nullish (jget base k) then [] else [(k, jget base k)])"

definition computeScopeIntersection :: "wconfig \<Rightarrow> jsval" where
  "computeScopeIntersection g =
     (let base = g_capabilities g in JObj
       ([(''methods'', jget base ''methods''), (''events'', jget base ''events''), (''chains'', jget base ''chains'')] @
        pass_through base ''version'' @ pass_through base ''rpcUrls'' @
        pass_through base ''walletCapabilities'' @ pass_through base ''contractBytecode''))"

definition sessionContext_w :: "wconfig \<Rightarrow> wsession \<Rightarrow> crypto_context" where
  "sessionContext_w g s = \<lparr>
     cc_dappPubKeyB64 = (case w_remotePubKey s of None \<Rightarrow> [] | Some r \<Rightarrow> b64urlEncode r),
     cc_walletPubKeyB64 = w_pubKeyB64 s,
     cc_capabilities = w_effectiveCapabilities s,
     cc_walletMeta = coalesce (g_meta g) JNull,
     cc_dappName = w_dappName s\<rparr>"

text \<open>The second half of \<^verbatim>\<open>prepareJoin\<close>: keys, fingerprint, join key.\<close>

definition derive_keys_w :: "wconfig \<Rightarrow> env \<Rightarrow> bytes \<Rightarrow> wsession \<Rightarrow> string wcomp" where
  "derive_keys_w g E remote s =
     (let X = g_noble g; kp = generateX25519KeyPair X (e_priv E);
          s = s\<lparr>w_privKey := Some (kp_privateKey kp), w_pubKeyB64 := kp_publicKeyB64 kp\<rparr>
      in andThen (s, computeSharedSecret X (kp_privateKey kp) remote) (\<lambda>s shared.
         andThen (s, deriveSessionKey X shared (w_channelId s)) (\<lambda>s rootKey.
         andThen (s, deriveDirectionalSessionKeys X rootKey (w_channelId s) (sessionContext_w g s)) (\<lambda>s keys.
         let s = s\<lparr>w_sendKey := Some (dk_walletToDappKey keys), w_recvKey := Some (dk_dappToWalletKey keys)\<rparr>
         in andThen (s, computeSessionFingerprint X (w_channelId s) (b64urlEncode remote)) (\<lambda>s fingerprint.
            let s = emit_w (s\<lparr>w_sessionFingerprint := fingerprint\<rparr>) (WFingerprint fingerprint)
            in andThen (s, deriveJoinEncryptionKey X rootKey (w_channelId s)) (\<lambda>s joinKey.
               (s\<lparr>w_sessionKey := Some joinKey\<rparr>, Inr fingerprint)))))))"

definition prepareJoin_w :: "wconfig \<Rightarrow> env \<Rightarrow> string \<Rightarrow> wsession \<Rightarrow> string wcomp" where
  "prepareJoin_w g E uri s =
     andThen (s, parsePairingUri uri) (\<lambda>s parsed.
     let s = s\<lparr>w_intentionalClose := False, w_channelId := pp_ch parsed\<rparr>
     in andThen (s, b64urlDecode (pp_pubkey parsed)) (\<lambda>s remote.
        let s = s\<lparr>w_remotePubKey := Some remote, w_relayUrl := pp_relay parsed, w_dappName := Some (pp_name parsed),
                  w_dappDeclaredMethods := pp_methods parsed, w_dappDeclaredChains := pp_chains parsed,
                  w_sendSeq := 0, w_recvSeq := - 1, w_sendKey := None, w_recvKey := None\<rparr>;
            s = clearCaches_w s;
            s = s\<lparr>w_effectiveCapabilities := computeScopeIntersection g\<rparr>
        in derive_keys_w g E remote s))"

text \<open>\<^verbatim>\<open>setUrl\<close> with the channel hint, if the transport has that method.\<close>

definition setUrl_w :: "wconfig \<Rightarrow> wsession \<Rightarrow> wsession" where
  "setUrl_w g s =
     (if g_hasSetUrl g then
        emit_w s (WSetUrl (if w_channelId s \<noteq> [] \<and> \<not> js_includes (w_relayUrl s) ''?ch=''
                           then channel_hint (w_relayUrl s) (w_channelId s) else w_relayUrl s))
      else s)"

text \<open>Up to the first \<^verbatim>\<open>await\<close>; the result is the number of the continuation.\<close>

definition confirmJoin_w :: "wconfig \<Rightarrow> wsession \<Rightarrow> nat wcomp" where
  "confirmJoin_w g s =
     (if w_channelId s = [] \<or> w_sendKey s = None \<or> w_recvKey s = None then
        (s, Inl (Error ''Must call prepareJoin() first''))
      else
        (let s = emit_w (setUrl_w g s) WConnect
         in (add_kont_w s KConfirm, Inr (w_nextK s))))"

definition joinFromUri_w :: "wconfig \<Rightarrow> env \<Rightarrow> string \<Rightarrow> wsession \<Rightarrow> nat wcomp" where
  "joinFromUri_w g E uri s = andThen (prepareJoin_w g E uri s) (\<lambda>s code. confirmJoin_w g s)"

text \<open>The result tells whether the frame waits for a promise of \<^verbatim>\<open>save\<close>.\<close>

definition sealed_join_w :: "wconfig \<Rightarrow> env \<Rightarrow> wsession \<Rightarrow> jsval wcomp" where
  "sealed_join_w g E s = (case w_sessionKey s of
     None \<Rightarrow> (s, Inr JNull)
   | Some key \<Rightarrow>
       andThen (s, sealJoin (g_noble g) (e_rand E) key (w_channelId s) (w_effectiveCapabilities s) (g_meta g)) (\<lambda>s sealed.
         (s\<lparr>w_sessionKey := None\<rparr>, Inr (JStr sealed))))"

definition sendJoin_w :: "wconfig \<Rightarrow> env \<Rightarrow> bool \<Rightarrow> wsession \<Rightarrow> bool wcomp" where
  "sendJoin_w g E rejoin s =
     andThen (sealed_join_w g E s) (\<lambda>s sealed.
     let msg = peer_msg ''join'' (w_channelId s) (e_now E) (w_pubKeyB64 s) [(''sealed_join'', sealed)]
     in andThen (persistSnapshot_w g s) (\<lambda>s promise.
        if promise then (add_kont_w s (KJoin msg rejoin), Inr True) else (sendRaw_w msg s, Inr False)))"

subsection \<open>Restoring a snapshot\<close>

definition restore_numbers_w :: "wconfig \<Rightarrow> jsval \<Rightarrow> wsession \<Rightarrow> bool wcomp" where
  "restore_numbers_w g d s =
     andThen (s, num_field d ''sendSeq'' 0) (\<lambda>s n. let s = s\<lparr>w_sendSeq := n\<rparr> in
     andThen (s, num_field d ''recvSeq'' (- 1)) (\<lambda>s n. let s = s\<lparr>w_recvSeq := n\<rparr> in
     andThen (s, text_field d ''relayUrl'') (\<lambda>s u. let s = s\<lparr>w_relayUrl := u\<rparr> in
     if config_differs (g_noble g) d ''capabilities'' (g_capabilities g) then (s, Inr False)
     else if config_differs (g_noble g) d ''meta'' (g_meta g) then (s, Inr False)
     else
       andThen (s, opt_text_field d ''dappName'') (\<lambda>s n. let s = s\<lparr>w_dappName := n\<rparr> in
       andThen (s, opt_num_field d ''sessionStartTime'') (\<lambda>s t.
         (setPhase_w WConnected (s\<lparr>w_sessionStartTime := t\<rparr>), Inr True))))))"

definition restore_fields_w :: "wconfig \<Rightarrow> jsval \<Rightarrow> wsession \<Rightarrow> bool wcomp" where
  "restore_fields_w g d s =
     (if \<not> truthy (jget d ''channelId'') \<or> \<not> truthy (jget d ''privKey'') then (s, Inr False)
      else
       andThen (s, text_field d ''channelId'') (\<lambda>s ch. let s = s\<lparr>w_channelId := ch\<rparr> in
       andThen (s, hex_field (g_noble g) d ''privKey'') (\<lambda>s k. let s = s\<lparr>w_privKey := Some k\<rparr> in
       andThen (s, text_field d ''pubKeyB64'') (\<lambda>s pk. let s = s\<lparr>w_pubKeyB64 := pk\<rparr> in
       andThen (s, opt_key_field d ''remotePubKeyB64'') (\<lambda>s r. let s = s\<lparr>w_remotePubKey := r\<rparr> in
       andThen (s, opt_hex_field (g_noble g) d ''sendKey'') (\<lambda>s k. let s = s\<lparr>w_sendKey := k\<rparr> in
       andThen (s, opt_hex_field (g_noble g) d ''recvKey'') (\<lambda>s k. let s = s\<lparr>w_recvKey := k\<rparr> in
       if w_sendKey s = None \<or> w_recvKey s = None then (s, Inr False)
       else restore_numbers_w g d s)))))))"

definition restore_w :: "wconfig \<Rightarrow> string \<Rightarrow> wsession \<Rightarrow> bool wcomp" where
  "restore_w g snapshot s =
     tryCatch (andThen (s, snapshot_payload (g_noble g) snapshot) (\<lambda>s p. case p of
         None \<Rightarrow> (s, Inr False)
       | Some json \<Rightarrow> andThen (s, js_parse json) (\<lambda>s d. restore_fields_w g d s)))
      (\<lambda>s e. (s, Inr False))"

text \<open>\<open>loaded\<close> is what \<^verbatim>\<open>persistence.load()\<close> resolved to; \<open>None\<close> without a \<^verbatim>\<open>load\<close> method or a saved text.\<close>

definition restoreFromPersistence_w :: "wconfig \<Rightarrow> string option \<Rightarrow> wsession \<Rightarrow> bool wcomp" where
  "restoreFromPersistence_w g loaded s = (case loaded of
     None \<Rightarrow> (s, Inr False)
   | Some json \<Rightarrow> if json = [] then (s, Inr False) else restore_w g json s)"

end
