(* ===== verification/Wallet_Handlers.thy ===== *)
theory Wallet_Handlers
  imports Wallet_Session
begin

text \<open>
  \<^verbatim>\<open>walletpair-sdk/src/wallet-session.ts\<close>, continued: incoming messages, the request path,
  reconnecting, the timers, the continuations of awaited promises, and the transition relation of
  the whole object.  The transport hands over only frames whose body is an object
  (\<^verbatim>\<open>isWireMessage\<close>).
\<close>

subsection \<open>Reconnecting\<close>

definition canReconnect_w :: "wsession \<Rightarrow> bool" where
  "canReconnect_w s \<longleftrightarrow> \<not> w_intentionalClose s \<and> w_phase s \<noteq> WClosed"

definition reconnectExhausted_w :: "wconfig \<Rightarrow> env \<Rightarrow> wsession \<Rightarrow> bool" where
  "reconnectExhausted_w g E s =
     (let attemptsCapped = (0 < g_maxReconnectAttempts g \<and> g_maxReconnectAttempts g \<le> int (w_reconnectAttempt s));
          durationCapped = (0 < g_maxReconnectDurationMs g \<and> 0 < w_reconnectStartedAt s \<and>
            g_maxReconnectDurationMs g \<le> e_now E - w_reconnectStartedAt s)
      in attemptsCapped \<or> durationCapped)"

definition giveUpReconnect_w :: "wconfig \<Rightarrow> env \<Rightarrow> wsession \<Rightarrow> wsession" where
  "giveUpReconnect_w g E s =
     (let s = (stopReconnect_w s)\<lparr>w_reconnecting := False\<rparr>;
          attempts = w_reconnectAttempt s;
          s = log_w E ''reconnect_failed'' JUndef (JStr ''reconnect_exhausted'') False s;
          s = clearPersistence_w g (clearCaches_w s);
          s = s\<lparr>w_intentionalClose := True\<rparr>
      in setPhase_w WClosed (emit_w s (WExhausted attempts)))"

definition scheduleReconnect_w :: "wconfig \<Rightarrow> env \<Rightarrow> wsession \<Rightarrow> wsession" where
  "scheduleReconnect_w g E s =
     (if \<not> canReconnect_w s then s
      else
        (let s = (if w_reconnectStartedAt s = 0 then s\<lparr>w_reconnectStartedAt := e_now E\<rparr> else s)
         in if reconnectExhausted_w g E s then giveUpReconnect_w g E s
            else (stopReconnect_w s)\<lparr>w_reconnectTimer := Some (e_now E + backoff_delay (w_reconnectAttempt s) (e_rnd E))\<rparr>))"

definition startReconnect_w :: "wconfig \<Rightarrow> env \<Rightarrow> wsession \<Rightarrow> wsession" where
  "startReconnect_w g E s =
     (let wasReconnecting = w_reconnecting s;
          s = setPhase_w WDisconnected (s\<lparr>w_reconnecting := True\<rparr>);
          s = (if \<not> wasReconnecting then s\<lparr>w_reconnectAttempt := 0, w_reconnectStartedAt := 0\<rparr> else s)
      in scheduleReconnect_w g E s)"

text \<open>\<^verbatim>\<open>doReconnectAttempt\<close> up to its \<^verbatim>\<open>await\<close>, and its \<^verbatim>\<open>catch\<close>.\<close>

definition doReconnectAttempt_w :: "wconfig \<Rightarrow> wsession \<Rightarrow> wsession" where
  "doReconnectAttempt_w g s =
     (if \<not> canReconnect_w s then s
      else
        (let s = (if w_channelId s \<noteq> [] then setUrl_w g s else s)
         in add_kont_w (emit_w s WConnect) KRejoin))"

definition reconnectFailed_w :: "wconfig \<Rightarrow> env \<Rightarrow> wsession \<Rightarrow> wsession" where
  "reconnectFailed_w g E s =
     scheduleReconnect_w g E (log_w E ''reconnect_failed'' JUndef JUndef (canReconnect_w s) s)"

definition reconnect_w :: "wconfig \<Rightarrow> wsession \<Rightarrow> wsession" where
  "reconnect_w g s =
     (let s = stopReconnect_w (s\<lparr>w_intentionalClose := False\<rparr>);
          s = (setPhase_w WDisconnected s)\<lparr>w_reconnectAttempt := 0\<rparr>
      in doReconnectAttempt_w g s)"

text \<open>\<^verbatim>\<open>info?.reason ?? (info?.wasError ? 'transport_error' : undefined)\<close>\<close>

definition handleTransportClose_w :: "wconfig \<Rightarrow> env \<Rightarrow> jsval \<Rightarrow> jsval \<Rightarrow> bool \<Rightarrow> wsession \<Rightarrow> wsession" where
  "handleTransportClose_w g E code reason wasError s =
     (let willReconnect = canReconnect_w s;
          s = log_w E ''transport_close'' code
                (coalesce reason (if wasError then JStr ''transport_error'' else JUndef)) willReconnect s
      in if \<not> willReconnect then s else startReconnect_w g E s)"

subsection \<open>Timers\<close>

definition reconnectTimer_fires_w :: "wconfig \<Rightarrow> wsession \<Rightarrow> wsession" where
  "reconnectTimer_fires_w g s =
     (let s = doReconnectAttempt_w g (s\<lparr>w_reconnectTimer := None\<rparr>)
      in s\<lparr>w_reconnectAttempt := Suc (w_reconnectAttempt s)\<rparr>)"

definition ttl_fires_w :: "wconfig \<Rightarrow> env \<Rightarrow> wsession \<Rightarrow> wsession" where
  "ttl_fires_w g E s =
     close_w g E ''timeout'' (emit_w (s\<lparr>w_ttlTimer := None\<rparr>) (WError (Error ''Session lifetime expired'')))"

definition heartbeatTick_w :: "env \<Rightarrow> wsession \<Rightarrow> wsession" where
  "heartbeatTick_w E s =
     (if w_phase s \<noteq> WConnected then s
      else
        (let s = ping_w E s in if w_livenessTimer s then s else s\<lparr>w_livenessTimer := True\<rparr>))"

definition liveness_fires_w :: "wconfig \<Rightarrow> env \<Rightarrow> wsession \<Rightarrow> wsession" where
  "liveness_fires_w g E s =
     (let s = s\<lparr>w_livenessTimer := False\<rparr>;
          s = log_w E ''transport_close'' JUndef (JStr ''heartbeat_timeout'') (canReconnect_w s) s;
          s = emit_w s WDisconnect
      in handleTransportClose_w g E JUndef (JStr ''heartbeat_timeout'') False s)"

subsection \<open>Requests\<close>

definition touchIdempotencyEntry_w :: "string \<Rightarrow> cached_response \<Rightarrow> wsession \<Rightarrow> wsession" where
  "touchIdempotencyEntry_w rid entry s = s\<lparr>w_idempotency := js_set (js_delete (w_idempotency s) rid) rid entry\<rparr>"

text \<open>\<^verbatim>\<open>observeSend(this.sendResponse(...))\<close>: an answer from a cache, itself not cached.\<close>

definition observed_resend_w :: "wconfig \<Rightarrow> env \<Rightarrow> string \<Rightarrow> cached_response \<Rightarrow> wsession \<Rightarrow> unit wcomp" where
  "observed_resend_w g E rid entry s =
     andThen (sendResponse_w g E False True (JStr rid) (cr_ok entry) (cr_data entry) s) (\<lambda>s _. (s, Inr ()))"

text \<open>The end of \<^verbatim>\<open>processRequest\<close>, from the pending requests on.\<close>

definition acceptRequest_w :: "wconfig \<Rightarrow> env \<Rightarrow> string \<Rightarrow> string \<Rightarrow> jsval \<Rightarrow> string \<Rightarrow> wsession \<Rightarrow> unit wcomp" where
  "acceptRequest_w g E rid method params paramsHash s = (case js_get (w_pending s) rid of
     Some pending \<Rightarrow>
       if \<not> constantTimeEqual (pr_paramsHash pending) paramsHash then
         observed_reject_w g E (JStr rid) ''invalid_params'' ''Duplicate request ID with different params'' s
       else (s, Inr ())
   | None \<Rightarrow>
       if MAX_PENDING_REQUESTS \<le> js_size (w_pending s) then
         observed_reject_w g E (JStr rid) ''rate_limited'' ''Too many pending requests'' s
       else
         (emit_w (s\<lparr>w_pending := js_set (w_pending s) rid \<lparr>pr_paramsHash = paramsHash, pr_method = method\<rparr>\<rparr>)
            (WRequest rid method params), Inr ()))"

text \<open>The lookup in the two caches.\<close>

definition answerCached_w :: "wconfig \<Rightarrow> env \<Rightarrow> string \<Rightarrow> string \<Rightarrow> jsval \<Rightarrow> string \<Rightarrow> wsession \<Rightarrow> unit wcomp" where
  "answerCached_w g E rid method params paramsHash s = (case js_get (w_broadcast s) rid of
     Some entry \<Rightarrow>
       if \<not> constantTimeEqual (cr_paramsHash entry) paramsHash then
         observed_reject_w g E (JStr rid) ''invalid_params'' ''Duplicate request ID with different params'' s
       else observed_resend_w g E rid entry s
   | None \<Rightarrow> (case js_get (w_idempotency s) rid of
       Some entry \<Rightarrow>
         if \<not> constantTimeEqual (cr_paramsHash entry) paramsHash then
           observed_reject_w g E (JStr rid) ''invalid_params'' ''Duplicate request ID with different params'' s
         else
           (let s = touchIdempotencyEntry_w rid entry s
            in if \<not> cr_tooLarge entry then observed_resend_w g E rid entry s
               else acceptRequest_w g E rid method params paramsHash s)
     | None \<Rightarrow> acceptRequest_w g E rid method params paramsHash s))"

definition granted_w :: "wsession \<Rightarrow> string \<Rightarrow> bool" where
  "granted_w s method \<longleftrightarrow> JStr method \<in> set (jelems (jget (w_effectiveCapabilities s) ''methods''))"

definition request_params :: "jsval \<Rightarrow> jsval" where
  "request_params data =
     (if jget data ''_params'' \<noteq> JUndef then jget data ''_params''
      else JObj (js_delete (js_delete (own_props data) ''_method'') ''_params''))"

definition processRequest_w :: "wconfig \<Rightarrow> env \<Rightarrow> string \<Rightarrow> jsval \<Rightarrow> bytes \<Rightarrow> wsession \<Rightarrow> unit wcomp" where
  "processRequest_w g E rid data plaintext s =
     (if \<not> is_object data then
        observed_reject_w g E (JStr rid) ''invalid_params'' ''Request payload missing _method'' s
      else (case jget data ''_method'' of
          JStr method \<Rightarrow>
            if method = [] then
              observed_reject_w g E (JStr rid) ''invalid_params'' ''Request payload missing _method'' s
            else if \<not> is_array (jget (w_effectiveCapabilities s) ''methods'') then (s, Inl TypeError)
            else if \<not> granted_w s method then
              observed_reject_w g E (JStr rid) ''unsupported_method''
                (''Method \"'' @ method @ ''\" not in granted capabilities'') s
            else answerCached_w g E rid method (request_params data) (sha256Hex (g_noble g) plaintext) s
        | _ \<Rightarrow> observed_reject_w g E (JStr rid) ''invalid_params'' ''Request payload missing _method'' s))"

text \<open>The body of the \<^verbatim>\<open>try\<close> block: open, drop a replay, advance, save, process.\<close>

definition openRequest_w :: "wconfig \<Rightarrow> bytes \<Rightarrow> wmsg \<Rightarrow> jsval \<Rightarrow> jsval \<Rightarrow> wsession \<Rightarrow> unsealed res" where
  "openRequest_w g key msg rid sealed s = (case (rid, sealed) of
     (JStr i, JStr t) \<Rightarrow> unsealPayload (g_noble g) key (w_channelId s) t (Some \<lparr>h_type = AReq, h_from = m_from msg, h_id = i\<rparr>)
   | _ \<Rightarrow> Inl TypeError)"

definition receiveRequest_w :: "wconfig \<Rightarrow> env \<Rightarrow> string \<Rightarrow> unsealed \<Rightarrow> wsession \<Rightarrow> unit wcomp" where
  "receiveRequest_w g E rid u s =
     (if u_seq u \<le> w_recvSeq s then (s, Inr ())
      else
        (let prev = w_recvSeq s; s = s\<lparr>w_recvSeq := u_seq u\<rparr>
         in andThen (persistSnapshot_w g s) (\<lambda>s promise.
              if promise then (add_kont_w s (KRequest rid (u_data u) (u_plaintext u) prev), Inr ())
              else processRequest_w g E rid (u_data u) (u_plaintext u) s)))"

definition handleRequest_w :: "wconfig \<Rightarrow> env \<Rightarrow> wmsg \<Rightarrow> wsession \<Rightarrow> unit wcomp" where
  "handleRequest_w g E msg s =
     (let rid = jget (m_body msg) ''id''; sealed = jget (m_body msg) ''sealed'' in
      if w_phase s \<noteq> WConnected then (s, Inr ())
      else if (case w_remotePubKey s of None \<Rightarrow> False | Some r \<Rightarrow> m_from msg \<noteq> b64urlEncode r) then (s, Inr ())
      else (case w_recvKey s of
          Some key \<Rightarrow>
            if \<not> truthy sealed \<or> \<not> truthy rid then
              if truthy rid then observed_reject_w g E rid ''protocol_error'' ''Request must be encrypted'' s
              else (s, Inr ())
            else
              tryCatch (andThen (s, openRequest_w g key msg rid sealed s) (\<lambda>s u.
                  receiveRequest_w g E (case rid of JStr i \<Rightarrow> i | _ \<Rightarrow> []) u s))
                (\<lambda>s e. observed_reject_w g E rid ''decryption_failed'' ''Failed to decrypt request'' s)
        | None \<Rightarrow>
            if truthy rid then observed_reject_w g E rid ''protocol_error'' ''Request must be encrypted'' s
            else (s, Inr ())))"

subsection \<open>Messages\<close>

definition remote_text :: "bytes option \<Rightarrow> jsval" where
  "remote_text r = (case r of None \<Rightarrow> JNull | Some b \<Rightarrow> JStr (b64urlEncode b))"

definition handleReady_w :: "wconfig \<Rightarrow> env \<Rightarrow> wmsg \<Rightarrow> wsession \<Rightarrow> unit wcomp" where
  "handleReady_w g E msg s =
     (let s = stopReconnect_w s; state = jget (m_body msg) ''state'' in
      if state = JStr ''connected'' \<and>
         (\<not> truthy (remote_text (w_remotePubKey s)) \<or> jget (m_body msg) ''remote'' \<noteq> remote_text (w_remotePubKey s)) then
        (close_w g E ''normal'' (emit_w s (WError (Error ''Connected remote does not match paired dApp''))), Inr ())
      else if state = JStr ''waiting'' then (setPhase_w WWaiting_accept s, Inr ())
      else if state = JStr ''connected'' then
        (let s = s\<lparr>w_reconnecting := False, w_reconnectAttempt := 0, w_reconnectStartedAt := 0\<rparr>;
             s = startSessionTtl_w g E (setPhase_w WConnected s)
         in persistSnapshotAsync_w g (startHeartbeat_w g s))
      else (s, Inr ()))"

text \<open>What a \<^verbatim>\<open>close\<close> of the peer and a permanent \<^verbatim>\<open>terminate\<close> do.\<close>

definition closeByPeer_w :: "wconfig \<Rightarrow> wsession \<Rightarrow> wsession" where
  "closeByPeer_w g s =
     (setPhase_w WClosed (clearPersistence_w g (clearCaches_w s)))\<lparr>w_intentionalClose := True\<rparr>"

definition handleTerminate_w :: "wconfig \<Rightarrow> env \<Rightarrow> wmsg \<Rightarrow> wsession \<Rightarrow> wsession" where
  "handleTerminate_w g E msg s =
     (let reason = jget (m_body msg) ''reason'';
          recoverable = isRecoverableCloseReason reason;
          s = log_w E ''terminate'' JUndef reason (recoverable \<and> canReconnect_w s) s
      in if \<not> canReconnect_w s then s
         else if recoverable then startReconnect_w g E (emit_w s WDisconnect)
         else closeByPeer_w g s)"

definition handleMessage_w :: "wconfig \<Rightarrow> env \<Rightarrow> wmsg \<Rightarrow> wsession \<Rightarrow> unit wcomp" where
  "handleMessage_w g E msg s =
     (if m_t msg \<noteq> ''ready'' \<and> m_t msg \<noteq> ''terminate'' \<and> m_from msg = ''_adapter'' then
        (emit_w s (WError (Error ''Rejected message with spoofed _adapter from'')), Inr ())
      else if m_v msg \<noteq> 1 then (close_w g E ''unsupported_version'' s, Inr ())
      else if m_t msg = ''ready'' then handleReady_w g E msg s
      else if m_t msg = ''req'' then handleRequest_w g E msg s
      else if m_t msg = ''ping'' then (send_w E ''pong'' [] s, Inr ())
      else if m_t msg = ''pong'' then (clearLiveness_w s, Inr ())
      else if m_t msg = ''close'' then (if w_phase s \<noteq> WDisconnected then closeByPeer_w g s else s, Inr ())
      else if m_t msg = ''terminate'' then (handleTerminate_w g E msg s, Inr ())
      else (s, Inr ()))"

subsection \<open>Continuations\<close>

text \<open>A rejected send: reported by \<^verbatim>\<open>observeSend\<close>, or by the promise the application holds.\<close>

definition settle_w :: "nat \<Rightarrow> bool \<Rightarrow> bool wcomp \<Rightarrow> wsession" where
  "settle_w i observed c =
     (if observed then (case snd c of Inl e \<Rightarrow> emit_w (fst c) (WError e) | Inr _ \<Rightarrow> fst c)
      else emit_w (fst c) (WSettled i (snd c)))"

text \<open>After \<^verbatim>\<open>transport.connect()\<close> or the save before the join: an exception rejects \<^verbatim>\<open>confirmJoin\<close>
  and makes \<^verbatim>\<open>doReconnectAttempt\<close> schedule another attempt.\<close>

definition joined_w :: "wconfig \<Rightarrow> env \<Rightarrow> nat \<Rightarrow> bool \<Rightarrow> bool wcomp \<Rightarrow> wsession" where
  "joined_w g E i rejoin c = (case snd c of
     Inl e \<Rightarrow> if rejoin then reconnectFailed_w g E (fst c) else emit_w (fst c) (WSettled i (Inl e))
   | Inr waits \<Rightarrow> if rejoin \<or> waits then fst c else emit_w (fst c) (WSettled i (Inr True)))"

definition resolve_w :: "wconfig \<Rightarrow> env \<Rightarrow> nat \<Rightarrow> wcont \<Rightarrow> wsession \<Rightarrow> wsession" where
  "resolve_w g E i k s = (case k of
     KConfirm \<Rightarrow> joined_w g E i False (sendJoin_w g E False (setPhase_w WWaiting_accept s))
   | KRejoin \<Rightarrow> joined_w g E i True (sendJoin_w g E True (setPhase_w WWaiting_accept s))
   | KJoin msg rejoin \<Rightarrow> joined_w g E i rejoin (sendRaw_w msg s, Inr False)
   | KRequest rid data plaintext prev \<Rightarrow>
       (case processRequest_w g E rid data plaintext s of
          (s, Inr _) \<Rightarrow> s
        | (s, Inl e) \<Rightarrow>
            (let (s, wrapped) = persistenceError_w g E e (s\<lparr>w_recvSeq := prev\<rparr>) in emit_w s (WError wrapped)))
   | KResponse seq rid ok data cache observed \<Rightarrow>
       settle_w i observed (andThen (transmit_response_w g E seq rid ok data s) (\<lambda>s sent.
         (afterSend_w cache rid ok data sent s, Inr sent)))
   | KEvent seq evtId event data \<Rightarrow> settle_w i False (transmit_event_w g E seq evtId event data s)
   | KSaved \<Rightarrow> s
   | KCleared \<Rightarrow> s)"

definition rejected_w :: "wconfig \<Rightarrow> env \<Rightarrow> nat \<Rightarrow> exn \<Rightarrow> wcont \<Rightarrow> wsession \<Rightarrow> wsession" where
  "rejected_w g E i e k s = (case k of
     KConfirm \<Rightarrow> emit_w s (WSettled i (Inl e))
   | KRejoin \<Rightarrow> reconnectFailed_w g E s
   | KJoin msg rejoin \<Rightarrow>
       (let (s, wrapped) = persistenceError_w g E e s in joined_w g E i rejoin (s, Inl wrapped))
   | KRequest rid data plaintext prev \<Rightarrow>
       (let (s, wrapped) = persistenceError_w g E e (s\<lparr>w_recvSeq := prev\<rparr>) in emit_w s (WError wrapped))
   | KResponse seq rid ok data cache observed \<Rightarrow>
       (let (s, wrapped) = persistenceError_w g E e s in settle_w i observed (s, Inl wrapped))
   | KEvent seq evtId event data \<Rightarrow>
       (let (s, wrapped) = persistenceError_w g E e s in settle_w i False (s, Inl wrapped))
   | KSaved \<Rightarrow> fst (persistenceError_w g E e s)
   | KCleared \<Rightarrow> emit_w s (WError e))"

definition drop_kont_w :: "nat \<Rightarrow> wsession \<Rightarrow> wsession" where
  "drop_kont_w i s = s\<lparr>w_konts := filter (\<lambda>c. fst c \<noteq> i) (w_konts s)\<rparr>"

subsection \<open>The object as a transition system\<close>

datatype wevent =
    CPrepareJoin string | CConfirmJoin | CApprove string jsval | CReject string string string
  | CPushEvent string jsval | CPing | CClose string | CDestroy | CRestore "string option" | CReconnect
  | OnMessage wmsg | OnClose jsval jsval bool
  | OnTtl | OnReconnectTimer | OnHeartbeat | OnLiveness
  | OnResolve nat | OnReject nat exn

text \<open>One event, where it can occur: a timer is armed and due, a promise is awaited.\<close>

definition wallet_step :: "wconfig \<Rightarrow> env \<Rightarrow> wevent \<Rightarrow> wsession \<Rightarrow> wsession option" where
  "wallet_step g E e s = (case e of
     CPrepareJoin uri \<Rightarrow> Some (fst (prepareJoin_w g E uri s))
   | CConfirmJoin \<Rightarrow> Some (fst (confirmJoin_w g s))
   | CApprove rid result \<Rightarrow> Some (fst (approve_w g E rid result s))
   | CReject rid code message \<Rightarrow> Some (fst (reject_w g E rid code message s))
   | CPushEvent event data \<Rightarrow> Some (fst (pushEvent_w g E event data s))
   | CPing \<Rightarrow> Some (ping_w E s)
   | CClose reason \<Rightarrow> Some (close_w g E reason s)
   | CDestroy \<Rightarrow> Some (destroy_w g E s)
   | CRestore loaded \<Rightarrow> Some (fst (restoreFromPersistence_w g loaded s))
   | CReconnect \<Rightarrow> Some (reconnect_w g s)
   | OnMessage msg \<Rightarrow> Some (fst (handleMessage_w g E msg s))
   | OnClose code reason wasError \<Rightarrow> Some (handleTransportClose_w g E code reason wasError s)
   | OnTtl \<Rightarrow> (case w_ttlTimer s of
       Some due \<Rightarrow> if due \<le> e_now E then Some (ttl_fires_w g E s) else None | None \<Rightarrow> None)
   | OnReconnectTimer \<Rightarrow> (case w_reconnectTimer s of
       Some due \<Rightarrow> if due \<le> e_now E then Some (reconnectTimer_fires_w g s) else None | None \<Rightarrow> None)
   | OnHeartbeat \<Rightarrow> if w_heartbeatTimer s then Some (heartbeatTick_w E s) else None
   | OnLiveness \<Rightarrow> if w_livenessTimer s then Some (liveness_fires_w g E s) else None
   | OnResolve i \<Rightarrow> map_option (\<lambda>k. resolve_w g E i k (drop_kont_w i s)) (map_of (w_konts s) i)
   | OnReject i x \<Rightarrow> map_option (\<lambda>k. rejected_w g E i x k (drop_kont_w i s)) (map_of (w_konts s) i))"

inductive wallet_trans :: "wconfig \<Rightarrow> wsession \<Rightarrow> env \<times> wevent \<Rightarrow> wsession \<Rightarrow> bool" for g where
  "wallet_step g E e s = Some s' \<Longrightarrow> wallet_trans g s (E, e) s'"

inductive_simps wallet_trans_iff: "wallet_trans g s (E, e) s'"
inductive_cases wallet_transE: "wallet_trans g s l s'"

end
