(* ===== verification/Wallet_Invariant.thy ===== *)
theory Wallet_Invariant
  imports Wallet_Handlers Send_Ledger
begin

text \<open>
  The invariant of a wallet session between two key changes (\<^verbatim>\<open>prepareJoin\<close>, \<^verbatim>\<open>restore\<close>), relative to
  the state in which the run starts: \<open>n\<close> effects in the trace, next sequence number \<open>b\<close>,
  capabilities, channel and last number received \<open>c\<close>.  Every method keeps it; the theorems on runs are in \<open>Wallet_Theorems\<close>.
\<close>

subsection \<open>The invariant\<close>

record run_context =
  x_capabilities :: jsval
  x_channelId :: string
  x_recvSeq :: int

definition run_context_of :: "wsession \<Rightarrow> run_context" where
  "run_context_of s = \<lparr>x_capabilities = w_effectiveCapabilities s, x_channelId = w_channelId s, x_recvSeq = w_recvSeq s\<rparr>"

definition eff_seqs :: "weff \<Rightarrow> int list" where
  "eff_seqs e = (case e of WSeal q \<Rightarrow> [q] | _ \<Rightarrow> [])"

definition seals :: "weff list \<Rightarrow> int list" where
  "seals es = concat (map eff_seqs es)"

definition kont_seqs :: "wcont \<Rightarrow> int list" where
  "kont_seqs k = (case k of KResponse q _ _ _ _ _ \<Rightarrow> [q] | KEvent q _ _ _ \<Rightarrow> [q] | _ \<Rightarrow> [])"

text \<open>A snapshot with a counter above \<open>q\<close> was handed to \<^verbatim>\<open>save\<close>.\<close>

definition saved_above :: "wconfig \<Rightarrow> run_context \<Rightarrow> int \<Rightarrow> weff list \<Rightarrow> bool" where
  "saved_above g c q es \<longleftrightarrow> g_persist g = PNone \<or>
     (\<exists>s saved. serialize_w g s = Inr saved \<and> w_channelId s = x_channelId c \<and> q < w_sendSeq s \<and> WSave saved \<in> set es)"

lemma kont_simps [simp]:
  "kont_seqs KConfirm = []" "kont_seqs KRejoin = []" "kont_seqs (KJoin m r) = []" "kont_seqs (KRequest i d p v) = []"
  "kont_seqs (KResponse q j o' d a h) = [q]" "kont_seqs (KEvent q i e d) = [q]" "kont_seqs KSaved = []" "kont_seqs KCleared = []"
  by (simp_all add: kont_seqs_def)

interpretation wl: send_ledger eff_seqs kont_seqs "saved_above g c"
  by unfold_locales
    (auto simp: eff_seqs_def kont_seqs_def saved_above_def split: weff.split wcont.split)

text \<open>The ledger of the locale, on the state of a wallet session.\<close>

definition ledger_w :: "wconfig \<Rightarrow> nat \<Rightarrow> int \<Rightarrow> run_context \<Rightarrow> wsession \<Rightarrow> bool" where
  "ledger_w g n b c s = send_ledger.ledger_ok eff_seqs kont_seqs (saved_above g c) n b (w_out s) (w_konts s) (w_sendSeq s)"

definition fresh :: "wconfig \<Rightarrow> nat \<Rightarrow> int \<Rightarrow> run_context \<Rightarrow> int \<Rightarrow> wsession \<Rightarrow> bool" where
  "fresh g n b c q s = send_ledger.free eff_seqs kont_seqs (saved_above g c) n b (w_out s) (w_konts s) (w_sendSeq s) q"

lemma sealed_seqs_w: "send_ledger.sealed_seqs eff_seqs = seals"
  by (simp add: fun_eq_iff wl.sealed_seqs_def seals_def)

definition method_granted :: "jsval \<Rightarrow> string \<Rightarrow> bool" where
  "method_granted c m \<longleftrightarrow> m \<noteq> [] \<and> JStr m \<in> set (jelems (jget c ''methods''))"

definition requests_ok :: "nat \<Rightarrow> run_context \<Rightarrow> wsession \<Rightarrow> bool" where
  "requests_ok n c s \<longleftrightarrow> w_effectiveCapabilities s = x_capabilities c \<and> w_channelId s = x_channelId c \<and>
     (\<forall>rid m p. WRequest rid m p \<in> set (drop n (w_out s)) \<longrightarrow> method_granted (x_capabilities c) m)"

definition keys_ok :: "nat \<Rightarrow> (string, 'v) jsmap \<Rightarrow> bool" where
  "keys_ok limit m \<longleftrightarrow> js_size m \<le> limit \<and> [] \<notin> set (js_keys m)"

definition kont_ok :: "wcont \<Rightarrow> bool" where
  "kont_ok k = (case k of KRequest rid _ _ _ \<Rightarrow> rid \<noteq> [] | _ \<Rightarrow> True)"

definition stores_ok :: "wsession \<Rightarrow> bool" where
  "stores_ok s \<longleftrightarrow> keys_ok MAX_PENDING_REQUESTS (w_pending s) \<and> keys_ok IDEMPOTENCY_CACHE_LIMIT (w_idempotency s) \<and>
     keys_ok BROADCAST_CACHE_LIMIT (w_broadcast s) \<and> (\<forall>c \<in> set (w_konts s). kont_ok (snd c))"

definition timers_ok :: "wsession \<Rightarrow> bool" where
  "timers_ok s \<longleftrightarrow> (w_heartbeatTimer s \<longrightarrow> w_phase s = WConnected) \<and> (w_livenessTimer s \<longrightarrow> w_heartbeatTimer s)"

text \<open>The last number received never falls, unless a failure to save was reported.\<close>

definition failure :: "weff \<Rightarrow> bool" where
  "failure e = (case e of WError (Error m) \<Rightarrow> starts_with m ''Session persistence failed: '' | _ \<Rightarrow> False)"

definition recv_ok :: "nat \<Rightarrow> run_context \<Rightarrow> wsession \<Rightarrow> bool" where
  "recv_ok n c s \<longleftrightarrow> x_recvSeq c \<le> w_recvSeq s \<or> list_ex failure (drop n (w_out s))"

definition wok :: "wconfig \<Rightarrow> nat \<Rightarrow> int \<Rightarrow> run_context \<Rightarrow> wsession \<Rightarrow> bool" where
  "wok g n b c s \<longleftrightarrow> ledger_w g n b c s \<and> requests_ok n c s \<and>
     stores_ok s \<and> timers_ok s \<and> recv_ok n c s"

lemmas wok_defs = wok_def ledger_w_def requests_ok_def stores_ok_def timers_ok_def recv_ok_def

subsection \<open>Fields the invariant does not read\<close>

lemma wok_upd [simp]:
  "wok g n b c (s\<lparr>w_intentionalClose := v1\<rparr>) = wok g n b c s"
  "wok g n b c (s\<lparr>w_evtCounter := v3\<rparr>) = wok g n b c s"
  "wok g n b c (s\<lparr>w_ttlTimer := v4\<rparr>) = wok g n b c s"
  "wok g n b c (s\<lparr>w_sessionStartTime := v5\<rparr>) = wok g n b c s"
  "wok g n b c (s\<lparr>w_reconnectTimer := v6\<rparr>) = wok g n b c s"
  "wok g n b c (s\<lparr>w_reconnectAttempt := v7\<rparr>) = wok g n b c s"
  "wok g n b c (s\<lparr>w_reconnecting := v8\<rparr>) = wok g n b c s"
  "wok g n b c (s\<lparr>w_reconnectStartedAt := v9\<rparr>) = wok g n b c s"
  "wok g n b c (s\<lparr>w_sendKey := v11\<rparr>) = wok g n b c s"
  "wok g n b c (s\<lparr>w_recvKey := v12\<rparr>) = wok g n b c s"
  "wok g n b c (s\<lparr>w_sessionKey := v13\<rparr>) = wok g n b c s"
  "wok g n b c (s\<lparr>w_privKey := v14\<rparr>) = wok g n b c s"
  by (simp_all add: wok_defs)

lemma wok_recvSeq: "wok g n b c s \<Longrightarrow> w_recvSeq s \<le> v \<Longrightarrow> wok g n b c (s\<lparr>w_recvSeq := v\<rparr>)"
  by (auto simp: wok_defs)

lemma wok_liveness [simp]: "wok g n b c s \<Longrightarrow> wok g n b c (s\<lparr>w_livenessTimer := False\<rparr>)"
  by (simp add: wok_defs)

subsection \<open>Effects and continuations\<close>

definition benign :: "weff \<Rightarrow> bool" where
  "benign e = (case e of WSeal _ \<Rightarrow> False | WRequest _ _ _ \<Rightarrow> False | _ \<Rightarrow> True)"

lemma benign_simps [simp]:
  "benign (WSend m)" "benign (WPhase p)" "benign (WError x)" "benign (WFingerprint f)" "benign (WExhausted k)"
  "benign (WSave t)" "benign WClear" "benign WConnect" "benign WDisconnect" "benign (WSetUrl u)"
  "benign (WLog l)" "benign WRemoveAll" "benign (WSettled i r)" "\<not> benign (WSeal q)" "\<not> benign (WRequest a d v)"
  by (simp_all add: benign_def)

lemma seals_simps [simp]: "seals [] = []" "seals (e # es) = eff_seqs e @ seals es" "seals (es @ fs) = seals es @ seals fs"
  by (simp_all add: seals_def)

lemma eff_seqs_simps [simp]: "benign e \<Longrightarrow> eff_seqs e = []" "eff_seqs (WSeal q) = [q]" "eff_seqs (WRequest a d p) = []"
  by (simp_all add: eff_seqs_def benign_def split: weff.splits)

lemma emit_w_fields [simp]:
  "w_sendSeq (emit_w s e) = w_sendSeq s" "w_konts (emit_w s e) = w_konts s" "w_pending (emit_w s e) = w_pending s"
  "w_idempotency (emit_w s e) = w_idempotency s" "w_broadcast (emit_w s e) = w_broadcast s" "w_phase (emit_w s e) = w_phase s"
  "w_heartbeatTimer (emit_w s e) = w_heartbeatTimer s" "w_livenessTimer (emit_w s e) = w_livenessTimer s"
  "w_effectiveCapabilities (emit_w s e) = w_effectiveCapabilities s" "w_out (emit_w s e) = w_out s @ [e]"
  "w_sendKey (emit_w s e) = w_sendKey s" "w_recvKey (emit_w s e) = w_recvKey s" "w_recvSeq (emit_w s e) = w_recvSeq s"
  "w_intentionalClose (emit_w s e) = w_intentionalClose s" "w_channelId (emit_w s e) = w_channelId s"
  "w_remotePubKey (emit_w s e) = w_remotePubKey s" "w_nextK (emit_w s e) = w_nextK s" "w_pubKeyB64 (emit_w s e) = w_pubKeyB64 s"
  "w_reconnecting (emit_w s e) = w_reconnecting s" "w_reconnectAttempt (emit_w s e) = w_reconnectAttempt s"
  "w_reconnectTimer (emit_w s e) = w_reconnectTimer s" "w_reconnectStartedAt (emit_w s e) = w_reconnectStartedAt s"
  "w_privKey (emit_w s e) = w_privKey s" "w_ttlTimer (emit_w s e) = w_ttlTimer s"
  by (simp_all add: emit_w_def)

lemma requests_ok_emit:
  "requests_ok n c s \<Longrightarrow> (\<And>rid m p. e = WRequest rid m p \<Longrightarrow> method_granted (x_capabilities c) m) \<Longrightarrow> requests_ok n c (emit_w s e)"
  by (fastforce simp: requests_ok_def drop_append split: if_splits dest: in_set_dropD)

lemma wok_length: "wok g n b c s \<Longrightarrow> n \<le> length (w_out s)"
  by (simp add: wok_def ledger_w_def wl.ledger_ok_def)

lemma wok_emitI:
  assumes "wok g n b c s" and "\<And>q. e = WSeal q \<Longrightarrow> fresh g n b c q s"
    and "\<And>rid m p. e = WRequest rid m p \<Longrightarrow> method_granted (x_capabilities c) m"
  shows "wok g n b c (emit_w s e)"
proof -
  have "ledger_w g n b c (emit_w s e)"
    using assms(1,2) unfolding wok_def ledger_w_def fresh_def
    by (auto intro!: wl.ledger_emit simp: eff_seqs_def split: weff.splits)
  moreover have "requests_ok n c (emit_w s e)" using assms by (intro requests_ok_emit) (auto simp: wok_def)
  moreover have "recv_ok n c (emit_w s e)" using assms(1) by (auto simp: wok_def recv_ok_def)
  ultimately show ?thesis using assms(1) by (simp add: wok_def stores_ok_def timers_ok_def)
qed

lemma wok_emit [simp]: "wok g n b c s \<Longrightarrow> benign e \<Longrightarrow> wok g n b c (emit_w s e)"
  by (rule wok_emitI) auto

lemma wok_request: "wok g n b c s \<Longrightarrow> method_granted (x_capabilities c) m \<Longrightarrow> wok g n b c (emit_w s (WRequest rid m p))"
  by (rule wok_emitI) auto

lemma wok_seal: "wok g n b c s \<Longrightarrow> fresh g n b c q s \<Longrightarrow> wok g n b c (emit_w s (WSeal q))"
  by (rule wok_emitI) auto

lemma wok_add_kont:
  assumes "wok g n b c s" and "kont_ok k" and "\<And>q. q \<in> set (kont_seqs k) \<Longrightarrow> fresh g n b c q s"
  shows "wok g n b c (add_kont_w s k)"
proof -
  have "ledger_w g n b c (add_kont_w s k)"
    using assms(1,3) by (simp add: wok_def ledger_w_def add_kont_w_def fresh_def wl.ledger_add)
  then show ?thesis using assms(1,2)
    by (auto simp: wok_def requests_ok_def stores_ok_def timers_ok_def recv_ok_def add_kont_w_def)
qed

lemma wok_add_plain [simp]:
  "wok g n b c s \<Longrightarrow> kont_seqs k = [] \<Longrightarrow> kont_ok k \<Longrightarrow> wok g n b c (add_kont_w s k)"
  by (rule wok_add_kont) auto

lemma kont_ok_simps [simp]:
  "kont_ok KConfirm" "kont_ok KRejoin" "kont_ok (KJoin m r)" "kont_ok (KRequest i d p v) \<longleftrightarrow> i \<noteq> []"
  "kont_ok (KResponse q j o' d a h)" "kont_ok (KEvent q i e d)" "kont_ok KSaved" "kont_ok KCleared"
  by (simp_all add: kont_ok_def)

subsection \<open>Phase, timers, caches, persistence\<close>

lemma wok_clearLiveness [simp]: "wok g n b c s \<Longrightarrow> wok g n b c (clearLiveness_w s)"
  by (simp add: clearLiveness_w_def)

lemma wok_stopHeartbeat [simp]: "wok g n b c s \<Longrightarrow> wok g n b c (stopHeartbeat_w s)"
  by (simp add: stopHeartbeat_w_def clearLiveness_w_def wok_defs)

lemma wok_startHeartbeat [simp]: "wok g n b c s \<Longrightarrow> w_phase s = WConnected \<Longrightarrow> wok g n b c (startHeartbeat_w h s)"
  by (simp add: startHeartbeat_w_def stopHeartbeat_w_def clearLiveness_w_def wok_defs Let_def)

lemma wok_phase_down: "wok g n b c s \<Longrightarrow> \<not> w_heartbeatTimer s \<Longrightarrow> wok g n b c (s\<lparr>w_phase := p\<rparr>)"
  by (simp add: wok_defs)

lemma wok_setPhase [simp]:
  assumes "wok g n b c s"
  shows "wok g n b c (setPhase_w p s)"
proof -
  have "wok g n b c ((s\<lparr>w_phase := p\<rparr>)\<lparr>w_heartbeatTimer := False, w_livenessTimer := False\<rparr>)"
    and "p = WConnected \<Longrightarrow> wok g n b c (s\<lparr>w_phase := p\<rparr>)"
    using assms by (simp_all add: wok_defs)
  then show ?thesis using assms
    by (auto simp: setPhase_w_def Let_def stopHeartbeat_w_def clearLiveness_w_def)
qed

lemma setPhase_w_phase [simp]: "w_phase (setPhase_w p s) = p"
  by (simp add: setPhase_w_def Let_def stopHeartbeat_w_def clearLiveness_w_def)

lemma wok_plain_ops [simp]:
  assumes "wok g n b c s"
  shows "wok g n b c (stopReconnect_w s)" "wok g n b c (clearSessionTtl_w s)" "wok g n b c (startSessionTtl_w h E s)"
    "wok g n b c (log_w E k v w x s)" "wok g n b c (sendRaw_w m s)" "wok g n b c (send_w E tt body s)"
  using assms
  by (simp_all add: stopReconnect_w_def clearSessionTtl_w_def startSessionTtl_w_def log_w_def sendRaw_w_def send_w_def Let_def)

lemma keys_ok_Nil [simp]: "keys_ok l []"
  by (simp add: keys_ok_def js_keys_def)

lemma wok_clearCaches [simp]: "wok g n b c s \<Longrightarrow> wok g n b c (clearCaches_w s)"
  by (simp add: clearCaches_w_def wok_defs)

lemma wok_clearPersistence [simp]: "wok g n b c s \<Longrightarrow> wok g n b c (clearPersistence_w h s)"
  by (simp add: clearPersistence_w_def Let_def)

lemma wok_persistSnapshot [simp]: "wok g n b c s \<Longrightarrow> wok g n b c (fst (persistSnapshot_w h s))"
  by (simp add: persistSnapshot_w_def split: sum.split)

lemma wok_persistSnapshotAsync [simp]: "wok g n b c s \<Longrightarrow> wok g n b c (fst (persistSnapshotAsync_w h s))"
  unfolding persistSnapshotAsync_w_def by (rule andThen_inv) auto

lemma wok_close [simp]: "wok g n b c s \<Longrightarrow> wok g n b c (close_w h E r s)"
  by (simp add: close_w_def Let_def)

lemma wok_destroy [simp]: "wok g n b c s \<Longrightarrow> wok g n b c (destroy_w h E s)"
  by (simp add: destroy_w_def Let_def)

lemma wok_persistenceError [simp]: "wok g n b c s \<Longrightarrow> wok g n b c (fst (persistenceError_w h E e s))"
  by (simp add: persistenceError_w_def Let_def)

subsection \<open>Sending\<close>

lemma wok_bump: "wok g n b c s \<Longrightarrow> wok g n b c (s\<lparr>w_sendSeq := w_sendSeq s + 1\<rparr>)"
  using wl.ledger_bump by (auto simp: wok_def ledger_w_def requests_ok_def stores_ok_def timers_ok_def recv_ok_def)

lemma persistSnapshot_saves:
  assumes "persistSnapshot_w g s = (s', Inr promise)" and "q < w_sendSeq s" and "w_channelId s = x_channelId c"
  shows "saved_above g c q (w_out s')"
proof (cases "g_persist g = PNone")
  case False
  then obtain t where "serialize_w g s = Inr t" "s' = emit_w s (WSave t)"
    using assms(1) by (auto simp: persistSnapshot_w_def split: sum.splits)
  then show ?thesis using assms(2,3) by (auto simp: saved_above_def)
qed (simp add: saved_above_def)

lemma nextSendSeq_fresh:
  assumes s: "wok g n b c s" and "nextSendSeq_w g E s = (s', Inr (Some (q, promise)))"
  shows "wok g n b c s' \<and> fresh g n b c q s'"
proof -
  let ?t = "s\<lparr>w_sendSeq := w_sendSeq s + 1\<rparr>"
  have eq: "q = w_sendSeq s" "persistSnapshot_w g ?t = (s', Inr promise)"
    using assms(2) by (auto simp: nextSendSeq_w_def Let_def andThen_def prod_eq_iff split: if_splits sum.splits)
  have s': "wok g n b c s'" using wok_persistSnapshot [OF wok_bump [OF s], of g] eq(2) by simp
  have f: "w_sendSeq s' = w_sendSeq s + 1" "w_konts s' = w_konts s"
    "w_out s' = w_out s \<or> (\<exists>t. w_out s' = w_out s @ [WSave t])"
    using eq(2) by (auto simp: persistSnapshot_w_def split: if_splits sum.splits)
  have "saved_above g c q (w_out s')"
    using persistSnapshot_saves [OF eq(2), of q c] eq(1) s by (simp add: wok_def requests_ok_def)
  moreover have "ledger_w g n b c s" using s by (simp add: wok_def)
  then have "q \<notin> set (send_ledger.used eff_seqs kont_seqs n (w_out s') (w_konts s'))" "b \<le> q"
    using f wok_length [OF s] eq(1) by (auto simp: ledger_w_def wl.ledger_ok_def wl.used_def)
  ultimately show ?thesis using s' f(1) eq(1) by (simp add: fresh_def wl.free_def)
qed

lemma wok_nextSendSeq [simp]: "wok g n b c s \<Longrightarrow> wok g n b c (fst (nextSendSeq_w g E s))"
  by (auto simp: nextSendSeq_w_def Let_def intro!: andThen_inv [where P = "wok g n b c"] wok_persistSnapshot wok_bump)

lemma wok_seal_w:
  assumes "wok g n b c s" and "fresh g n b c q s"
  shows "wok g n b c (fst (seal_w g key q data tt rid s))"
  using assms wok_seal [of g n b c s q] by (auto simp: seal_w_def split: jsval.split sum.split)

lemma wok_transmit:
  assumes "wok g n b c s" and "fresh g n b c q s"
  shows "wok g n b c (fst (transmit_response_w g E q rid ok data s))"
    and "wok g n b c (fst (transmit_event_w g E q evtId event data s))"
  using assms wok_seal_w [OF assms]
  by (auto simp: transmit_response_w_def transmit_event_w_def intro!: andThen_inv [where P = "wok g n b c"] split: option.split)

subsection \<open>The request caches\<close>

lemma evict_keys: "set (js_keys (evict l m)) \<subseteq> set (js_keys m)"
proof (induction l m rule: evict.induct)
  case (1 l m)
  show ?case
  proof (cases "l < js_size m \<and> m \<noteq> [] \<and> fst (hd m) \<noteq> []")
    case True
    then obtain k v r where m: "m = (k, v) # r" "k \<noteq> []" by (cases m) auto
    then have "set (js_keys (evict l (js_delete m k))) \<subseteq> set (js_keys (js_delete m k))" using 1 True by blast
    also have "\<dots> \<subseteq> set (js_keys m)" by (auto simp: js_keys_def js_delete_def)
    finally show ?thesis using m True by (subst evict.simps) simp
  next
    case False
    then show ?thesis by (subst evict.simps) (auto split: list.split)
  qed
qed

lemma evict_size: "[] \<notin> set (js_keys m) \<Longrightarrow> js_size (evict l m) \<le> l"
proof (induction l m rule: evict.induct)
  case (1 l m)
  show ?case
  proof (cases "l < js_size m")
    case True
    then obtain k v r where m: "m = (k, v) # r" by (cases m) auto
    have k: "k \<noteq> []" using 1(2) m by (auto simp: js_keys_def)
    have "[] \<notin> set (js_keys (js_delete m k))" using 1(2) by (auto simp: js_keys_def js_delete_def)
    then have "js_size (evict l (js_delete m k)) \<le> l" using 1(1) True m k by blast
    then show ?thesis using True m k by (subst evict.simps) simp
  next
    case False
    then show ?thesis by (subst evict.simps) simp
  qed
qed

lemma keys_ok_evict: "[] \<notin> set (js_keys m) \<Longrightarrow> keys_ok l (evict l m)"
  using evict_size evict_keys by (fastforce simp: keys_ok_def)

lemma keys_ok_delete: "keys_ok l m \<Longrightarrow> keys_ok l (js_delete m k)"
  using js_size_delete_le [of m k] by (auto simp: keys_ok_def js_keys_def js_delete_def)

lemma js_get_key: "js_get m k = Some v \<Longrightarrow> k \<in> set (js_keys m)"
  using js_get_None_iff [of m k] by simp

lemma wok_pending: "wok g n b c s \<Longrightarrow> keys_ok MAX_PENDING_REQUESTS m \<Longrightarrow> wok g n b c (s\<lparr>w_pending := m\<rparr>)"
  by (simp add: wok_defs)

lemma wok_idempotency: "wok g n b c s \<Longrightarrow> keys_ok IDEMPOTENCY_CACHE_LIMIT m \<Longrightarrow> wok g n b c (s\<lparr>w_idempotency := m\<rparr>)"
  by (simp add: wok_defs)

lemma wok_broadcast: "wok g n b c s \<Longrightarrow> keys_ok BROADCAST_CACHE_LIMIT m \<Longrightarrow> wok g n b c (s\<lparr>w_broadcast := m\<rparr>)"
  by (simp add: wok_defs)

lemma wok_stores:
  "wok g n b c s \<Longrightarrow> keys_ok MAX_PENDING_REQUESTS (w_pending s) \<and> keys_ok IDEMPOTENCY_CACHE_LIMIT (w_idempotency s) \<and>
     keys_ok BROADCAST_CACHE_LIMIT (w_broadcast s)"
  by (simp add: wok_def stores_ok_def)

lemma wok_cacheProcessed [simp]:
  assumes "wok g n b c s"
  shows "wok g n b c (cacheProcessedResponse_w rid ok data s)"
proof (cases "js_get (w_pending s) rid")
  case (Some p)
  note st = wok_stores [OF assms]
  have rid: "rid \<noteq> []" using js_get_key [OF Some] st by (auto simp: keys_ok_def)
  have 1: "wok g n b c (s\<lparr>w_pending := js_delete (w_pending s) rid\<rparr>)"
    using assms st by (intro wok_pending keys_ok_delete) auto
  have 2: "[] \<notin> set (js_keys (js_set (w_idempotency s) rid e))" "[] \<notin> set (js_keys (js_set (w_broadcast s) rid e))" for e
    using st rid by (simp_all add: js_keys_set keys_ok_def)
  note i = wok_idempotency [OF 1 keys_ok_evict [OF 2(1)]]
  show ?thesis using i wok_broadcast [OF i keys_ok_evict [OF 2(2)]]
    by (simp add: cacheProcessedResponse_w_def Some Let_def)
qed (simp add: cacheProcessedResponse_w_def assms)

lemma wok_afterSend [simp]: "wok g n b c s \<Longrightarrow> wok g n b c (afterSend_w cache rid ok data sent s)"
  by (simp add: afterSend_w_def split: jsval.split)

lemma wok_sendResponse [simp]:
  assumes "wok g n b c s"
  shows "wok g n b c (fst (sendResponse_w g E cache observed rid ok data s))"
proof (cases "nextSendSeq_w g E s")
  case (Pair s1 r)
  have s1: "wok g n b c s1" using wok_nextSendSeq [OF assms, of E] Pair by simp
  show ?thesis
  proof (cases "\<exists>q promise. r = Inr (Some (q, promise))")
    case True
    then obtain q promise where r: "r = Inr (Some (q, promise))" by blast
    have f: "fresh g n b c q s1" using nextSendSeq_fresh [OF assms] Pair r by blast
    have "wok g n b c (add_kont_w s1 (KResponse q rid ok data cache observed))"
      using s1 f by (intro wok_add_kont) auto
    moreover have "wok g n b c (fst (andThen (transmit_response_w g E q rid ok data s1)
        (\<lambda>s sent. (afterSend_w cache rid ok data sent s, Inr (WBool sent)))))"
      using wok_transmit(1) [OF s1 f] by (rule andThen_inv) simp
    ultimately show ?thesis using assms Pair r by (cases promise) (simp_all add: sendResponse_w_def)
  next
    case False
    then show ?thesis using assms s1 Pair
      by (cases r) (auto simp: sendResponse_w_def split: option.split)
  qed
qed

lemma wok_answers [simp]:
  assumes "wok g n b c s"
  shows "wok g n b c (fst (approve_w g E rid result s))" "wok g n b c (fst (reject_w g E rid code msg s))"
    "wok g n b c (fst (observed_reject_w g E v code msg s))" "wok g n b c (fst (observed_resend_w g E rid entry s))"
  using assms
  by (auto simp: approve_w_def reject_w_def observed_reject_w_def observed_resend_w_def intro!: andThen_inv [where P = "wok g n b c"])

lemma wok_pushEvent [simp]:
  assumes "wok g n b c s"
  shows "wok g n b c (fst (pushEvent_w g E event data s))"
proof (cases "nextSendSeq_w g E s")
  case (Pair s1 r)
  let ?s = "s1\<lparr>w_evtCounter := Suc (w_evtCounter s1)\<rparr>" let ?i = "''evt-'' @ dec_digits (Suc (w_evtCounter s1))"
  have s1: "wok g n b c ?s" using wok_nextSendSeq [OF assms, of E] Pair by simp
  show ?thesis
  proof (cases "\<exists>q promise. r = Inr (Some (q, promise))")
    case True
    then obtain q promise where r: "r = Inr (Some (q, promise))" by blast
    have "fresh g n b c q s1" using nextSendSeq_fresh [OF assms] Pair r by blast
    then have f: "fresh g n b c q ?s" by (simp add: fresh_def)
    have "wok g n b c (add_kont_w ?s (KEvent q ?i event data))"
      using s1 f by (intro wok_add_kont) auto
    moreover have "wok g n b c (fst (andThen (transmit_event_w g E q ?i event data ?s) (\<lambda>s sent. (s, Inr (WBool sent)))))"
      using wok_transmit(2) [OF s1 f] by (rule andThen_inv) simp
    ultimately show ?thesis using assms Pair r by (cases promise) (simp_all add: pushEvent_w_def Let_def)
  next
    case False
    then show ?thesis using assms s1 Pair
      by (cases r) (auto simp: pushEvent_w_def Let_def split: option.split)
  qed
qed

subsection \<open>Joining and reconnecting\<close>

lemma wok_ping [simp]: "wok g n b c s \<Longrightarrow> wok g n b c (ping_w E s)"
  by (simp add: ping_w_def)

lemma wok_setUrl [simp]: "wok g n b c s \<Longrightarrow> wok g n b c (setUrl_w h s)"
  by (simp add: setUrl_w_def)

lemma wok_confirmJoin [simp]: "wok g n b c s \<Longrightarrow> wok g n b c (fst (confirmJoin_w h s))"
  by (simp add: confirmJoin_w_def Let_def)

lemma wok_sendJoin [simp]:
  assumes "wok g n b c s"
  shows "wok g n b c (fst (sendJoin_w h E rejoin s))"
proof -
  have "wok g n b c (fst (sealed_join_w h E s))"
    using assms by (auto simp: sealed_join_w_def andThen_def split: option.split sum.split)
  then show ?thesis unfolding sendJoin_w_def Let_def
    by (intro andThen_inv [where P = "wok g n b c"]) (auto intro!: andThen_inv [where P = "wok g n b c"])
qed

lemma wok_giveUp [simp]: "wok g n b c s \<Longrightarrow> wok g n b c (giveUpReconnect_w h E s)"
  by (simp add: giveUpReconnect_w_def Let_def)

lemma wok_schedule [simp]: "wok g n b c s \<Longrightarrow> wok g n b c (scheduleReconnect_w h E s)"
  by (simp add: scheduleReconnect_w_def Let_def)

lemma wok_reconnecting [simp]:
  assumes "wok g n b c s"
  shows "wok g n b c (startReconnect_w h E s)" "wok g n b c (doReconnectAttempt_w h s)"
    "wok g n b c (reconnectFailed_w h E s)"
  using assms by (simp_all add: startReconnect_w_def doReconnectAttempt_w_def reconnectFailed_w_def Let_def)

lemma wok_reconnect [simp]: "wok g n b c s \<Longrightarrow> wok g n b c (reconnect_w h s)"
  by (simp add: reconnect_w_def Let_def)

lemma wok_transportClose [simp]: "wok g n b c s \<Longrightarrow> wok g n b c (handleTransportClose_w h E v w x s)"
  by (simp add: handleTransportClose_w_def Let_def)

lemma ping_fields [simp]: "w_heartbeatTimer (ping_w E s) = w_heartbeatTimer s" "w_phase (ping_w E s) = w_phase s"
  by (simp_all add: ping_w_def send_w_def sendRaw_w_def)

lemma wok_timers [simp]:
  assumes "wok g n b c s"
  shows "wok g n b c (reconnectTimer_fires_w h s)" "wok g n b c (ttl_fires_w h E s)" "wok g n b c (liveness_fires_w h E s)"
  using assms by (simp_all add: reconnectTimer_fires_w_def ttl_fires_w_def liveness_fires_w_def Let_def)

lemma wok_heartbeatTick [simp]:
  assumes "wok g n b c s" and "w_heartbeatTimer s"
  shows "wok g n b c (heartbeatTick_w E s)"
proof -
  have "wok g n b c (t\<lparr>w_livenessTimer := True\<rparr>)" if "wok g n b c t" "w_heartbeatTimer t" for t
    using that by (simp add: wok_defs)
  then show ?thesis using assms by (simp add: heartbeatTick_w_def Let_def)
qed

subsection \<open>Requests and messages\<close>

lemma wok_touch:
  assumes "wok g n b c s" and "js_get (w_idempotency s) rid = Some entry"
  shows "wok g n b c (touchIdempotencyEntry_w rid entry s)"
proof -
  have st: "keys_ok IDEMPOTENCY_CACHE_LIMIT (w_idempotency s)" using wok_stores [OF assms(1)] by blast
  have "js_size (js_set (js_delete (w_idempotency s) rid) rid entry) \<le> js_size (w_idempotency s)"
    using assms(2) by (intro js.move_size) simp
  moreover have "[] \<notin> set (js_keys (js_set (js_delete (w_idempotency s) rid) rid entry))"
    using st js_get_key [OF assms(2)] keys_ok_delete [OF st, of rid] by (auto simp: js_keys_set keys_ok_def)
  ultimately show ?thesis using assms(1) st
    by (simp add: touchIdempotencyEntry_w_def wok_idempotency keys_ok_def)
qed

lemma wok_acceptRequest [simp]:
  assumes "wok g n b c s" and "rid \<noteq> []" and "method_granted (x_capabilities c) method"
  shows "wok g n b c (fst (acceptRequest_w g E rid method params h s))"
proof (cases "js_get (w_pending s) rid = None \<and> js_size (w_pending s) < MAX_PENDING_REQUESTS")
  case True
  let ?m = "js_set (w_pending s) rid \<lparr>pr_paramsHash = h, pr_method = method\<rparr>"
  have "keys_ok MAX_PENDING_REQUESTS ?m"
    using wok_stores [OF assms(1)] True assms(2) by (simp add: keys_ok_def js_keys_set js_size_set)
  then have "wok g n b c (emit_w (s\<lparr>w_pending := ?m\<rparr>) (WRequest rid method params))"
    using assms(1,3) by (intro wok_request wok_pending)
  then show ?thesis using True by (simp add: acceptRequest_w_def)
next
  case False
  then show ?thesis using assms(1) by (auto simp: acceptRequest_w_def split: option.split)
qed

lemma wok_answerCached [simp]:
  assumes "wok g n b c s" and "rid \<noteq> []" and "method_granted (x_capabilities c) method"
  shows "wok g n b c (fst (answerCached_w g E rid method params h s))"
proof (cases "js_get (w_broadcast s) rid")
  case None
  show ?thesis
  proof (cases "js_get (w_idempotency s) rid")
    case (Some entry)
    show ?thesis using assms wok_touch [OF assms(1) Some] by (simp add: answerCached_w_def None Some Let_def)
  qed (simp add: answerCached_w_def None assms)
qed (simp add: answerCached_w_def assms)

lemma wok_processRequest [simp]:
  assumes "wok g n b c s" and "rid \<noteq> []"
  shows "wok g n b c (fst (processRequest_w g E rid data plaintext s))"
proof -
  have "method_granted (x_capabilities c) m" if "granted_w s m" "m \<noteq> []" for m
    using assms(1) that by (auto simp: granted_w_def method_granted_def wok_def requests_ok_def)
  then show ?thesis using assms by (auto simp: processRequest_w_def split: jsval.split)
qed

lemma wok_receiveRequest [simp]:
  assumes "wok g n b c s" and "rid \<noteq> []"
  shows "wok g n b c (fst (receiveRequest_w g E rid u s))"
  using assms by (auto simp: receiveRequest_w_def Let_def intro!: andThen_inv [where P = "wok g n b c"] wok_persistSnapshot wok_recvSeq)

lemma wok_handleRequest [simp]:
  assumes "wok g n b c s"
  shows "wok g n b c (fst (handleRequest_w g E msg s))"
proof -
  let ?rid = "jget (m_body msg) ''id''"
  have r: "wok g n b c (fst (andThen (s, openRequest_w g key msg ?rid sealed s)
      (\<lambda>s u. receiveRequest_w g E (case ?rid of JStr i \<Rightarrow> i | _ \<Rightarrow> []) u s)))" if "truthy ?rid" for key sealed
  proof (cases "openRequest_w g key msg ?rid sealed s")
    case (Inr u)
    then obtain i where "?rid = JStr i" by (auto simp: openRequest_w_def split: jsval.splits)
    then show ?thesis using that assms Inr by simp
  qed (simp add: assms)
  have "wok g n b c (fst (tryCatch (andThen (s, openRequest_w g key msg ?rid sealed s)
      (\<lambda>s u. receiveRequest_w g E (case ?rid of JStr i \<Rightarrow> i | _ \<Rightarrow> []) u s))
      (\<lambda>s e. observed_reject_w g E ?rid ''decryption_failed'' ''Failed to decrypt request'' s)))"
    if "truthy ?rid" for key sealed
    using r [OF that] by (rule tryCatch_inv) simp
  then show ?thesis using assms by (auto simp: handleRequest_w_def Let_def split: option.split)
qed

lemma wok_handleReady [simp]: "wok g n b c s \<Longrightarrow> wok g n b c (fst (handleReady_w h E msg s))"
  by (simp add: handleReady_w_def Let_def startSessionTtl_w_def clearSessionTtl_w_def)

lemma wok_closeByPeer [simp]: "wok g n b c s \<Longrightarrow> wok g n b c (closeByPeer_w h s)"
  by (simp add: closeByPeer_w_def)

lemma wok_handleTerminate [simp]: "wok g n b c s \<Longrightarrow> wok g n b c (handleTerminate_w h E msg s)"
  by (simp add: handleTerminate_w_def Let_def)

lemma wok_handleMessage [simp]: "wok g n b c s \<Longrightarrow> wok g n b c (fst (handleMessage_w g E msg s))"
  by (simp add: handleMessage_w_def)

subsection \<open>Continuations and steps\<close>

lemma wok_settle [simp]: "wok g n b c (fst r) \<Longrightarrow> wok g n b c (settle_w i observed r)"
  by (simp add: settle_w_def split: sum.split)

lemma wok_joined [simp]: "wok g n b c (fst r) \<Longrightarrow> wok g n b c (joined_w h E i rejoin r)"
  by (simp add: joined_w_def split: sum.split)

lemma wok_failure:
  assumes "wok g n b c s"
  shows "wok g n b c (fst (persistenceError_w h E e (s\<lparr>w_recvSeq := v\<rparr>)))"
proof -
  let ?e = "WError (Error (''Session persistence failed: '' @ exn_message e))"
  have "failure ?e" by (simp add: failure_def starts_with_append)
  then have "wok g n b c ((emit_w s ?e)\<lparr>w_recvSeq := v\<rparr>)"
    using wok_emit [OF assms, of ?e] wok_length [OF assms] by (simp add: wok_defs)
  moreover have "(emit_w s ?e)\<lparr>w_recvSeq := v\<rparr> = emit_w (s\<lparr>w_recvSeq := v\<rparr>) ?e" by (simp add: emit_w_def)
  ultimately show ?thesis by (simp add: persistenceError_w_def Let_def)
qed

lemma wok_rollback [simp]:
  assumes "wok g n b c s"
  shows "wok g n b c (case persistenceError_w h E e (s\<lparr>w_recvSeq := v\<rparr>) of (s, w) \<Rightarrow> emit_w s (WError w))"
    and "wok g n b c (case persistenceError_w h E e s of (s, w) \<Rightarrow> settle_w i observed (s, Inl w))"
    and "wok g n b c (case persistenceError_w h E e s of (s, w) \<Rightarrow> joined_w h E i rejoin (s, Inl w))"
  using wok_failure [OF assms, of h E e v] wok_persistenceError [OF assms, of h E e] by (simp_all add: case_prod_beta)

lemma wok_drop_kont [simp]:
  assumes "wok g n b c s"
  shows "wok g n b c (drop_kont_w i s)"
proof -
  have "ledger_w g n b c (drop_kont_w i s)"
    using assms wl.ledger_filter by (simp add: wok_def ledger_w_def drop_kont_w_def)
  then show ?thesis using assms by (simp add: wok_def requests_ok_def stores_ok_def timers_ok_def recv_ok_def drop_kont_w_def)
qed

lemma fresh_kont:
  assumes "wok g n b c s" and "map_of (w_konts s) i = Some k" and "q \<in> set (kont_seqs k)"
  shows "fresh g n b c q (drop_kont_w i s)"
  using assms map_of_SomeD [OF assms(2)] wl.filter_free
  by (simp add: wok_def ledger_w_def fresh_def drop_kont_w_def)

lemma wok_resolve:
  assumes "wok g n b c s" and k: "map_of (w_konts s) i = Some k"
  shows "wok g n b c (resolve_w g E i k (drop_kont_w i s))"
proof (cases k)
  case (KRequest rid data plaintext prev)
  have "kont_ok k" using assms map_of_SomeD [OF k] by (force simp: wok_def stores_ok_def)
  then have "wok g n b c (fst (processRequest_w g E rid data plaintext (drop_kont_w i s)))" using assms(1) KRequest by simp
  then show ?thesis using KRequest
    by (cases "processRequest_w g E rid data plaintext (drop_kont_w i s)") (simp add: resolve_w_def split: sum.split)
next
  case (KResponse q rid ok data cache observed)
  have f: "fresh g n b c q (drop_kont_w i s)" using fresh_kont [OF assms] KResponse by simp
  have "wok g n b c (fst (andThen (transmit_response_w g E q rid ok data (drop_kont_w i s))
      (\<lambda>s sent. (afterSend_w cache rid ok data sent s, Inr sent))))"
    using wok_transmit(1) [OF _ f] assms(1) by (intro andThen_inv [where P = "wok g n b c"]) auto
  then show ?thesis using KResponse by (simp add: resolve_w_def)
next
  case (KEvent q evtId event data)
  have f: "fresh g n b c q (drop_kont_w i s)" using fresh_kont [OF assms] KEvent by simp
  then show ?thesis using KEvent wok_transmit(2) [OF _ f] assms(1) by (simp add: resolve_w_def)
qed (simp_all add: resolve_w_def assms(1))

lemma wok_rejected: "wok g n b c s \<Longrightarrow> wok g n b c (rejected_w g E i e k s)"
  by (cases k) (simp_all add: rejected_w_def)

text \<open>The events of one session: everything but a change of the keys.\<close>

definition same_session :: "wevent \<Rightarrow> bool" where
  "same_session e = (case e of CPrepareJoin _ \<Rightarrow> False | CRestore _ \<Rightarrow> False | _ \<Rightarrow> True)"

lemma wok_step:
  assumes "wok g n b c s" and "wallet_step g E e s = Some s'" and "same_session e"
  shows "wok g n b c s'"
proof (cases e)
  case (OnResolve i)
  then show ?thesis using assms wok_resolve by (auto simp: wallet_step_def)
next
  case (OnReject i x)
  then show ?thesis using assms wok_rejected by (auto simp: wallet_step_def)
qed (use assms in \<open>auto simp: wallet_step_def same_session_def split: option.splits if_splits\<close>)

inductive session_trans :: "wconfig \<Rightarrow> wsession \<Rightarrow> env \<times> wevent \<Rightarrow> wsession \<Rightarrow> bool" for g where
  "wallet_trans g s l s' \<Longrightarrow> same_session (snd l) \<Longrightarrow> session_trans g s l s'"

inductive_cases session_transE: "session_trans g s l s'"

text \<open>A run starts with no send waiting for its save and with the stores within their bounds.\<close>

definition reserved :: "wsession \<Rightarrow> int list" where
  "reserved s = concat (map (\<lambda>c. kont_seqs (snd c)) (w_konts s))"

definition run_start :: "wsession \<Rightarrow> bool" where
  "run_start s \<longleftrightarrow> reserved s = [] \<and> stores_ok s \<and> timers_ok s"

definition run_ok :: "wconfig \<Rightarrow> wsession \<Rightarrow> wsession \<Rightarrow> bool" where
  "run_ok g s0 s \<longleftrightarrow> (run_start s0 \<longrightarrow> wok g (length (w_out s0)) (w_sendSeq s0) (run_context_of s0) s)"

lemma run_start_wok: "run_start s \<Longrightarrow> wok g (length (w_out s)) (w_sendSeq s) (run_context_of s) s"
  using wl.ledger_start
  by (auto simp: run_start_def reserved_def wl.reserved_seqs_def wok_def ledger_w_def requests_ok_def recv_ok_def run_context_of_def)

interpretation wallet_run: inductive_invariant s0 "session_trans g" "run_ok g s0"
proof
  show "run_ok g s0 s0" by (simp add: run_ok_def run_start_wok)
  show "run_ok g s0 s'" if "run_ok g s0 s" "session_trans g s e s'" for s e s'
    using that wok_step by (auto simp: run_ok_def elim!: session_transE wallet_transE)
qed

lemma run_steps:
  assumes "steps (session_trans g) s0 es s" and "run_start s0"
  shows "wok g (length (w_out s0)) (w_sendSeq s0) (run_context_of s0) s"
  using wallet_run.inv_steps [OF assms(1), of s0] run_start_wok [OF assms(2)] assms(2) by (simp add: run_ok_def)

end
