(* ===== verification/Wallet_Theorems.thy ===== *)
theory Wallet_Theorems
  imports Wallet_Invariant Session_Recovery
begin

text \<open>
  Properties of the wallet session: what every run between two key changes guarantees, the
  behaviour at the end of the sequence space, the answer to a repeated request, giving up a
  reconnect, and the round trip of a snapshot.
\<close>

subsection \<open>A concrete session\<close>

definition demo_wcfg :: wconfig where
  "demo_wcfg = \<lparr>g_noble = demo_noble,
     g_capabilities = JObj [(''methods'', JArr [JStr ''m'']), (''events'', JArr []), (''chains'', JArr [])],
     g_meta = JNull, g_sessionTtl = 86400000, g_heartbeatInterval = 20000, g_maxReconnectAttempts = 2,
     g_maxReconnectDurationMs = 300000, g_persist = PSync, g_hasClear = True, g_hasSetUrl = True\<rparr>"

definition demo_env :: env where
  "demo_env = \<lparr>e_now = 5, e_rnd = 0, e_priv = demo_key, e_rand = replicate 12 1\<rparr>"

definition demo_wallet :: wsession where
  "demo_wallet = (wallet_init demo_wcfg)\<lparr>w_phase := WConnected, w_channelId := demo_channel,
     w_privKey := Some demo_key, w_pubKeyB64 := ''p'', w_remotePubKey := Some demo_key, w_sendKey := Some demo_key,
     w_recvKey := Some demo_key, w_sendSeq := 7, w_recvSeq := 3\<rparr>"

lemma demo_wallet_start: "run_start demo_wallet"
  by (simp add: run_start_def reserved_def stores_ok_def timers_ok_def demo_wallet_def wallet_init_def)


lemma send_w_seals [simp]: "seals (w_out (send_w E t body s)) = seals (w_out s)"
  by (simp add: send_w_def sendRaw_w_def)


lemma demo_wallet_fields [simp]:
  "w_phase demo_wallet = WConnected" "w_sendKey demo_wallet = Some demo_key" "w_privKey demo_wallet = Some demo_key"
  "w_sendSeq demo_wallet = 7" "w_evtCounter demo_wallet = 0" "w_out demo_wallet = []" "w_channelId demo_wallet = demo_channel"
  "w_pubKeyB64 demo_wallet = ''p''" "w_recvKey demo_wallet = Some demo_key" "w_recvSeq demo_wallet = 3"
  "w_remotePubKey demo_wallet = Some demo_key"
  by (simp_all add: demo_wallet_def wallet_init_def)


subsection \<open>Runs\<close>





text \<open>C23. The tables of a session stay bounded: in every reachable state of a run at most 32 requests
  are pending, at most 1024 answers and 256 broadcast results are cached, and the heartbeat runs
  only while connected.\<close>

theorem wallet_tables_bounded:
  assumes "steps (session_trans g) s0 es s" and "run_start s0"
  shows "js_size (w_pending s) \<le> MAX_PENDING_REQUESTS \<and> js_size (w_idempotency s) \<le> IDEMPOTENCY_CACHE_LIMIT \<and>
    js_size (w_broadcast s) \<le> BROADCAST_CACHE_LIMIT \<and> (w_phase s \<noteq> WConnected \<longrightarrow> \<not> w_heartbeatTimer s \<and> \<not> w_livenessTimer s)"
  using run_steps [OF assms] by (auto simp: wok_def stores_ok_def keys_ok_def timers_ok_def)

theorem wallet_tables_bounded_witness: "js_size (w_pending demo_wallet) \<le> MAX_PENDING_REQUESTS"
  using wallet_tables_bounded [OF steps_Nil [of "session_trans demo_wcfg"] demo_wallet_start] by blast

text \<open>C10. Only granted methods reach the wallet application: every request event of a run carries a
  non-empty method of the capabilities in force when the run began.\<close>

theorem wallet_only_granted_methods:
  assumes "steps (session_trans g) s0 es s" and "run_start s0"
    and "WRequest rid m p \<in> set (drop (length (w_out s0)) (w_out s))"
  shows "m \<noteq> [] \<and> JStr m \<in> set (jelems (jget (w_effectiveCapabilities s0) ''methods''))"
  using run_steps [OF assms(1,2)] assms(3)
  by (auto simp: wok_def requests_ok_def method_granted_def run_context_of_def)

definition demo_waiting :: wsession where
  "demo_waiting = demo_wallet\<lparr>w_konts := [(0, KRequest ''1'' (JObj [(''_method'', JStr ''m'')]) [] 2)], w_nextK := 1\<rparr>"

lemma demo_waiting_start: "run_start demo_waiting"
  by (simp add: run_start_def reserved_def stores_ok_def timers_ok_def demo_waiting_def demo_wallet_def wallet_init_def)

lemma demo_request:
  "\<exists>s. steps (session_trans demo_wcfg) demo_waiting [(demo_env, OnResolve 0)] s \<and> WRequest ''1'' ''m'' (JObj []) \<in> set (w_out s)"
proof -
  let ?s = "resolve_w demo_wcfg demo_env 0 (KRequest ''1'' (JObj [(''_method'', JStr ''m'')]) [] 2) (drop_kont_w 0 demo_waiting)"
  have "session_trans demo_wcfg demo_waiting (demo_env, OnResolve 0) ?s"
    by (simp add: session_trans.simps wallet_trans_iff wallet_step_def same_session_def demo_waiting_def)
  moreover have "WRequest ''1'' ''m'' (JObj []) \<in> set (w_out ?s)"
    by (simp add: resolve_w_def processRequest_w_def granted_w_def answerCached_w_def acceptRequest_w_def request_params_def
        drop_kont_w_def demo_waiting_def demo_wallet_def wallet_init_def demo_wcfg_def is_array_def jelems_def own_props_def
        js_delete_def MAX_PENDING_REQUESTS_def)
  ultimately show ?thesis by (blast intro: steps_Cons steps_Nil)
qed

theorem wallet_only_granted_methods_witness:
  "JStr ''m'' \<in> set (jelems (jget (w_effectiveCapabilities demo_waiting) ''methods''))"
proof -
  obtain s where s: "steps (session_trans demo_wcfg) demo_waiting [(demo_env, OnResolve 0)] s"
      "WRequest ''1'' ''m'' (JObj []) \<in> set (w_out s)"
    using demo_request by blast
  have "w_out demo_waiting = []" by (simp add: demo_waiting_def demo_wallet_def wallet_init_def)
  then have "WRequest ''1'' ''m'' (JObj []) \<in> set (drop (length (w_out demo_waiting)) (w_out s))" using s(2) by simp
  then show ?thesis using wallet_only_granted_methods [OF s(1) demo_waiting_start] by blast
qed




subsection \<open>The end of the sequence space\<close>

lemma close_w_facts:
  "w_phase (close_w g E r s) = WClosed" "w_intentionalClose (close_w g E r s)" "w_sendSeq (close_w g E r s) = w_sendSeq s"
  "seals (w_out (close_w g E r s)) = seals (w_out s)" "w_reconnectTimer (close_w g E r s) = None"
  "w_ttlTimer (close_w g E r s) = None"
  "w_pending (close_w g E r s) = []" "w_idempotency (close_w g E r s) = []" "w_broadcast (close_w g E r s) = []"
  by (simp_all add: close_w_def Let_def setPhase_w_def stopHeartbeat_w_def clearLiveness_w_def clearPersistence_w_def
      add_kont_w_def send_w_def sendRaw_w_def clearCaches_w_def stopReconnect_w_def clearSessionTtl_w_def log_w_def)

text \<open>At the limit of the send counter nothing more is encrypted: approving or rejecting a request
  or pushing an event returns \<^verbatim>\<open>false\<close>, the application is told, and the session is closed with its
  tables empty and no timer armed.\<close>

theorem wallet_seq_limit_closes:
  assumes "MAX_SEND_SEQ \<le> w_sendSeq s" and "w_sendKey s = Some k" and "w_phase s = WConnected"
    and "c = approve_w g E rid result s \<or> c = reject_w g E rid code message s \<or> c = pushEvent_w g E event data s"
  shows "snd c = Inr (WBool False) \<and> w_phase (fst c) = WClosed \<and> seals (w_out (fst c)) = seals (w_out s) \<and>
    w_pending (fst c) = [] \<and> w_idempotency (fst c) = [] \<and> w_reconnectTimer (fst c) = None \<and> w_ttlTimer (fst c) = None"
proof -
  let ?s = "close_w g E ''normal'' (emit_w s (WError (Error SEQ_LIMIT_MESSAGE)))"
  have "nextSendSeq_w g E s = (?s, Inr None)" using assms(1) by (simp add: nextSendSeq_w_def)
  then have "c = (?s, Inr (WBool False)) \<or> c = (?s\<lparr>w_evtCounter := Suc (w_evtCounter ?s)\<rparr>, Inr (WBool False))"
    using assms(2-4) by (auto simp: approve_w_def reject_w_def sendResponse_w_def pushEvent_w_def Let_def)
  then show ?thesis by (auto simp: close_w_facts)
qed

theorem wallet_seq_limit_closes_witness:
  "w_phase (fst (approve_w demo_wcfg demo_env ''1'' JNull (demo_wallet\<lparr>w_sendSeq := 2 ^ 31\<rparr>))) = WClosed"
  using wallet_seq_limit_closes [of "demo_wallet\<lparr>w_sendSeq := 2 ^ 31\<rparr>" demo_key _ demo_wcfg demo_env "''1''" JNull]
  by (simp add: MAX_SEND_SEQ_def demo_wallet_def)

subsection \<open>Snapshots\<close>

definition snapshot_ok :: "wconfig \<Rightarrow> wsession \<Rightarrow> bool" where
  "snapshot_ok g s \<longleftrightarrow> w_privKey s \<notin> {None, Some []} \<and> w_sendKey s \<notin> {None, Some []} \<and> w_recvKey s \<notin> {None, Some []} \<and>
     w_remotePubKey s \<noteq> Some [] \<and> w_channelId s \<noteq> [] \<and> json_ok (g_capabilities g) \<and> json_ok (coalesce (g_meta g) JNull) \<and>
     \<bar>w_sendSeq s\<bar> < 10 ^ 21 \<and> \<bar>w_recvSeq s\<bar> < 10 ^ 21 \<and>
     (case w_sessionStartTime s of None \<Rightarrow> True | Some t \<Rightarrow> \<bar>t\<bar> < 10 ^ 21)"

text \<open>What a restore takes over from the saved session.\<close>

definition restored :: "wsession \<Rightarrow> wsession \<Rightarrow> wsession" where
  "restored s t = setPhase_w WConnected (t\<lparr>w_channelId := w_channelId s, w_privKey := w_privKey s, w_pubKeyB64 := w_pubKeyB64 s,
     w_remotePubKey := w_remotePubKey s, w_sendKey := w_sendKey s, w_recvKey := w_recvKey s, w_sendSeq := w_sendSeq s,
     w_recvSeq := w_recvSeq s, w_relayUrl := w_relayUrl s, w_dappName := w_dappName s, w_sessionStartTime := w_sessionStartTime s\<rparr>)"

lemma snapshot_json:
  assumes "snapshot_ok g s" and "w_privKey s = Some p"
  shows "json_ok (snapshot_w g p s)"
proof -
  have "json_ok (case w_sessionStartTime s of None \<Rightarrow> JNull | Some t \<Rightarrow> JNum (of_int t))"
    using assms(1) by (simp add: snapshot_ok_def split: option.splits)
  moreover have "json_ok (hex_or_null X k)" for X k by (simp add: hex_or_null_def split: option.split)
  moreover have "json_ok (case w_remotePubKey s of None \<Rightarrow> JNull | Some r \<Rightarrow> JStr (b64urlEncode r))"
    "json_ok (case w_dappName s of None \<Rightarrow> JNull | Some n \<Rightarrow> JStr n)"
    by (simp_all split: option.split)
  moreover have "json_ok (JNum (of_int i))" if "\<bar>i\<bar> < 10 ^ 21" for i using that by simp
  moreover have "\<bar>w_sendSeq s\<bar> < 10 ^ 21" "\<bar>w_recvSeq s\<bar> < 10 ^ 21" "json_ok (g_capabilities g)" "json_ok (coalesce (g_meta g) JNull)"
    using assms(1) unfolding snapshot_ok_def by blast+
  ultimately show ?thesis by (simp add: snapshot_w_def del: json_ok.simps(4))
qed

lemma snapshot_fields:
  "jget (snapshot_w g p s) ''channelId'' = JStr (w_channelId s)"
  "jget (snapshot_w g p s) ''privKey'' = JStr (n_bytesToHex (g_noble g) p)"
  "jget (snapshot_w g p s) ''pubKeyB64'' = JStr (w_pubKeyB64 s)"
  "jget (snapshot_w g p s) ''remotePubKeyB64'' = (case w_remotePubKey s of None \<Rightarrow> JNull | Some r \<Rightarrow> JStr (b64urlEncode r))"
  "jget (snapshot_w g p s) ''sendKey'' = hex_or_null (g_noble g) (w_sendKey s)"
  "jget (snapshot_w g p s) ''recvKey'' = hex_or_null (g_noble g) (w_recvKey s)"
  "jget (snapshot_w g p s) ''sendSeq'' = JNum (of_int (w_sendSeq s))"
  "jget (snapshot_w g p s) ''recvSeq'' = JNum (of_int (w_recvSeq s))"
  "jget (snapshot_w g p s) ''relayUrl'' = JStr (w_relayUrl s)"
  "jget (snapshot_w g p s) ''capabilities'' = g_capabilities g"
  "jget (snapshot_w g p s) ''meta'' = coalesce (g_meta g) JNull"
  "jget (snapshot_w g p s) ''dappName'' = (case w_dappName s of None \<Rightarrow> JNull | Some n \<Rightarrow> JStr n)"
  "jget (snapshot_w g p s) ''sessionStartTime'' = (case w_sessionStartTime s of None \<Rightarrow> JNull | Some t \<Rightarrow> JNum (of_int t))"
  by (simp_all add: snapshot_w_def)

lemma restore_numbers_snapshot:
  "restore_numbers_w g (snapshot_w g p s) t =
     (setPhase_w WConnected (t\<lparr>w_sendSeq := w_sendSeq s, w_recvSeq := w_recvSeq s, w_relayUrl := w_relayUrl s,
        w_dappName := w_dappName s, w_sessionStartTime := w_sessionStartTime s\<rparr>), Inr True)"
proof -
  let ?d = "snapshot_w g p s"
  have 5: "num_field ?d ''sendSeq'' 0 = Inr (w_sendSeq s)" "num_field ?d ''recvSeq'' (- 1) = Inr (w_recvSeq s)"
    by (rule num_field_int, rule snapshot_fields)+
  have 6: "text_field ?d ''relayUrl'' = Inr (w_relayUrl s)" by (simp add: text_field_def snapshot_fields)
  have 7: "opt_text_field ?d ''dappName'' = Inr (w_dappName s)"
    by (cases "w_dappName s") (simp_all add: text_field_def opt_text_field_def snapshot_fields)
  have 8: "opt_num_field ?d ''sessionStartTime'' = Inr (w_sessionStartTime s)"
    by (cases "w_sessionStartTime s") (simp_all add: opt_num_field_def num_field_int snapshot_fields)
  have 9: "\<not> config_differs (g_noble g) ?d ''capabilities'' (g_capabilities g)" "\<not> config_differs (g_noble g) ?d ''meta'' (g_meta g)"
    by (simp_all add: config_differs_def snapshot_fields)
  show ?thesis by (simp add: restore_numbers_w_def 5 6 7 8 9 Let_def)
qed

lemma restore_fields_snapshot:
  assumes X: "noble_spec (g_noble g)" and s: "snapshot_ok g s" and p: "w_privKey s = Some p"
  shows "restore_fields_w g (snapshot_w g p s) t = (restored s t, Inr True)"
proof -
  let ?d = "snapshot_w g p s"
  obtain a b where ab: "w_sendKey s = Some a" "a \<noteq> []" "w_recvKey s = Some b" "b \<noteq> []" "p \<noteq> []"
    using s p by (auto simp: snapshot_ok_def)
  have 1: "text_field ?d ''channelId'' = Inr (w_channelId s)" "truthy (jget ?d ''channelId'')"
    "text_field ?d ''pubKeyB64'' = Inr (w_pubKeyB64 s)"
    using s by (simp_all add: text_field_def snapshot_fields snapshot_ok_def)
  note 2 = hex_fields [OF X snapshot_fields(2) ab(5)]
  have k: "jget ?d ''sendKey'' = JStr (n_bytesToHex (g_noble g) a)" "jget ?d ''recvKey'' = JStr (n_bytesToHex (g_noble g) b)"
    by (simp_all add: snapshot_fields hex_or_null_def ab)
  note 3 = hex_fields(3) [OF X k(1) ab(2)] hex_fields(3) [OF X k(2) ab(4)]
  have "r \<noteq> [] \<Longrightarrow> b64urlEncode r \<noteq> []" for r using b64urlEncode_length [of r] by (cases r) auto
  then have 4: "opt_key_field ?d ''remotePubKeyB64'' = Inr (w_remotePubKey s)"
    using s by (cases "w_remotePubKey s") (simp_all add: opt_key_field_def text_field_def snapshot_fields snapshot_ok_def)
  show ?thesis
    by (simp add: restore_fields_w_def restore_numbers_snapshot 1 2 3 4 Let_def restored_def ab p)
qed

text \<open>C29. A saved session is restored: the text \<^verbatim>\<open>serialize\<close> writes for a paired session is accepted by
  \<^verbatim>\<open>restore\<close> on any instance with the same configuration, which then is connected and has the
  channel, the keys, both counters, the relay address and the start time of the saved one.\<close>

theorem wallet_snapshot_roundtrip:
  assumes "noble_spec (g_noble g)" and "snapshot_ok g s"
  shows "\<exists>snapshot. serialize_w g s = Inr snapshot \<and> restore_w g snapshot t = (restored s t, Inr True)"
proof -
  obtain p a where pa: "w_privKey s = Some p" "w_sendKey s = Some a" "a \<noteq> []" using assms(2) by (auto simp: snapshot_ok_def)
  let ?d = "snapshot_w g p s" let ?j = "JSON_stringify ?d" let ?t = "signSnapshot (g_noble g) a ?j"
  have j: "?j \<noteq> []" "utf16_width (hd ?j) \<noteq> 0"
    by (simp_all add: JSON_stringify_def snapshot_w_def utf16_width_def)
  have parse: "js_parse ?j = Inr ?d" using JSON_parse_stringify [OF snapshot_json [OF assms(2) pa(1)]] by (simp add: js_parse_def)
  have k: "jget ?d ''sendKey'' = JStr (n_bytesToHex (g_noble g) a)" using pa(2) by (simp add: snapshot_fields hex_or_null_def)
  have "verifySnapshot (g_noble g) a ?t = Some ?j" using verify_signed [OF assms(1)] j by blast
  then have "snapshot_payload (g_noble g) ?t = Inr (Some ?j)"
    using hex_fields [OF assms(1) k pa(3)] tagged_snapshot [OF assms(1) j] j(1) by (simp add: snapshot_payload_def parse)
  then have "restore_w g ?t t = (restored s t, Inr True)"
    using restore_fields_snapshot [OF assms pa(1)] by (simp add: restore_w_def parse)
  moreover have "serialize_w g s = Inr ?t" using pa by (simp add: serialize_w_def Let_def)
  ultimately show ?thesis by blast
qed

theorem wallet_snapshot_roundtrip_witness:
  "\<exists>snapshot. serialize_w demo_wcfg demo_wallet = Inr snapshot \<and>
     restore_w demo_wcfg snapshot (wallet_init demo_wcfg) = (restored demo_wallet (wallet_init demo_wcfg), Inr True)"
proof -
  have "demo_key \<noteq> []" by (simp add: demo_key_def)
  moreover have "demo_channel \<noteq> []" by (simp add: demo_channel_def)
  ultimately have "snapshot_ok demo_wcfg demo_wallet"
    by (simp add: snapshot_ok_def demo_wcfg_def demo_wallet_def wallet_init_def coalesce_def)
  then show ?thesis using wallet_snapshot_roundtrip [of demo_wcfg demo_wallet] demo_noble_spec by (simp add: demo_wcfg_def)
qed

subsection \<open>Giving up a reconnect\<close>

text \<open>One round: the timer fires and the connection it opens fails.\<close>

definition failed_round :: "wconfig \<Rightarrow> wsession \<Rightarrow> env \<times> exn \<Rightarrow> wsession" where
  "failed_round g s l = (case wallet_step g (fst l) OnReconnectTimer s of
     None \<Rightarrow> s
   | Some s1 \<Rightarrow> (case wallet_step g (fst l) (OnReject (w_nextK s) (snd l)) s1 of None \<Rightarrow> s1 | Some s2 \<Rightarrow> s2))"

definition ids_ok :: "wsession \<Rightarrow> bool" where
  "ids_ok s \<longleftrightarrow> w_nextK s \<notin> fst ` set (w_konts s) \<and> (\<forall>c \<in> set (w_konts s). fst c < w_nextK s)"

definition retrying :: "wconfig \<Rightarrow> int \<Rightarrow> nat \<Rightarrow> wsession \<Rightarrow> bool" where
  "retrying g t a s \<longleftrightarrow> canReconnect_w s \<and> ids_ok s \<and> w_reconnectAttempt s = a \<and> int a < g_maxReconnectAttempts g \<and>
     (\<exists>due. w_reconnectTimer s = Some due \<and> due \<le> t + 39000)"

definition given_up :: "wsession \<Rightarrow> bool" where
  "given_up s \<longleftrightarrow> w_phase s = WClosed \<and> w_intentionalClose s \<and> w_reconnectTimer s = None"

lemma clearPersistence_fields [simp]:
  "w_phase (clearPersistence_w g s) = w_phase s" "w_intentionalClose (clearPersistence_w g s) = w_intentionalClose s"
  "w_reconnectTimer (clearPersistence_w g s) = w_reconnectTimer s"
  by (simp_all add: clearPersistence_w_def add_kont_w_def Let_def)

lemma giveUp_given_up: "given_up (giveUpReconnect_w g E s)"
  by (simp add: given_up_def giveUpReconnect_w_def setPhase_w_def Let_def stopHeartbeat_w_def clearLiveness_w_def
      log_w_def clearCaches_w_def stopReconnect_w_def)

lemma given_up_round: "given_up s \<Longrightarrow> failed_round g s l = s"
  by (simp add: given_up_def failed_round_def wallet_step_def)

text \<open>The state in which the \<^verbatim>\<open>catch\<close> of the attempt runs.\<close>

definition failed_attempt :: "wconfig \<Rightarrow> env \<Rightarrow> wsession \<Rightarrow> wsession" where
  "failed_attempt g E s = log_w E ''reconnect_failed'' JUndef JUndef True
     (drop_kont_w (w_nextK s) (reconnectTimer_fires_w g s))"

lemma setUrl_fields [simp]:
  "w_nextK (setUrl_w g s) = w_nextK s" "w_konts (setUrl_w g s) = w_konts s" "w_phase (setUrl_w g s) = w_phase s"
  "w_intentionalClose (setUrl_w g s) = w_intentionalClose s" "w_reconnectAttempt (setUrl_w g s) = w_reconnectAttempt s"
  by (simp_all add: setUrl_w_def)

lemma timer_fires_fields:
  assumes "canReconnect_w s"
  shows "w_konts (reconnectTimer_fires_w g s) = w_konts s @ [(w_nextK s, KRejoin)]"
    "w_nextK (reconnectTimer_fires_w g s) = Suc (w_nextK s)"
    "w_reconnectAttempt (reconnectTimer_fires_w g s) = Suc (w_reconnectAttempt s)"
    "canReconnect_w (reconnectTimer_fires_w g s)"
  using assms by (simp_all add: reconnectTimer_fires_w_def doReconnectAttempt_w_def canReconnect_w_def add_kont_w_def Let_def)

lemma failed_round_eq:
  assumes "canReconnect_w s" and "ids_ok s" and "w_reconnectTimer s = Some due" and "due \<le> e_now E"
  shows "failed_round g s (E, x) = scheduleReconnect_w g E (failed_attempt g E s)"
proof -
  have "map_of (w_konts s) (w_nextK s) = None" using assms(2) by (simp add: ids_ok_def map_of_eq_None_iff)
  then have "map_of (w_konts s @ [(w_nextK s, KRejoin)]) (w_nextK s) = Some KRejoin" by (simp add: map_add_def)
  moreover have "canReconnect_w (drop_kont_w (w_nextK s) (reconnectTimer_fires_w g s))"
    using timer_fires_fields(4) [OF assms(1), of g] by (simp add: canReconnect_w_def drop_kont_w_def)
  ultimately show ?thesis using assms timer_fires_fields [OF assms(1), of g]
    by (simp add: failed_round_def wallet_step_def rejected_w_def reconnectFailed_w_def failed_attempt_def)
qed

lemma failed_attempt_fields:
  assumes "canReconnect_w s" and "ids_ok s"
  shows "canReconnect_w (failed_attempt g E s)" "ids_ok (failed_attempt g E s)"
    "w_reconnectAttempt (failed_attempt g E s) = Suc (w_reconnectAttempt s)"
  using timer_fires_fields [OF assms(1), of g] assms(2)
  by (auto simp: failed_attempt_def log_w_def drop_kont_w_def canReconnect_w_def ids_ok_def)

lemma failed_round_progress:
  assumes s: "retrying g t a s" and E: "t + 39000 \<le> e_now E" "0 \<le> e_rnd E" "e_rnd E < 1" and N: "0 < g_maxReconnectAttempts g"
  shows "given_up (failed_round g s (E, x)) \<or> retrying g (e_now E) (Suc a) (failed_round g s (E, x))"
proof -
  obtain due where due: "w_reconnectTimer s = Some due" "due \<le> e_now E" using s E(1) by (auto simp: retrying_def)
  have c: "canReconnect_w s" "ids_ok s" "w_reconnectAttempt s = a" using s by (simp_all add: retrying_def)
  let ?s = "failed_attempt g E s"
  let ?u = "if w_reconnectStartedAt ?s = 0 then ?s\<lparr>w_reconnectStartedAt := e_now E\<rparr> else ?s"
  note f = failed_attempt_fields [OF c(1,2), of g E]
  have u: "canReconnect_w ?u" "ids_ok ?u" "w_reconnectAttempt ?u = Suc a"
    using f c(3) by (simp_all add: canReconnect_w_def ids_ok_def)
  have eq: "failed_round g s (E, x) = (if reconnectExhausted_w g E ?u then giveUpReconnect_w g E ?u
      else (stopReconnect_w ?u)\<lparr>w_reconnectTimer := Some (e_now E + backoff_delay (w_reconnectAttempt ?u) (e_rnd E))\<rparr>)"
    using failed_round_eq [OF c(1,2) due, of g x] f(1) by (simp only: scheduleReconnect_w_def Let_def) simp
  show ?thesis
  proof (cases "reconnectExhausted_w g E ?u")
    case False
    then have "int (Suc a) < g_maxReconnectAttempts g" using u(3) N by (simp add: reconnectExhausted_w_def Let_def)
    moreover have "e_now E + backoff_delay (Suc a) (e_rnd E) \<le> e_now E + 39000" using backoff_bounds [OF E(2,3)] by simp
    ultimately show ?thesis using u False
      by (simp add: eq retrying_def canReconnect_w_def ids_ok_def stopReconnect_w_def del: of_nat_Suc)
  qed (simp add: eq giveUp_given_up)
qed

interpretation wr: retry_rounds "failed_round g" "retrying g" given_up "g_maxReconnectAttempts g"
proof
  show below: "int a < g_maxReconnectAttempts g" if "retrying g t a s" for t a s using that by (simp add: retrying_def)
  show "given_up (failed_round g s (E, x)) \<or> retrying g (e_now E) (Suc a) (failed_round g s (E, x))"
    if "retrying g t a s" "t + 39000 \<le> e_now E" "0 \<le> e_rnd E" "e_rnd E < 1" for t a s E x
    using failed_round_progress [OF that] below [OF that(1)] by (meson le_less_trans of_nat_0_le_iff)
  show "failed_round g s l = s" if "given_up s" for s l using that by (rule given_up_round)
qed

text \<open>Reconnecting ends: with a limit \<open>N\<close> on the attempts, a session whose reconnect timer is armed and
  whose every attempt to connect fails is closed for good after the rounds that are left to \<open>N\<close>, and
  each wait is at most 39 seconds.\<close>

theorem wallet_reconnect_gives_up:
  assumes "0 < g_maxReconnectAttempts g" and "retrying g t a s" and "spaced t ls" and "g_maxReconnectAttempts g \<le> int (a + length ls)"
  shows "given_up (foldl (failed_round g) s ls)"
  using assms(2-4) by (rule wr.gives_up)

definition demo_retrying :: wsession where
  "demo_retrying = demo_wallet\<lparr>w_phase := WDisconnected, w_reconnecting := True, w_reconnectStartedAt := 5, w_reconnectTimer := Some 1005\<rparr>"

theorem wallet_reconnect_gives_up_witness:
  "given_up (foldl (failed_round demo_wcfg) demo_retrying
     [(demo_env\<lparr>e_now := 40000\<rparr>, LibError), (demo_env\<lparr>e_now := 90000\<rparr>, LibError)])"
proof -
  have "retrying demo_wcfg 5 0 demo_retrying"
    by (simp add: retrying_def canReconnect_w_def ids_ok_def demo_retrying_def demo_wallet_def wallet_init_def demo_wcfg_def)
  then show ?thesis
    by (intro wallet_reconnect_gives_up [where t = 5 and a = 0]) (simp_all add: demo_env_def demo_wcfg_def)
qed

subsection \<open>Repeated requests\<close>

definition requests :: "weff list \<Rightarrow> weff list" where
  "requests es = filter (\<lambda>e. case e of WRequest _ _ _ \<Rightarrow> True | _ \<Rightarrow> False) es"

lemma requests_simps [simp]:
  "requests (es @ fs) = requests es @ requests fs" "requests [] = []" "benign e \<Longrightarrow> requests (e # es) = requests es" "requests (WSeal q # es) = requests es"
  by (auto simp: requests_def benign_def split: weff.splits)

lemma requests_ops [simp]:
  "requests (w_out (send_w E tt body s)) = requests (w_out s)" "requests (w_out (close_w g E r s)) = requests (w_out s)"
  "requests (w_out (fst (persistSnapshot_w g s))) = requests (w_out s)" "w_out (add_kont_w s k) = w_out s"
  by (simp_all add: send_w_def sendRaw_w_def persistSnapshot_w_def add_kont_w_def close_w_def Let_def setPhase_w_def stopHeartbeat_w_def
      clearLiveness_w_def clearPersistence_w_def clearCaches_w_def stopReconnect_w_def clearSessionTtl_w_def log_w_def split: sum.split)






lemma constantTimeEqual_refl [simp]: "constantTimeEqual h h"
  by (simp add: constantTimeEqual_iff)






end
