(* ===== verification/End_To_End.thy ===== *)
theory End_To_End
  imports Dapp_Recovery Wallet_Theorems PairingUri
begin

text \<open>
  The two session objects together: the handshake from the pairing URI to the join frame gives both
  sides the same keys, and a request that is sent again opens at the wallet to the same text.
\<close>

subsection \<open>The handshake\<close>

lemma andThen_Inr: "andThen (s, r) f = (t, Inr y) \<longleftrightarrow> (\<exists>x. r = Inr x \<and> f s x = (t, Inr y))"
  by (cases r) simp_all

text \<open>The transcript depends on the texts only.\<close>

lemma directional_cong:
  assumes "cc_dappPubKeyB64 c = cc_dappPubKeyB64 c'" and "cc_walletPubKeyB64 c = cc_walletPubKeyB64 c'" and "cc_dappName c = cc_dappName c'"
    and "canonicalJson X (coalesce (cc_capabilities c) JNull) = canonicalJson X (coalesce (cc_capabilities c') JNull)"
    and "canonicalJson X (coalesce (cc_walletMeta c) JNull) = canonicalJson X (coalesce (cc_walletMeta c') JNull)"
  shows "deriveDirectionalSessionKeys X rk ch c = deriveDirectionalSessionKeys X rk ch c'"
  using assms by (simp add: deriveDirectionalSessionKeys_def computeHandshakeTranscriptHash_def)

text \<open>The state of the dApp when the URI is built.\<close>

lemma resetPairing_fields:
  "d_privKey (resetPairing_d h E s) = Some (e_priv E)"
  "d_pubKeyB64 (resetPairing_d h E s) = b64urlEncode (x25519_getPublicKey (h_noble h) (e_priv E))"
  "d_channelId (resetPairing_d h E s) = generateChannelId (h_noble h) (e_rand E)" "\<not> d_paired (resetPairing_d h E s)"
  "d_meta (resetPairing_d h E s) = d_meta s" "d_url (resetPairing_d h E s) = d_url s"
  by (simp_all add: resetPairing_d_def clearSessionTtl_d_def generateX25519KeyPair_def Let_def)

lemma hint_keeps [simp]:
  "d_privKey (setTransportChannelHint_d h s) = d_privKey s" "d_pubKeyB64 (setTransportChannelHint_d h s) = d_pubKeyB64 s"
  "d_channelId (setTransportChannelHint_d h s) = d_channelId s" "d_paired (setTransportChannelHint_d h s) = d_paired s"
  "d_meta (setTransportChannelHint_d h s) = d_meta s" "d_sessionFingerprint (setTransportChannelHint_d h s) = d_sessionFingerprint s"
  by (simp_all add: setTransportChannelHint_d_def Let_def emit_d_def)

lemma createPairing_facts:
  assumes "createPairing_d h E defer s = (d, Inr uri)"
  shows "buildPairingUri (pairing_of_d h (resetPairing_d h E s)) = Inr uri"
    "computeSessionFingerprint (h_noble h) (d_channelId d) (d_pubKeyB64 d) = Inr (d_sessionFingerprint d)"
    "d_privKey d = Some (e_priv E)" "d_pubKeyB64 d = b64urlEncode (x25519_getPublicKey (h_noble h) (e_priv E))"
    "d_channelId d = generateChannelId (h_noble h) (e_rand E)" "\<not> d_paired d" "d_meta d = d_meta s"
proof -
  let ?s = "resetPairing_d h E s"
  obtain f where f: "buildPairingUri (pairing_of_d h ?s) = Inr uri" "computeSessionFingerprint (h_noble h) (d_channelId ?s) (d_pubKeyB64 ?s) = Inr f"
    and d: "d = (let u = emit_d (emit_d (?s\<lparr>d_pairingUri := uri, d_sessionFingerprint := f\<rparr>) (DPairingUri uri)) (DFingerprint f)
      in if \<not> defer then connectTransport_d h (JStr uri) u else setPhase_d DWaiting u)"
    using assms by (auto simp: createPairing_d_def Let_def andThen_Inr split: if_splits)
  have "d_privKey d = d_privKey ?s" "d_pubKeyB64 d = d_pubKeyB64 ?s" "d_channelId d = d_channelId ?s" "d_paired d = d_paired ?s"
    "d_meta d = d_meta ?s" "d_sessionFingerprint d = f"
    unfolding d by (simp_all add: connectTransport_d_def setPhase_d_def stopHeartbeat_d_def clearLiveness_d_def add_kont_d_def emit_d_def Let_def)
  then show "buildPairingUri (pairing_of_d h ?s) = Inr uri"
    "computeSessionFingerprint (h_noble h) (d_channelId d) (d_pubKeyB64 d) = Inr (d_sessionFingerprint d)"
    "d_privKey d = Some (e_priv E)" "d_pubKeyB64 d = b64urlEncode (x25519_getPublicKey (h_noble h) (e_priv E))"
    "d_channelId d = generateChannelId (h_noble h) (e_rand E)" "\<not> d_paired d" "d_meta d = d_meta s"
    using f by (simp_all add: resetPairing_fields)
qed

lemma prepareJoin_facts:
  assumes "prepareJoin_w g E uri s = (w, Inr code)" and "parsePairingUri uri = Inr p" and "b64urlDecode (pp_pubkey p) = Inr remote"
    and "b64urlEncode remote = pp_pubkey p"
  obtains shared rk keys jk where
    "computeSharedSecret (g_noble g) (e_priv E) remote = Inr shared" "deriveSessionKey (g_noble g) shared (pp_ch p) = Inr rk"
    "deriveDirectionalSessionKeys (g_noble g) rk (pp_ch p) \<lparr>cc_dappPubKeyB64 = pp_pubkey p,
       cc_walletPubKeyB64 = b64urlEncode (x25519_getPublicKey (g_noble g) (e_priv E)), cc_capabilities = computeScopeIntersection g,
       cc_walletMeta = coalesce (g_meta g) JNull, cc_dappName = Some (pp_name p)\<rparr> = Inr keys"
    "w_sendKey w = Some (dk_walletToDappKey keys)" "w_recvKey w = Some (dk_dappToWalletKey keys)"
    "computeSessionFingerprint (g_noble g) (pp_ch p) (pp_pubkey p) = Inr code"
    "deriveJoinEncryptionKey (g_noble g) rk (pp_ch p) = Inr jk" "w_sessionKey w = Some jk" "w_channelId w = pp_ch p"
    "w_pubKeyB64 w = b64urlEncode (x25519_getPublicKey (g_noble g) (e_priv E))" "w_effectiveCapabilities w = computeScopeIntersection g"
  using assms
  by (auto simp: prepareJoin_w_def derive_keys_w_def generateX25519KeyPair_def sessionContext_w_def clearCaches_w_def Let_def andThen_Inr)

lemma join_establishes:
  assumes "m_t msg = ''join''" and "m_v msg = 1" and "m_from msg \<noteq> ''_adapter''" and "m_from msg = b64urlEncode remote" and "length remote = 32"
    and "d_privKey s = Some a" and "computeSharedSecret (h_noble h) a remote = Inr shared"
    and "deriveSessionKey (h_noble h) shared (d_channelId s) = Inr rk" and "jget (m_body msg) ''sealed_join'' = JStr z" and "z \<noteq> []"
    and "openJoin_d h rk z (s\<lparr>d_remotePubKey := Some remote\<rparr>) = Inr (c, m)" and "validateCapabilities c"
  shows "handleMessage_d h E msg s = establishJoin_d h E (b64urlEncode remote) remote rk c m (s\<lparr>d_remotePubKey := Some remote\<rparr>)"
proof -
  have "b64urlEncode remote \<noteq> []" using b64urlEncode_length [of remote] assms(5) by auto
  moreover have "decodePubKey (b64urlEncode remote) = Inr remote" using assms(5) by (simp add: decodePubKey_def)
  ultimately show ?thesis using assms
    by (simp add: handleMessage_d_def handleJoin_d_def handleJoinKeys_d_def Let_def)
qed

text \<open>The frame the wallet sealed opens at the dApp.\<close>

lemma sealed_join_opens:
  assumes X: "noble_spec (g_noble g)" and jk: "deriveJoinEncryptionKey (g_noble g) rk (w_channelId w) = Inr jk" "w_sessionKey w = Some jk"
    and join: "sealed_join_w g E w = (w', Inr (JStr z))" "length (e_rand E) = 12"
    and ch: "list_all lower_hex (w_channelId w)" "length (w_channelId w) = 64"
    and reads: "canon_reads (g_noble g) (JObj [(''capabilities'', w_effectiveCapabilities w), (''meta'', coalesce (g_meta g) JNull)]) v"
  shows "unsealJoin (g_noble g) jk (w_channelId w) z = Inr v \<and> z \<noteq> []"
proof -
  have "length jk = 32" using jk(1) X by (auto simp: deriveJoinEncryptionKey_def res_bind_Inr noble_spec_def mac_spec_def)
  moreover have "sealJoin (g_noble g) (e_rand E) jk (w_channelId w) (w_effectiveCapabilities w) (g_meta g) = Inr z"
    using join(1) jk(2) by (auto simp: sealed_join_w_def andThen_Inr)
  ultimately have "unsealJoin (g_noble g) jk (w_channelId w) z = Inr v"
    using sealJoin_unseal [OF X _ join(2) ch reads, of jk] by auto
  moreover have "b64urlDecode [] = Inr []" by code_simp
  ultimately show ?thesis by (auto simp: unsealJoin_def)
qed

text \<open>Both sides hash the same transcript.\<close>

lemma contexts_agree:
  assumes same: "canonicalJson X c = canonicalJson X (computeScopeIntersection g)" "canonicalJson X m = canonicalJson X (coalesce (g_meta g) JNull)"
    and defined: "validateCapabilities c" "m \<noteq> JUndef" and name: "jget (d_meta s) ''name'' = JStr nm"
  shows "deriveDirectionalSessionKeys X rk ch (sessionContext_d wk c m s) = deriveDirectionalSessionKeys X rk ch
    \<lparr>cc_dappPubKeyB64 = d_pubKeyB64 s, cc_walletPubKeyB64 = wk, cc_capabilities = computeScopeIntersection g,
     cc_walletMeta = coalesce (g_meta g) JNull, cc_dappName = Some nm\<rparr>"
proof -
  have "coalesce c JNull = c" using defined(1) by (cases c) (simp_all add: coalesce_def validateCapabilities_def is_object_def)
  moreover have "coalesce m JNull = m" using defined(2) by (cases m) (simp_all add: coalesce_def)
  moreover have "coalesce (computeScopeIntersection g) JNull = computeScopeIntersection g" by (simp add: computeScopeIntersection_def coalesce_def Let_def)
  moreover have "coalesce (coalesce (g_meta g) JNull) JNull = coalesce (g_meta g) JNull" by (simp add: coalesce_def)
  ultimately show ?thesis using same name by (intro directional_cong) (simp_all add: sessionContext_d_def jstr_def)
qed

text \<open>C1. The handshake gives both sides the same keys: a wallet that reads the URI a dApp created and
  whose join frame the dApp receives ends up sealing with exactly the key the dApp opens with, and
  the other way round, on the same channel; the code the wallet shows is the dApp's fingerprint, and
  the application is told what the wallet sealed.  (The values read back from a canonical text have
  the same canonical text, as RFC 8785 promises.)\<close>

theorem handshake_agrees:
  assumes X: "noble_spec X" "g_noble g = X" "h_noble h = X"
    and create: "createPairing_d h Ed defer s = (d, Inr uri)" and ok: "pairing_ok (pairing_of_d h (resetPairing_d h Ed s))"
    and name: "jget (d_meta s) ''name'' = JStr nm"
    and prepare: "prepareJoin_w g Ew uri s' = (w, Inr code)"
    and join: "sealed_join_w g Ej w = (w', Inr (JStr z))" "length (e_rand Ej) = 12"
    and reads: "canon_reads X (JObj [(''capabilities'', w_effectiveCapabilities w), (''meta'', coalesce (g_meta g) JNull)])
        (JObj [(''capabilities'', c), (''meta'', m)])"
    and same: "canonicalJson X c = canonicalJson X (w_effectiveCapabilities w)" "canonicalJson X m = canonicalJson X (coalesce (g_meta g) JNull)"
    and defined: "validateCapabilities c" "m \<noteq> JUndef"
    and scope: "missing (h_methods h) (jget c ''methods'') = []" "missing (h_chains h) (jget c ''chains'') = []"
    and t: "t = fst (handleMessage_d h E (peer_msg ''join'' (w_channelId w) now (w_pubKeyB64 w) [(''sealed_join'', JStr z)]) d)"
  shows "d_sendKey t = w_recvKey w \<and> d_recvKey t = w_sendKey w \<and> d_sendKey t \<noteq> None \<and> d_recvKey t \<noteq> None \<and>
    d_channelId t = w_channelId w \<and> d_sessionFingerprint d = code \<and> DWalletJoined c m \<in> set (d_out t)"
proof -
  let ?a = "e_priv Ed" let ?b = "e_priv Ew" let ?A = "x25519_getPublicKey X ?a" let ?B = "x25519_getPublicKey X ?b"
  let ?p = "pairing_of_d h (resetPairing_d h Ed s)"
  note D = createPairing_facts [OF create]
  have parse: "parsePairingUri uri = Inr ?p" using pairing_uri_roundtrip_lemma [OF ok] D(1) by simp
  have p: "pp_ch ?p = d_channelId d" "pp_pubkey ?p = b64urlEncode ?A" "pp_name ?p = nm"
    using D(5) name X(3) by (simp_all add: pairing_of_d_def resetPairing_fields)
  have len: "length ?A = 32" "length ?B = 32" using X(1) by (simp_all add: noble_spec_def dh_spec_def)
  have remote: "b64urlDecode (pp_pubkey ?p) = Inr ?A" "b64urlEncode ?A = pp_pubkey ?p" by (simp_all add: p)
  obtain shared rk keys jk where W: "computeSharedSecret X ?b ?A = Inr shared" "deriveSessionKey X shared (d_channelId d) = Inr rk"
    "deriveDirectionalSessionKeys X rk (d_channelId d) \<lparr>cc_dappPubKeyB64 = b64urlEncode ?A, cc_walletPubKeyB64 = b64urlEncode ?B,
       cc_capabilities = computeScopeIntersection g, cc_walletMeta = coalesce (g_meta g) JNull, cc_dappName = Some nm\<rparr> = Inr keys"
    "w_sendKey w = Some (dk_walletToDappKey keys)" "w_recvKey w = Some (dk_dappToWalletKey keys)"
    "computeSessionFingerprint X (d_channelId d) (b64urlEncode ?A) = Inr code" "deriveJoinEncryptionKey X rk (d_channelId d) = Inr jk"
    "w_sessionKey w = Some jk" "w_channelId w = d_channelId d" "w_pubKeyB64 w = b64urlEncode ?B"
    "w_effectiveCapabilities w = computeScopeIntersection g"
    using prepareJoin_facts [OF prepare parse remote] unfolding p X(2) by metis
  have ch: "list_all lower_hex (d_channelId d)" "length (d_channelId d) = 64" using ok p(1) by (simp_all add: pairing_ok_def)
  have opened: "unsealJoin X jk (d_channelId d) z = Inr (JObj [(''capabilities'', c), (''meta'', m)])" "z \<noteq> []"
    using sealed_join_opens [of g rk w jk Ej w' z] X reads join W(7,8,9) ch by simp_all
  have open_d: "openJoin_d h rk z (d\<lparr>d_remotePubKey := Some ?B\<rparr>) = Inr (c, m)"
    using W(7) opened(1) X(3) by (simp add: openJoin_d_def)
  have "b64urlEncode ?B \<noteq> ''_adapter''" using b64urlEncode_length [of ?B] len(2) by (intro notI) simp
  moreover have "computeSharedSecret X ?a ?B = Inr shared" using computeSharedSecret_agree [OF X(1), of ?a ?b] W(1) by simp
  ultimately have t1: "t = fst (establishJoin_d h E (b64urlEncode ?B) ?B rk c m (d\<lparr>d_remotePubKey := Some ?B\<rparr>))"
    unfolding t W(9,10) using join_establishes [of "peer_msg ''join'' (d_channelId d) now (b64urlEncode ?B) [(''sealed_join'', JStr z)]"
        ?B d ?a h shared rk z c m E] open_d opened(2) defined(1) D(3) W(2) X(3) len(2) by (simp add: peer_msg_def)
  have k: "deriveDirectionalSessionKeys X rk (d_channelId d) (sessionContext_d (b64urlEncode ?B) c m (d\<lparr>d_remotePubKey := Some ?B\<rparr>)) = Inr keys"
    using contexts_agree [of X c g m "d\<lparr>d_remotePubKey := Some ?B\<rparr>" nm rk "d_channelId d" "b64urlEncode ?B"] W(3) same W(11) D(4,7) X(3) name defined
    by simp
  let ?s = "d\<lparr>d_remotePubKey := Some ?B, d_walletCapabilities := c, d_walletMeta := m,
    d_sendKey := Some (dk_dappToWalletKey keys), d_recvKey := Some (dk_walletToDappKey keys)\<rparr>"
  have "\<exists>kw. t = fst (announceJoin_d h E ?B kw c m ?s)"
    unfolding t1 using establish_announces [OF _ scope, of rk "d\<lparr>d_remotePubKey := Some ?B\<rparr>" "b64urlEncode ?B" m keys E ?B] k X(3) by auto
  then have "carries ?s t" "DWalletJoined c m \<in> set (d_out t)" using announce_facts by blast+
  then show ?thesis using W D(2,4) X(3) by (simp add: carries_def)
qed

subsubsection \<open>A concrete handshake\<close>

lemma fingerprint_total:
  assumes X: "noble_spec X" and "list_all lower_hex ch" "length ch = 64"
  shows "\<exists>f. computeSessionFingerprint X ch (b64urlEncode k) = Inr f"
proof -
  obtain b where b: "n_hexToBytes X ch = Some b" using channel_bytes [OF assms] by blast
  have "length (n_sha256 X m) = 32" for m using X by (simp add: noble_spec_def mac_spec_def)
  then obtain n where "getUint32 (take 4 (n_sha256 X (n_concatBytes X [n_utf8ToBytes X ''walletpair-v1-session-fingerprint'', b, k]))) = Inr n"
    using getUint32_four by fastforce
  then show ?thesis using b by (simp add: computeSessionFingerprint_def Let_def)
qed

definition demo_fresh :: dsession where
  "demo_fresh = (dapp_init demo_dcfg)\<lparr>d_meta := JObj [(''name'', JStr ''d''), (''url'', JStr ''https://d''), (''icon'', JStr ''https://d/i'')]\<rparr>"

definition demo_seed :: env where "demo_seed = demo_clock\<lparr>e_rand := replicate 32 170\<rparr>"

lemma demo_seed_fields [simp]: "e_priv demo_seed = demo_key" "generateChannelId demo_noble (e_rand demo_seed) = demo_channel"
proof -
  have "demo_hex (replicate 32 170) = replicate 64 (CHR ''a'')" by code_simp
  then show "generateChannelId demo_noble (e_rand demo_seed) = demo_channel" "e_priv demo_seed = demo_key"
    by (simp_all add: demo_seed_def demo_clock_def generateChannelId_def demo_noble_def demo_channel_def)
qed

lemma demo_pub_key [simp]: "x25519_getPublicKey demo_noble demo_key = demo_key"
  by (simp add: demo_noble_def demo_pub_def demo_key_def)

abbreviation demo_uri_params :: pairing_params where
  "demo_uri_params \<equiv> pairing_of_d demo_dcfg (resetPairing_d demo_dcfg demo_seed demo_fresh)"

lemma demo_uri_fields [simp]:
  "pp_ch demo_uri_params = demo_channel" "pp_pubkey demo_uri_params = b64urlEncode demo_key" "pp_relay demo_uri_params = ''wss://r''"
  "pp_name demo_uri_params = ''d''" "pp_url demo_uri_params = ''https://d''" "pp_icon demo_uri_params = ''https://d/i''"
  "pp_methods demo_uri_params = Some [''m'']" "pp_chains demo_uri_params = None"
  by (simp_all add: pairing_of_d_def resetPairing_fields demo_fresh_def dapp_init_def demo_dcfg_def)

lemma demo_uri_ok: "pairing_ok demo_uri_params"
proof -
  have "b64urlEncode demo_key \<noteq> []" using b64urlEncode_length [of demo_key] by auto
  then show ?thesis
    using b64urlEncode_alphabet [of demo_key]
    by (simp add: pairing_ok_def utf8_ok_ascii is_ascii_def items_ok_def item_ok_def form_plain_def)
qed

lemma demo_create: "\<exists>d uri. createPairing_d demo_dcfg demo_seed True demo_fresh = (d, Inr uri) \<and> parsePairingUri uri = Inr demo_uri_params"
proof -
  obtain uri where uri: "buildPairingUri demo_uri_params = Inr uri" "parsePairingUri uri = Inr demo_uri_params"
    using pairing_uri_roundtrip_lemma [OF demo_uri_ok] by blast
  obtain f where f: "computeSessionFingerprint demo_noble demo_channel (b64urlEncode demo_key) = Inr f"
    using fingerprint_total [OF demo_noble_spec demo_channel_ok] by blast
  have "d_url (resetPairing_d demo_dcfg demo_seed demo_fresh) \<noteq> []"
    by (simp add: resetPairing_fields demo_fresh_def dapp_init_def demo_dcfg_def)
  then show ?thesis using uri f by (simp add: createPairing_d_def Let_def resetPairing_fields)
qed

lemma demo_scope: "computeScopeIntersection demo_wcfg = g_capabilities demo_wcfg"
  by (simp add: computeScopeIntersection_def demo_wcfg_def pass_through_def Let_def)

lemma demo_canonical: "canonicalJson demo_noble v = JSON_stringify v"
  by (simp add: canonicalJson_def demo_noble_def)

lemma demo_prepare:
  assumes "parsePairingUri uri = Inr demo_uri_params"
  shows "\<exists>w code. prepareJoin_w demo_wcfg demo_clock uri (wallet_init demo_wcfg) = (w, Inr code) \<and>
    w_effectiveCapabilities w = g_capabilities demo_wcfg \<and> w_channelId w = demo_channel \<and> (\<exists>jk. w_sessionKey w = Some jk \<and> length jk = 32)"
proof -
  obtain z where z: "computeSharedSecret demo_noble demo_key demo_key = Inr z"
    by (simp add: computeSharedSecret_def demo_noble_def demo_pub_def demo_key_def foldl_or_byte)
  obtain b where b: "n_hexToBytes demo_noble demo_channel = Some b" using channel_bytes [OF demo_noble_spec demo_channel_ok] by blast
  let ?c = "\<lparr>cc_dappPubKeyB64 = b64urlEncode demo_key, cc_walletPubKeyB64 = b64urlEncode demo_key, cc_capabilities = g_capabilities demo_wcfg,
     cc_walletMeta = JNull, cc_dappName = Some ''d''\<rparr>"
  have j: "JSON_stringify (g_capabilities demo_wcfg) = ''{\"methods\":[\"m\"],\"events\":[],\"chains\":[]}''" "JSON_stringify JNull = ''null''" by code_simp+
  have m: "coalesce (g_capabilities demo_wcfg) JNull = g_capabilities demo_wcfg" "coalesce (g_meta demo_wcfg) JNull = JNull" "coalesce JNull JNull = JNull"
    by (simp_all add: coalesce_def demo_wcfg_def)
  obtain keys where keys: "\<And>rk. deriveDirectionalSessionKeys demo_noble rk demo_channel ?c = Inr (keys rk)"
    using directional_total [OF demo_noble_spec demo_channel_ok, of ?c]
    by (simp add: b64url_text demo_canonical j m text_encode_ascii is_ascii_def) metis
  obtain f where f: "computeSessionFingerprint demo_noble demo_channel (b64urlEncode demo_key) = Inr f"
    using fingerprint_total [OF demo_noble_spec demo_channel_ok] by blast
  have k: "length (n_hkdf demo_noble rk sa i 32) = 32" for rk sa i using demo_noble_spec by (simp add: noble_spec_def mac_spec_def)
  have g: "g_noble demo_wcfg = demo_noble" by (simp add: demo_wcfg_def)
  have "e_priv demo_clock = demo_key" by (simp add: demo_clock_def)
  then show ?thesis using assms z b keys f k
    by (simp add: prepareJoin_w_def derive_keys_w_def generateX25519KeyPair_def sessionContext_w_def clearCaches_w_def Let_def g
        deriveSessionKey_def deriveJoinEncryptionKey_def demo_scope m)
qed

lemma demo_join_reads:
  "canon_reads demo_noble (JObj [(''capabilities'', g_capabilities demo_wcfg), (''meta'', JNull)])
     (JObj [(''capabilities'', g_capabilities demo_wcfg), (''meta'', JNull)])"
proof -
  let ?v = "JObj [(''capabilities'', g_capabilities demo_wcfg), (''meta'', JNull)]"
  have t: "JSON_stringify ?v = ''{\"capabilities\":{\"methods\":[\"m\"],\"events\":[],\"chains\":[]},\"meta\":null}''" by code_simp
  have "json_ok ?v" by (simp add: demo_wcfg_def)
  then have "JSON_parse (JSON_stringify ?v) = Some ?v" by (rule JSON_parse_stringify)
  moreover have "is_ascii (JSON_stringify ?v)" unfolding t by (simp add: is_ascii_def)
  moreover have "strip_bom (JSON_stringify ?v) = JSON_stringify ?v" unfolding t by code_simp
  ultimately show ?thesis by (simp add: canon_reads_def demo_noble_def utf8_ok_ascii)
qed

theorem handshake_agrees_witness:
  "\<exists>d uri w code z t. createPairing_d demo_dcfg demo_seed True demo_fresh = (d, Inr uri) \<and>
     prepareJoin_w demo_wcfg demo_clock uri (wallet_init demo_wcfg) = (w, Inr code) \<and>
     t = fst (handleMessage_d demo_dcfg demo_clock (peer_msg ''join'' (w_channelId w) 0 (w_pubKeyB64 w) [(''sealed_join'', JStr z)]) d) \<and>
     d_sendKey t = w_recvKey w \<and> d_recvKey t = w_sendKey w \<and> d_sendKey t \<noteq> None \<and> d_sessionFingerprint d = code"
proof -
  obtain d uri where d: "createPairing_d demo_dcfg demo_seed True demo_fresh = (d, Inr uri)" "parsePairingUri uri = Inr demo_uri_params"
    using demo_create by blast
  obtain w code jk where w: "prepareJoin_w demo_wcfg demo_clock uri (wallet_init demo_wcfg) = (w, Inr code)"
      "w_effectiveCapabilities w = g_capabilities demo_wcfg" "w_channelId w = demo_channel" "w_sessionKey w = Some jk" "length jk = 32"
    using demo_prepare [OF d(2)] by blast
  have m: "coalesce (g_meta demo_wcfg) JNull = JNull" "g_noble demo_wcfg = demo_noble" by (simp_all add: coalesce_def demo_wcfg_def)
  have r: "length (e_rand demo_clock) = 12" by (simp add: demo_clock_def)
  obtain z where "sealJoin demo_noble (e_rand demo_clock) jk demo_channel (g_capabilities demo_wcfg) (g_meta demo_wcfg) = Inr z"
    using sealJoin_unseal [OF demo_noble_spec w(5) r demo_channel_ok, of "g_capabilities demo_wcfg" "g_meta demo_wcfg"] demo_join_reads m(1) by auto
  then have z: "sealed_join_w demo_wcfg demo_clock w = (w\<lparr>w_sessionKey := None\<rparr>, Inr (JStr z))"
    using w m(2) by (simp add: sealed_join_w_def)
  have v: "validateCapabilities (g_capabilities demo_wcfg)" "missing (h_methods demo_dcfg) (jget (g_capabilities demo_wcfg) ''methods'') = []"
    "missing (h_chains demo_dcfg) (jget (g_capabilities demo_wcfg) ''chains'') = []"
    by (simp_all add: validateCapabilities_def is_object_def is_array_def missing_def demo_wcfg_def demo_dcfg_def jelems_def)
  have n: "jget (d_meta demo_fresh) ''name'' = JStr ''d''" by (simp add: demo_fresh_def)
  let ?t = "fst (handleMessage_d demo_dcfg demo_clock (peer_msg ''join'' (w_channelId w) 0 (w_pubKeyB64 w) [(''sealed_join'', JStr z)]) d)"
  have "d_sendKey ?t = w_recvKey w \<and> d_recvKey ?t = w_sendKey w \<and> d_sendKey ?t \<noteq> None \<and> d_recvKey ?t \<noteq> None \<and>
    d_channelId ?t = w_channelId w \<and> d_sessionFingerprint d = code \<and> DWalletJoined (g_capabilities demo_wcfg) JNull \<in> set (d_out ?t)"
    using demo_join_reads w(2) m v
    by (intro handshake_agrees [OF demo_noble_spec _ _ d(1) demo_uri_ok n w(1) z r]) simp_all
  then show ?thesis using d(1) w(1) by blast
qed

subsection \<open>Requests sent again\<close>




end
