(* ===== verification/Provider_Errors.thy ===== *)
theory Provider_Errors
  imports JsJson
begin

text \<open>
  \<^verbatim>\<open>walletpair-sdk/src/errors.ts\<close>: the numeric codes an EVM application branches on, and the normalisation of
  whatever is thrown along a request into one of them.
\<close>

text \<open>\<^verbatim>\<open>ProviderErrorCode\<close> and \<^verbatim>\<open>RpcErrorCode\<close>\<close>

definition USER_REJECTED :: rat where "USER_REJECTED = 4001"
definition UNAUTHORIZED :: rat where "UNAUTHORIZED = 4100"
definition UNSUPPORTED_METHOD :: rat where "UNSUPPORTED_METHOD = 4200"
definition DISCONNECTED :: rat where "DISCONNECTED = 4900"
definition UNRECOGNIZED_CHAIN :: rat where "UNRECOGNIZED_CHAIN = 4902"
definition TRANSACTION_REJECTED :: rat where "TRANSACTION_REJECTED = - 32003"
definition LIMIT_EXCEEDED :: rat where "LIMIT_EXCEEDED = - 32005"
definition INVALID_PARAMS :: rat where "INVALID_PARAMS = - 32602"
definition INTERNAL_ERROR :: rat where "INTERNAL_ERROR = - 32603"

record provider_error =
  pe_code :: rat
  pe_message :: string
  pe_data :: jsval

text \<open>A thrown value: a \<^verbatim>\<open>ProviderRpcError\<close>, an \<^verbatim>\<open>RpcEndpointsUnavailable\<close> with its message, or anything else with what
  its \<^verbatim>\<open>code\<close>, \<^verbatim>\<open>message\<close> and \<^verbatim>\<open>data\<close> read as.\<close>

datatype thrown = ProviderRpcError provider_error | RpcEndpointsUnavailable jsval | Other jsval jsval jsval

definition error_fields :: "thrown \<Rightarrow> jsval \<times> jsval \<times> jsval" where
  "error_fields e = (case e of
     ProviderRpcError p \<Rightarrow> (JNum (pe_code p), JStr (pe_message p), pe_data p)
   | RpcEndpointsUnavailable message \<Rightarrow> (JUndef, message, JUndef)
   | Other code message data \<Rightarrow> (code, message, data))"

definition walletPairCodeToRpcCode :: "string \<Rightarrow> rat" where
  "walletPairCodeToRpcCode code =
     (if code = ''user_rejected'' then USER_REJECTED
      else if code = ''unauthorized'' then UNAUTHORIZED
      else if code = ''unsupported_method'' \<or> code = ''unsupported_capability'' then UNSUPPORTED_METHOD
      else if code = ''unsupported_chain'' \<or> code = ''chain_not_found'' then UNRECOGNIZED_CHAIN
      else if code = ''disconnected'' then DISCONNECTED
      else if code = ''invalid_params'' then INVALID_PARAMS
      else if code = ''rate_limited'' then LIMIT_EXCEEDED
      else if code = ''transaction_rejected'' then TRANSACTION_REJECTED
      else INTERNAL_ERROR)"

text \<open>\<^verbatim>\<open>/^-?\d+$/\<close> and the number such a text denotes.\<close>

definition decimal_code :: "string \<Rightarrow> rat option" where
  "decimal_code s =
     (let neg = (s \<noteq> [] \<and> hd s = CHR ''-''); ds = (if neg then tl s else s)
      in if ds \<noteq> [] \<and> list_all is_digit ds then Some ((if neg then - 1 else 1) * of_nat (digits_val ds)) else None)"

definition toProviderRpcError :: "thrown \<Rightarrow> provider_error" where
  "toProviderRpcError e = (case e of
     ProviderRpcError p \<Rightarrow> p
   | _ \<Rightarrow> (case error_fields e of (rawCode, raw, data) \<Rightarrow>
       (let message = (case raw of JStr m \<Rightarrow> if m \<noteq> [] then m else ''Request failed'' | _ \<Rightarrow> ''Request failed'');
            code = (case rawCode of
                JNum q \<Rightarrow> q
              | JStr c \<Rightarrow> (case decimal_code c of Some q \<Rightarrow> q | None \<Rightarrow> walletPairCodeToRpcCode c)
              | _ \<Rightarrow> INTERNAL_ERROR)
        in \<lparr>pe_code = code, pe_message = message, pe_data = data\<rparr>)))"

end
