(* ===== verification/Evm_Mapper.thy ===== *)
theory Evm_Mapper
  imports Provider_Errors Dapp_Handlers
begin

text \<open>
  \<^verbatim>\<open>walletpair-sdk/src/evm/eip1193.ts\<close>, first half: the mapping between Ethereum JSON-RPC methods and the
  methods of the WalletPair protocol, the routing tables, chain keys and the failover between RPC endpoints.
  JavaScript numbers that may be \<^verbatim>\<open>NaN\<close> are \<open>rat option\<close>.
\<close>

subsection \<open>Numbers and indices\<close>

text \<open>\<^verbatim>\<open>Number.parseInt(s, 16)\<close>\<close>

definition hex_prefix :: "string \<Rightarrow> string" where
  "hex_prefix s = (case s of a # b # r \<Rightarrow> if a = CHR ''0'' \<and> (b = CHR ''x'' \<or> b = CHR ''X'') then r else s | _ \<Rightarrow> s)"

definition parseInt16 :: "string \<Rightarrow> int option" where
  "parseInt16 s =
     (let t = trimStart s;
          neg = (t \<noteq> [] \<and> hd t = CHR ''-'');
          u = hex_prefix (if t \<noteq> [] \<and> (hd t = CHR ''-'' \<or> hd t = CHR ''+'') then tl t else t);
          ds = takeWhile (\<lambda>c. hex_val c \<noteq> None) u;
          n = fold (\<lambda>c n. n * 16 + int (the (hex_val c))) ds 0
      in if ds = [] then None else Some (if neg then - n else n))"

text \<open>\<^verbatim>\<open>Number(s)\<close> of a text, \<open>None\<close> when it is not finite: a radix prefix and its digits, or a signed decimal with
  fraction and exponent, white space around it, and 0 for nothing at all.\<close>

definition radix_text :: "nat \<Rightarrow> string \<Rightarrow> rat option" where
  "radix_text b s =
     (let ok = (\<lambda>c. case hex_val c of Some n \<Rightarrow> n < b | None \<Rightarrow> False); ds = takeWhile ok s
      in if ds \<noteq> [] \<and> trimStart (dropWhile ok s) = [] then Some (of_nat (fold (\<lambda>c n. n * b + the (hex_val c)) ds 0)) else None)"

definition decimal_text :: "string \<Rightarrow> rat option" where
  "decimal_text s =
     (let neg = (s \<noteq> [] \<and> hd s = CHR ''-'');
          u = (if s \<noteq> [] \<and> (hd s = CHR ''-'' \<or> hd s = CHR ''+'') then tl s else s);
          ds = takeWhile is_digit u; s2 = dropWhile is_digit u;
          dot = (s2 \<noteq> [] \<and> hd s2 = CHR ''.'');
          fs = (if dot then takeWhile is_digit (tl s2) else []); s3 = (if dot then dropWhile is_digit (tl s2) else s2)
      in if ds = [] \<and> fs = [] then None
         else (case parse_exp s3 of
             None \<Rightarrow> None
           | Some (e, s4) \<Rightarrow>
               if trimStart s4 \<noteq> [] then None
               else
                 (let m = (of_nat (digits_val (ds @ fs)) :: rat) / 10 ^ length fs;
                      v = (if e < 0 then m / 10 ^ nat (- e) else m * 10 ^ nat e)
                  in Some (if neg then - v else v))))"

definition number_text :: "string \<Rightarrow> rat option" where
  "number_text s =
     (let t = trimStart s in
      if t = [] then Some 0
      else if starts_with t ''0x'' \<or> starts_with t ''0X'' then radix_text 16 (drop 2 t)
      else if starts_with t ''0o'' \<or> starts_with t ''0O'' then radix_text 8 (drop 2 t)
      else if starts_with t ''0b'' \<or> starts_with t ''0B'' then radix_text 2 (drop 2 t)
      else decimal_text t)"

text \<open>\<^verbatim>\<open>Number(v)\<close>, \<open>None\<close> when it is not finite\<close>

definition number_of :: "jsval \<Rightarrow> rat option" where
  "number_of v = (case v of
     JNum q \<Rightarrow> Some q | JBool b \<Rightarrow> Some (if b then 1 else 0) | JNull \<Rightarrow> Some 0 | JUndef \<Rightarrow> None | _ \<Rightarrow> number_text (js_string v))"

text \<open>\<^verbatim>\<open>n.toString(16)\<close> of an integer\<close>

fun hex_digits :: "nat \<Rightarrow> string" where
  "hex_digits n = (if n < 16 then [hex_digit n] else hex_digits (n div 16) @ [hex_digit (n mod 16)])"

declare hex_digits.simps [simp del]

definition toString16 :: "(rat \<Rightarrow> string) \<Rightarrow> rat option \<Rightarrow> string" where
  "toString16 fraction v = (case v of
     None \<Rightarrow> ''NaN''
   | Some q \<Rightarrow> if of_int \<lfloor>q\<rfloor> = q then (if q < 0 then ''-'' else []) @ hex_digits (nat \<bar>\<lfloor>q\<rfloor>\<bar>) else fraction q)"

definition num_text :: "rat option \<Rightarrow> string" where
  "num_text v = (case v of None \<Rightarrow> ''NaN'' | Some q \<Rightarrow> num_to_string q)"

text \<open>\<^verbatim>\<open>p?.[i]\<close> of the parameters, an array or an object.\<close>

definition jindex :: "jsval \<Rightarrow> nat \<Rightarrow> jsval" where
  "jindex v i = (case v of JArr vs \<Rightarrow> if i < length vs then vs ! i else JUndef | JObj ps \<Rightarrow> jget v (dec_digits i) | _ \<Rightarrow> JUndef)"

text \<open>The texts of errors raised by the language are left empty.\<close>

definition type_error :: thrown where
  "type_error = Other JUndef (JStr []) JUndef"

definition rpc_error :: "rat \<Rightarrow> string \<Rightarrow> thrown" where
  "rpc_error code message = ProviderRpcError \<lparr>pe_code = code, pe_message = message, pe_data = JUndef\<rparr>"

subsection \<open>Requests\<close>

definition hexChainToCaip2 :: "jsval \<Rightarrow> string" where
  "hexChainToCaip2 v = ''eip155:'' @ num_text (map_option of_int (parseInt16 (js_string v)))"

definition validateTxObject :: "jsval \<Rightarrow> (thrown, unit) sum" where
  "validateTxObject tx = (if is_object tx then Inr () else Inl (rpc_error INVALID_PARAMS ''Missing required transaction object''))"

text \<open>One byte per two UTF-16 units; what is no hexadecimal number becomes 0.  A unit beyond ASCII is read as a
  space when the language counts it as white space and is no digit otherwise.\<close>

definition unit_char :: "nat \<Rightarrow> char" where
  "unit_char u =
     (if u < 128 then char_of u
      else if u \<in> {160, 5760, 8232, 8233, 8239, 8287, 12288, 65279} \<or> 8192 \<le> u \<and> u \<le> 8202 then CHR '' ''
      else CHR 0xFF)"

fun hex_pairs :: "nat list \<Rightarrow> bytes" where
  "hex_pairs (a # b # us) = word_of_int (case parseInt16 [unit_char a, unit_char b] of None \<Rightarrow> 0 | Some n \<Rightarrow> n) # hex_pairs us"
| "hex_pairs _ = []"

definition personal_text :: "jsval \<Rightarrow> (thrown, jsval) sum" where
  "personal_text msg = (case msg of
     JStr m \<Rightarrow> Inr (if starts_with m ''0x'' then JStr (text_decode (hex_pairs (utf16_units (drop 2 m)))) else JStr m)
   | JUndef \<Rightarrow> Inr (JStr [])
   | JNull \<Rightarrow> Inr (JStr [])
   | _ \<Rightarrow> Inl type_error)"

definition typed_data :: "jsval \<Rightarrow> jsval" where
  "typed_data v = (case v of JStr s \<Rightarrow> (case JSON_parse s of Some d \<Rightarrow> d | None \<Rightarrow> v) | _ \<Rightarrow> v)"

text \<open>\<^verbatim>\<open>{ method, params }\<close> or \<^verbatim>\<open>null\<close>; absent parameters are \<open>JUndef\<close>.\<close>

definition mapRequest :: "string \<Rightarrow> jsval \<Rightarrow> (thrown, (string \<times> jsval) option) sum" where
  "mapRequest method params =
     (let p0 = jindex params 0; p1 = jindex params 1 in
      if method = ''eth_requestAccounts'' \<or> method = ''eth_accounts'' then Inr (Some (''wallet_getAccounts'', JUndef))
      else if method = ''personal_sign'' then
        (case personal_text p0 of
           Inl e \<Rightarrow> Inl e
         | Inr t \<Rightarrow> Inr (Some (''wallet_signMessage'', JObj [(''message'', t), (''address'', p1)])))
      else if method = ''eth_signTypedData_v3'' \<or> method = ''eth_signTypedData_v4'' then
        Inr (Some (''wallet_signTypedData'', JObj [(''address'', p0), (''typedData'', typed_data p1)]))
      else if method = ''eth_sendTransaction'' \<or> method = ''eth_signTransaction'' then
        (case validateTxObject p0 of
           Inl e \<Rightarrow> Inl e
         | Inr _ \<Rightarrow> Inr (Some (if method = ''eth_sendTransaction'' then ''wallet_sendTransaction'' else ''wallet_signTransaction'',
                        JObj [(''address'', jget p0 ''from''), (''tx'', p0)])))
      else if method = ''wallet_switchEthereumChain'' then
        (let hexId = jget p0 ''chainId''
         in Inr (Some (''wallet_switchChain'', JObj [(''chain'', if truthy hexId then JStr (hexChainToCaip2 hexId) else JUndef)])))
      else if method = ''wallet_sendCalls'' then Inr (Some (''wallet_sendCalls'', coalesce p0 (JObj [])))
      else if method = ''wallet_getCallsStatus'' then Inr (Some (''wallet_getCallsStatus'', p0))
      else Inr None)"

fun addresses :: "jsval list \<Rightarrow> (thrown, jsval list) sum" where
  "addresses [] = Inr []"
| "addresses (a # as) = (if nullish a then Inl type_error
     else (case addresses as of Inl e \<Rightarrow> Inl e | Inr vs \<Rightarrow> Inr (jget a ''address'' # vs)))"

definition unwrap :: "string \<Rightarrow> jsval \<Rightarrow> jsval" where
  "unwrap field result = (if truthy (jget result field) then jget result field else result)"

definition mapResponse :: "string \<Rightarrow> jsval \<Rightarrow> (thrown, jsval) sum" where
  "mapResponse method result =
     (if (method = ''eth_requestAccounts'' \<or> method = ''eth_accounts'') \<and> truthy (jget result ''accounts'') then
        (case jget result ''accounts'' of
           JArr as \<Rightarrow> (case addresses as of Inl e \<Rightarrow> Inl e | Inr vs \<Rightarrow> Inr (JArr vs))
         | _ \<Rightarrow> Inl type_error)
      else if method = ''eth_sendTransaction'' then Inr (unwrap ''txHash'' result)
      else if method = ''eth_signTransaction'' then Inr (unwrap ''signedTx'' result)
      else if method = ''personal_sign'' \<or> method = ''eth_signTypedData_v4'' \<or> method = ''eth_signTypedData_v3'' then
        Inr (unwrap ''signature'' result)
      else if method = ''wallet_sendCalls'' then Inr (if is_string result then JObj [(''id'', result)] else result)
      else Inr result)"

subsection \<open>Routing tables\<close>

definition WALLET_METHODS :: "string list" where
  "WALLET_METHODS = [''eth_requestAccounts'', ''eth_accounts'', ''personal_sign'', ''eth_signTypedData_v4'', ''eth_signTypedData_v3'',
     ''eth_sendTransaction'', ''eth_signTransaction'', ''wallet_switchEthereumChain'', ''wallet_addEthereumChain'', ''wallet_sendCalls'',
     ''wallet_getCallsStatus'']"

definition LOCAL_METHODS :: "string list" where
  "LOCAL_METHODS = [''eth_chainId'', ''net_version'', ''wallet_getCapabilities'']"

definition READ_ONLY_METHODS :: "string list" where
  "READ_ONLY_METHODS = [''eth_call'', ''eth_getBalance'', ''eth_getCode'', ''eth_getStorageAt'', ''eth_getProof'', ''eth_getTransactionCount'',
     ''eth_blockNumber'', ''eth_getBlockByNumber'', ''eth_getBlockByHash'', ''eth_getBlockTransactionCountByNumber'',
     ''eth_getBlockTransactionCountByHash'', ''eth_getBlockReceipts'', ''eth_getTransactionByHash'',
     ''eth_getTransactionByBlockHashAndIndex'', ''eth_getTransactionByBlockNumberAndIndex'', ''eth_getTransactionReceipt'',
     ''eth_getLogs'', ''eth_estimateGas'', ''eth_createAccessList'', ''eth_gasPrice'', ''eth_maxPriorityFeePerGas'', ''eth_feeHistory'']"

definition MAX_RPC_FAILOVER_ENDPOINTS :: nat where "MAX_RPC_FAILOVER_ENDPOINTS = 4"

definition TRANSIENT_RPC_CODES :: "rat list" where
  "TRANSIENT_RPC_CODES = [- 32005, - 32603, - 32097, - 32098, 429]"

definition chainRequiredMethods :: "string list" where
  "chainRequiredMethods = [''wallet_signMessage'', ''wallet_signTypedData'', ''wallet_signTransaction'', ''wallet_sendTransaction'',
     ''wallet_getAccounts'']"

subsection \<open>Chain keys\<close>

definition parseChainKey :: "string \<Rightarrow> int option" where
  "parseChainKey key =
     (let n = (if starts_with key ''eip155:'' then parseInt10 (drop 7 key)
               else if starts_with key ''0x'' then parseInt16 key else parseInt10 key)
      in case n of Some n \<Rightarrow> if 0 < n then Some n else None | None \<Rightarrow> None)"

definition url_list :: "jsval \<Rightarrow> string list" where
  "url_list v = concat (map (\<lambda>u. case u of JStr s \<Rightarrow> if s \<noteq> [] then [s] else [] | _ \<Rightarrow> []) (if is_array v then jelems v else [v]))"

definition normalizeRpcUrls :: "jsval \<Rightarrow> (int, string list) jsmap" where
  "normalizeRpcUrls input = fold (\<lambda>(key, v) m.
     case parseChainKey key of
       None \<Rightarrow> m
     | Some chainId \<Rightarrow>
         (let urls = url_list v in
          if urls \<noteq> [] then js_set m chainId ((case js_get m chainId of Some us \<Rightarrow> us | None \<Rightarrow> []) @ urls) else m))
     (own_props input) []"

end
