(* ===== verification/Programs.thy ===== *)
theory Programs
  imports Prelude
begin

text \<open>
  Asynchronous functions as programs: a program reads and writes the state of the object it belongs to, awaits calls of
  the outside and ends with a value or an error.  Between two awaits other code may change the state.
\<close>

subsection \<open>Programs\<close>

datatype ('s, 'c, 'e, 'a) prog =
    PReturn 'a
  | PThrow 'e
  | PAwait 'c "('e, 'a) sum \<Rightarrow> ('s, 'c, 'e, 'a) prog"
  | PRead "'s \<Rightarrow> ('s, 'c, 'e, 'a) prog"
  | PWrite "'s \<Rightarrow> 's" "('s, 'c, 'e, 'a) prog"

definition settle_prog :: "('e, 'a) sum \<Rightarrow> ('s, 'c, 'e, 'a) prog" where
  "settle_prog r = (case r of Inl e \<Rightarrow> PThrow e | Inr v \<Rightarrow> PReturn v)"

text \<open>The program up to its next await or its end.\<close>

primrec resume :: "('s, 'c, 'e, 'a) prog \<Rightarrow> 's \<Rightarrow> 's \<times> ('s, 'c, 'e, 'a) prog" where
  "resume (PReturn v) s = (s, PReturn v)"
| "resume (PThrow e) s = (s, PThrow e)"
| "resume (PAwait c f) s = (s, PAwait c f)"
| "resume (PRead f) s = resume (f s) s"
| "resume (PWrite g p) s = resume p (g s)"

text \<open>\<^verbatim>\<open>try { r = await p } catch\<close>: what comes after gets the value or the error.\<close>

primrec after :: "('s, 'c, 'e, 'a) prog \<Rightarrow> (('e, 'a) sum \<Rightarrow> ('s, 'c, 'e, 'a) prog) \<Rightarrow> ('s, 'c, 'e, 'a) prog" where
  "after (PReturn v) k = k (Inr v)"
| "after (PThrow e) k = k (Inl e)"
| "after (PAwait c f) k = PAwait c (\<lambda>r. after (f r) k)"
| "after (PRead f) k = PRead (\<lambda>s. after (f s) k)"
| "after (PWrite g p) k = PWrite g (after p k)"

text \<open>A program that runs to its end: the calls it makes, the state it leaves and its outcome, \<open>None\<close> while it
  waits.  Each await ends with an answer, at a state that other code may have changed.\<close>

fun run_p :: "('s, 'c, 'e, 'a) prog \<Rightarrow> 's \<Rightarrow> ('s \<times> ('e, 'a) sum) list \<Rightarrow> 'c list \<times> 's \<times> ('e, 'a) sum option" where
  "run_p p s answers = (case resume p s of
     (s, PReturn v) \<Rightarrow> ([], s, Some (Inr v))
   | (s, PThrow e) \<Rightarrow> ([], s, Some (Inl e))
   | (s, PAwait c f) \<Rightarrow>
       (case answers of
          [] \<Rightarrow> ([c], s, None)
        | (s, r) # answers \<Rightarrow> (case run_p (f r) s answers of (calls, out) \<Rightarrow> (c # calls, out)))
   | (s, _) \<Rightarrow> ([], s, None))"

declare run_p.simps [simp del]

subsection \<open>Runs\<close>

lemma run_p_simps [simp]:
  "run_p (PReturn v) s tr = ([], s, Some (Inr v))"
  "run_p (PThrow e) s tr = ([], s, Some (Inl e))"
  "run_p (PRead g) s tr = run_p (g s) s tr"
  "run_p (PWrite h p) s tr = run_p p (h s) tr"
  "run_p (PAwait c f) s [] = ([c], s, None)"
  "run_p (PAwait c f) s ((s1, r) # tr) = (case run_p (f r) s1 tr of (calls, out) \<Rightarrow> (c # calls, out))"
  by (simp_all add: run_p.simps [of "PReturn v"] run_p.simps [of "PThrow e"] run_p.simps [of "PRead g"] run_p.simps [of "g s"]
    run_p.simps [of "PWrite h p"] run_p.simps [of p] run_p.simps [of "PAwait c f"])

text \<open>What follows a program starts at the provider it leaves, with the answers it did not use.\<close>

lemma run_p_after:
  "run_p (after p k) s tr = (case run_p p s tr of
     (cs, s1, None) \<Rightarrow> (cs, s1, None)
   | (cs, s1, Some r) \<Rightarrow> (case run_p (k r) s1 (drop (length cs) tr) of (cs2, out) \<Rightarrow> (cs @ cs2, out)))"
proof (induction p arbitrary: s tr)
  case (PAwait c f)
  show ?case
  proof (cases tr)
    case (Cons a tr1)
    then show ?thesis using PAwait by (cases a) (auto split: prod.splits option.splits)
  qed simp
qed (auto split: prod.splits option.splits)

text \<open>A program that makes at most \<open>n\<close> calls whatever the answers are.\<close>

primrec calls_at_most :: "('s, 'c, 'e, 'a) prog \<Rightarrow> nat \<Rightarrow> bool" where
  "calls_at_most (PReturn v) n = True"
| "calls_at_most (PThrow e) n = True"
| "calls_at_most (PAwait c f) n = (0 < n \<and> (\<forall>r. calls_at_most (f r) (n - 1)))"
| "calls_at_most (PRead g) n = (\<forall>s. calls_at_most (g s) n)"
| "calls_at_most (PWrite h p) n = calls_at_most p n"

lemma calls_at_most_mono: "calls_at_most p a \<Longrightarrow> a \<le> b \<Longrightarrow> calls_at_most p b"
proof (induction p arbitrary: a b)
  case (PAwait c f)
  have "calls_at_most (f r) (b - 1)" for r
    by (rule PAwait.IH [OF rangeI, of r "a - 1"]) (use PAwait.prems in auto)
  with PAwait.prems show ?case by simp
next
  case (PRead g)
  have "calls_at_most (g s) b" for s
    by (rule PRead.IH [OF rangeI, of s a]) (use PRead.prems in auto)
  then show ?case by simp
next
  case (PWrite h p)
  show ?case using PWrite.IH [of a b] PWrite.prems by simp
qed simp_all

lemma calls_at_most_after:
  "calls_at_most p a \<Longrightarrow> (\<And>r. calls_at_most (k r) b) \<Longrightarrow> calls_at_most (after p k) (a + b)"
proof (induction p arbitrary: a)
  case (PAwait c f)
  then have "calls_at_most (after (f r) k) (a - 1 + b)" for r
    using PAwait.IH [OF rangeI, of r "a - 1"] by simp
  moreover have "a - 1 + b = a + b - 1" using PAwait.prems(1) by simp
  ultimately show ?case using PAwait.prems(1) by simp
qed (auto intro: calls_at_most_mono [where a = b])

lemma calls_at_most_settles:
  "calls_at_most p n \<Longrightarrow> n \<le> length tr \<Longrightarrow> \<exists>r. snd (snd (run_p p s tr)) = Some r"
proof (induction p arbitrary: n s tr)
  case (PAwait c f)
  then obtain s1 r tr1 where "tr = (s1, r) # tr1" "n - 1 \<le> length tr1" by (cases tr) auto
  then show ?case using PAwait.IH [OF rangeI, of r "n - 1" tr1 s1] PAwait.prems by (auto split: prod.split)
next
  case (PRead g)
  then show ?case using PRead.IH [OF rangeI, of s n tr s] by simp
qed auto

lemma calls_at_most_length: "calls_at_most p n \<Longrightarrow> length (fst (run_p p s tr)) \<le> n"
proof (induction p arbitrary: n s tr)
  case (PAwait c f)
  show ?case
  proof (cases tr)
    case (Cons a tr1)
    then show ?thesis using PAwait.IH [OF rangeI, of "snd a" "n - 1" "fst a" tr1] PAwait.prems
      by (cases a) (auto split: prod.split)
  qed (use PAwait.prems in simp)
qed auto

lemma run_settle [simp]: "fst (run_p (settle_prog r) s tr) = []"
  by (cases r) (simp_all add: settle_prog_def)

lemma settle_at_most [simp]: "calls_at_most (settle_prog r) n"
  by (cases r) (simp_all add: settle_prog_def)

text \<open>A handler that makes no calls of its own leaves the calls as they are.\<close>

lemma run_after_pure:
  assumes "\<And>r s tr. fst (run_p (k r) s tr) = []"
  shows "fst (run_p (after p k) s tr) = fst (run_p p s tr)"
  using assms by (auto simp: run_p_after case_prod_beta split: option.split)

text \<open>The end of \<open>resume\<close> is an await or an outcome.\<close>

lemma resume_cases:
  obtains v where "snd (resume p s) = PReturn v" | e where "snd (resume p s) = PThrow e"
    | c f where "snd (resume p s) = PAwait c f"
proof -
  have "(\<exists>v. snd (resume p s) = PReturn v) \<or> (\<exists>e. snd (resume p s) = PThrow e) \<or> (\<exists>c f. snd (resume p s) = PAwait c f)"
    by (induction p arbitrary: s) simp_all
  then show thesis using that by blast
qed

end
