(* ===== verification/Evm_Provider.thy ===== *)
theory Evm_Provider
  imports Evm_Mapper Programs
begin

text \<open>
  \<^verbatim>\<open>walletpair-sdk/src/evm/eip1193.ts\<close>, second half: the provider object.  A request is a program that reads and
  writes the provider, awaits calls of the outside (the wallet through the session, the RPC provider of the
  application, one endpoint, the directory of endpoints) and ends with a value or an error; between two awaits
  other requests and events may change the provider.  The emitted events are appended to a trace.
\<close>

subsection \<open>State\<close>

datatype peff =
    PConnect string | PDisconnect string | PChainChanged string | PAccountsChanged jsval | PCloseSession

record provider =
  pv_chainId :: "rat option"
  pv_accounts :: "jsval list"
  pv_connected :: bool
  pv_disconnected :: bool
  pv_rpcUrlCache :: "(rat option, string list) jsmap"
  pv_inFlight :: "rat option list"
  pv_caps :: jsval                    \<comment> \<open>\<^verbatim>\<open>session.walletCapabilities\<close>\<close>
  pv_out :: "peff list"

record pconfig =
  pc_rpcProvider :: bool
  pc_staticRpcUrls :: "(int, string list) jsmap"
  pc_ethereumDataBaseUrl :: string
  pc_fraction :: "rat \<Rightarrow> string"      \<comment> \<open>\<^verbatim>\<open>toString(16)\<close> of a number that is no integer, left to the implementation by the standard\<close>

fun strip_slashes :: "string \<Rightarrow> string" where
  "strip_slashes s = (if s \<noteq> [] \<and> last s = CHR ''/'' then strip_slashes (butlast s) else s)"

declare strip_slashes.simps [simp del]

definition DEFAULT_ETHEREUM_DATA_URL :: string where "DEFAULT_ETHEREUM_DATA_URL = ''https://ethereum-data.awesometools.dev''"

definition provider_config :: "bool \<Rightarrow> jsval \<Rightarrow> jsval \<Rightarrow> (rat \<Rightarrow> string) \<Rightarrow> pconfig" where
  "provider_config rpcProvider rpcUrls ethereumDataUrl fraction = \<lparr>pc_rpcProvider = rpcProvider, pc_staticRpcUrls = normalizeRpcUrls rpcUrls,
     pc_ethereumDataBaseUrl = strip_slashes (case ethereumDataUrl of JUndef \<Rightarrow> DEFAULT_ETHEREUM_DATA_URL | JStr u \<Rightarrow> u | _ \<Rightarrow> []),
     pc_fraction = fraction\<rparr>"

definition provider_init :: "rat option \<Rightarrow> provider" where
  "provider_init chainId = \<lparr>pv_chainId = (case chainId of None \<Rightarrow> Some 1 | Some q \<Rightarrow> Some q), pv_accounts = [], pv_connected = False,
     pv_disconnected = False, pv_rpcUrlCache = [], pv_inFlight = [], pv_caps = JUndef, pv_out = []\<rparr>"

definition emit_p :: "peff \<Rightarrow> provider \<Rightarrow> provider" where
  "emit_p e s = s\<lparr>pv_out := pv_out s @ [e]\<rparr>"

definition hex_chain :: "pconfig \<Rightarrow> rat option \<Rightarrow> string" where
  "hex_chain c v = ''0x'' @ toString16 (pc_fraction c) v"

text \<open>\<^verbatim>\<open>a !== b\<close> for numbers: \<^verbatim>\<open>NaN\<close> differs from everything.\<close>

definition num_differs :: "rat option \<Rightarrow> rat option \<Rightarrow> bool" where
  "num_differs a b \<longleftrightarrow> a = None \<or> b = None \<or> a \<noteq> b"

subsection \<open>Programs\<close>

datatype pcall =
    CWallet string jsval                 \<comment> \<open>\<^verbatim>\<open>session.request\<close>\<close>
  | CRpc string jsval                    \<comment> \<open>\<^verbatim>\<open>rpcProvider.request\<close>\<close>
  | CFetch string string jsval           \<comment> \<open>\<^verbatim>\<open>jsonRpcFetch\<close>\<close>
  | CEndpoints "rat option"              \<comment> \<open>the pending \<^verbatim>\<open>fetchEthereumDataRpc\<close> of a chain\<close>

type_synonym pprog = "(provider, pcall, thrown, jsval) prog"

subsection \<open>Endpoints\<close>

definition RPC_MAX_RESPONSE_BYTES :: int where "RPC_MAX_RESPONSE_BYTES = 2 * 1024 * 1024"

text \<open>What \<^verbatim>\<open>jsonRpcFetch\<close> makes of an answer: the length header and the parsed body; \<^verbatim>\<open>new Error(undefined)\<close> has
  an empty message.\<close>

definition error_message :: "jsval \<Rightarrow> string" where
  "error_message v = (if v = JUndef then [] else js_string v)"

definition jsonRpcFetch_result :: "string option \<Rightarrow> jsval \<Rightarrow> (thrown, jsval) sum" where
  "jsonRpcFetch_result contentLength json =
     (if (case contentLength of Some l \<Rightarrow> l \<noteq> [] \<and> (case parseInt10 l of Some n \<Rightarrow> RPC_MAX_RESPONSE_BYTES < n | None \<Rightarrow> False) | None \<Rightarrow> False) then
        Inl (Other JUndef (JStr ''RPC response too large'') JUndef)
      else if nullish json then Inl type_error
      else if truthy (jget json ''error'') then
        Inl (Other (jget (jget json ''error'') ''code'') (JStr (error_message (jget (jget json ''error'') ''message''))) JUndef)
      else Inr (jget json ''result''))"

definition definitive :: "thrown \<Rightarrow> bool" where
  "definitive e = (case fst (error_fields e) of JNum q \<Rightarrow> q \<notin> set TRANSIENT_RPC_CODES | _ \<Rightarrow> False)"

fun jsonRpcFetchFailover :: "string list \<Rightarrow> string \<Rightarrow> jsval \<Rightarrow> thrown option \<Rightarrow> pprog" where
  "jsonRpcFetchFailover [] method params lastErr =
     PThrow (RpcEndpointsUnavailable (case lastErr of Some e \<Rightarrow> fst (snd (error_fields e)) | None \<Rightarrow> JStr ''All RPC endpoints failed''))"
| "jsonRpcFetchFailover (url # urls) method params lastErr =
     PAwait (CFetch url method params) (\<lambda>r. case r of
       Inr v \<Rightarrow> PReturn v
     | Inl e \<Rightarrow> if definitive e then PThrow e else jsonRpcFetchFailover urls method params (Some e))"

definition walletRpcUrlsForChain :: "rat option \<Rightarrow> jsval \<Rightarrow> string list" where
  "walletRpcUrlsForChain chainId caps =
     (let urls = jget caps ''rpcUrls'';
          u = coalesce (jget urls (num_text chainId)) (jget urls (''eip155:'' @ num_text chainId))
      in if truthy u then [js_string u] else [])"

definition staticUrls :: "pconfig \<Rightarrow> rat option \<Rightarrow> string list" where
  "staticUrls c chainId = (case chainId of
     Some q \<Rightarrow> if of_int \<lfloor>q\<rfloor> = q then (case js_get (pc_staticRpcUrls c) \<lfloor>q\<rfloor> of Some us \<Rightarrow> us | None \<Rightarrow> []) else []
   | None \<Rightarrow> [])"

text \<open>\<^verbatim>\<open>add\<close>: no empty address, none twice, in order.\<close>

definition dedup :: "string list \<Rightarrow> string list" where
  "dedup us = fold (\<lambda>u out. if u \<noteq> [] then js_add out u else out) us []"

definition endpoint_list :: "(thrown, jsval) sum \<Rightarrow> string list" where
  "endpoint_list r = (case r of Inl _ \<Rightarrow> [] | Inr v \<Rightarrow> concat (map (\<lambda>u. case u of JStr s \<Rightarrow> [s] | _ \<Rightarrow> []) (jelems v)))"

definition known_endpoints :: "pconfig \<Rightarrow> rat option \<Rightarrow> jsval \<Rightarrow> string list" where
  "known_endpoints c chainId caps = dedup (staticUrls c chainId @ walletRpcUrlsForChain chainId caps)"

definition resolveEndpoints :: "pconfig \<Rightarrow> rat option \<Rightarrow> (string list \<Rightarrow> pprog) \<Rightarrow> pprog" where
  "resolveEndpoints c chainId k = PRead (\<lambda>s.
     let out = known_endpoints c chainId (pv_caps s) in
     if out \<noteq> [] then k (take MAX_RPC_FAILOVER_ENDPOINTS out)
     else (case js_get (pv_rpcUrlCache s) chainId of
         Some cached \<Rightarrow> k (take MAX_RPC_FAILOVER_ENDPOINTS cached)
       | None \<Rightarrow>
           if pc_ethereumDataBaseUrl c = [] then k []
           else
             PWrite (\<lambda>s. s\<lparr>pv_inFlight := js_add (pv_inFlight s) chainId\<rparr>)
               (PAwait (CEndpoints chainId) (\<lambda>r. k (take MAX_RPC_FAILOVER_ENDPOINTS (endpoint_list r))))))"

text \<open>The \<^verbatim>\<open>then\<close> of the directory lookup, run once per chain; an empty result is not cached.\<close>

definition fetched_p :: "rat option \<Rightarrow> string list \<Rightarrow> provider \<Rightarrow> provider" where
  "fetched_p chainId urls s =
     (let s = (if urls \<noteq> [] then s\<lparr>pv_rpcUrlCache := js_set (pv_rpcUrlCache s) chainId urls\<rparr> else s)
      in s\<lparr>pv_inFlight := js_remove (pv_inFlight s) chainId\<rparr>)"

text \<open>The filter of \<^verbatim>\<open>fetchEthereumDataRpc\<close> on the parsed document.\<close>

definition fetchEthereumDataRpc_result :: "bool \<Rightarrow> jsval \<Rightarrow> string list" where
  "fetchEthereumDataRpc_result ok data =
     (if \<not> ok then []
      else concat (map (\<lambda>u. case u of
          JStr s \<Rightarrow> if starts_with s ''https://'' \<and> \<not> js_includes s ''${'' \<and> \<not> js_includes s ''API_KEY'' then [s] else []
        | _ \<Rightarrow> []) (jelems (jget data ''rpc''))))"

definition relay_to_wallet :: "string \<Rightarrow> jsval \<Rightarrow> pprog" where
  "relay_to_wallet method params = PAwait (CWallet method params) settle_prog"

definition serve_from :: "string \<Rightarrow> jsval \<Rightarrow> string list \<Rightarrow> pprog" where
  "serve_from method params endpoints =
     (if endpoints \<noteq> [] then
        after (jsonRpcFetchFailover endpoints method params None) (\<lambda>r. case r of
          Inr v \<Rightarrow> PReturn v
        | Inl e \<Rightarrow> (case e of RpcEndpointsUnavailable _ \<Rightarrow> relay_to_wallet method (coalesce params (JArr [])) | _ \<Rightarrow> PThrow e))
      else relay_to_wallet method (coalesce params (JArr [])))"

definition serveReadOnly :: "pconfig \<Rightarrow> string \<Rightarrow> jsval \<Rightarrow> pprog" where
  "serveReadOnly c method params =
     (if pc_rpcProvider c then PAwait (CRpc method params) settle_prog
      else PRead (\<lambda>s. resolveEndpoints c (pv_chainId s) (serve_from method params)))"

subsection \<open>Requests\<close>

definition filter_capabilities :: "jsval \<Rightarrow> jsval \<Rightarrow> jsval" where
  "filter_capabilities all filter' = (case filter' of
     JArr fs \<Rightarrow>
       if fs \<noteq> [] then
         (let wanted = concat (map (\<lambda>c. case parseChainKey (js_string c) of Some n \<Rightarrow> [n] | None \<Rightarrow> []) fs)
          in JObj (filter (\<lambda>e. case parseChainKey (fst e) of Some n \<Rightarrow> n \<in> set wanted | None \<Rightarrow> False) (own_props all)))
       else all
   | _ \<Rightarrow> all)"

text \<open>\<^verbatim>\<open>toLowerCase\<close>, on the letters of ASCII.\<close>

definition lower :: "string \<Rightarrow> string" where
  "lower s = map (\<lambda>c. let n = (of_char c :: nat) in if 65 \<le> n \<and> n \<le> 90 then char_of (n + 32) else c) s"

definition lower_text :: "jsval \<Rightarrow> (thrown, jsval) sum" where
  "lower_text v = (case v of JStr s \<Rightarrow> Inr (JStr (lower s)) | JUndef \<Rightarrow> Inr JUndef | JNull \<Rightarrow> Inr JUndef | _ \<Rightarrow> Inl type_error)"

text \<open>The chain a transaction names, and the one taken for it: the session's when the named one is no positive number.\<close>

definition tx_number :: "jsval \<Rightarrow> rat option" where
  "tx_number raw = (case raw of
     JStr r \<Rightarrow> map_option of_int (if starts_with r ''0x'' then parseInt16 r else parseInt10 r)
   | _ \<Rightarrow> number_of raw)"

definition tx_chain :: "rat option \<Rightarrow> jsval \<Rightarrow> rat option" where
  "tx_chain chainId raw = (case tx_number raw of Some q \<Rightarrow> if 0 < q then Some q else chainId | None \<Rightarrow> chainId)"

definition no_chain :: "jsval \<Rightarrow> bool" where
  "no_chain v \<longleftrightarrow> nullish v \<or> v = JStr []"

text \<open>The reconciliation of \<^verbatim>\<open>tx.chainId\<close> and \<^verbatim>\<open>chain\<close> in the parameters of a mapped request.\<close>

definition inject_chain :: "pconfig \<Rightarrow> rat option \<Rightarrow> string \<Rightarrow> jsval \<Rightarrow> jsval" where
  "inject_chain c chainId method params = (case params of
     JObj ps \<Rightarrow>
       if method \<in> set chainRequiredMethods then
         (let tx = jget params ''tx'';
              isTx = ((method = ''wallet_sendTransaction'' \<or> method = ''wallet_signTransaction'') \<and> is_object tx);
              fill = (isTx \<and> no_chain (jget tx ''chainId''));
              chainNum = (if isTx \<and> \<not> fill then tx_chain chainId (jget tx ''chainId'') else chainId);
              ps = (if fill then (case tx of JObj ts \<Rightarrow> js_set ps ''tx'' (JObj (js_set ts ''chainId'' (JStr (hex_chain c chainId)))) | _ \<Rightarrow> ps)
                    else ps)
          in JObj (if truthy (jget (JObj ps) ''chain'') then ps else js_set ps ''chain'' (JStr (''eip155:'' @ num_text chainNum))))
       else params
   | _ \<Rightarrow> params)"

definition setChain :: "pconfig \<Rightarrow> rat option \<Rightarrow> provider \<Rightarrow> provider" where
  "setChain c target s =
     (if num_differs target (pv_chainId s) then emit_p (PChainChanged (hex_chain c target)) (s\<lparr>pv_chainId := target\<rparr>) else s)"

definition switch_target :: "jsval \<Rightarrow> int option" where
  "switch_target params =
     (let hexId = jget (jindex params 0) ''chainId'' in if truthy hexId then parseInt16 (js_string hexId) else None)"

text \<open>What happens with the wallet's answer.\<close>

definition finish :: "pconfig \<Rightarrow> string \<Rightarrow> jsval \<Rightarrow> jsval \<Rightarrow> pprog" where
  "finish c method params result = (case mapResponse method result of
     Inl e \<Rightarrow> PThrow e
   | Inr mapped \<Rightarrow>
       PWrite (\<lambda>s. if (method = ''eth_requestAccounts'' \<or> method = ''eth_accounts'') \<and> is_array mapped then s\<lparr>pv_accounts := jelems mapped\<rparr> else s)
      (PWrite (\<lambda>s. if method = ''wallet_switchEthereumChain''
                   then (case switch_target params of Some n \<Rightarrow> setChain c (Some (of_int n)) s | None \<Rightarrow> s) else s)
       (PReturn mapped)))"

definition relay_mapped :: "pconfig \<Rightarrow> string \<Rightarrow> jsval \<Rightarrow> pprog" where
  "relay_mapped c method params = (case mapRequest method params of
     Inl e \<Rightarrow> PThrow e
   | Inr None \<Rightarrow> PThrow (rpc_error UNSUPPORTED_METHOD (''Unsupported method: '' @ method))
   | Inr (Some (m, p)) \<Rightarrow> PRead (\<lambda>s.
       PAwait (CWallet m (inject_chain c (pv_chainId s) m p)) (\<lambda>r. case r of Inl e \<Rightarrow> PThrow e | Inr v \<Rightarrow> finish c method params v)))"

text \<open>Everything after the methods that are answered on the spot.\<close>

definition route :: "pconfig \<Rightarrow> string \<Rightarrow> jsval \<Rightarrow> pprog" where
  "route c method params =
     (if method \<in> set READ_ONLY_METHODS then serveReadOnly c method params
      else if method \<notin> set WALLET_METHODS \<and> method \<notin> set LOCAL_METHODS then
        (if pc_rpcProvider c then PAwait (CRpc method params) settle_prog else relay_to_wallet method (coalesce params (JArr [])))
      else relay_mapped c method params)"

definition getCode :: "pconfig \<Rightarrow> jsval \<Rightarrow> provider \<Rightarrow> pprog" where
  "getCode c params s = (case (lower_text (jindex params 0), lower_text (case pv_accounts s of a # _ \<Rightarrow> a | [] \<Rightarrow> JUndef)) of
     (Inr target, Inr self) \<Rightarrow>
       (let code = jget (pv_caps s) ''contractBytecode'' in
        if truthy code \<and> truthy target \<and> truthy self \<and> target = self then
          after (serveReadOnly c ''eth_getCode'' params) (\<lambda>r. case r of
            Inr (JStr deployed) \<Rightarrow> if deployed \<noteq> ''0x'' \<and> 2 < js_length deployed then PReturn (JStr deployed) else PReturn code
          | _ \<Rightarrow> PReturn code)
        else route c ''eth_getCode'' params)
   | (Inl e, _) \<Rightarrow> PThrow e
   | (_, Inl e) \<Rightarrow> PThrow e)"

definition dispatch :: "pconfig \<Rightarrow> string \<Rightarrow> jsval \<Rightarrow> pprog" where
  "dispatch c method params = PRead (\<lambda>s.
     if pv_disconnected s then PThrow (rpc_error DISCONNECTED ''Provider is disconnected'')
     else if method = ''eth_sign'' then
       PThrow (rpc_error UNSUPPORTED_METHOD ''eth_sign is unsupported (deprecated/unsafe); use personal_sign or eth_signTypedData_v4'')
     else if method = ''eth_chainId'' then PReturn (JStr (hex_chain c (pv_chainId s)))
     else if method = ''net_version'' then PReturn (JStr (num_text (pv_chainId s)))
     else if method = ''wallet_getCapabilities'' then
       PReturn (filter_capabilities (coalesce (jget (pv_caps s) ''walletCapabilities'') (JObj [])) (jindex params 1))
     else if method = ''eth_accounts'' \<and> pv_accounts s \<noteq> [] then PReturn (JArr (pv_accounts s))
     else if method = ''eth_getCode'' then getCode c params s
     else route c method params)"

definition request_p :: "pconfig \<Rightarrow> string \<Rightarrow> jsval \<Rightarrow> pprog" where
  "request_p c method params = after (dispatch c method params) (\<lambda>r. case r of
     Inl e \<Rightarrow> PThrow (ProviderRpcError (toProviderRpcError e)) | Inr v \<Rightarrow> PReturn v)"

subsection \<open>Events of the session\<close>

definition onPhase :: "pconfig \<Rightarrow> dphase \<Rightarrow> provider \<Rightarrow> provider" where
  "onPhase c phase s =
     (if phase = DConnected \<and> \<not> pv_connected s then
        emit_p (PConnect (hex_chain c (pv_chainId s))) (s\<lparr>pv_connected := True\<rparr>)
      else if (phase = DClosed \<or> phase = DDisconnected) \<and> pv_connected s then
        emit_p (PDisconnect ''Disconnected'') (s\<lparr>pv_connected := False\<rparr>)
      else s)"

definition onDisconnect :: "jsval \<Rightarrow> provider \<Rightarrow> provider" where
  "onDisconnect data s =
     (let msg = (case jget data ''message'' of
           JStr m \<Rightarrow> m | _ \<Rightarrow> ''Disconnected by wallet ('' @ js_string (coalesce (jget data ''reason'') (JStr ''unknown'')) @ '')'')
      in emit_p PCloseSession (emit_p (PDisconnect msg) (s\<lparr>pv_connected := False, pv_disconnected := True\<rparr>)))"

fun account_list :: "jsval list \<Rightarrow> jsval list option" where
  "account_list [] = Some []"
| "account_list (a # as) = (if nullish a then None
     else map_option ((#) (if is_string a then a else jget a ''address'')) (account_list as))"

text \<open>\<open>None\<close>: the listener threw and the provider is unchanged.\<close>

definition onAccountsChanged :: "jsval \<Rightarrow> provider \<Rightarrow> provider option" where
  "onAccountsChanged data s = (case (if is_array data then data else jget data ''accounts'') of
     JArr as \<Rightarrow> map_option (\<lambda>vs. emit_p (PAccountsChanged (JArr vs)) (s\<lparr>pv_accounts := vs\<rparr>)) (account_list as)
   | _ \<Rightarrow> Some s)"

text \<open>\<open>Inr None\<close> is \<^verbatim>\<open>null\<close>; \<open>Inr (Some None)\<close> is \<^verbatim>\<open>NaN\<close>.\<close>

definition event_chain :: "jsval \<Rightarrow> rat option option res" where
  "event_chain data = (case (if is_object data then coalesce (jget data ''chainId'') (jget data ''chain'') else data) of
     JStr r \<Rightarrow>
       if starts_with r ''eip155:'' then
         (case evmNumericChainId r of Inl e \<Rightarrow> Inl e | Inr v \<Rightarrow> Inr (map_option (map_option of_int) v))
       else if starts_with r ''0x'' then Inr (Some (map_option of_int (parseInt16 r)))
       else (case parseInt10 r of Some n \<Rightarrow> if n = 0 then Inr None else Inr (Some (Some (of_int n))) | None \<Rightarrow> Inr None)
   | JNum q \<Rightarrow> Inr (Some (Some q))
   | _ \<Rightarrow> Inr None)"

definition onChainChanged :: "pconfig \<Rightarrow> jsval \<Rightarrow> provider \<Rightarrow> provider option" where
  "onChainChanged c data s = (case event_chain data of
     Inl e \<Rightarrow> None
   | Inr None \<Rightarrow> Some s
   | Inr (Some n) \<Rightarrow> Some (setChain c n s))"

definition onEvent :: "pconfig \<Rightarrow> string \<Rightarrow> jsval \<Rightarrow> provider \<Rightarrow> provider option" where
  "onEvent c event data s =
     (if event = ''disconnect'' then Some (onDisconnect data s)
      else if event = ''accountsChanged'' then onAccountsChanged data s
      else if event = ''chainChanged'' then onChainChanged c data s
      else Some s)"

end
