(* ===== verification/Evm_Theorems.thy ===== *)
theory Evm_Theorems
  imports Evm_Provider
begin

text \<open>
  What the EVM provider promises an application: reads stay off the wallet's channel, every request settles after a
  bounded number of calls, a transaction and its chain agree, rejections keep their numeric code, and a switched
  chain is visible at once.
\<close>

subsection \<open>Failover\<close>

lemma failover_calls: "calls_at_most (jsonRpcFetchFailover us mt params le) (length us)"
  by (induction us mt params le rule: jsonRpcFetchFailover.induct) (auto split: sum.split)

lemma definitive_unavailable [simp]: "\<not> definitive (RpcEndpointsUnavailable w)"
  by (simp add: definitive_def error_fields_def)

definition transport_failure :: "(thrown, jsval) sum \<Rightarrow> bool" where
  "transport_failure r = (case r of Inl e \<Rightarrow> \<not> definitive e | Inr _ \<Rightarrow> False)"

text \<open>The endpoints are tried in order; they are all given up only when each of them failed without an answer.\<close>

lemma failover_run:
  assumes "run_p (jsonRpcFetchFailover us mt params le) s tr = (cs, s1, out)"
  shows "cs = map (\<lambda>u. CFetch u mt params) (take (length cs) us)"
    "out = Some (Inl (RpcEndpointsUnavailable w)) \<Longrightarrow> length cs = length us \<and> length us \<le> length tr \<and> (\<forall>i<length us. transport_failure (snd (tr ! i)))"
proof -
  have "cs = map (\<lambda>u. CFetch u mt params) (take (length cs) us) \<and>
    (out = Some (Inl (RpcEndpointsUnavailable w)) \<longrightarrow> length cs = length us \<and> length us \<le> length tr \<and> (\<forall>i<length us. transport_failure (snd (tr ! i))))"
    using assms
  proof (induction us arbitrary: s tr cs le)
    case (Cons u us)
    show ?case
    proof (cases tr)
      case Nil
      then show ?thesis using Cons.prems by auto
    next
      case (Cons a tr1)
      then show ?thesis using Cons.prems Cons.IH [of _ "fst a" tr1]
        by (cases a; cases "snd a") (auto simp: transport_failure_def nth_Cons split: prod.splits if_splits nat.split)
    qed
  qed auto
  then show "cs = map (\<lambda>u. CFetch u mt params) (take (length cs) us)"
    "out = Some (Inl (RpcEndpointsUnavailable w)) \<Longrightarrow> length cs = length us \<and> length us \<le> length tr \<and> (\<forall>i<length us. transport_failure (snd (tr ! i)))"
    by blast+
qed

subsection \<open>Reads\<close>

lemma run_relay: "fst (run_p (relay_to_wallet mt params) s tr) = [CWallet mt params]"
proof (cases tr)
  case (Cons a tr1)
  then show ?thesis by (cases a) (simp add: relay_to_wallet_def case_prod_beta)
qed (simp add: relay_to_wallet_def)

lemma serve_from_wallet:
  assumes "CWallet m p \<in> set (fst (run_p (serve_from mt params us) s tr))"
  shows "fst (run_p (serve_from mt params us) s tr) = map (\<lambda>u. CFetch u mt params) us @ [CWallet mt (coalesce params (JArr []))]"
    "\<forall>i<length us. transport_failure (snd (tr ! i))"
proof -
  let ?F = "jsonRpcFetchFailover us mt params None"
  obtain cs s1 out where run: "run_p ?F s tr = (cs, s1, out)" by (metis prod_cases3)
  note fr = failover_run [OF run]
  have no_wallet: "CWallet m p \<notin> set cs"
  proof
    assume "CWallet m p \<in> set cs"
    then have "CWallet m p \<in> set (map (\<lambda>u. CFetch u mt params) (take (length cs) us))" using fr(1) by metis
    then show False by auto
  qed
  have "us = [] \<or> (\<exists>w. out = Some (Inl (RpcEndpointsUnavailable w)))"
    using assms no_wallet by (auto simp: serve_from_def run_p_after run split: option.splits sum.splits thrown.splits if_splits)
  then show "fst (run_p (serve_from mt params us) s tr) = map (\<lambda>u. CFetch u mt params) us @ [CWallet mt (coalesce params (JArr []))]"
    "\<forall>i<length us. transport_failure (snd (tr ! i))"
    using fr run_relay [of mt "coalesce params (JArr [])"]
    by (auto simp: serve_from_def run_p_after run case_prod_beta)
qed

lemma endpoint_list_take: "length (take MAX_RPC_FAILOVER_ENDPOINTS us) \<le> 4"
  by (simp add: MAX_RPC_FAILOVER_ENDPOINTS_def)

text \<open>A read reaches the wallet only as its last call, after every endpoint it has tried failed to answer.\<close>

definition wallet_last :: "pconfig \<Rightarrow> string \<Rightarrow> jsval \<Rightarrow> provider \<Rightarrow> (provider \<times> (thrown, jsval) sum) list \<Rightarrow> pcall list \<Rightarrow> bool" where
  "wallet_last c mt params s tr calls \<longleftrightarrow> \<not> pc_rpcProvider c \<and>
     (\<exists>cs. calls = cs @ [CWallet mt (coalesce params (JArr []))] \<and> length cs \<le> 5 \<and>
        (\<forall>i<length cs. \<forall>u m p. cs ! i = CFetch u m p \<longrightarrow> transport_failure (snd (tr ! i))) \<and>
        (let us = known_endpoints c (pv_chainId s) (pv_caps s)
         in us \<noteq> [] \<longrightarrow> cs = map (\<lambda>u. CFetch u mt params) (take MAX_RPC_FAILOVER_ENDPOINTS us)))"

lemma serve_from_wallet_last:
  assumes "CWallet m p \<in> set (fst (run_p (serve_from mt params (take MAX_RPC_FAILOVER_ENDPOINTS us)) s1 tr))" "\<not> pc_rpcProvider c"
    "known_endpoints c (pv_chainId s) (pv_caps s) = [] \<or> us = known_endpoints c (pv_chainId s) (pv_caps s)"
  shows "wallet_last c mt params s tr (fst (run_p (serve_from mt params (take MAX_RPC_FAILOVER_ENDPOINTS us)) s1 tr))"
  using assms(2,3) endpoint_list_take [of us] serve_from_wallet [OF assms(1)]
  by (auto simp: wallet_last_def Let_def)

lemma serveReadOnly_wallet_last:
  assumes "CWallet m p \<in> set (fst (run_p (serveReadOnly c mt params) s tr))"
  shows "wallet_last c mt params s tr (fst (run_p (serveReadOnly c mt params) s tr))"
proof (cases "pc_rpcProvider c")
  case True
  then show ?thesis using assms by (cases tr) (auto simp: serveReadOnly_def case_prod_beta)
next
  case False
  let ?known = "known_endpoints c (pv_chainId s) (pv_caps s)"
  let ?K = "\<lambda>us. serve_from mt params (take MAX_RPC_FAILOVER_ENDPOINTS us)"
  note last = serve_from_wallet_last [of m p mt params _ _ _ c s, OF _ False]
  consider (known) "?known \<noteq> []" | (cached) us where "?known = []" "js_get (pv_rpcUrlCache s) (pv_chainId s) = Some us"
    | (off) "?known = []" "js_get (pv_rpcUrlCache s) (pv_chainId s) = None" "pc_ethereumDataBaseUrl c = []"
    | (lookup) "?known = []" "js_get (pv_rpcUrlCache s) (pv_chainId s) = None" "pc_ethereumDataBaseUrl c \<noteq> []"
    by (cases "js_get (pv_rpcUrlCache s) (pv_chainId s)") auto
  then show ?thesis
  proof cases
    case lookup
    show ?thesis
    proof (cases tr)
      case Nil
      then show ?thesis using assms False lookup by (simp add: serveReadOnly_def resolveEndpoints_def)
    next
      case (Cons a tr1)
      let ?us = "endpoint_list (snd a)"
      have run: "fst (run_p (serveReadOnly c mt params) s tr) = CEndpoints (pv_chainId s) # fst (run_p (?K ?us) (fst a) tr1)"
        using False lookup Cons by (cases a) (simp add: serveReadOnly_def resolveEndpoints_def case_prod_beta)
      then have "CWallet m p \<in> set (fst (run_p (?K ?us) (fst a) tr1))" using assms by simp
      note sf = serve_from_wallet [OF this]
      show ?thesis using False lookup sf endpoint_list_take [of ?us] run Cons
        by (auto simp: wallet_last_def Let_def nth_Cons split: nat.split)
    qed
  qed (use assms False last last [of "[]"] in \<open>auto simp: serveReadOnly_def resolveEndpoints_def Let_def\<close>)
qed

lemma request_calls: "fst (run_p (request_p c mt params) s tr) = fst (run_p (dispatch c mt params) s tr)"
  unfolding request_p_def by (rule run_after_pure) (simp split: sum.split)

lemma getCode_wallet_last:
  assumes "CWallet m p \<in> set (fst (run_p (getCode c params s) s tr))"
  shows "wallet_last c ''eth_getCode'' params s tr (fst (run_p (getCode c params s) s tr))"
proof -
  let ?R = "serveReadOnly c ''eth_getCode'' params"
  have pure: "fst (run_p (case r of Inr (JStr d) \<Rightarrow> if d \<noteq> ''0x'' \<and> 2 < js_length d then PReturn (JStr d) else PReturn code
     | _ \<Rightarrow> PReturn code) s tr) = []" for r :: "(thrown, jsval) sum" and code s tr
    by (auto split: sum.split jsval.split)
  have "route c ''eth_getCode'' params = ?R" by (simp add: route_def READ_ONLY_METHODS_def)
  then have "fst (run_p (getCode c params s) s tr) = [] \<or> fst (run_p (getCode c params s) s tr) = fst (run_p ?R s tr)"
    by (auto simp: getCode_def Let_def run_after_pure [OF pure] split: sum.split)
  then show ?thesis using assms serveReadOnly_wallet_last [of m p c "''eth_getCode''" params s tr] by auto
qed

text \<open>C16. A read of the chain (any of the read-only Ethereum methods) reaches the wallet only as the last call of the
  request, only when the application gave no RPC provider, and only after every endpoint tried before failed without
  an answer; when endpoints are configured or advertised for the session's chain, those calls are exactly the first
  four of them, and there are never more than five calls before the wallet.\<close>

theorem provider_reads_off_wallet:
  assumes "mt \<in> set READ_ONLY_METHODS" "run_p (request_p c mt params) s tr = (calls, out)" "CWallet m p \<in> set calls"
  shows "\<not> pc_rpcProvider c \<and>
    (\<exists>cs. calls = cs @ [CWallet mt (coalesce params (JArr []))] \<and> length cs \<le> 5 \<and>
       (\<forall>i<length cs. \<forall>u m p. cs ! i = CFetch u m p \<longrightarrow> transport_failure (snd (tr ! i))) \<and>
       (known_endpoints c (pv_chainId s) (pv_caps s) \<noteq> [] \<longrightarrow>
          cs = map (\<lambda>u. CFetch u mt params) (take MAX_RPC_FAILOVER_ENDPOINTS (known_endpoints c (pv_chainId s) (pv_caps s)))))"
proof -
  have calls: "calls = fst (run_p (dispatch c mt params) s tr)"
    using assms(2) request_calls [of c mt params s tr] by simp
  have "fst (run_p (dispatch c mt params) s tr) \<in>
    {[], fst (run_p (serveReadOnly c mt params) s tr)} \<or> mt = ''eth_getCode'' \<and> fst (run_p (dispatch c mt params) s tr) = fst (run_p (getCode c params s) s tr)"
    using assms(1) by (auto simp: dispatch_def route_def READ_ONLY_METHODS_def)
  then have "wallet_last c mt params s tr calls"
    using assms(3) calls serveReadOnly_wallet_last [of m p c mt params s tr] getCode_wallet_last [of m p c params s tr] by auto
  then show ?thesis by (simp add: wallet_last_def Let_def)
qed

text \<open>A provider with two configured endpoints for chain 1, both of which fail.\<close>

definition demo_config :: pconfig where
  "demo_config = \<lparr>pc_rpcProvider = False, pc_staticRpcUrls = [(1, [''u'', ''v''])], pc_ethereumDataBaseUrl = [], pc_fraction = (\<lambda>_. [])\<rparr>"

definition demo_provider :: provider where
  "demo_provider = (provider_init None)\<lparr>pv_connected := True\<rparr>"

lemma demo_simps [simp]:
  "pv_chainId demo_provider = Some 1" "pv_accounts demo_provider = []" "\<not> pv_disconnected demo_provider"
  "pv_caps demo_provider = JUndef" "\<not> pc_rpcProvider demo_config"
  by (simp_all add: demo_config_def demo_provider_def provider_init_def)

definition unreachable :: "(thrown, jsval) sum" where
  "unreachable = Inl (Other JUndef (JStr ''fetch failed'') JUndef)"

lemma demo_endpoints: "known_endpoints demo_config (Some 1) JUndef = [''u'', ''v'']"
  by (simp add: known_endpoints_def staticUrls_def demo_config_def walletRpcUrlsForChain_def dedup_def js_get_def js_add_def
    coalesce_def nullish_def truthy_def)

lemma demo_read:
  "run_p (request_p demo_config ''eth_call'' JUndef) demo_provider
     [(demo_provider, unreachable), (demo_provider, unreachable), (demo_provider, Inr (JStr ''ok''))] =
   ([CFetch ''u'' ''eth_call'' JUndef, CFetch ''v'' ''eth_call'' JUndef, CWallet ''eth_call'' (JArr [])], demo_provider, Some (Inr (JStr ''ok'')))"
  by (simp add: request_p_def dispatch_def route_def READ_ONLY_METHODS_def serveReadOnly_def resolveEndpoints_def demo_endpoints
      serve_from_def MAX_RPC_FAILOVER_ENDPOINTS_def unreachable_def definitive_def error_fields_def relay_to_wallet_def settle_prog_def
      coalesce_def nullish_def)

theorem provider_reads_off_wallet_witness:
  "\<not> pc_rpcProvider demo_config \<and>
   (\<exists>cs. [CFetch ''u'' ''eth_call'' JUndef, CFetch ''v'' ''eth_call'' JUndef, CWallet ''eth_call'' (JArr [])] =
      cs @ [CWallet ''eth_call'' (JArr [])] \<and> length cs \<le> 5)"
  using provider_reads_off_wallet [OF _ demo_read, of "''eth_call''" "JArr []"]
  by (auto simp: READ_ONLY_METHODS_def coalesce_def nullish_def)

subsection \<open>Every request settles\<close>

lemma serve_from_at_most: "calls_at_most (serve_from mt params (take MAX_RPC_FAILOVER_ENDPOINTS us)) 5"
proof -
  let ?us = "take MAX_RPC_FAILOVER_ENDPOINTS us"
  have relay: "calls_at_most (relay_to_wallet mt params) 1" for mt params
    by (auto simp: relay_to_wallet_def settle_prog_def split: sum.split)
  let ?k = "\<lambda>r. case r of Inr v \<Rightarrow> PReturn v
    | Inl e \<Rightarrow> (case e of RpcEndpointsUnavailable _ \<Rightarrow> relay_to_wallet mt (coalesce params (JArr [])) | _ \<Rightarrow> PThrow e)"
  have "calls_at_most (?k r) 1" for r using relay by (auto split: sum.split thrown.split)
  then have "calls_at_most (after (jsonRpcFetchFailover ?us mt params None) ?k) (length ?us + 1)"
    by (rule calls_at_most_after [OF failover_calls])
  then have "calls_at_most (serve_from mt params ?us) (length ?us + 1)"
    using calls_at_most_mono [OF relay] by (simp add: serve_from_def)
  then show ?thesis by (rule calls_at_most_mono) (use endpoint_list_take [of us] in simp)
qed

lemma serveReadOnly_at_most: "calls_at_most (serveReadOnly c mt params) 6"
  using serve_from_at_most [of mt params] calls_at_most_mono [OF serve_from_at_most, of 6 mt params]
    calls_at_most_mono [OF serve_from_at_most [of mt params "[]"], of 6]
  by (auto simp: serveReadOnly_def resolveEndpoints_def Let_def split: option.split)

lemma route_at_most: "calls_at_most (route c mt params) 6"
  using serveReadOnly_at_most [of c mt params]
  by (auto simp: route_def relay_to_wallet_def relay_mapped_def finish_def split: sum.split option.split prod.split)

lemma getCode_at_most: "calls_at_most (getCode c params s) 6"
proof -
  have "calls_at_most (after (serveReadOnly c ''eth_getCode'' params) k) 6" if "\<And>r. calls_at_most (k r) 0" for k
    using calls_at_most_after [OF serveReadOnly_at_most, of k 0] that by simp
  then show ?thesis using route_at_most [of c "''eth_getCode''" params]
    by (auto simp: getCode_def Let_def split: sum.split jsval.split)
qed

text \<open>C17. Every request of an application settles: whatever the method, the parameters, the state of the provider
  and the answers, and however other requests and events change the provider in between, the request has returned or
  thrown after at most six calls have been answered.\<close>

theorem provider_request_settles:
  assumes "6 \<le> length tr"
  shows "(\<exists>r. snd (snd (run_p (request_p c mt params) s tr)) = Some r) \<and> length (fst (run_p (request_p c mt params) s tr)) \<le> 6"
proof -
  have "calls_at_most (dispatch c mt params) 6"
    using route_at_most [of c mt params] getCode_at_most by (auto simp: dispatch_def)
  then have "calls_at_most (request_p c mt params) (6 + 0)"
    unfolding request_p_def by (rule calls_at_most_after) (simp split: sum.split)
  then have "calls_at_most (request_p c mt params) 6" by simp
  then show ?thesis
    using assms calls_at_most_settles [of "request_p c mt params" 6 tr s] calls_at_most_length [of "request_p c mt params" 6 s tr] by simp
qed

theorem provider_request_settles_witness:
  "\<exists>r. snd (snd (run_p (request_p demo_config ''eth_call'' JUndef) demo_provider (replicate 6 (demo_provider, unreachable)))) = Some r"
  using provider_request_settles [of "replicate 6 (demo_provider, unreachable)"] by simp

subsection \<open>Chains\<close>

lemma hex_digits_hex: "list_all (\<lambda>c. hex_val c \<noteq> None) (hex_digits n)"
  by (induction n rule: hex_digits.induct) (subst hex_digits.simps, auto simp: hex_val_digit)

lemma hex_digits_nonempty [simp]: "hex_digits n \<noteq> []"
  by (subst hex_digits.simps) simp

lemma hex_digits_value: "fold (\<lambda>c k. k * 16 + int (the (hex_val c))) (hex_digits n) 0 = int n"
proof (induction n rule: hex_digits.induct)
  case (1 n)
  then show ?case by (subst hex_digits.simps) (auto simp: hex_val_digit zdiv_int zmod_int)
qed

lemma parseInt16_hex: "parseInt16 (''0x'' @ hex_digits n) = Some (int n)"
proof -
  have ts: "trimStart (''0x'' @ hex_digits n) = ''0x'' @ hex_digits n" by (rule trimStart_id) simp
  have tw: "takeWhile (\<lambda>c. hex_val c \<noteq> None) (hex_digits n) = hex_digits n"
    using hex_digits_hex [of n] by (auto simp: list_all_iff)
  show ?thesis using ts by (simp add: parseInt16_def hex_prefix_def hex_digits_value Let_def tw del: not_None_eq)
qed

lemma hex_chain_nat: "0 \<le> n \<Longrightarrow> hex_chain c (Some (of_int n)) = ''0x'' @ hex_digits (nat n)"
  by (simp add: hex_chain_def toString16_def)


lemma finish_calls [simp]: "fst (run_p (finish c mt params v) s tr) = []"
  by (auto simp: finish_def split: sum.split)


text \<open>The methods that go to the wallet under another name.\<close>

lemma dispatch_wallet:
  "mt \<in> set WALLET_METHODS \<Longrightarrow> \<not> pv_disconnected s \<Longrightarrow> mt = ''eth_accounts'' \<longrightarrow> pv_accounts s = [] \<Longrightarrow>
   run_p (dispatch c mt params) s tr = run_p (relay_mapped c mt params) s tr"
proof -
  have "list_all (\<lambda>m. m \<notin> set (READ_ONLY_METHODS @ LOCAL_METHODS @ [''eth_sign'', ''eth_getCode''])) WALLET_METHODS" by code_simp
  moreover assume "mt \<in> set WALLET_METHODS" "\<not> pv_disconnected s" "mt = ''eth_accounts'' \<longrightarrow> pv_accounts s = []"
  ultimately show ?thesis
    by (auto simp: dispatch_def route_def LOCAL_METHODS_def list_all_iff)
qed

lemma jget_set [simp]: "jget (JObj (js_set ps k v)) k' = (if k' = k then v else jget (JObj ps) k')"
  by (simp add: jget_def)




text \<open>C37. A chain switch the wallet accepts is visible at once: the wallet is asked for the chain by its CAIP-2 name,
  the provider's chain is the requested one when the request returns, \<^verbatim>\<open>eth_chainId\<close> answers with it without a call,
  \<^verbatim>\<open>chainChanged\<close> is emitted exactly when the chain was another one before, and the wallet's own event for the same
  chain changes nothing and emits nothing.\<close>

theorem provider_switch_visible:
  assumes "\<not> pv_disconnected s" "0 \<le> n"
  defines "hex \<equiv> ''0x'' @ hex_digits (nat n)"
  shows "\<exists>s2. run_p (request_p c ''wallet_switchEthereumChain'' (JArr [JObj [(''chainId'', JStr hex)]])) s ((s1, Inr v) # tr) =
      ([CWallet ''wallet_switchChain'' (JObj [(''chain'', JStr (''eip155:'' @ num_text (Some (of_int n))))])], s2, Some (Inr v)) \<and>
    s2 = s1\<lparr>pv_chainId := Some (of_int n), pv_out := pv_out s1 @ (if pv_chainId s1 = Some (of_int n) then [] else [PChainChanged hex])\<rparr> \<and>
    (\<not> pv_disconnected s2 \<longrightarrow> run_p (request_p c ''eth_chainId'' params) s2 tr2 = ([], s2, Some (Inr (JStr hex)))) \<and>
    onEvent c ''chainChanged'' (JObj [(''chainId'', JStr (evmChainId n))]) s2 = Some s2"
proof -
  let ?params = "JArr [JObj [(''chainId'', JStr hex)]]"
  let ?chain = "JStr (''eip155:'' @ num_text (Some (of_int n)))"
  let ?s2 = "s1\<lparr>pv_chainId := Some (of_int n), pv_out := pv_out s1 @ (if pv_chainId s1 = Some (of_int n) then [] else [PChainChanged hex])\<rparr>"
  have parse: "parseInt16 hex = Some n" using parseInt16_hex [of "nat n"] assms(2) by (simp add: hex_def)
  have hex: "hex_chain c (Some (of_int n)) = hex" using assms(2) by (simp add: hex_chain_nat hex_def)
  have wallet: "''wallet_switchEthereumChain'' \<in> set WALLET_METHODS" by (simp add: WALLET_METHODS_def)
  have "truthy (JStr hex)" by (simp add: truthy_def hex_def)
  then have req: "mapRequest ''wallet_switchEthereumChain'' ?params = Inr (Some (''wallet_switchChain'', JObj [(''chain'', ?chain)]))"
    and target: "switch_target ?params = Some n"
    using parse by (simp_all add: mapRequest_def Let_def jindex_def hexChainToCaip2_def switch_target_def)
  have inject: "inject_chain c ch ''wallet_switchChain'' p = p" for ch p
    by (simp add: inject_chain_def chainRequiredMethods_def split: jsval.split)
  have "mapResponse ''wallet_switchEthereumChain'' v = Inr v" by (simp add: mapResponse_def)
  then have fin: "run_p (finish c ''wallet_switchEthereumChain'' ?params v) s1 tr = ([], ?s2, Some (Inr v))"
    using target hex by (auto simp: finish_def setChain_def num_differs_def emit_p_def)
  have "run_p (dispatch c ''wallet_switchEthereumChain'' ?params) s ((s1, Inr v) # tr) =
      ([CWallet ''wallet_switchChain'' (JObj [(''chain'', ?chain)])], ?s2, Some (Inr v))"
    using dispatch_wallet [OF wallet assms(1)] req fin inject by (simp add: relay_mapped_def)
  then have run: "run_p (request_p c ''wallet_switchEthereumChain'' ?params) s ((s1, Inr v) # tr) =
      ([CWallet ''wallet_switchChain'' (JObj [(''chain'', ?chain)])], ?s2, Some (Inr v))"
    by (simp add: request_p_def run_p_after)
  have local: "\<not> pv_disconnected ?s2 \<longrightarrow> run_p (request_p c ''eth_chainId'' params) ?s2 tr2 = ([], ?s2, Some (Inr (JStr hex)))"
    using hex by (simp add: request_p_def dispatch_def)
  have "starts_with (evmChainId n) ''eip155:''" by (simp add: evmChainId_def)
  then have "onEvent c ''chainChanged'' (JObj [(''chainId'', JStr (evmChainId n))]) ?s2 = Some ?s2"
    using evm_chain_roundtrip [of n] hex
    by (simp add: onEvent_def onChainChanged_def event_chain_def coalesce_def nullish_def setChain_def num_differs_def)
  with run local show ?thesis by blast
qed

theorem provider_switch_visible_witness:
  "\<exists>s2. run_p (request_p demo_config ''wallet_switchEthereumChain'' (JArr [JObj [(''chainId'', JStr (''0x'' @ hex_digits (nat 137)))]])) demo_provider
      [(demo_provider, Inr JNull)] =
    ([CWallet ''wallet_switchChain'' (JObj [(''chain'', JStr (''eip155:'' @ num_text (Some (of_int 137))))])], s2, Some (Inr JNull)) \<and>
    pv_chainId s2 = Some 137"
  using provider_switch_visible [of demo_provider 137 demo_config demo_provider JNull "[]"] by fastforce

subsection \<open>Errors\<close>

lemma decimal_code_int: "decimal_code (int_to_string i) = Some (of_int i)"
proof (cases "i < 0")
  case True
  then show ?thesis using dec_digits_digits [of "nat (- i)"] digits_val_dec [of "nat (- i)"]
    by (simp add: decimal_code_def int_to_string_def)
next
  case False
  moreover have "hd (dec_digits (nat i)) \<noteq> CHR ''-''" using hd_dec_digits_not_minus [of "nat i" "[]"] by simp
  ultimately show ?thesis using dec_digits_digits [of "nat i"] digits_val_dec [of "nat i"]
    by (simp add: decimal_code_def int_to_string_def)
qed

lemma request_rejected:
  assumes "mt \<in> set WALLET_METHODS" "\<not> pv_disconnected s" "mt = ''eth_accounts'' \<longrightarrow> pv_accounts s = []"
    "mapRequest mt params = Inr (Some (m, p))"
  shows "run_p (request_p c mt params) s ((s1, Inl e) # tr) =
    ([CWallet m (inject_chain c (pv_chainId s) m p)], s1, Some (Inl (ProviderRpcError (toProviderRpcError e))))"
  using dispatch_wallet [OF assms(1,2,3), of c params "(s1, Inl e) # tr"] assms(4)
  by (simp add: request_p_def run_p_after relay_mapped_def)

text \<open>C38. What the wallet rejects a request with reaches the application as an EIP-1193 error with a number: a number
  the wallet wrote as a decimal text keeps its value, a user's rejection is 4001, any other text that is no code of
  the protocol is the internal error, and the message and the data are the wallet's.\<close>

theorem provider_rejection_code:
  fixes c :: pconfig and s s1 :: provider and data :: jsval and tr :: "(provider \<times> (thrown, jsval) sum) list"
  assumes "mt \<in> set WALLET_METHODS" "\<not> pv_disconnected s" "mt = ''eth_accounts'' \<longrightarrow> pv_accounts s = []"
    "mapRequest mt params = Inr (Some (m, p))" "msg \<noteq> []"
  defines "outcome \<equiv> \<lambda>code. snd (snd (run_p (request_p c mt params) s ((s1, Inl (Other (JStr code) (JStr msg) data)) # tr)))"
  defines "failed \<equiv> \<lambda>n. Some (Inl (ProviderRpcError \<lparr>pe_code = n, pe_message = msg, pe_data = data\<rparr>))"
  shows "outcome (int_to_string i) = failed (of_int i) \<and> outcome ''user_rejected'' = failed 4001 \<and>
    outcome ''unauthorized'' = failed 4100 \<and> outcome ''unsupported_chain'' = failed 4902 \<and>
    outcome ''timeout'' = failed (- 32603)"
proof -
  have "outcome code = Some (Inl (ProviderRpcError (toProviderRpcError (Other (JStr code) (JStr msg) data))))" for code
    using request_rejected [OF assms(1-4), of c s1] by (simp add: outcome_def)
  moreover have "decimal_code ''user_rejected'' = None" "decimal_code ''unauthorized'' = None"
    "decimal_code ''unsupported_chain'' = None" "decimal_code ''timeout'' = None"
    by (simp_all add: decimal_code_def is_digit_def)
  ultimately show ?thesis using assms(5)
    by (simp add: failed_def toProviderRpcError_def error_fields_def decimal_code_int walletPairCodeToRpcCode_def
        USER_REJECTED_def UNAUTHORIZED_def UNRECOGNIZED_CHAIN_def INTERNAL_ERROR_def)
qed

theorem provider_rejection_code_witness:
  "snd (snd (run_p (request_p demo_config ''eth_requestAccounts'' JUndef) demo_provider
     [(demo_provider, Inl (Other (JStr ''user_rejected'') (JStr ''no'') JUndef))])) =
   Some (Inl (ProviderRpcError \<lparr>pe_code = 4001, pe_message = ''no'', pe_data = JUndef\<rparr>))"
  using provider_rejection_code [where mt = "''eth_requestAccounts''" and s = demo_provider and params = JUndef
      and m = "''wallet_getAccounts''" and p = JUndef and msg = "''no''" and c = demo_config and ?s1.0 = demo_provider
      and data = JUndef and tr = "[]" and i = 0]
  by (simp add: WALLET_METHODS_def mapRequest_def)

end
