(* ===== verification/Ext_Storage.thy ===== *)
theory Ext_Storage
  imports Evm_Mapper
begin

text \<open>
  \<^verbatim>\<open>walletpair-extension/src/lib/storage.ts\<close>: what the browser extension keeps in \<^verbatim>\<open>chrome.storage.local\<close>, the permissions of
  the origins and the activity log.  The updates of permissions and of the log are serialised by a lock each; they are
  entries of a queue here and an entry takes effect as a whole.
\<close>

subsection \<open>Data\<close>

text \<open>\<^verbatim>\<open>ConnectedWallet\<close>.  A chain is \<open>None\<close> for null, \<open>Some None\<close> for \<^verbatim>\<open>NaN\<close>.\<close>

record cwallet =
  cw_address :: jsval
  cw_chainId :: "int option option"
  cw_name :: jsval
  cw_icon :: jsval

record permission =
  pm_origin :: string
  pm_granted :: bool
  pm_grantedAt :: int

datatype category = CRead | CSign | CTx | CAuth | CLocal

datatype astatus = APending | ASuccess | ARejected | AError

record activity_entry =
  ac_id :: string
  ac_timestamp :: int
  ac_origin :: string
  ac_method :: string
  ac_category :: category
  ac_status :: astatus
  ac_params :: jsval
  ac_result :: jsval
  ac_error :: jsval

record extstore =
  st_settings :: jsval
  st_sessionState :: "string option"
  st_connectedWallet :: "cwallet option"
  st_permissions :: "(string, permission) jsmap"
  st_connectedAt :: "int option"
  st_activity :: "activity_entry list"

definition store_init :: extstore where
  "store_init = \<lparr>st_settings = JUndef, st_sessionState = None, st_connectedWallet = None, st_permissions = [], st_connectedAt = None,
     st_activity = []\<rparr>"

subsection \<open>Settings and session\<close>

definition DEFAULT_RELAY_URL :: string where "DEFAULT_RELAY_URL = ''wss://relay.walletpair.org/v1''"

definition settings_defaults :: "(string, jsval) jsmap" where
  "settings_defaults = [(''relayUrl'', JStr DEFAULT_RELAY_URL), (''autoConnect'', JBool True), (''rpcUrls'', JObj [])]"

text \<open>\<^verbatim>\<open>{ ...a, ...b }\<close>\<close>

definition spread_onto :: "(string, jsval) jsmap \<Rightarrow> jsval \<Rightarrow> (string, jsval) jsmap" where
  "spread_onto a b = fold (\<lambda>(k, v) m. js_set m k v) (own_props b) a"

definition getSettings :: "extstore \<Rightarrow> jsval" where
  "getSettings st = JObj (spread_onto settings_defaults (st_settings st))"

definition saveSettings :: "jsval \<Rightarrow> extstore \<Rightarrow> extstore" where
  "saveSettings settings st = st\<lparr>st_settings := JObj (spread_onto (own_props (getSettings st)) settings)\<rparr>"

definition saveSessionState :: "string option \<Rightarrow> extstore \<Rightarrow> extstore" where
  "saveSessionState state st = st\<lparr>st_sessionState := (if state = Some [] then None else state)\<rparr>"

text \<open>The store keeps JSON, in which \<^verbatim>\<open>NaN\<close> becomes null.\<close>

definition saveConnectedWallet :: "cwallet option \<Rightarrow> extstore \<Rightarrow> extstore" where
  "saveConnectedWallet wallet st =
     st\<lparr>st_connectedWallet := map_option (\<lambda>w. w\<lparr>cw_chainId := (case cw_chainId w of Some None \<Rightarrow> None | c \<Rightarrow> c)\<rparr>) wallet\<rparr>"

definition saveConnectedAt :: "int option \<Rightarrow> extstore \<Rightarrow> extstore" where
  "saveConnectedAt ts st = st\<lparr>st_connectedAt := (if ts = Some 0 then None else ts)\<rparr>"

subsection \<open>Permissions\<close>

definition grantPermission :: "int \<Rightarrow> string \<Rightarrow> extstore \<Rightarrow> extstore" where
  "grantPermission now origin st =
     st\<lparr>st_permissions := js_set (st_permissions st) origin \<lparr>pm_origin = origin, pm_granted = True, pm_grantedAt = now\<rparr>\<rparr>"

definition revokePermission :: "string \<Rightarrow> extstore \<Rightarrow> extstore" where
  "revokePermission origin st = st\<lparr>st_permissions := js_delete (st_permissions st) origin\<rparr>"

definition isPermitted :: "string \<Rightarrow> extstore \<Rightarrow> bool" where
  "isPermitted origin st = (case js_get (st_permissions st) origin of Some p \<Rightarrow> pm_granted p | None \<Rightarrow> False)"

subsection \<open>Activity log\<close>

definition MAX_ACTIVITY :: nat where "MAX_ACTIVITY = 50"

definition addActivityEntry :: "activity_entry \<Rightarrow> extstore \<Rightarrow> extstore" where
  "addActivityEntry entry st = st\<lparr>st_activity := take MAX_ACTIVITY (entry # st_activity st)\<rparr>"

fun update_entry :: "string \<Rightarrow> (activity_entry \<Rightarrow> activity_entry) \<Rightarrow> activity_entry list \<Rightarrow> activity_entry list" where
  "update_entry i f [] = []"
| "update_entry i f (e # es) = (if ac_id e = i then f e # es else e # update_entry i f es)"

text \<open>\<open>response\<close> is the answer \<^verbatim>\<open>{ result?, error? }\<close>.\<close>

definition updateActivityStatus :: "string \<Rightarrow> astatus \<Rightarrow> jsval \<Rightarrow> extstore \<Rightarrow> extstore" where
  "updateActivityStatus i status response st =
     st\<lparr>st_activity := update_entry i (\<lambda>e.
          (let e = e\<lparr>ac_status := status\<rparr>;
               e = (if jget response ''result'' \<noteq> JUndef then e\<lparr>ac_result := jget response ''result''\<rparr> else e)
           in if truthy (jget response ''error'') then e\<lparr>ac_error := jget response ''error''\<rparr> else e))
        (st_activity st)\<rparr>"

definition clearActivityLog :: "extstore \<Rightarrow> extstore" where
  "clearActivityLog st = st\<lparr>st_activity := []\<rparr>"

text \<open>The entries of the two lock queues.\<close>

datatype permop = OGrant string | ORevoke string

datatype actop = OAdd activity_entry | OUpdate string astatus jsval

definition run_permop :: "int \<Rightarrow> permop \<Rightarrow> extstore \<Rightarrow> extstore" where
  "run_permop now op st = (case op of OGrant o' \<Rightarrow> grantPermission now o' st | ORevoke o' \<Rightarrow> revokePermission o' st)"

definition run_actop :: "actop \<Rightarrow> extstore \<Rightarrow> extstore" where
  "run_actop op st = (case op of OAdd e \<Rightarrow> addActivityEntry e st | OUpdate i status response \<Rightarrow> updateActivityStatus i status response st)"

subsection \<open>Facts\<close>

lemma isPermitted_grant [simp]: "isPermitted origin (grantPermission now o' st) = (origin = o' \<or> isPermitted origin st)"
  by (simp add: isPermitted_def grantPermission_def)

lemma length_update_entry [simp]: "length (update_entry i f es) = length es"
  by (induction es) auto

lemma activity_bounded: "length (st_activity st) \<le> MAX_ACTIVITY \<Longrightarrow> length (st_activity (run_actop op st)) \<le> MAX_ACTIVITY"
  by (cases op) (auto simp: run_actop_def addActivityEntry_def updateActivityStatus_def)

end
