(* ===== verification/Ext_Background.thy ===== *)
theory Ext_Background
  imports Ext_Storage Evm_Provider
begin

text \<open>
  \<^verbatim>\<open>walletpair-extension/src/entrypoints/background.ts\<close>, the service worker of the browser extension, with
  \<^verbatim>\<open>lib/rpc-proxy.ts\<close> and \<^verbatim>\<open>lib/protocols/ethereum/rpc-proxy.ts\<close>.  The module variables are the record \<open>bg\<close>; every
  asynchronous function is a program.  The session and its provider are the environment: the record keeps the
  session's phase and the events reach the listeners the code attaches.  A value of the store is read when
  the read is answered.
\<close>

subsection \<open>State\<close>

record estate =
  es_phase :: string
  es_pairingUri :: jsval
  es_sessionFingerprint :: jsval
  es_wallet :: "cwallet option"
  es_walletMeta :: jsval
  es_signing :: "(string \<times> string) option"

text \<open>A deferred request; \<open>df_key\<close> names the promise its \<^verbatim>\<open>resolve\<close> belongs to and its timer.\<close>

record deferred =
  df_id :: string
  df_method :: string
  df_params :: jsval
  df_origin :: "string option"
  df_key :: nat

datatype bcall =
    BStorage                             \<comment> \<open>a read of \<^verbatim>\<open>chrome.storage.local\<close>\<close>
  | BCreatePairing | BRestore string | BReconnect
  | BWallet string jsval                 \<comment> \<open>\<^verbatim>\<open>evmProvider.request\<close>\<close>
  | BFetch string string jsval           \<comment> \<open>the HTTP exchange of \<^verbatim>\<open>rpcFetch\<close>\<close>
  | BDirectory "int option"              \<comment> \<open>the list of endpoints of a chain\<close>
  | BAny "string list"                   \<comment> \<open>\<^verbatim>\<open>Promise.any\<close> over a batch of endpoints\<close>
  | BDeferred nat "string option"

datatype beff =
    EReply nat jsval                     \<comment> \<open>the answer to a request of a page\<close>
  | EPost int string string jsval        \<comment> \<open>an event posted to a tab of an origin\<close>
  | EWallet "string option" string jsval \<comment> \<open>a request handed to the wallet's provider for an origin\<close>
  | EAnswer "string option"              \<comment> \<open>the wallet answered an account request for an origin\<close>
  | ESession | EDestroy | EClose | EPing | EAcceptWallet | ERejectWallet | EOpenPanel

text \<open>Who waits for a program: a page behind a port or behind a message, the promise of a deferred request, or nobody.\<close>

datatype btarget = TPage | TMessage | TDeferred nat | TNobody

record bg =
  b_now :: int
  b_session :: "dphase option"
  b_sessionMeta :: jsval
  b_listening :: bool
  b_state :: estate
  b_wallet :: "cwallet option"
  b_pairing :: bool
  b_rpcUrls :: jsval
  b_eip5792 :: jsval
  b_bytecode :: jsval
  b_attempt :: nat
  b_timer :: "int option"
  b_reconnecting :: bool
  b_deferred :: "deferred list"
  b_timers :: "(nat \<times> string) list"
  b_ports :: "(int, string option) jsmap"
  b_alarm :: bool
  b_fallback :: "(int option, string \<times> int) jsmap"
  b_store :: extstore
  b_permq :: "permop list"
  b_actq :: "actop list"
  b_deliver :: "(int \<times> string \<times> string \<times> jsval) list"
  b_resolved :: "(nat \<times> string option \<times> jsval) list"
  b_out :: "beff list"

type_synonym bprog = "(bg, bcall, thrown, jsval) prog"

definition estate_init :: estate where
  "estate_init = \<lparr>es_phase = ''idle'', es_pairingUri = JUndef, es_sessionFingerprint = JUndef, es_wallet = None, es_walletMeta = JUndef,
     es_signing = None\<rparr>"

text \<open>The worker as it starts, with what the store holds.\<close>

definition bg_start :: "extstore \<Rightarrow> beff list \<Rightarrow> bg" where
  "bg_start st out = \<lparr>b_now = 0, b_session = None, b_sessionMeta = JUndef, b_listening = False, b_state = estate_init, b_wallet = None,
     b_pairing = False, b_rpcUrls = JObj [], b_eip5792 = JObj [], b_bytecode = JNull, b_attempt = 0, b_timer = None,
     b_reconnecting = False, b_deferred = [], b_timers = [], b_ports = [], b_alarm = False, b_fallback = [], b_store = st,
     b_permq = [], b_actq = [], b_deliver = [], b_resolved = [], b_out = out\<rparr>"

definition emit_b :: "beff \<Rightarrow> bg \<Rightarrow> bg" where
  "emit_b e s = s\<lparr>b_out := b_out s @ [e]\<rparr>"

definition store_b :: "(extstore \<Rightarrow> extstore) \<Rightarrow> bg \<Rightarrow> bg" where
  "store_b f s = s\<lparr>b_store := f (b_store s)\<rparr>"

definition state_b :: "(estate \<Rightarrow> estate) \<Rightarrow> bg \<Rightarrow> bg" where
  "state_b f s = s\<lparr>b_state := f (b_state s)\<rparr>"

text \<open>The calls that are not awaited: they join the queue of their lock.\<close>

definition grant_b :: "string option \<Rightarrow> bg \<Rightarrow> bg" where
  "grant_b origin s = (case origin of Some u \<Rightarrow> if u \<noteq> [] then s\<lparr>b_permq := b_permq s @ [OGrant u]\<rparr> else s | None \<Rightarrow> s)"

definition log_b :: "bool \<Rightarrow> actop \<Rightarrow> bg \<Rightarrow> bg" where
  "log_b shouldLog op s = (if shouldLog then s\<lparr>b_actq := b_actq s @ [op]\<rparr> else s)"

text \<open>\<^verbatim>\<open>broadcastEvent\<close>: one check of the permission per tab whose origin is known, answered later.\<close>

definition broadcastEvent :: "string \<Rightarrow> jsval \<Rightarrow> bg \<Rightarrow> bg" where
  "broadcastEvent event data s =
     s\<lparr>b_deliver := b_deliver s @
        concat (map (\<lambda>(tab, origin). case origin of Some u \<Rightarrow> if u \<noteq> [] then [(tab, u, event, data)] else [] | None \<Rightarrow> []) (b_ports s))\<rparr>"

subsection \<open>Deferred requests\<close>

definition result_of :: "jsval \<Rightarrow> jsval" where
  "result_of v = JObj [(''result'', v)]"

definition error_of :: "rat \<Rightarrow> string \<Rightarrow> jsval" where
  "error_of code message = JObj [(''error'', JObj [(''code'', JNum code), (''message'', JStr message)])]"

text \<open>\<^verbatim>\<open>{ code: err.code ?? -32603, message: err.message ?? d }\<close>\<close>

definition caught :: "string \<Rightarrow> thrown \<Rightarrow> jsval" where
  "caught d e = (case error_fields e of (code, message, _) \<Rightarrow>
     JObj [(''error'', JObj [(''code'', coalesce code (JNum (- 32603))), (''message'', coalesce message (JStr d))])])"

definition resolve_deferred :: "deferred \<Rightarrow> jsval \<Rightarrow> bg \<Rightarrow> bg" where
  "resolve_deferred d response s = s\<lparr>b_resolved := b_resolved s @ [(df_key d, df_origin d, response)]\<rparr>"

definition clear_timer :: "nat \<Rightarrow> bg \<Rightarrow> bg" where
  "clear_timer k s = s\<lparr>b_timers := filter (\<lambda>t. fst t \<noteq> k) (b_timers s)\<rparr>"

definition rejectAllDeferred :: "rat \<Rightarrow> string \<Rightarrow> bg \<Rightarrow> bg" where
  "rejectAllDeferred code message s =
     (fold (\<lambda>d s. resolve_deferred d (error_of code message) (clear_timer (df_key d) s)) (b_deferred s) s)\<lparr>b_deferred := []\<rparr>"

definition addDeferredRequest :: "deferred \<Rightarrow> bg \<Rightarrow> bg" where
  "addDeferredRequest d s = s\<lparr>b_deferred := b_deferred s @ [d], b_timers := b_timers s @ [(df_key d, df_id d)]\<rparr>"

text \<open>The timer of a deferred request: it takes the first entry that has its id.\<close>

definition deferredTimeout :: "nat \<Rightarrow> bg \<Rightarrow> bg" where
  "deferredTimeout k s = (case map_of (b_timers s) k of
     None \<Rightarrow> s
   | Some i \<Rightarrow>
       (let s = clear_timer k s in
        case List.extract (\<lambda>d. df_id d = i) (b_deferred s) of
          None \<Rightarrow> s
        | Some (xs, d, ys) \<Rightarrow>
            resolve_deferred d (error_of 4001 ''Request timed out waiting for wallet pairing'') (s\<lparr>b_deferred := xs @ ys\<rparr>)))"

subsection \<open>Sessions\<close>

definition RECONNECT_BASE_MS :: int where "RECONNECT_BASE_MS = 1000"
definition RECONNECT_MAX_MS :: int where "RECONNECT_MAX_MS = 30000"
definition SESSION_MAX_AGE_MS :: int where "SESSION_MAX_AGE_MS = 24 * 60 * 60 * 1000"

definition scheduleReconnect :: "bg \<Rightarrow> bg" where
  "scheduleReconnect s =
     (if b_timer s \<noteq> None then s
      else s\<lparr>b_attempt := b_attempt s + 1, b_timer := Some (min (RECONNECT_BASE_MS * 2 ^ b_attempt s) RECONNECT_MAX_MS)\<rparr>)"

definition resetReconnectBackoff :: "bg \<Rightarrow> bg" where
  "resetReconnectBackoff s = s\<lparr>b_attempt := 0, b_timer := None\<rparr>"

definition clear_saved :: "extstore \<Rightarrow> extstore" where
  "clear_saved st = saveConnectedAt None (saveConnectedWallet None (saveSessionState None st))"

definition handleSessionClosed :: "bg \<Rightarrow> bg" where
  "handleSessionClosed s =
     (let s = s\<lparr>b_pairing := False, b_rpcUrls := JObj [], b_eip5792 := JObj [], b_bytecode := JNull\<rparr>;
          s = rejectAllDeferred 4001 ''Session closed'' s;
          s = state_b (\<lambda>e. e\<lparr>es_phase := ''idle'', es_pairingUri := JUndef, es_sessionFingerprint := JUndef, es_wallet := None,
                es_walletMeta := JUndef\<rparr>) (s\<lparr>b_alarm := False\<rparr>);
          s = store_b clear_saved (s\<lparr>b_wallet := None\<rparr>)
      in broadcastEvent ''disconnect'' JUndef s)"

text \<open>A new session object with its provider and listeners; the old one is destroyed first only by \<^verbatim>\<open>createSession\<close>.\<close>

definition new_session :: "bool \<Rightarrow> bg \<Rightarrow> bg" where
  "new_session destroy s =
     (let s = (if destroy \<and> b_session s \<noteq> None then emit_b EDestroy s else s)
      in (emit_b ESession s)\<lparr>b_session := Some DIdle, b_sessionMeta := JUndef, b_listening := True\<rparr>)"

definition await_store :: "(bg \<Rightarrow> bprog) \<Rightarrow> bprog" where
  "await_store k = PAwait BStorage (\<lambda>r. case r of Inl e \<Rightarrow> PThrow e | Inr _ \<Rightarrow> PRead k)"

definition createSession :: bprog where
  "createSession = await_store (\<lambda>_.
     PWrite (new_session True) (PAwait BCreatePairing (\<lambda>r. case r of Inl e \<Rightarrow> PThrow e | Inr _ \<Rightarrow> PReturn JUndef)))"

definition reconnect_saved :: "string \<Rightarrow> bprog" where
  "reconnect_saved saved = await_store (\<lambda>_.
     PWrite (new_session False) (PAwait (BRestore saved) (\<lambda>r. case r of
       Inl e \<Rightarrow> PThrow e
     | Inr ok \<Rightarrow>
         if \<not> truthy ok then PReturn (JBool False)
         else PAwait BReconnect (\<lambda>r. case r of
             Inl e \<Rightarrow> PThrow e
           | Inr _ \<Rightarrow> await_store (\<lambda>s. case st_connectedWallet (b_store s) of
                 None \<Rightarrow> PReturn (JBool True)
               | Some w \<Rightarrow>
                   PWrite (\<lambda>s. broadcastEvent ''accountsChanged'' (JArr [cw_address w])
                      (state_b (\<lambda>e. e\<lparr>es_wallet := Some w\<rparr>) (s\<lparr>b_wallet := Some w\<rparr>)))
                   (PReturn (JBool True)))))))"

definition expired :: "bg \<Rightarrow> bool" where
  "expired s = (case st_connectedAt (b_store s) of Some t \<Rightarrow> SESSION_MAX_AGE_MS < b_now s - t | None \<Rightarrow> False)"

definition doTryReconnect :: bprog where
  "doTryReconnect = await_store (\<lambda>s. case st_sessionState (b_store s) of
     None \<Rightarrow> PReturn (JBool False)
   | Some saved \<Rightarrow> await_store (\<lambda>s.
       if expired s then PWrite (store_b clear_saved) (PReturn (JBool False))
       else after (reconnect_saved saved) (\<lambda>r. case r of Inl _ \<Rightarrow> PReturn (JBool False) | Inr v \<Rightarrow> PReturn v)))"

definition tryReconnect :: bprog where
  "tryReconnect = PRead (\<lambda>s.
     if b_reconnecting s then PReturn (JBool False)
     else PWrite (\<lambda>s. s\<lparr>b_reconnecting := True\<rparr>) (after doTryReconnect (\<lambda>r. PWrite (\<lambda>s. s\<lparr>b_reconnecting := False\<rparr>) (settle_prog r))))"

text \<open>The timer of \<^verbatim>\<open>scheduleReconnect\<close>\<close>

definition reconnectTimer :: bprog where
  "reconnectTimer = PWrite (\<lambda>s. s\<lparr>b_timer := None\<rparr>) (after tryReconnect (\<lambda>r. case r of
     Inl e \<Rightarrow> PThrow e
   | Inr ok \<Rightarrow> if truthy ok then PWrite (\<lambda>s. s\<lparr>b_attempt := 0\<rparr>) (PReturn JUndef) else PWrite scheduleReconnect (PReturn JUndef)))"

text \<open>\<^verbatim>\<open>session.close()\<close> runs the phase listener before it returns.\<close>

definition close_session :: "bg \<Rightarrow> bg" where
  "close_session s = (let s = emit_b EClose (s\<lparr>b_session := Some DClosed\<rparr>) in if b_listening s then handleSessionClosed s else s)"

definition keepalive :: bprog where
  "keepalive = PRead (\<lambda>s.
     if b_session s = Some DConnected then await_store (\<lambda>s.
         if expired s then
           (if b_session s = None then PThrow type_error
            else PWrite (\<lambda>s. handleSessionClosed ((close_session s)\<lparr>b_session := None\<rparr>)) (PReturn JUndef))
         else if b_session s = None then PThrow type_error
         else PWrite (emit_b EPing) (PReturn JUndef))
     else await_store (\<lambda>s. if st_sessionState (b_store s) = None then PReturn JUndef
         else after tryReconnect (\<lambda>r. case r of Inl e \<Rightarrow> PThrow e | Inr _ \<Rightarrow> PReturn JUndef)))"

subsection \<open>Reads\<close>

definition DEFAULT_RPC :: "(int \<times> string) list" where
  "DEFAULT_RPC = [(1, ''https://eth.llamarpc.com''), (10, ''https://mainnet.optimism.io''), (56, ''https://bsc-dataseed.binance.org''),
     (100, ''https://rpc.gnosis.gateway.fm''), (137, ''https://polygon.drpc.org''), (250, ''https://rpc.ftm.tools''),
     (324, ''https://mainnet.era.zksync.io''), (8453, ''https://mainnet.base.org''), (42161, ''https://arb1.arbitrum.io/rpc''),
     (42170, ''https://nova.arbitrum.io/rpc''), (43114, ''https://api.avax.network/ext/bc/C/rpc''), (59144, ''https://rpc.linea.build''),
     (534352, ''https://rpc.scroll.io''), (7777777, ''https://rpc.zora.energy'')]"

definition FALLBACK_CACHE_TTL_MS :: int where "FALLBACK_CACHE_TTL_MS = 10 * 60 * 1000"

definition internal :: "string \<Rightarrow> thrown" where
  "internal message = Other (JNum (- 32603)) (JStr message) JUndef"

text \<open>What \<^verbatim>\<open>rpcFetch\<close> makes of an HTTP answer: its status, its length header and its text.\<close>

definition rpcFetch_result :: "bool \<Rightarrow> string \<Rightarrow> string option \<Rightarrow> string \<Rightarrow> (thrown, jsval) sum" where
  "rpcFetch_result ok status contentLength body =
     (if \<not> ok then Inl (internal (''RPC HTTP '' @ status))
      else if (case contentLength of Some l \<Rightarrow> l \<noteq> [] \<and> (case parseInt10 l of Some n \<Rightarrow> RPC_MAX_RESPONSE_BYTES < n | None \<Rightarrow> False) | None \<Rightarrow> False)
        \<or> RPC_MAX_RESPONSE_BYTES < int (js_length body) then Inl (internal ''RPC response too large'')
      else (case JSON_parse body of
          None \<Rightarrow> Inl type_error
        | Some json \<Rightarrow>
            if nullish json then Inl type_error
            else (let err = jget json ''error'' in
              if truthy err then
                Inl (Other (coalesce (jget err ''code'') (JNum (- 32603))) (JStr (error_message (coalesce (jget err ''message'') (JStr ''RPC error'')))) JUndef)
              else Inr (jget json ''result''))))"

definition discover_candidates :: "jsval \<Rightarrow> string list" where
  "discover_candidates urls = concat (map (\<lambda>u. case u of
     JStr t \<Rightarrow> if starts_with t ''https://'' \<and> \<not> js_includes t ''${'' then [t] else [] | _ \<Rightarrow> []) (jelems urls))"

text \<open>Batches of three; a batch answers with the first endpoint of it that works.\<close>

fun try_batches :: "string list \<Rightarrow> (string option \<Rightarrow> bprog) \<Rightarrow> bprog" where
  "try_batches urls k =
     (if urls = [] then k None
      else PAwait (BAny (take 3 urls)) (\<lambda>r. case r of
          Inr (JStr u) \<Rightarrow> if u \<noteq> [] then k (Some u) else try_batches (drop 3 urls) k
        | _ \<Rightarrow> try_batches (drop 3 urls) k))"

declare try_batches.simps [simp del]

definition discoverFallbackRpc :: "int option \<Rightarrow> (string option \<Rightarrow> bprog) \<Rightarrow> bprog" where
  "discoverFallbackRpc chainId k = PAwait (BDirectory chainId) (\<lambda>r. case r of
     Inr data \<Rightarrow> if is_array (jget data ''rpc'') \<and> list_all is_string (jelems (jget data ''rpc''))
       then try_batches (discover_candidates (jget data ''rpc'')) k
       else if is_array (jget data ''rpc'') then PThrow type_error else k None
   | Inl _ \<Rightarrow> k None)"

definition proxy_fallback :: "int option \<Rightarrow> string \<Rightarrow> jsval \<Rightarrow> bprog" where
  "proxy_fallback chainId method params = discoverFallbackRpc chainId (\<lambda>url. case url of
     None \<Rightarrow> PThrow (Other (JNum (- 32601)) (JStr (''No working RPC found for chain '' @ num_text (map_option of_int chainId))) JUndef)
   | Some u \<Rightarrow> PAwait (BFetch u method params) (\<lambda>r. case r of
         Inr v \<Rightarrow> PWrite (\<lambda>s. s\<lparr>b_fallback := js_set (b_fallback s) chainId (u, b_now s)\<rparr>) (PReturn v)
       | Inl e \<Rightarrow> PThrow (Other (JNum (- 32603)) (coalesce (fst (snd (error_fields e))) (JStr ''All RPCs failed'')) JUndef)))"

definition proxy_cached :: "int option \<Rightarrow> string \<Rightarrow> jsval \<Rightarrow> bprog" where
  "proxy_cached chainId method params = PRead (\<lambda>s. case js_get (b_fallback s) chainId of
     Some (u, ts) \<Rightarrow>
       if b_now s - ts < FALLBACK_CACHE_TTL_MS then
         PAwait (BFetch u method params) (\<lambda>r. case r of
           Inr v \<Rightarrow> PReturn v
         | Inl _ \<Rightarrow> PWrite (\<lambda>s. s\<lparr>b_fallback := js_delete (b_fallback s) chainId\<rparr>) (proxy_fallback chainId method params))
       else proxy_fallback chainId method params
   | None \<Rightarrow> proxy_fallback chainId method params)"

definition primary_url :: "string \<Rightarrow> (string, jsval) jsmap \<Rightarrow> jsval" where
  "primary_url chainRef custom =
     (let chainId = parseInt10 chainRef in
      coalesce (jget (JObj custom) (num_text (map_option of_int chainId)))
        (coalesce (jget (JObj custom) chainRef)
           (case chainId of Some n \<Rightarrow> (case map_of DEFAULT_RPC n of Some u \<Rightarrow> JStr u | None \<Rightarrow> JUndef) | None \<Rightarrow> JUndef)))"

definition evmProxyRpcCall :: "string \<Rightarrow> string \<Rightarrow> jsval \<Rightarrow> (string, jsval) jsmap \<Rightarrow> bprog" where
  "evmProxyRpcCall chainRef method params custom =
     (let chainId = parseInt10 chainRef; rpcUrl = primary_url chainRef custom in
      if truthy rpcUrl then
        PAwait (BFetch (js_string rpcUrl) method params) (\<lambda>r. case r of Inr v \<Rightarrow> PReturn v | Inl _ \<Rightarrow> proxy_cached chainId method params)
      else proxy_cached chainId method params)"

text \<open>\<^verbatim>\<open>lib/rpc-proxy.ts\<close>: addresses of the wallet under the reference of their chain, those of the settings over them.\<close>

definition merged_urls :: "jsval \<Rightarrow> jsval \<Rightarrow> (string, jsval) jsmap" where
  "merged_urls walletRpcUrls settings =
     spread_onto
       (fold (\<lambda>(caip2, url) m. js_set m (case js_split (CHR '':'') caip2 of _ # r # _ \<Rightarrow> r | [r] \<Rightarrow> r | [] \<Rightarrow> []) url) (own_props walletRpcUrls) [])
       (coalesce (jget settings ''rpcUrls'') (JObj []))"

definition proxyRpcCall :: "int option \<Rightarrow> string \<Rightarrow> jsval \<Rightarrow> jsval \<Rightarrow> bprog" where
  "proxyRpcCall chainId method params walletRpcUrls = await_store (\<lambda>s.
     evmProxyRpcCall (num_text (map_option of_int chainId)) method params (merged_urls walletRpcUrls (getSettings (b_store s))))"

subsection \<open>Requests of pages\<close>

definition EXT_READ_ONLY_METHODS :: "string list" where
  "EXT_READ_ONLY_METHODS = [''eth_blockNumber'', ''eth_call'', ''eth_estimateGas'', ''eth_feeHistory'', ''eth_gasPrice'',
     ''eth_maxPriorityFeePerGas'', ''eth_getBalance'', ''eth_getCode'', ''eth_getStorageAt'', ''eth_getTransactionCount'',
     ''eth_getTransactionByHash'', ''eth_getTransactionReceipt'', ''eth_getLogs'', ''eth_getBlockByNumber'', ''eth_getBlockByHash'',
     ''eth_newFilter'', ''eth_newBlockFilter'', ''eth_getFilterChanges'', ''eth_uninstallFilter'', ''eth_sendRawTransaction'',
     ''eth_syncing'']"

definition classifyMethod :: "string \<Rightarrow> category" where
  "classifyMethod method =
     (if method \<in> {''eth_requestAccounts'', ''wallet_requestPermissions''} then CAuth
      else if method \<in> {''personal_sign'', ''eth_signTypedData_v4'', ''eth_signTypedData_v3''} then CSign
      else if method \<in> {''eth_sendTransaction'', ''eth_signTransaction'', ''wallet_sendCalls''} then CTx
      else if method \<in> {''eth_chainId'', ''net_version'', ''web3_clientVersion'', ''eth_accounts'', ''wallet_getPermissions'',
        ''wallet_getCapabilities''} then CLocal
      else CRead)"

text \<open>A request: its number, the random part of its activity id drawn as a whole, the id of the page, and what it asks.\<close>

record rpcreq =
  rq_key :: nat
  rq_act :: string
  rq_id :: string
  rq_method :: string
  rq_params :: jsval
  rq_origin :: "string option"

definition rq_category :: "rpcreq \<Rightarrow> category" where "rq_category q = classifyMethod (rq_method q)"

definition shouldLog :: "rpcreq \<Rightarrow> bool" where "shouldLog q \<longleftrightarrow> rq_category q \<noteq> CLocal"

definition signing :: "rpcreq \<Rightarrow> bool" where "signing q \<longleftrightarrow> rq_category q = CSign \<or> rq_category q = CTx"

text \<open>\<^verbatim>\<open>origin || 'unknown'\<close>\<close>

definition origin_text :: "rpcreq \<Rightarrow> string" where
  "origin_text q = (case rq_origin q of Some u \<Rightarrow> if u \<noteq> [] then u else ''unknown'' | None \<Rightarrow> ''unknown'')"

definition open_entry :: "rpcreq \<Rightarrow> bg \<Rightarrow> bg" where
  "open_entry q s =
     (let s = log_b (shouldLog q) (OAdd \<lparr>ac_id = rq_act q, ac_timestamp = b_now s, ac_origin = origin_text q, ac_method = rq_method q,
          ac_category = rq_category q, ac_status = APending, ac_params = rq_params q, ac_result = JUndef, ac_error = JUndef\<rparr>) s
      in if signing q then state_b (\<lambda>e. e\<lparr>es_signing := Some (rq_method q, origin_text q)\<rparr>) s else s)"

definition close_entry :: "rpcreq \<Rightarrow> astatus \<Rightarrow> jsval \<Rightarrow> bg \<Rightarrow> bg" where
  "close_entry q status response s = log_b (shouldLog q) (OUpdate (rq_act q) status response) s"

definition signing_done :: "rpcreq \<Rightarrow> bg \<Rightarrow> bg" where
  "signing_done q s = (if signing q then state_b (\<lambda>e. e\<lparr>es_signing := None\<rparr>) s else s)"

text \<open>\<^verbatim>\<open>connectedWallet?.chainId ?? 1\<close>\<close>

definition wallet_chain :: "bg \<Rightarrow> int option" where
  "wallet_chain s = (case b_wallet s of None \<Rightarrow> Some 1 | Some w \<Rightarrow> (case cw_chainId w of None \<Rightarrow> Some 1 | Some c \<Rightarrow> c))"

definition int_text16 :: "int option \<Rightarrow> string" where
  "int_text16 c = ''0x'' @ toString16 (\<lambda>_. []) (map_option of_int c)"

definition refuse :: "rpcreq \<Rightarrow> jsval \<Rightarrow> bprog" where
  "refuse q response = PWrite (\<lambda>s. signing_done q (close_entry q AError response s)) (PReturn response)"

definition serve_read :: "rpcreq \<Rightarrow> bprog" where
  "serve_read q = PRead (\<lambda>s. after (proxyRpcCall (wallet_chain s) (rq_method q) (rq_params q) (b_rpcUrls s)) (\<lambda>r. case r of
     Inr v \<Rightarrow> PWrite (close_entry q ASuccess (result_of v)) (PReturn (result_of v))
   | Inl e \<Rightarrow> PWrite (close_entry q AError (caught ''RPC proxy error'' e)) (PReturn (caught ''RPC proxy error'' e))))"

text \<open>The code of the wallet's own account, the one the wallet announced while none is deployed.\<close>

definition serve_code :: "rpcreq \<Rightarrow> cwallet \<Rightarrow> bprog" where
  "serve_code q w = (case (lower_text (jindex (rq_params q) 0), lower_text (cw_address w)) of
     (Inl e, _) \<Rightarrow> PThrow e
   | (_, Inl e) \<Rightarrow> PThrow e
   | (Inr target, Inr self) \<Rightarrow>
       if nullish (cw_address w) then PThrow type_error
       else if target \<noteq> self then serve_read q
       else PRead (\<lambda>s. after (proxyRpcCall (wallet_chain s) (rq_method q) (rq_params q) (b_rpcUrls s)) (\<lambda>r. case r of
           Inr v \<Rightarrow>
             if truthy v \<and> v \<noteq> JStr ''0x'' then PWrite (close_entry q ASuccess (result_of v)) (PReturn (result_of v))
             else PRead (\<lambda>s. PWrite (close_entry q ASuccess (result_of (b_bytecode s))) (PReturn (result_of (b_bytecode s))))
         | Inl _ \<Rightarrow> PRead (\<lambda>s. PWrite (close_entry q ASuccess (result_of (b_bytecode s))) (PReturn (result_of (b_bytecode s)))))))"

text \<open>What the closure of a deferred request does with the response.\<close>

definition succeeded :: "jsval \<Rightarrow> bool" where
  "succeeded response \<longleftrightarrow> truthy (jget response ''result'') \<and> \<not> truthy (jget response ''error'')"

definition defer_request :: "rpcreq \<Rightarrow> bprog" where
  "defer_request q =
     PWrite (addDeferredRequest \<lparr>df_id = rq_id q, df_method = rq_method q, df_params = rq_params q, df_origin = rq_origin q, df_key = rq_key q\<rparr>)
       (PAwait (BDeferred (rq_key q) (rq_origin q)) (\<lambda>r. case r of
          Inl e \<Rightarrow> PThrow e
        | Inr response \<Rightarrow>
            PWrite (\<lambda>s. close_entry q (if truthy (jget response ''error'') then AError else ASuccess) response
                (if succeeded response then grant_b (rq_origin q) s else s))
            (PReturn response)))"

definition not_connected :: "rpcreq \<Rightarrow> bprog" where
  "not_connected q = PRead (\<lambda>s.
     if rq_method q = ''eth_requestAccounts'' \<or> rq_method q = ''wallet_requestPermissions'' then
       (if \<not> b_pairing s \<and> (b_session s = None \<or> b_session s = Some DIdle \<or> b_session s = Some DClosed) then
          PWrite (\<lambda>s. s\<lparr>b_pairing := True\<rparr>) (after createSession (\<lambda>r. case r of
            Inl e \<Rightarrow> PThrow e | Inr _ \<Rightarrow> PWrite (emit_b EOpenPanel) (defer_request q)))
        else defer_request q)
     else refuse q (error_of 4100 ''Not connected. Call eth_requestAccounts first.''))"

definition permissions_result :: jsval where
  "permissions_result = JArr [JObj [(''parentCapability'', JStr ''eth_accounts'')]]"

definition request_permissions :: "rpcreq \<Rightarrow> bprog" where
  "request_permissions q = PAwait (BWallet ''eth_requestAccounts'' (JArr [])) (\<lambda>r. case r of
     Inr _ \<Rightarrow> PWrite (close_entry q ASuccess (result_of permissions_result)) (PReturn (result_of permissions_result))
   | Inl e \<Rightarrow> PWrite (close_entry q AError (caught ''Request failed'' e)) (PReturn (caught ''Request failed'' e)))"

definition wallet_failed :: "rpcreq \<Rightarrow> thrown \<Rightarrow> bprog" where
  "wallet_failed q e = PWrite (\<lambda>s. signing_done q
       (close_entry q (if fst (error_fields e) = JNum 4001 then ARejected else AError) (caught ''Request failed'' e) s))
     (PReturn (caught ''Request failed'' e))"

text \<open>\<^verbatim>\<open>accounts[0]\<close> when \<^verbatim>\<open>accounts?.length > 0\<close>, of an array, a text of ASCII or an object with a length\<close>

definition first_account :: "jsval \<Rightarrow> jsval option" where
  "first_account v = (case v of
     JArr (a # _) \<Rightarrow> Some a
   | JStr (c # _) \<Rightarrow> Some (JStr [c])
   | JObj _ \<Rightarrow> (case jget v ''length'' of JNum q \<Rightarrow> if 0 < q then Some (jget v ''0'') else None | _ \<Rightarrow> None)
   | _ \<Rightarrow> None)"

definition adopt_accounts :: "rpcreq \<Rightarrow> jsval \<Rightarrow> bg \<Rightarrow> bg" where
  "adopt_accounts q a s =
     (let w = \<lparr>cw_address = a, cw_chainId = Some (wallet_chain s), cw_name = jget (b_sessionMeta s) ''name'',
            cw_icon = jget (b_sessionMeta s) ''icon''\<rparr>
      in grant_b (rq_origin q) (state_b (\<lambda>e. e\<lparr>es_wallet := Some w\<rparr>) (store_b (saveConnectedWallet (Some w)) (s\<lparr>b_wallet := Some w\<rparr>))))"

text \<open>The answer of the wallet to an account request names the session again, which may be gone by then.\<close>

definition forward :: "rpcreq \<Rightarrow> string \<Rightarrow> bprog" where
  "forward q method = PAwait (BWallet method (rq_params q)) (\<lambda>r. case r of
     Inl e \<Rightarrow> wallet_failed q e
   | Inr v \<Rightarrow> PRead (\<lambda>s.
       let account = (if method = ''eth_requestAccounts'' then first_account v else None) in
       if account \<noteq> None \<and> b_session s = None then wallet_failed q type_error
       else PWrite (\<lambda>s. signing_done q (close_entry q ASuccess (result_of v) (case account of Some a \<Rightarrow> adopt_accounts q a s | None \<Rightarrow> s)))
              (PReturn (result_of v))))"

definition wallet_method :: "rpcreq \<Rightarrow> bool \<Rightarrow> string \<Rightarrow> bprog" where
  "wallet_method q permitted method = PRead (\<lambda>s.
     if b_session s \<noteq> Some DConnected then not_connected q
     else if method = ''wallet_requestPermissions'' then request_permissions q
     else if \<not> permitted \<and> method \<noteq> ''eth_requestAccounts'' then refuse q (error_of 4100 ''Not permitted. Call eth_requestAccounts first.'')
     else forward q method)"

definition answer_rpc :: "rpcreq \<Rightarrow> bool \<Rightarrow> bprog" where
  "answer_rpc q permitted = PWrite (open_entry q) (PRead (\<lambda>s.
     let method = (if rq_method q = ''eth_signTypedData_v3'' then ''eth_signTypedData_v4'' else rq_method q) in
     if method = ''eth_chainId'' then PReturn (result_of (JStr (int_text16 (wallet_chain s))))
     else if method = ''net_version'' then PReturn (result_of (JStr (num_text (map_option of_int (wallet_chain s)))))
     else if method = ''eth_accounts'' then
       PReturn (result_of (JArr (if permitted then (case b_wallet s of Some w \<Rightarrow> [cw_address w] | None \<Rightarrow> []) else [])))
     else if method = ''wallet_getPermissions'' then
       PReturn (result_of (if permitted \<and> b_wallet s \<noteq> None \<and> b_session s = Some DConnected then permissions_result else JArr []))
     else if method = ''wallet_getCapabilities'' then PReturn (result_of (b_eip5792 s))
     else if method \<in> set EXT_READ_ONLY_METHODS then
       (case b_wallet s of
          Some w \<Rightarrow> if method = ''eth_getCode'' \<and> truthy (b_bytecode s) then serve_code q w else serve_read q
        | None \<Rightarrow> serve_read q)
     else wallet_method q permitted method))"

definition handleRpcRequest :: "rpcreq \<Rightarrow> bprog" where
  "handleRpcRequest q = (case rq_origin q of
     Some u \<Rightarrow> if u \<noteq> [] then await_store (\<lambda>s. answer_rpc q (isPermitted u (b_store s))) else answer_rpc q True
   | None \<Rightarrow> answer_rpc q True)"

subsection \<open>The worker\<close>

text \<open>A program in flight: its number, who waits for it, and the request it serves, if it serves one.\<close>

record task =
  tk_key :: nat
  tk_target :: btarget
  tk_request :: "rpcreq option"
  tk_prog :: bprog

record bsys =
  bs_bg :: bg
  bs_tasks :: "task list"
  bs_next :: nat

definition sys_start :: "extstore \<Rightarrow> beff list \<Rightarrow> bsys" where
  "sys_start st out = \<lparr>bs_bg = bg_start st out, bs_tasks = [], bs_next = 0\<rparr>"

definition task_origin :: "task \<Rightarrow> string option" where
  "task_origin t = (case tk_request t of Some q \<Rightarrow> rq_origin q | None \<Rightarrow> None)"

text \<open>What becomes of the value of a program, and of an error: a page behind a port then gets no answer.\<close>

definition finish_task :: "task \<Rightarrow> jsval \<Rightarrow> bg \<Rightarrow> bg" where
  "finish_task t v s = (case tk_target t of
     TPage \<Rightarrow> emit_b (EReply (tk_key t) v) s
   | TMessage \<Rightarrow> emit_b (EReply (tk_key t) v) s
   | TDeferred k \<Rightarrow> s\<lparr>b_resolved := b_resolved s @ [(k, task_origin t, v)]\<rparr>
   | TNobody \<Rightarrow> s)"

definition fail_task :: "task \<Rightarrow> bg \<Rightarrow> bg" where
  "fail_task t s = (if tk_target t = TMessage then emit_b (EReply (tk_key t) (error_of (- 32603) ''Internal error'')) s else s)"

definition note_call :: "task \<Rightarrow> bcall \<Rightarrow> bg \<Rightarrow> bg" where
  "note_call t c s = (case c of BWallet m p \<Rightarrow> emit_b (EWallet (task_origin t) m p) s | _ \<Rightarrow> s)"

text \<open>A program runs to its next await.\<close>

definition proceed :: "task \<Rightarrow> bsys \<Rightarrow> bsys" where
  "proceed t S = (case resume (tk_prog t) (bs_bg S) of
     (s, PReturn v) \<Rightarrow> S\<lparr>bs_bg := finish_task t v s\<rparr>
   | (s, PAwait c f) \<Rightarrow> S\<lparr>bs_bg := note_call t c s, bs_tasks := bs_tasks S @ [t\<lparr>tk_prog := PAwait c f\<rparr>]\<rparr>
   | (s, _) \<Rightarrow> S\<lparr>bs_bg := fail_task t s\<rparr>)"

definition start_task :: "btarget \<Rightarrow> (nat \<Rightarrow> rpcreq option) \<Rightarrow> (nat \<Rightarrow> bprog) \<Rightarrow> bsys \<Rightarrow> bsys" where
  "start_task target request p S =
     (let k = bs_next S
      in proceed \<lparr>tk_key = k, tk_target = target, tk_request = request k, tk_prog = p k\<rparr> (S\<lparr>bs_next := k + 1\<rparr>))"

definition start_request :: "btarget \<Rightarrow> string \<Rightarrow> string \<Rightarrow> string \<Rightarrow> jsval \<Rightarrow> string option \<Rightarrow> bsys \<Rightarrow> bsys" where
  "start_request target act i method params origin S =
     (let q = (\<lambda>k. \<lparr>rq_key = k, rq_act = act, rq_id = i, rq_method = method, rq_params = params, rq_origin = origin\<rparr>)
      in start_task target (\<lambda>k. Some (q k)) (\<lambda>k. handleRpcRequest (q k)) S)"

text \<open>An answer to an await.  An account request the wallet answered is noted.\<close>

definition answer_task :: "task \<Rightarrow> (thrown, jsval) sum \<Rightarrow> bsys \<Rightarrow> bsys" where
  "answer_task t r S = (case tk_prog t of
     PAwait c f \<Rightarrow>
       (let S = S\<lparr>bs_tasks := filter (\<lambda>u. tk_key u \<noteq> tk_key t) (bs_tasks S)\<rparr>;
            S = (case (c, r) of
                  (BWallet m p, Inr v) \<Rightarrow> if m = ''eth_requestAccounts'' then S\<lparr>bs_bg := emit_b (EAnswer (task_origin t)) (bs_bg S)\<rparr> else S
                | _ \<Rightarrow> S)
        in proceed (t\<lparr>tk_prog := f r\<rparr>) S)
   | _ \<Rightarrow> S)"

definition flushDeferredRequests :: "(nat \<Rightarrow> string) \<Rightarrow> bsys \<Rightarrow> bsys" where
  "flushDeferredRequests act S =
     (let ds = b_deferred (bs_bg S);
          S = S\<lparr>bs_bg := (fold (\<lambda>d. clear_timer (df_key d)) ds (bs_bg S))\<lparr>b_deferred := []\<rparr>\<rparr>
      in fold (\<lambda>d. start_request (TDeferred (df_key d)) (act (df_key d)) (df_id d) (df_method d) (df_params d) (df_origin d)) ds S)"

subsection \<open>Events of the session\<close>

definition onPhase_b :: "dphase \<Rightarrow> jsval \<Rightarrow> string \<Rightarrow> (nat \<Rightarrow> string) \<Rightarrow> bsys \<Rightarrow> bsys" where
  "onPhase_b phase pairingUri snapshot act S =
     (let s = bs_bg S in
      case phase of
        DIdle \<Rightarrow> S
      | DWaiting \<Rightarrow> S\<lparr>bs_bg := state_b (\<lambda>e. e\<lparr>es_phase := ''pairing'', es_pairingUri := pairingUri\<rparr>) s\<rparr>
      | DPending_accept \<Rightarrow> S\<lparr>bs_bg := state_b (\<lambda>e. e\<lparr>es_phase := ''pending_accept''\<rparr>) s\<rparr>
      | DConnected \<Rightarrow>
          (let s = resetReconnectBackoff ((state_b (\<lambda>e. e\<lparr>es_phase := ''connected''\<rparr>) s)\<lparr>b_pairing := False\<rparr>);
               s = store_b (\<lambda>st. saveConnectedAt (Some (b_now s)) (saveSessionState (Some snapshot) st)) s
           in flushDeferredRequests act (S\<lparr>bs_bg := s\<lparr>b_alarm := True\<rparr>\<rparr>))
      | DDisconnected \<Rightarrow> S\<lparr>bs_bg := scheduleReconnect (state_b (\<lambda>e. e\<lparr>es_phase := ''disconnected''\<rparr>) s)\<rparr>
      | DClosed \<Rightarrow> S\<lparr>bs_bg := handleSessionClosed s\<rparr>)"

definition onWalletJoined :: "jsval \<Rightarrow> jsval \<Rightarrow> bg \<Rightarrow> bg" where
  "onWalletJoined meta capabilities s =
     (let s = state_b (\<lambda>e. e\<lparr>es_walletMeta := (if truthy meta then JObj [(''name'', jget meta ''name''), (''icon'', jget meta ''icon'')] else JUndef)\<rparr>) s;
          s = (if truthy (jget capabilities ''rpcUrls'') then s\<lparr>b_rpcUrls := jget capabilities ''rpcUrls''\<rparr> else s);
          s = (if truthy (jget capabilities ''walletCapabilities'') then s\<lparr>b_eip5792 := jget capabilities ''walletCapabilities''\<rparr> else s)
      in if truthy (jget capabilities ''contractBytecode'') then s\<lparr>b_bytecode := jget capabilities ''contractBytecode''\<rparr> else s)"

definition onAccountsChanged_b :: "jsval list \<Rightarrow> bg \<Rightarrow> bg" where
  "onAccountsChanged_b accounts s =
     (let s = (case accounts of
            [] \<Rightarrow> s
          | a # _ \<Rightarrow>
              (let w = \<lparr>cw_address = a, cw_chainId = Some (wallet_chain s), cw_name = jget (b_sessionMeta s) ''name'',
                     cw_icon = jget (b_sessionMeta s) ''icon''\<rparr>
               in state_b (\<lambda>e. e\<lparr>es_wallet := Some w\<rparr>) (store_b (saveConnectedWallet (Some w)) (s\<lparr>b_wallet := Some w\<rparr>))))
      in broadcastEvent ''accountsChanged'' (JArr accounts) s)"

definition onChainChanged_b :: "string \<Rightarrow> bg \<Rightarrow> bg" where
  "onChainChanged_b hexChainId s =
     (let s = (case b_wallet s of
            None \<Rightarrow> s
          | Some w \<Rightarrow>
              (let w = w\<lparr>cw_chainId := Some (parseInt16 hexChainId)\<rparr>
               in state_b (\<lambda>e. e\<lparr>es_wallet := Some w\<rparr>) (store_b (saveConnectedWallet (Some w)) (s\<lparr>b_wallet := Some w\<rparr>))))
      in broadcastEvent ''chainChanged'' (JStr hexChainId) s)"

text \<open>The button of the popup\<close>

definition disconnect_b :: "bg \<Rightarrow> bg" where
  "disconnect_b s =
     (let s = resetReconnectBackoff (s\<lparr>b_listening := False\<rparr>);
          s = (if b_session s \<noteq> None then (close_session s)\<lparr>b_session := None\<rparr> else s)
      in handleSessionClosed s)"

text \<open>A check of \<^verbatim>\<open>broadcastEvent\<close> is answered; \<open>ok\<close> is false when the read or the post fails.\<close>

definition deliver_b :: "nat \<Rightarrow> bool \<Rightarrow> bg \<Rightarrow> bg" where
  "deliver_b i ok s = (if i < length (b_deliver s) then
     (case b_deliver s ! i of (tab, origin, event, data) \<Rightarrow>
        (let s' = s\<lparr>b_deliver := take i (b_deliver s) @ drop (Suc i) (b_deliver s)\<rparr>
         in if ok \<and> isPermitted origin (b_store s) then emit_b (EPost tab origin event data) s' else s'))
     else s)"

text \<open>The head of a lock's queue runs; \<open>ok\<close> is false when the store fails.\<close>

definition run_permq :: "bool \<Rightarrow> bg \<Rightarrow> bg" where
  "run_permq ok s = (case b_permq s of [] \<Rightarrow> s
     | op # ops \<Rightarrow> (let s = s\<lparr>b_permq := ops\<rparr> in if ok then store_b (run_permop (b_now s) op) s else s))"

definition run_actq :: "bool \<Rightarrow> bg \<Rightarrow> bg" where
  "run_actq ok s = (case b_actq s of [] \<Rightarrow> s
     | op # ops \<Rightarrow> (let s = s\<lparr>b_actq := ops\<rparr> in if ok then store_b (run_actop op) s else s))"

subsection \<open>Steps\<close>

datatype bevent =
    VRequest btarget string string string jsval "string option"
  | VAnswer nat "(thrown, jsval) sum"
  | VResolve nat
  | VDeferredTimeout nat
  | VPhase dphase jsval string "nat \<Rightarrow> string"
  | VFingerprint jsval
  | VJoined jsval jsval
  | VMeta jsval
  | VAccounts "jsval list"
  | VChain string
  | VProviderDisconnect
  | VProviderConnect jsval
  | VStartPairing | VRejectWallet | VAcceptWallet | VDisconnect | VRevoke string | VClearActivity | VSettings jsval
  | VReconnectTimer | VAlarm | VRestart
  | VPermission bool | VActivity bool | VDeliver nat bool
  | VPortOpen int "string option" | VPortClose int
  | VTime int

definition find_task :: "nat \<Rightarrow> bsys \<Rightarrow> task option" where
  "find_task k S = find (\<lambda>t. tk_key t = k) (bs_tasks S)"

definition waits_deferred :: "task \<Rightarrow> bool" where
  "waits_deferred t = (case tk_prog t of PAwait (BDeferred _ _) _ \<Rightarrow> True | _ \<Rightarrow> False)"

text \<open>The promise of a deferred request that has been resolved\<close>

definition resolve_step :: "nat \<Rightarrow> bsys \<Rightarrow> bsys" where
  "resolve_step k S = (case find_task k S of
     Some t \<Rightarrow>
       (case tk_prog t of
          PAwait (BDeferred k' u) f \<Rightarrow>
            (case find (\<lambda>(j, v, _). j = k' \<and> v = u) (b_resolved (bs_bg S)) of
               Some (_, _, response) \<Rightarrow> answer_task t (Inr response) S
             | None \<Rightarrow> S)
        | _ \<Rightarrow> S)
   | None \<Rightarrow> S)"

definition on_bg :: "(bg \<Rightarrow> bg) \<Rightarrow> bsys \<Rightarrow> bsys" where
  "on_bg f S = S\<lparr>bs_bg := f (bs_bg S)\<rparr>"

definition attached :: "bsys \<Rightarrow> bool" where
  "attached S \<longleftrightarrow> b_listening (bs_bg S) \<and> b_session (bs_bg S) \<noteq> None"

definition bg_step :: "bevent \<Rightarrow> bsys \<Rightarrow> bsys" where
  "bg_step e S = (case e of
     VRequest target act i method params origin \<Rightarrow> if target = TPage \<or> target = TMessage then start_request target act i method params origin S else S
   | VAnswer k r \<Rightarrow> (case find_task k S of Some t \<Rightarrow> if waits_deferred t then S else answer_task t r S | None \<Rightarrow> S)
   | VResolve k \<Rightarrow> resolve_step k S
   | VDeferredTimeout k \<Rightarrow> on_bg (deferredTimeout k) S
   | VPhase phase uri snapshot act \<Rightarrow>
       if b_session (bs_bg S) = None then S
       else (let S = on_bg (\<lambda>s. s\<lparr>b_session := Some phase\<rparr>) S in if b_listening (bs_bg S) then onPhase_b phase uri snapshot act S else S)
   | VFingerprint code \<Rightarrow> if attached S then on_bg (state_b (\<lambda>e. e\<lparr>es_sessionFingerprint := code\<rparr>)) S else S
   | VJoined meta capabilities \<Rightarrow> if attached S then on_bg (onWalletJoined meta capabilities) S else S
   | VMeta meta \<Rightarrow> on_bg (\<lambda>s. s\<lparr>b_sessionMeta := meta\<rparr>) S
   | VAccounts accounts \<Rightarrow> if attached S then on_bg (onAccountsChanged_b accounts) S else S
   | VChain hexChainId \<Rightarrow> if attached S then on_bg (onChainChanged_b hexChainId) S else S
   | VProviderDisconnect \<Rightarrow> if attached S then on_bg (broadcastEvent ''disconnect'' JUndef) S else S
   | VProviderConnect info \<Rightarrow> if attached S then on_bg (broadcastEvent ''connect'' info) S else S
   | VStartPairing \<Rightarrow> start_task TNobody (\<lambda>_. None) (\<lambda>_. createSession) S
   | VRejectWallet \<Rightarrow> on_bg (\<lambda>s. rejectAllDeferred 4001 ''User rejected wallet'' (if b_session s \<noteq> None then emit_b ERejectWallet s else s)) S
   | VAcceptWallet \<Rightarrow> on_bg (\<lambda>s. if b_session s \<noteq> None then emit_b EAcceptWallet s else s) S
   | VDisconnect \<Rightarrow> on_bg disconnect_b S
   | VRevoke origin \<Rightarrow> on_bg (\<lambda>s. s\<lparr>b_permq := b_permq s @ [ORevoke origin]\<rparr>) S
   | VClearActivity \<Rightarrow> on_bg (store_b clearActivityLog) S
   | VSettings settings \<Rightarrow> on_bg (store_b (saveSettings settings)) S
   | VReconnectTimer \<Rightarrow> if b_timer (bs_bg S) = None then S else start_task TNobody (\<lambda>_. None) (\<lambda>_. reconnectTimer) S
   | VAlarm \<Rightarrow> if b_alarm (bs_bg S) then start_task TNobody (\<lambda>_. None) (\<lambda>_. keepalive) S else S
   | VRestart \<Rightarrow> start_task TNobody (\<lambda>_. None) (\<lambda>_. tryReconnect)
       (S\<lparr>bs_bg := (bg_start (b_store (bs_bg S)) (b_out (bs_bg S)))\<lparr>b_now := b_now (bs_bg S), b_alarm := b_alarm (bs_bg S)\<rparr>, bs_tasks := []\<rparr>)
   | VPermission ok \<Rightarrow> on_bg (run_permq ok) S
   | VActivity ok \<Rightarrow> on_bg (run_actq ok) S
   | VDeliver i ok \<Rightarrow> on_bg (deliver_b i ok) S
   | VPortOpen tab origin \<Rightarrow> on_bg (\<lambda>s. s\<lparr>b_ports := js_set (b_ports s) tab origin\<rparr>) S
   | VPortClose tab \<Rightarrow> on_bg (\<lambda>s. s\<lparr>b_ports := js_delete (b_ports s) tab\<rparr>) S
   | VTime t \<Rightarrow> on_bg (\<lambda>s. s\<lparr>b_now := t\<rparr>) S)"

definition bg_trans :: "bsys \<Rightarrow> bevent \<Rightarrow> bsys \<Rightarrow> bool" where
  "bg_trans S e S' \<longleftrightarrow> S' = bg_step e S"

end
