(* ===== verification/Ext_Theorems.thy ===== *)
theory Ext_Theorems
  imports Ext_Background Event_System
begin

text \<open>
  What the extension promises the user: an origin gets something out of the wallet only after the wallet answered an
  account request of that origin.
\<close>

subsection \<open>The invariant of the worker\<close>

definition answered :: "string option \<Rightarrow> beff set \<Rightarrow> bool" where
  "answered origin out \<longleftrightarrow> (\<forall>u. origin = Some u \<and> u \<noteq> [] \<longrightarrow> EAnswer (Some u) \<in> out)"

definition account_method :: "string \<Rightarrow> bool" where
  "account_method m \<longleftrightarrow> m = ''eth_requestAccounts'' \<or> m = ''wallet_requestPermissions''"

text \<open>An effect is in order after the effects before it.\<close>

definition in_order :: "beff set \<Rightarrow> beff \<Rightarrow> bool" where
  "in_order before e = (case e of
     EWallet origin m p \<Rightarrow> m = ''eth_requestAccounts'' \<or> answered origin before
   | EPost tab origin event data \<Rightarrow> answered (Some origin) before
   | _ \<Rightarrow> True)"

fun orderly :: "beff set \<Rightarrow> beff list \<Rightarrow> bool" where
  "orderly before [] = True"
| "orderly before (e # es) = (in_order before e \<and> orderly (insert e before) es)"

lemma orderly_append: "orderly b (xs @ ys) \<longleftrightarrow> orderly b xs \<and> orderly (b \<union> set xs) ys"
  by (induction xs arbitrary: b) auto

lemma answered_mono: "answered origin A \<Longrightarrow> A \<subseteq> B \<Longrightarrow> answered origin B"
  by (auto simp: answered_def)

definition good_bg :: "bg \<Rightarrow> bool" where
  "good_bg s \<longleftrightarrow>
     orderly {} (b_out s) \<and>
     (\<forall>u. isPermitted u (b_store s) \<longrightarrow> answered (Some u) (set (b_out s))) \<and>
     (\<forall>u. OGrant u \<in> set (b_permq s) \<longrightarrow> answered (Some u) (set (b_out s))) \<and>
     (\<forall>d\<in>set (b_deferred s). account_method (df_method d)) \<and>
     (\<forall>(k, u, v)\<in>set (b_resolved s). succeeded v \<longrightarrow> answered u (set (b_out s))) \<and>
     length (st_activity (b_store s)) \<le> MAX_ACTIVITY"

text \<open>The part of the state the invariant speaks of.\<close>

definition core :: "bg \<Rightarrow> _" where
  "core s = (b_out s, st_permissions (b_store s), b_permq s, b_deferred s, b_resolved s, st_activity (b_store s))"

lemma good_core: "core s = core s' \<Longrightarrow> good_bg s \<longleftrightarrow> good_bg s'"
  by (simp add: good_bg_def core_def isPermitted_def)

text \<open>An update that keeps the invariant and only adds effects.\<close>

definition benign :: "(bg \<Rightarrow> bg) \<Rightarrow> bool" where
  "benign h \<longleftrightarrow> (\<forall>s. good_bg s \<longrightarrow> good_bg (h s) \<and> set (b_out s) \<subseteq> set (b_out (h s)))"

lemma benign_core: "(\<And>s. core (h s) = core s) \<Longrightarrow> benign h"
  unfolding benign_def using good_core by (metis core_def order_refl prod.inject)

lemma benign_comp: "benign f \<Longrightarrow> benign g \<Longrightarrow> benign (\<lambda>s. f (g s))"
  unfolding benign_def by blast

lemma benignD: "benign h \<Longrightarrow> good_bg s \<Longrightarrow> good_bg (h s)" "benign h \<Longrightarrow> good_bg s \<Longrightarrow> set (b_out s) \<subseteq> set (b_out (h s))"
  unfolding benign_def by blast+

lemma benign_if: "benign f \<Longrightarrow> benign g \<Longrightarrow> benign (\<lambda>s. if P s then f s else g s)"
  unfolding benign_def by auto

lemma benign_id [simp]: "benign (\<lambda>s. s)"
  by (simp add: benign_def)

text \<open>The effects that say nothing about an origin.\<close>

definition silent :: "beff \<Rightarrow> bool" where
  "silent e = (case e of EWallet _ _ _ \<Rightarrow> False | EPost _ _ _ _ \<Rightarrow> False | _ \<Rightarrow> True)"

lemma good_emit: "good_bg s \<Longrightarrow> in_order (set (b_out s)) e \<Longrightarrow> good_bg (emit_b e s)"
  unfolding good_bg_def emit_b_def
  by (auto simp: orderly_append dest: answered_mono [of _ "set (b_out s)" "insert e (set (b_out s))"]
      intro: answered_mono [of _ "set (b_out s)" "insert e (set (b_out s))"])

lemma benign_emit: "silent e \<Longrightarrow> benign (emit_b e)"
  by (auto simp: benign_def silent_def in_order_def emit_b_def [of e] split: beff.splits intro!: good_emit [unfolded emit_b_def])

subsection \<open>The updates of the worker\<close>

lemmas core_defs = core_def state_b_def log_b_def store_b_def broadcastEvent_def scheduleReconnect_def resetReconnectBackoff_def
  clear_saved_def saveConnectedAt_def saveConnectedWallet_def saveSessionState_def saveSettings_def clear_timer_def

lemma core_updates [simp]:
  "core (state_b f s) = core s" "core (log_b b op s) = core s" "core (broadcastEvent ev d s) = core s"
  "core (scheduleReconnect s) = core s" "core (resetReconnectBackoff s) = core s"
  "core (store_b clear_saved s) = core s" "core (store_b (saveConnectedWallet w) s) = core s"
  "core (store_b (saveSettings x) s) = core s"
  "core (clear_timer k s) = core s"
  "core (s\<lparr>b_now := t\<rparr>) = core s" "core (s\<lparr>b_session := p\<rparr>) = core s" "core (s\<lparr>b_sessionMeta := m\<rparr>) = core s"
  "core (s\<lparr>b_listening := l\<rparr>) = core s" "core (s\<lparr>b_wallet := w\<rparr>) = core s" "core (s\<lparr>b_pairing := l\<rparr>) = core s"
  "core (s\<lparr>b_rpcUrls := m\<rparr>) = core s" "core (s\<lparr>b_eip5792 := m\<rparr>) = core s" "core (s\<lparr>b_bytecode := m\<rparr>) = core s"
  "core (s\<lparr>b_attempt := n\<rparr>) = core s" "core (s\<lparr>b_timer := i\<rparr>) = core s" "core (s\<lparr>b_reconnecting := l\<rparr>) = core s"
  "core (s\<lparr>b_timers := ts\<rparr>) = core s" "core (s\<lparr>b_ports := ps\<rparr>) = core s" "core (s\<lparr>b_alarm := l\<rparr>) = core s"
  "core (s\<lparr>b_fallback := fb\<rparr>) = core s" "core (s\<lparr>b_actq := q\<rparr>) = core s" "core (s\<lparr>b_deliver := dl\<rparr>) = core s"
  by (simp_all add: core_defs)

lemma benign_updates [simp, intro]:
  "benign (state_b f)" "benign (log_b b op)" "benign (broadcastEvent ev d)" "benign scheduleReconnect" "benign resetReconnectBackoff"
  "benign (store_b clear_saved)" "benign (close_entry q status response)" "benign (signing_done q)" "benign (open_entry q)"
  by (rule benign_core, simp add: close_entry_def signing_done_def open_entry_def Let_def)+

text \<open>Rejecting the deferred requests resolves them with an error.\<close>

lemma not_succeeded_error [simp]: "\<not> succeeded (error_of c m)"
  by (simp add: succeeded_def error_of_def jget_def js_get_def truthy_def)

lemma good_resolve_error: "good_bg s \<Longrightarrow> \<not> succeeded v \<Longrightarrow> good_bg (resolve_deferred d v s) \<and> b_out (resolve_deferred d v s) = b_out s"
  by (auto simp: good_bg_def resolve_deferred_def)

lemma benign_rejectAll [simp, intro]: "benign (rejectAllDeferred c m)"
proof -
  let ?f = "\<lambda>d s. resolve_deferred d (error_of c m) (clear_timer (df_key d) s)"
  have *: "good_bg (fold ?f ds s) \<and> b_out (fold ?f ds s) = b_out s" if "good_bg s" for ds s
    using that
  proof (induction ds arbitrary: s)
    case (Cons d ds)
    have clear: "good_bg (clear_timer (df_key d) s)" "b_out (clear_timer (df_key d) s) = b_out s"
      using Cons.prems good_core [of "clear_timer (df_key d) s" s] by (simp_all add: clear_timer_def)
    then show ?case
      using Cons.IH [of "?f d s"] good_resolve_error [OF clear(1), of "error_of c m" d] by simp
  qed simp
  have "good_bg (s\<lparr>b_deferred := []\<rparr>)" if "good_bg s" for s using that by (simp add: good_bg_def)
  then show ?thesis using * by (simp add: benign_def rejectAllDeferred_def)
qed

lemma benign_closed [simp, intro]: "benign handleSessionClosed"
  unfolding benign_def
proof (intro allI impI)
  fix s
  assume good: "good_bg s"
  define s1 where "s1 = s\<lparr>b_pairing := False, b_rpcUrls := JObj [], b_eip5792 := JObj [], b_bytecode := JNull\<rparr>"
  define s2 where "s2 = rejectAllDeferred 4001 ''Session closed'' s1"
  have "core s1 = core s" by (simp add: s1_def)
  then have s1: "good_bg s1" "b_out s1 = b_out s" using good good_core [of s1 s] by (simp_all add: s1_def)
  then have s2: "good_bg s2" "set (b_out s) \<subseteq> set (b_out s2)" using benignD [OF benign_rejectAll] by (metis s2_def)+
  have "core (handleSessionClosed s) = core s2" by (simp add: handleSessionClosed_def Let_def s1_def s2_def)
  then have "good_bg (handleSessionClosed s)" "b_out (handleSessionClosed s) = b_out s2"
    using s2(1) good_core [of "handleSessionClosed s" s2] by (simp_all add: core_def)
  then show "good_bg (handleSessionClosed s) \<and> set (b_out s) \<subseteq> set (b_out (handleSessionClosed s))" using s2(2) by simp
qed

lemma benign_new_session [simp, intro]: "benign (new_session d)"
proof -
  have "benign (\<lambda>s. emit_b ESession (if d \<and> b_session s \<noteq> None then emit_b EDestroy s else s))"
    by (intro benign_comp [OF benign_emit] benign_if benign_emit) (simp_all add: silent_def)
  then have "benign (\<lambda>s. (emit_b ESession (if d \<and> b_session s \<noteq> None then emit_b EDestroy s else s))
      \<lparr>b_session := Some DIdle, b_sessionMeta := JUndef, b_listening := True\<rparr>)"
    by (rule benign_comp [rotated]) (rule benign_core, simp)
  then show ?thesis by (simp only: new_session_def [abs_def] Let_def)
qed

lemma benign_close_session: "benign close_session"
proof -
  have "benign (\<lambda>s. s\<lparr>b_session := Some DClosed\<rparr>)" by (rule benign_core) simp
  then have "benign (\<lambda>s. emit_b EClose (s\<lparr>b_session := Some DClosed\<rparr>))"
    by (rule benign_comp [OF benign_emit, rotated]) (simp add: silent_def)
  then have "benign (\<lambda>s. (\<lambda>s. if b_listening s then handleSessionClosed s else s) (emit_b EClose (s\<lparr>b_session := Some DClosed\<rparr>)))"
    by (rule benign_comp [rotated]) (intro benign_if benign_closed benign_id)
  then show ?thesis by (simp only: close_session_def [abs_def] Let_def)
qed

subsection \<open>Programs that keep the invariant\<close>

definition owner :: "rpcreq option \<Rightarrow> string option" where
  "owner q = (case q of Some r \<Rightarrow> rq_origin r | None \<Rightarrow> None)"

definition owner_answered :: "rpcreq option \<Rightarrow> bg \<Rightarrow> bool" where
  "owner_answered q s \<longleftrightarrow> answered (owner q) (set (b_out s))"

text \<open>A call of the wallet is allowed for account requests and for owners the wallet has answered before; what an answer
  tells about its owner.\<close>

definition call_ok :: "rpcreq option \<Rightarrow> bcall \<Rightarrow> bg \<Rightarrow> bool" where
  "call_ok q c s = (case c of BWallet m _ \<Rightarrow> m = ''eth_requestAccounts'' \<or> owner_answered q s | _ \<Rightarrow> True)"

definition learnt :: "rpcreq option \<Rightarrow> bcall \<Rightarrow> (thrown, jsval) sum \<Rightarrow> bg \<Rightarrow> bool" where
  "learnt q c r s = (case (c, r) of
     (BWallet m _, Inr _) \<Rightarrow> m = ''eth_requestAccounts'' \<longrightarrow> owner_answered q s
   | (BDeferred _ u, Inr v) \<Rightarrow> succeeded v \<longrightarrow> answered u (set (b_out s))
   | _ \<Rightarrow> True)"

primrec keeps :: "bprog \<Rightarrow> rpcreq option \<Rightarrow> bg \<Rightarrow> bool" where
  "keeps (PReturn v) q s = ((\<exists>r. q = Some r \<and> account_method (rq_method r)) \<and> succeeded v \<longrightarrow> owner_answered q s)"
| "keeps (PThrow e) q s = True"
| "keeps (PAwait c f) q s = (call_ok q c s \<and>
     (\<forall>r s'. good_bg s' \<and> set (b_out s) \<subseteq> set (b_out s') \<and> learnt q c r s' \<longrightarrow> keeps (f r) q s'))"
| "keeps (PRead g) q s = keeps (g s) q s"
| "keeps (PWrite h p) q s = (good_bg (h s) \<and> set (b_out s) \<subseteq> set (b_out (h s)) \<and> keeps p q (h s))"

lemma call_ok_mono: "call_ok q c s \<Longrightarrow> set (b_out s) \<subseteq> set (b_out s') \<Longrightarrow> call_ok q c s'"
  by (auto simp: call_ok_def owner_answered_def split: bcall.splits dest: answered_mono)

lemma keeps_await_mono: "keeps (PAwait c f) q s \<Longrightarrow> set (b_out s) \<subseteq> set (b_out s') \<Longrightarrow> keeps (PAwait c f) q s'"
  using call_ok_mono [of q c s s'] by auto

lemma keeps_resume:
  assumes "good_bg s" "keeps p q s"
  shows "good_bg (fst (resume p s)) \<and> set (b_out s) \<subseteq> set (b_out (fst (resume p s))) \<and> keeps (snd (resume p s)) q (fst (resume p s))"
  using assms
proof (induction p arbitrary: s)
  case (PWrite h p)
  then show ?case using PWrite.IH [of "h s"] by auto
qed auto

text \<open>A program without calls of the wallet whose updates are benign.\<close>

primrec plain :: "bprog \<Rightarrow> bool" where
  "plain (PReturn v) = True"
| "plain (PThrow e) = True"
| "plain (PAwait c f) = ((\<forall>m p. c \<noteq> BWallet m p) \<and> (\<forall>r. plain (f r)))"
| "plain (PRead g) = (\<forall>s. plain (g s))"
| "plain (PWrite h p) = (benign h \<and> plain p)"

lemma keeps_after:
  assumes "plain p" "good_bg s" "\<And>r s'. good_bg s' \<Longrightarrow> set (b_out s) \<subseteq> set (b_out s') \<Longrightarrow> keeps (k r) q s'"
  shows "keeps (after p k) q s"
  using assms
proof (induction p arbitrary: s)
  case (PAwait c f)
  have "keeps (after (f r) k) q s'" if "good_bg s'" "set (b_out s) \<subseteq> set (b_out s')" for r s'
    using PAwait.IH [OF rangeI, of r s'] PAwait.prems(1,3) that by fastforce
  then show ?case using PAwait.prems(1) by (auto simp: call_ok_def split: bcall.split)
next
  case (PRead g)
  then show ?case using PRead.IH [OF rangeI, of s s] by simp
next
  case (PWrite h p)
  then have h: "good_bg (h s)" "set (b_out s) \<subseteq> set (b_out (h s))" using benignD by auto
  then have "keeps (after p k) q (h s)" using PWrite.IH [of "h s"] PWrite.prems(1,3) by fastforce
  then show ?case using h by simp
qed auto

lemma plain_keeps: "plain p \<Longrightarrow> good_bg s \<Longrightarrow> keeps p None s"
proof (induction p arbitrary: s)
  case (PAwait c f)
  then show ?case by (auto simp: call_ok_def split: bcall.split)
next
  case (PRead g)
  then show ?case using PRead.IH [OF rangeI, of s s] by simp
next
  case (PWrite h p)
  then show ?case using benignD by auto
qed auto

lemma plain_after: "plain p \<Longrightarrow> (\<And>r. plain (k r)) \<Longrightarrow> plain (after p k)"
  by (induction p) auto

lemma plain_settle [simp]: "plain (settle_prog r)"
  by (cases r) (simp_all add: settle_prog_def)

lemma plain_store [simp]: "plain (await_store k) \<longleftrightarrow> (\<forall>s. plain (k s))"
  by (auto simp: await_store_def split: sum.split)

lemma plain_createSession [simp]: "plain createSession"
  by (auto simp: createSession_def split: sum.split)

lemma plain_tryReconnect [simp]: "plain tryReconnect"
proof -
  have flag: "benign (\<lambda>s. s\<lparr>b_reconnecting := x\<rparr>)" for x by (rule benign_core) simp
  have adopt: "benign (\<lambda>s. broadcastEvent ev d (state_b f (s\<lparr>b_wallet := w\<rparr>)))" for ev d f w by (rule benign_core) simp
  have "plain (reconnect_saved saved)" for saved
    using adopt by (auto simp: reconnect_saved_def split: sum.split option.split)
  then have "plain doTryReconnect"
    by (auto simp: doTryReconnect_def intro!: plain_after split: sum.split option.split)
  then show ?thesis using flag by (auto simp: tryReconnect_def intro!: plain_after)
qed

lemma plain_reconnectTimer [simp]: "plain reconnectTimer"
proof -
  have "benign (\<lambda>s. s\<lparr>b_timer := None\<rparr>)" "benign (\<lambda>s. s\<lparr>b_attempt := 0\<rparr>)" by (rule benign_core, simp)+
  then show ?thesis by (auto simp: reconnectTimer_def intro!: plain_after split: sum.split)
qed

lemma plain_keepalive [simp]: "plain keepalive"
proof -
  have "benign (\<lambda>s. s\<lparr>b_session := None\<rparr>)" by (rule benign_core) simp
  then have "benign (\<lambda>s. handleSessionClosed ((close_session s)\<lparr>b_session := None\<rparr>))"
    by (intro benign_comp [OF benign_closed] benign_comp [OF _ benign_close_session, where f = "\<lambda>s. s\<lparr>b_session := None\<rparr>"])
  moreover have "benign (emit_b EPing)" by (rule benign_emit) (simp add: silent_def)
  ultimately show ?thesis by (auto simp: keepalive_def intro!: plain_after split: sum.split)
qed

lemma plain_batches: "(\<And>u. plain (k u)) \<Longrightarrow> plain (try_batches urls k)"
proof (induction urls k rule: try_batches.induct)
  case (1 urls k)
  then show ?case by (subst try_batches.simps) (auto split: sum.split jsval.split)
qed

lemma plain_proxy [simp]: "plain (proxyRpcCall ch mt params urls)"
proof -
  have cache: "benign (\<lambda>s. s\<lparr>b_fallback := f s\<rparr>)" for f by (rule benign_core) simp
  have "plain (proxy_fallback ci mt params)" for ci
    using cache by (auto simp: proxy_fallback_def discoverFallbackRpc_def intro!: plain_batches split: sum.split option.split)
  then have "plain (proxy_cached ci mt params)" for ci
    using cache by (auto simp: proxy_cached_def split: sum.split option.split)
  then show ?thesis by (auto simp: proxyRpcCall_def evmProxyRpcCall_def Let_def split: sum.split)
qed

subsection \<open>Requests of pages keep the invariant\<close>

lemma keeps_store: "(\<And>s'. good_bg s' \<Longrightarrow> set (b_out s) \<subseteq> set (b_out s') \<Longrightarrow> keeps (k s') q s') \<Longrightarrow> keeps (await_store k) q s"
  by (auto simp: await_store_def call_ok_def split: sum.split)

lemma keeps_write_benign:
  "benign h \<Longrightarrow> good_bg s \<Longrightarrow> (good_bg (h s) \<Longrightarrow> set (b_out s) \<subseteq> set (b_out (h s)) \<Longrightarrow> keeps p q (h s)) \<Longrightarrow> keeps (PWrite h p) q s"
  using benignD [of h s] by simp

lemma out_core: "core s = core s' \<Longrightarrow> b_out s = b_out s'"
  by (simp add: core_def)

lemma quiet_simps [simp]:
  "good_bg (close_entry q st r s) = good_bg s" "b_out (close_entry q st r s) = b_out s"
  "good_bg (signing_done q s) = good_bg s" "b_out (signing_done q s) = b_out s"
  "good_bg (open_entry q s) = good_bg s" "b_out (open_entry q s) = b_out s"
  "good_bg (s\<lparr>b_pairing := x\<rparr>) = good_bg s" "b_out (s\<lparr>b_pairing := x\<rparr>) = b_out s"
  by (rule good_core out_core, simp add: close_entry_def signing_done_def open_entry_def Let_def)+

lemma keeps_read_served:
  assumes "\<not> account_method (rq_method q)" "good_bg s"
  shows "keeps (serve_read q) (Some q) s"
  using assms by (auto simp: serve_read_def intro!: keeps_after split: sum.split)

lemma keeps_code_served:
  assumes "\<not> account_method (rq_method q)" "good_bg s"
  shows "keeps (serve_code q w) (Some q) s"
  using assms keeps_read_served [OF assms]
  by (auto simp: serve_code_def intro!: keeps_after split: sum.split)

lemma good_grant: "good_bg s \<Longrightarrow> answered u (set (b_out s)) \<Longrightarrow> good_bg (grant_b u s) \<and> b_out (grant_b u s) = b_out s"
  by (auto simp: good_bg_def grant_b_def split: option.split)

lemma keeps_defer:
  assumes "account_method (rq_method q)" "good_bg s"
  shows "keeps (defer_request q) (Some q) s"
proof -
  have "good_bg (addDeferredRequest \<lparr>df_id = i, df_method = rq_method q, df_params = p, df_origin = u, df_key = k\<rparr> s)" for i p u k
    using assms by (simp add: good_bg_def addDeferredRequest_def)
  moreover have "b_out (addDeferredRequest d s) = b_out s" for d by (simp add: addDeferredRequest_def)
  ultimately show ?thesis
    using good_grant [of _ "rq_origin q"]
    by (auto simp: defer_request_def call_ok_def learnt_def owner_answered_def owner_def split: sum.split)
qed

lemma keeps_not_connected:
  assumes "good_bg s"
  shows "keeps (not_connected q) (Some q) s"
proof (cases "account_method (rq_method q)")
  case True
  have panel: "benign (emit_b EOpenPanel)" by (rule benign_emit) (simp add: silent_def)
  have "keeps (PWrite (emit_b EOpenPanel) (defer_request q)) (Some q) s'" if "good_bg s'" for s'
    using panel that by (rule keeps_write_benign) (rule keeps_defer [OF True])
  then have "keeps (after createSession (\<lambda>r. case r of Inl e \<Rightarrow> PThrow e | Inr _ \<Rightarrow> PWrite (emit_b EOpenPanel) (defer_request q))) (Some q) s'"
    if "good_bg s'" for s'
    using that by (auto intro!: keeps_after simp del: keeps.simps(5) split: sum.split)
  then show ?thesis using True assms keeps_defer [OF True assms]
    by (auto simp: not_connected_def account_method_def)
next
  case False
  then show ?thesis using assms by (simp add: not_connected_def refuse_def account_method_def)
qed

lemma keeps_wallet_failed: "good_bg s \<Longrightarrow> keeps (wallet_failed q e) (Some q) s"
  by (auto simp: wallet_failed_def caught_def succeeded_def jget_def js_get_def split: prod.split)

lemma keeps_permissions: "good_bg s \<Longrightarrow> keeps (request_permissions q) (Some q) s"
  by (auto simp: request_permissions_def call_ok_def learnt_def caught_def succeeded_def jget_def js_get_def owner_answered_def
      split: sum.split prod.split)

lemma good_adopt:
  assumes "good_bg s" "owner_answered (Some q) s"
  shows "good_bg (adopt_accounts q a s) \<and> b_out (adopt_accounts q a s) = b_out s"
proof -
  define w where "w = \<lparr>cw_address = a, cw_chainId = Some (wallet_chain s), cw_name = jget (b_sessionMeta s) ''name'',
    cw_icon = jget (b_sessionMeta s) ''icon''\<rparr>"
  let ?s = "state_b (\<lambda>e. e\<lparr>es_wallet := Some w\<rparr>) (store_b (saveConnectedWallet (Some w)) (s\<lparr>b_wallet := Some w\<rparr>))"
  have "core ?s = core s" by simp
  then have s: "good_bg ?s" "b_out ?s = b_out s" using assms(1) good_core [of ?s s] out_core [of ?s s] by simp_all
  have "adopt_accounts q a s = grant_b (rq_origin q) ?s" by (simp add: adopt_accounts_def Let_def w_def)
  then show ?thesis using s assms(2) good_grant [of ?s "rq_origin q"] by (simp add: owner_answered_def owner_def)
qed

lemma keeps_forward:
  assumes "good_bg s" "m = ''eth_requestAccounts'' \<or> owner_answered (Some q) s" "account_method (rq_method q) \<longrightarrow> m = ''eth_requestAccounts''"
  shows "keeps (forward q m) (Some q) s"
proof -
  have "keeps (case r of Inl e \<Rightarrow> wallet_failed q e | Inr v \<Rightarrow> PRead (\<lambda>s.
       let account = (if m = ''eth_requestAccounts'' then first_account v else None) in
       if account \<noteq> None \<and> b_session s = None then wallet_failed q type_error
       else PWrite (\<lambda>s. signing_done q (close_entry q ASuccess (result_of v) (case account of Some a \<Rightarrow> adopt_accounts q a s | None \<Rightarrow> s)))
              (PReturn (result_of v)))) (Some q) s'"
    if s': "good_bg s'" "learnt (Some q) (BWallet m (rq_params q)) r s'" for r s'
  proof (cases r)
    case (Inr v)
    have "m = ''eth_requestAccounts'' \<Longrightarrow> owner_answered (Some q) s'" using s'(2) Inr by (simp add: learnt_def)
    then show ?thesis using Inr s'(1) assms(3) good_adopt [of s' q] keeps_wallet_failed [OF s'(1), of q type_error]
      by (auto simp: Let_def owner_answered_def split: option.split)
  qed (simp add: keeps_wallet_failed s'(1))
  then show ?thesis using assms(2) by (simp add: forward_def call_ok_def)
qed

lemma keeps_wallet_method:
  assumes "good_bg s" "permitted \<longrightarrow> owner_answered (Some q) s" "account_method (rq_method q) \<longrightarrow> m = rq_method q"
  shows "keeps (wallet_method q permitted m) (Some q) s"
  using assms(1,2,3) keeps_not_connected [OF assms(1), of q] keeps_permissions [OF assms(1), of q]
    keeps_forward [OF assms(1), of m q]
  by (auto simp: wallet_method_def refuse_def account_method_def)

lemma keeps_answer_rpc:
  assumes "good_bg s" "permitted \<longrightarrow> owner_answered (Some q) s"
  shows "keeps (answer_rpc q permitted) (Some q) s"
proof -
  let ?m = "if rq_method q = ''eth_signTypedData_v3'' then ''eth_signTypedData_v4'' else rq_method q"
  let ?s = "open_entry q s"
  have s: "good_bg ?s" "permitted \<longrightarrow> owner_answered (Some q) ?s" using assms by (simp_all add: owner_answered_def)
  have wallet: "keeps (wallet_method q permitted ?m) (Some q) ?s"
    by (rule keeps_wallet_method [OF s]) (auto simp: account_method_def)
  have read: "\<not> account_method (rq_method q)" if "?m \<in> set EXT_READ_ONLY_METHODS"
    using that by (auto simp: account_method_def EXT_READ_ONLY_METHODS_def)
  show ?thesis
    using s(1) wallet read keeps_read_served [OF _ s(1), of q] keeps_code_served [OF _ s(1), of q] assms(1)
    by (auto simp: answer_rpc_def Let_def account_method_def split: option.split)
qed

lemma keeps_request: "good_bg s \<Longrightarrow> keeps (handleRpcRequest q) (Some q) s"
  by (auto simp: handleRpcRequest_def good_bg_def owner_answered_def owner_def answered_def intro!: keeps_store keeps_answer_rpc split: option.split)

subsection \<open>The worker keeps the invariant\<close>

definition good_task :: "bg \<Rightarrow> task \<Rightarrow> bool" where
  "good_task s t \<longleftrightarrow> keeps (tk_prog t) (tk_request t) s \<and>
     (\<forall>k. tk_target t = TDeferred k \<longrightarrow> (\<exists>r. tk_request t = Some r \<and> account_method (rq_method r)))"

definition good_sys :: "bsys \<Rightarrow> bool" where
  "good_sys S \<longleftrightarrow> good_bg (bs_bg S) \<and> (\<forall>t\<in>set (bs_tasks S). (\<exists>c f. tk_prog t = PAwait c f) \<and> good_task (bs_bg S) t)"

lemma good_task_mono:
  "good_task s t \<Longrightarrow> tk_prog t = PAwait c f \<Longrightarrow> set (b_out s) \<subseteq> set (b_out s') \<Longrightarrow> good_task s' t"
  using keeps_await_mono [of c f "tk_request t" s s'] by (auto simp: good_task_def simp del: keeps.simps(3))

lemma good_sys_on_bg: "good_sys S \<Longrightarrow> good_bg s \<Longrightarrow> set (b_out (bs_bg S)) \<subseteq> set (b_out s) \<Longrightarrow> good_sys (S\<lparr>bs_bg := s\<rparr>)"
  using good_task_mono by (fastforce simp: good_sys_def)

lemma good_sys_benign: "good_sys S \<Longrightarrow> benign h \<Longrightarrow> good_sys (on_bg h S)"
  unfolding on_bg_def by (rule good_sys_on_bg) (auto simp: good_sys_def dest: benignD)

lemma good_finish:
  assumes "good_bg s" "good_task s t" "tk_prog t = PReturn v"
  shows "good_bg (finish_task t v s) \<and> set (b_out s) \<subseteq> set (b_out (finish_task t v s))"
proof (cases "tk_target t")
  case (TDeferred k)
  then have "succeeded v \<longrightarrow> answered (task_origin t) (set (b_out s))"
    using assms(2,3) by (auto simp: good_task_def owner_answered_def owner_def task_origin_def)
  then show ?thesis using TDeferred assms(1) by (auto simp: finish_task_def good_bg_def)
qed (use assms(1) in \<open>auto simp: finish_task_def emit_b_def in_order_def intro!: good_emit [unfolded emit_b_def]\<close>)

lemma good_note_call:
  assumes "good_bg s" "good_task s t" "tk_prog t = PAwait c f"
  shows "good_bg (note_call t c s) \<and> set (b_out s) \<subseteq> set (b_out (note_call t c s))"
proof (cases c)
  case (BWallet m p)
  then have "in_order (set (b_out s)) (EWallet (task_origin t) m p)"
    using assms(2,3) by (auto simp: good_task_def call_ok_def in_order_def owner_answered_def owner_def task_origin_def)
  then show ?thesis using BWallet good_emit [OF assms(1)] by (auto simp: note_call_def emit_b_def)
qed (use assms(1) in \<open>auto simp: note_call_def\<close>)

lemma good_proceed:
  assumes "good_sys S" "good_task (bs_bg S) t"
  shows "good_sys (proceed t S)"
proof -
  obtain s p where res: "resume (tk_prog t) (bs_bg S) = (s, p)" by fastforce
  have bg: "good_bg (bs_bg S)" using assms(1) by (simp add: good_sys_def)
  have s: "good_bg s" "set (b_out (bs_bg S)) \<subseteq> set (b_out s)" "good_task s (t\<lparr>tk_prog := p\<rparr>)"
    using keeps_resume [OF bg, of "tk_prog t" "tk_request t"] assms(2) res by (auto simp: good_task_def)
  note S = good_sys_on_bg [OF assms(1)]
  show ?thesis
  proof (rule resume_cases [of "tk_prog t" "bs_bg S"])
    fix v assume p: "snd (resume (tk_prog t) (bs_bg S)) = PReturn v"
    have "finish_task (t\<lparr>tk_prog := p\<rparr>) v s = finish_task t v s" by (simp add: finish_task_def task_origin_def split: btarget.split)
    then show ?thesis
      using p res good_finish [OF s(1,3), of v] S [of "finish_task t v s"] s(2) by (auto simp: proceed_def)
  next
    fix e assume p: "snd (resume (tk_prog t) (bs_bg S)) = PThrow e"
    have "good_bg (fail_task t s) \<and> set (b_out s) \<subseteq> set (b_out (fail_task t s))"
      using s(1) by (auto simp: fail_task_def emit_b_def in_order_def intro!: good_emit [unfolded emit_b_def])
    then show ?thesis using p res S [of "fail_task t s"] s(2) by (auto simp: proceed_def)
  next
    fix c f assume p: "snd (resume (tk_prog t) (bs_bg S)) = PAwait c f"
    have nc: "note_call (t\<lparr>tk_prog := p\<rparr>) c s = note_call t c s" by (simp add: note_call_def task_origin_def split: bcall.split)
    then have n: "good_bg (note_call t c s)" "set (b_out s) \<subseteq> set (b_out (note_call t c s))"
      using p res good_note_call [OF s(1,3), of c f] by auto
    have "good_task (note_call t c s) (t\<lparr>tk_prog := PAwait c f\<rparr>)"
      using good_task_mono [OF s(3), of c f "note_call t c s"] p res n(2) by simp
    then show ?thesis using p res S [of "note_call t c s"] n s(2) by (auto simp: proceed_def good_sys_def)
  qed
qed

lemma good_next: "good_sys S \<Longrightarrow> good_sys (S\<lparr>bs_next := n\<rparr>)"
  by (simp add: good_sys_def)

lemma good_start_plain: "good_sys S \<Longrightarrow> plain p \<Longrightarrow> good_sys (start_task TNobody (\<lambda>_. None) (\<lambda>_. p) S)"
  unfolding start_task_def Let_def
  by (rule good_proceed [OF good_next]) (auto simp: good_task_def good_sys_def plain_keeps)

lemma good_start_request:
  assumes "good_sys S" "\<And>k. target = TDeferred k \<Longrightarrow> account_method mt"
  shows "good_sys (start_request target act i mt params origin S)"
  unfolding start_request_def start_task_def Let_def
  by (rule good_proceed [OF good_next [OF assms(1)]]) (use assms in \<open>auto simp: good_task_def good_sys_def keeps_request\<close>)

lemma good_flush:
  assumes "good_sys S"
  shows "good_sys (flushDeferredRequests act S)"
proof -
  let ?ds = "b_deferred (bs_bg S)"
  let ?s = "(fold (\<lambda>d. clear_timer (df_key d)) ?ds (bs_bg S))\<lparr>b_deferred := []\<rparr>"
  have core: "core (fold (\<lambda>d. clear_timer (df_key d)) ds s) = core s" for ds s by (induction ds arbitrary: s) simp_all
  let ?f = "fold (\<lambda>d. clear_timer (df_key d)) ?ds (bs_bg S)"
  have "good_bg ?f" "b_out ?f = b_out (bs_bg S)"
    using core good_core [OF core, of ?ds "bs_bg S"] out_core [OF core, of ?ds "bs_bg S"] assms by (simp_all add: good_sys_def)
  then have S: "good_sys (S\<lparr>bs_bg := ?s\<rparr>)" by (intro good_sys_on_bg [OF assms]) (auto simp: good_bg_def)
  have acc: "\<forall>d\<in>set ?ds. account_method (df_method d)" using assms by (simp add: good_sys_def good_bg_def)
  have "good_sys (fold (\<lambda>d. start_request (TDeferred (df_key d)) (act (df_key d)) (df_id d) (df_method d) (df_params d) (df_origin d)) ds T)"
    if "good_sys T" "\<forall>d\<in>set ds. account_method (df_method d)" for ds T
    using that by (induction ds arbitrary: T) (auto intro: good_start_request)
  then show ?thesis using S acc by (simp add: flushDeferredRequests_def Let_def)
qed

lemma good_answer:
  assumes "good_sys S" "t \<in> set (bs_tasks S)"
    "\<And>k u f v. tk_prog t = PAwait (BDeferred k u) f \<Longrightarrow> r = Inr v \<Longrightarrow> succeeded v \<Longrightarrow> answered u (set (b_out (bs_bg S)))"
  shows "good_sys (answer_task t r S)"
proof -
  obtain c f where p: "tk_prog t = PAwait c f" and t: "good_task (bs_bg S) t" using assms(1,2) by (auto simp: good_sys_def)
  let ?S = "S\<lparr>bs_tasks := filter (\<lambda>u. tk_key u \<noteq> tk_key t) (bs_tasks S)\<rparr>"
  have S: "good_sys ?S" using assms(1) by (auto simp: good_sys_def)
  define T where "T = (case (c, r) of (BWallet m p, Inr v) \<Rightarrow>
      if m = ''eth_requestAccounts'' then ?S\<lparr>bs_bg := emit_b (EAnswer (task_origin t)) (bs_bg ?S)\<rparr> else ?S | _ \<Rightarrow> ?S)"
  have good: "good_bg (bs_bg S)" using assms(1) by (simp add: good_sys_def)
  have "good_bg (emit_b (EAnswer (task_origin t)) (bs_bg S))" by (rule good_emit [OF good]) (simp add: in_order_def)
  then have T: "good_sys T" "set (b_out (bs_bg S)) \<subseteq> set (b_out (bs_bg T))"
    using S by (auto simp: T_def emit_b_def split: bcall.split sum.split intro!: good_sys_on_bg)
  have "learnt (tk_request t) c r (bs_bg T)"
    using assms(3) p answered_mono [OF _ T(2)]
    by (auto simp: learnt_def T_def emit_b_def owner_answered_def owner_def task_origin_def answered_def split: bcall.split sum.split)
  then have "good_task (bs_bg T) (t\<lparr>tk_prog := f r\<rparr>)"
    using t T p by (auto simp: good_task_def good_sys_def)
  then have "good_sys (proceed (t\<lparr>tk_prog := f r\<rparr>) T)" by (rule good_proceed [OF T(1)])
  moreover have "answer_task t r S = proceed (t\<lparr>tk_prog := f r\<rparr>) T"
    using p by (simp add: answer_task_def T_def Let_def split: bcall.split sum.split)
  ultimately show ?thesis by simp
qed

lemma find_task_in: "find_task k S = Some t \<Longrightarrow> t \<in> set (bs_tasks S)"
  by (auto simp: find_task_def find_Some_iff)

lemma good_resolve:
  assumes "good_sys S"
  shows "good_sys (resolve_step k S)"
proof -
  have "good_sys (answer_task t (Inr response) S)"
    if t: "find_task k S = Some t" and p: "tk_prog t = PAwait (BDeferred k' u) f"
      and r: "find (\<lambda>(j, v, _). j = k' \<and> v = u) (b_resolved (bs_bg S)) = Some (j, v, response)" for t k' u f j v response
  proof (rule good_answer [OF assms find_task_in [OF t]])
    fix l w g x
    assume "tk_prog t = PAwait (BDeferred l w) g" "Inr response = (Inr x :: (thrown, jsval) sum)" "succeeded x"
    moreover have "(k', u, response) \<in> set (b_resolved (bs_bg S))" using r by (auto simp: find_Some_iff in_set_conv_nth)
    ultimately show "answered w (set (b_out (bs_bg S)))" using p assms by (auto simp: good_sys_def good_bg_def)
  qed
  then show ?thesis using assms
    by (auto simp: resolve_step_def split: option.split prog.split bcall.split)
qed

lemma benign_timeout: "benign (deferredTimeout k)"
  unfolding benign_def
proof (intro allI impI)
  fix s assume good: "good_bg s"
  let ?s = "clear_timer k s"
  have s: "good_bg ?s" "b_out ?s = b_out s" using good good_core [of ?s s] out_core [of ?s s] by simp_all
  have "good_bg (?s\<lparr>b_deferred := xs @ ys\<rparr>)" if "List.extract P (b_deferred ?s) = Some (xs, d, ys)" for P xs d ys
    using s(1) that by (auto simp: good_bg_def extract_Some_iff)
  then show "good_bg (deferredTimeout k s) \<and> set (b_out s) \<subseteq> set (b_out (deferredTimeout k s))"
    using good s good_resolve_error
    by (auto simp: deferredTimeout_def Let_def split: option.split)
qed

lemma benign_permq: "benign (run_permq ok)"
proof -
  have act: "st_activity (run_permop now op st) = st_activity st" for now op st
    by (simp add: run_permop_def grantPermission_def revokePermission_def split: permop.split)
  have perm: "isPermitted u st \<or> OGrant u = op" if "isPermitted u (run_permop now op st)" for u now op st
    using that by (auto simp: run_permop_def isPermitted_def revokePermission_def grantPermission_def split: permop.splits option.splits if_splits)
  have run: "good_bg (store_b (run_permop now op) (s\<lparr>b_permq := ops\<rparr>))" "good_bg (s\<lparr>b_permq := ops\<rparr>)"
    if good: "good_bg s" and q: "b_permq s = op # ops" for now op ops s
  proof -
    have "answered (Some u) (set (b_out s))" if "isPermitted u (run_permop now op (b_store s))" for u
      using perm [OF that] good q by (auto simp: good_bg_def)
    then show "good_bg (store_b (run_permop now op) (s\<lparr>b_permq := ops\<rparr>))" "good_bg (s\<lparr>b_permq := ops\<rparr>)"
      using good q act by (simp_all add: good_bg_def store_b_def)
  qed
  have "good_bg (run_permq ok s) \<and> b_out (run_permq ok s) = b_out s" if "good_bg s" for s
    using that run [OF that] by (simp add: run_permq_def Let_def store_b_def split: list.split)
  then show ?thesis by (simp add: benign_def)
qed

lemma benign_actq: "benign (run_actq ok)"
proof -
  have perm: "st_permissions (run_actop op st) = st_permissions st" for op st
    by (simp add: run_actop_def addActivityEntry_def updateActivityStatus_def split: actop.split)
  have "good_bg (run_actq ok s) \<and> b_out (run_actq ok s) = b_out s" if "good_bg s" for s
    using that perm activity_bounded [of "b_store s"]
    by (auto simp: run_actq_def Let_def good_bg_def store_b_def isPermitted_def split: list.split)
  then show ?thesis by (simp add: benign_def)
qed

lemma benign_deliver: "benign (deliver_b i ok)"
proof -
  have "good_bg (deliver_b i ok s) \<and> set (b_out s) \<subseteq> set (b_out (deliver_b i ok s))" if good: "good_bg s" for s
  proof -
    have s': "good_bg (s\<lparr>b_deliver := x\<rparr>)" for x using good good_core [of "s\<lparr>b_deliver := x\<rparr>" s] by simp
    have "good_bg (emit_b (EPost tab u ev d) (s\<lparr>b_deliver := x\<rparr>))" if "isPermitted u (b_store s)" for x tab u ev d
      by (rule good_emit [OF s']) (use that good in \<open>simp add: in_order_def good_bg_def\<close>)
    then show ?thesis using good s' by (auto simp: deliver_b_def Let_def emit_b_def split: prod.split)
  qed
  then show ?thesis by (simp add: benign_def)
qed

lemma benign_disconnect: "benign disconnect_b"
proof -
  have quiet: "benign (\<lambda>s. resetReconnectBackoff (s\<lparr>b_listening := False\<rparr>))" "benign (\<lambda>s. s\<lparr>b_session := None\<rparr>)"
    by (rule benign_core, simp)+
  have "benign (\<lambda>s. if b_session s \<noteq> None then (close_session s)\<lparr>b_session := None\<rparr> else s)"
    by (intro benign_if benign_id benign_comp [OF quiet(2) benign_close_session])
  then have "benign (\<lambda>s. handleSessionClosed ((\<lambda>s. if b_session s \<noteq> None then (close_session s)\<lparr>b_session := None\<rparr> else s)
      (resetReconnectBackoff (s\<lparr>b_listening := False\<rparr>))))"
    by (intro benign_comp [OF benign_closed] benign_comp [OF _ quiet(1)])
  then show ?thesis by (simp only: disconnect_b_def [abs_def] Let_def)
qed

lemma good_onPhase:
  assumes "good_sys S"
  shows "good_sys (onPhase_b phase uri snapshot act S)"
proof -
  have bg: "good_sys (S\<lparr>bs_bg := h (bs_bg S)\<rparr>)" if "benign h" for h
    using good_sys_benign [OF assms that] by (simp add: on_bg_def)
  have "benign (\<lambda>s. scheduleReconnect (state_b f s))" for f by (rule benign_core) simp
  moreover have "benign (\<lambda>s. (store_b (\<lambda>st. saveConnectedAt (Some (b_now (resetReconnectBackoff ((state_b f s)\<lparr>b_pairing := False\<rparr>))))
      (saveSessionState (Some snapshot) st)) (resetReconnectBackoff ((state_b f s)\<lparr>b_pairing := False\<rparr>)))\<lparr>b_alarm := True\<rparr>)" for f
    by (rule benign_core) (simp add: core_defs)
  ultimately show ?thesis
    using assms bg [of handleSessionClosed] bg [of "state_b f" for f]
    by (auto simp: onPhase_b_def Let_def intro!: good_flush bg split: dphase.split)
qed

lemma good_restart: "good_sys S \<Longrightarrow> good_sys (S\<lparr>bs_bg := (bg_start (b_store (bs_bg S)) (b_out (bs_bg S)))\<lparr>b_now := t, b_alarm := l\<rparr>, bs_tasks := []\<rparr>)"
  by (auto simp: good_sys_def good_bg_def bg_start_def)

lemma benign_events:
  "benign (onWalletJoined meta capabilities)" "benign (onAccountsChanged_b accounts)" "benign (onChainChanged_b hexId)"
  by (rule benign_core, simp add: onWalletJoined_def onAccountsChanged_b_def onChainChanged_b_def Let_def split: list.split option.split)+

lemma benign_pure:
  "benign (\<lambda>s. s\<lparr>b_session := p\<rparr>)" "benign (\<lambda>s. s\<lparr>b_sessionMeta := m\<rparr>)" "benign (\<lambda>s. s\<lparr>b_ports := f s\<rparr>)" "benign (\<lambda>s. s\<lparr>b_now := t\<rparr>)"
  "benign (store_b (saveSettings settings))"
  by (rule benign_core, simp)+

lemma benign_popup:
  "benign (\<lambda>s. rejectAllDeferred c m (if b_session s \<noteq> None then emit_b ERejectWallet s else s))"
  "benign (\<lambda>s. if b_session s \<noteq> None then emit_b EAcceptWallet s else s)"
  "benign (\<lambda>s. s\<lparr>b_permq := b_permq s @ [ORevoke u]\<rparr>)" "benign (store_b clearActivityLog)"
proof -
  have e: "benign (emit_b ERejectWallet)" "benign (emit_b EAcceptWallet)" by (rule benign_emit, simp add: silent_def)+
  show "benign (\<lambda>s. rejectAllDeferred c m (if b_session s \<noteq> None then emit_b ERejectWallet s else s))"
    by (rule benign_comp [OF benign_rejectAll]) (rule benign_if [OF e(1) benign_id])
  show "benign (\<lambda>s. if b_session s \<noteq> None then emit_b EAcceptWallet s else s)" by (rule benign_if [OF e(2) benign_id])
  show "benign (\<lambda>s. s\<lparr>b_permq := b_permq s @ [ORevoke u]\<rparr>)" "benign (store_b clearActivityLog)"
    by (auto simp: benign_def good_bg_def store_b_def clearActivityLog_def isPermitted_def)
qed

lemmas benign_steps = benign_updates benign_closed benign_timeout benign_permq benign_actq benign_deliver benign_disconnect
  benign_events benign_pure benign_popup

lemma good_step:
  assumes "good_sys S"
  shows "good_sys (bg_step e S)"
proof (cases e)
  case (VAnswer k r)
  then show ?thesis using assms
    by (auto simp: bg_step_def waits_deferred_def intro!: good_answer dest: find_task_in split: option.split)
next
  case (VPhase phase uri snapshot act)
  have "good_sys (on_bg (\<lambda>s. s\<lparr>b_session := Some phase\<rparr>) S)" by (rule good_sys_benign [OF assms benign_pure(1)])
  then show ?thesis using assms VPhase good_onPhase by (simp add: bg_step_def Let_def)
qed (use assms in \<open>auto simp: bg_step_def simp del: not_None_eq intro!: good_start_request good_start_plain good_resolve good_restart
  good_sys_benign benign_steps\<close>)

interpretation worker: inductive_invariant "sys_start store_init []" bg_trans good_sys
proof unfold_locales
  show "good_sys (sys_start store_init [])"
    by (simp add: good_sys_def sys_start_def bg_start_def good_bg_def store_init_def isPermitted_def)
qed (simp add: bg_trans_def good_step)

text \<open>C11. No site gets at the wallet behind the user's back: in every run of the extension's worker, from an empty store
  and through any interleaving of requests, answers, timers, session events, revocations and restarts, a request
  that is forwarded to the wallet for a named origin is an account request or comes after the wallet answered an
  account request of that very origin, and an event of the wallet is posted only to a tab whose origin has had such an
  answer.\<close>

theorem extension_origin_isolated:
  assumes "reach (sys_start store_init []) bg_trans S" "b_out (bs_bg S) = before @ e # later" "u \<noteq> []"
    "(\<exists>m p. e = EWallet (Some u) m p \<and> m \<noteq> ''eth_requestAccounts'') \<or> (\<exists>tab ev d. e = EPost tab u ev d)"
  shows "EAnswer (Some u) \<in> set before"
proof -
  have "orderly {} (before @ e # later)"
    using worker.inv_reach [OF assms(1)] assms(2) by (simp add: good_sys_def good_bg_def)
  then have "in_order (set before) e" by (simp add: orderly_append)
  then show ?thesis using assms(3,4) by (auto simp: in_order_def answered_def)
qed

text \<open>A session is paired, a site asks for the accounts, the wallet answers, the permission is stored and the site has
  a message signed.\<close>

definition demo_run :: "bevent list" where
  "demo_run = [VStartPairing, VAnswer 0 (Inr JUndef), VPhase DConnected JUndef ''snap'' (\<lambda>_. ''x''),
     VRequest TPage ''a1'' ''1'' ''eth_requestAccounts'' JUndef (Some ''site''), VAnswer 1 (Inr JUndef), VAnswer 1 (Inr (JArr [JStr ''0xa''])),
     VPermission True, VRequest TPage ''a2'' ''2'' ''personal_sign'' JUndef (Some ''site''), VAnswer 2 (Inr JUndef)]"

lemma reach_fold: "reach (sys_start store_init []) bg_trans (fold bg_step es (sys_start store_init []))"
proof (induction es rule: rev_induct)
  case (snoc e es)
  then show ?case by (auto intro: reach_step simp: bg_trans_def)
qed (simp add: reach_init)

lemma demo_out: "b_out (bs_bg (fold bg_step demo_run (sys_start store_init []))) =
    [ESession, EWallet (Some ''site'') ''eth_requestAccounts'' JUndef, EAnswer (Some ''site''),
     EReply 1 (JObj [(''result'', JArr [JStr ''0xa''])])] @ EWallet (Some ''site'') ''personal_sign'' JUndef # []"
  by code_simp

theorem extension_origin_isolated_witness:
  "EAnswer (Some ''site'') \<in> set [ESession, EWallet (Some ''site'') ''eth_requestAccounts'' JUndef, EAnswer (Some ''site''),
     EReply 1 (JObj [(''result'', JArr [JStr ''0xa''])])]"
  by (rule extension_origin_isolated [OF reach_fold demo_out]) auto

subsection \<open>What a site without permission gets\<close>

text \<open>C39. An origin that has no permission when its request is served gets no accounts and no permissions, and any
  method that is neither local, nor a read of the chain, nor an account request is refused with code 4100, whether the
  session is connected or not, without a call of the wallet and without a grant.\<close>

theorem extension_unpermitted_refused:
  assumes "rq_origin q = Some u" "u \<noteq> []" "\<not> isPermitted u (b_store s1)"
    "\<not> account_method (rq_method q)" "rq_method q \<notin> set EXT_READ_ONLY_METHODS"
    "rq_method q \<notin> {''eth_chainId'', ''net_version'', ''wallet_getCapabilities''}"
  shows "\<exists>s2. run_p (handleRpcRequest q) s ((s1, Inr x) # tr) =
      ([BStorage], s2, Some (Inr (if rq_method q \<in> {''eth_accounts'', ''wallet_getPermissions''} then result_of (JArr [])
        else error_of 4100 (if b_session s1 = Some DConnected then ''Not permitted. Call eth_requestAccounts first.''
          else ''Not connected. Call eth_requestAccounts first.'')))) \<and>
    core s2 = core s1"
proof -
  let ?m = "if rq_method q = ''eth_signTypedData_v3'' then ''eth_signTypedData_v4'' else rq_method q"
  have m: "?m \<notin> set EXT_READ_ONLY_METHODS" "?m \<notin> {''eth_chainId'', ''net_version'', ''wallet_getCapabilities''}"
    "?m \<noteq> ''wallet_requestPermissions''" "?m \<noteq> ''eth_requestAccounts''"
    using assms(4-6) by (auto simp: account_method_def EXT_READ_ONLY_METHODS_def)
  have same: "b_session (open_entry q s1) = b_session s1" "core (open_entry q s1) = core s1"
    by (simp_all add: open_entry_def Let_def log_b_def state_b_def core_def)
  have refused: "run_p (refuse q r) (open_entry q s1) tr = ([], signing_done q (close_entry q AError r (open_entry q s1)), Some (Inr r))"
    "core (signing_done q (close_entry q AError r (open_entry q s1))) = core s1" for r
    by (simp_all add: refuse_def signing_done_def close_entry_def same)
  show ?thesis using assms(1-4) m same refused
    by (auto simp: handleRpcRequest_def await_store_def answer_rpc_def Let_def wallet_method_def not_connected_def account_method_def)
qed

theorem extension_unpermitted_refused_witness:
  "\<exists>s2. run_p (handleRpcRequest \<lparr>rq_key = 0, rq_act = ''a'', rq_id = ''1'', rq_method = ''personal_sign'', rq_params = JUndef, rq_origin = Some ''evil''\<rparr>)
      (bg_start store_init []) [(bg_start store_init [], Inr JUndef)] =
     ([BStorage], s2, Some (Inr (error_of 4100 ''Not connected. Call eth_requestAccounts first.'')))"
proof -
  have "\<not> isPermitted ''evil'' (b_store (bg_start store_init []))" "b_session (bg_start store_init []) = None"
    by (simp_all add: bg_start_def store_init_def isPermitted_def)
  then show ?thesis
    using extension_unpermitted_refused [of "\<lparr>rq_key = 0, rq_act = ''a'', rq_id = ''1'', rq_method = ''personal_sign'', rq_params = JUndef, rq_origin = Some ''evil''\<rparr>"
        "''evil''" "bg_start store_init []" "bg_start store_init []" JUndef "[]"]
    by (auto simp: account_method_def EXT_READ_ONLY_METHODS_def)
qed

text \<open>The activity log stays within its limit of fifty entries in every reachable state of the worker, whatever the
  order in which the entries are added and updated.\<close>

theorem extension_activity_bounded:
  assumes "reach (sys_start store_init []) bg_trans S"
  shows "length (st_activity (b_store (bs_bg S))) \<le> 50"
  using worker.inv_reach [OF assms] by (simp add: good_sys_def good_bg_def MAX_ACTIVITY_def)

theorem extension_activity_bounded_witness:
  "length (st_activity (b_store (bs_bg (fold bg_step demo_run (sys_start store_init []))))) \<le> 50"
  by (rule extension_activity_bounded [OF reach_fold])

end
