(* ===== verification/Ext_Replies.thy ===== *)
theory Ext_Replies
  imports Ext_Theorems
begin

text \<open>
  Every request of a page is answered at most once: the numbers of the programs in flight are distinct, no program
  answers by itself, and a number that has been answered is never in flight again.
\<close>

subsection \<open>Programs do not answer\<close>

definition is_reply :: "beff \<Rightarrow> bool" where
  "is_reply e = (case e of EReply _ _ \<Rightarrow> True | _ \<Rightarrow> False)"

definition reply_key :: "beff \<Rightarrow> nat" where
  "reply_key e = (case e of EReply k _ \<Rightarrow> k | _ \<Rightarrow> 0)"

definition replied :: "bg \<Rightarrow> nat list" where
  "replied s = map reply_key (filter is_reply (b_out s))"

lemma replied_core: "core s = core s' \<Longrightarrow> replied s = replied s'"
  by (simp add: core_def replied_def)

lemma replied_emit [simp]: "replied (emit_b e s) = replied s @ (if is_reply e then [reply_key e] else [])"
  by (simp add: replied_def emit_b_def)

lemma replied_out [simp]: "replied (s\<lparr>b_permq := a\<rparr>) = replied s" "replied (s\<lparr>b_deferred := d\<rparr>) = replied s"
  "replied (s\<lparr>b_resolved := r\<rparr>) = replied s" "replied (store_b f s) = replied s" "replied (s\<lparr>b_deliver := dl\<rparr>) = replied s"
  by (simp_all add: replied_def store_b_def)

lemma replied_core_updates [simp]:
  "replied (state_b f s) = replied s" "replied (broadcastEvent ev d s) = replied s" "replied (clear_timer k s) = replied s"
  "replied (scheduleReconnect s) = replied s" "replied (resetReconnectBackoff s) = replied s"
  "replied (s\<lparr>b_session := p\<rparr>) = replied s" "replied (s\<lparr>b_sessionMeta := m\<rparr>) = replied s" "replied (s\<lparr>b_listening := l\<rparr>) = replied s"
  "replied (s\<lparr>b_wallet := w\<rparr>) = replied s" "replied (s\<lparr>b_pairing := l\<rparr>) = replied s" "replied (s\<lparr>b_rpcUrls := m\<rparr>) = replied s"
  "replied (s\<lparr>b_eip5792 := m\<rparr>) = replied s" "replied (s\<lparr>b_bytecode := m\<rparr>) = replied s" "replied (s\<lparr>b_attempt := n\<rparr>) = replied s"
  "replied (s\<lparr>b_timer := i\<rparr>) = replied s" "replied (s\<lparr>b_reconnecting := l\<rparr>) = replied s" "replied (s\<lparr>b_alarm := l\<rparr>) = replied s"
  "replied (s\<lparr>b_fallback := fb\<rparr>) = replied s" "replied (s\<lparr>b_ports := ps\<rparr>) = replied s" "replied (s\<lparr>b_now := t\<rparr>) = replied s"
  "replied (close_entry q st r s) = replied s" "replied (signing_done q s) = replied s" "replied (open_entry q s) = replied s"
  "replied (addDeferredRequest d' s) = replied s" "replied (resolve_deferred d' r s) = replied s" "replied (grant_b u s) = replied s"
  by (simp_all add: replied_def state_b_def broadcastEvent_def clear_timer_def scheduleReconnect_def resetReconnectBackoff_def close_entry_def
    signing_done_def open_entry_def Let_def log_b_def addDeferredRequest_def resolve_deferred_def grant_b_def split: option.split)

lemma replied_rejectAll [simp]: "replied (rejectAllDeferred c m s) = replied s"
proof -
  have "replied (fold (\<lambda>d s. resolve_deferred d (error_of c m) (clear_timer (df_key d) s)) ds s) = replied s" for ds
    by (induction ds arbitrary: s) simp_all
  then show ?thesis by (simp add: rejectAllDeferred_def)
qed

lemma replied_sessions [simp]:
  "replied (handleSessionClosed s) = replied s" "replied (new_session d s) = replied s" "replied (close_session s) = replied s"
  "replied (adopt_accounts q a s) = replied s"
  by (simp_all add: handleSessionClosed_def new_session_def close_session_def adopt_accounts_def Let_def is_reply_def)

primrec mute :: "bprog \<Rightarrow> bool" where
  "mute (PReturn v) = True"
| "mute (PThrow e) = True"
| "mute (PAwait c f) = (\<forall>r. mute (f r))"
| "mute (PRead g) = (\<forall>s. mute (g s))"
| "mute (PWrite h p) = ((\<forall>s. replied (h s) = replied s) \<and> mute p)"

lemma mute_after: "mute p \<Longrightarrow> (\<And>r. mute (k r)) \<Longrightarrow> mute (after p k)"
  by (induction p) auto


lemma mute_store [simp]: "mute (await_store k) \<longleftrightarrow> (\<forall>s. mute (k s))"
  by (auto simp: await_store_def split: sum.split)

lemma mute_batches: "(\<And>u. mute (k u)) \<Longrightarrow> mute (try_batches urls k)"
proof (induction urls k rule: try_batches.induct)
  case (1 urls k)
  then show ?case by (subst try_batches.simps) (auto split: sum.split jsval.split)
qed

lemma mute_settle [simp]: "mute (settle_prog r)"
  by (cases r) (simp_all add: settle_prog_def)

lemma mute_proxy [simp]: "mute (proxyRpcCall ch mt params urls)"
proof -
  have "mute (proxy_fallback ci mt params)" for ci
    by (auto simp: proxy_fallback_def discoverFallbackRpc_def intro!: mute_batches split: sum.split option.split)
  then have "mute (proxy_cached ci mt params)" for ci by (auto simp: proxy_cached_def split: sum.split option.split)
  then show ?thesis by (auto simp: proxyRpcCall_def evmProxyRpcCall_def Let_def split: sum.split)
qed

lemma mute_sessions [simp]: "mute createSession" "mute tryReconnect" "mute reconnectTimer" "mute keepalive"
proof -
  show create: "mute createSession" by (auto simp: createSession_def split: sum.split)
  have "mute (reconnect_saved saved)" for saved by (auto simp: reconnect_saved_def split: sum.split option.split)
  then have "mute doTryReconnect" by (auto simp: doTryReconnect_def intro!: mute_after split: sum.split option.split)
  then show again: "mute tryReconnect" by (auto simp: tryReconnect_def intro!: mute_after)
  then show "mute reconnectTimer" by (auto simp: reconnectTimer_def intro!: mute_after split: sum.split)
  show "mute keepalive" using again by (auto simp: keepalive_def is_reply_def intro!: mute_after split: sum.split)
qed


subsection \<open>Numbers\<close>





lemma replied_note [simp]: "replied (note_call t c s) = replied s"
  by (simp add: note_call_def is_reply_def split: bcall.split)








lemma replied_events [simp]:
  "replied (deferredTimeout k s) = replied s" "replied (onWalletJoined meta caps s) = replied s"
  "replied (onAccountsChanged_b as s) = replied s" "replied (onChainChanged_b hexId s) = replied s" "replied (disconnect_b s) = replied s"
  "replied (deliver_b i ok s) = replied s" "replied (run_permq ok s) = replied s" "replied (run_actq ok s) = replied s"
proof -
  have actq: "replied (s\<lparr>b_actq := x\<rparr>) = replied s" for s x by (simp add: replied_def)
  show "replied (deferredTimeout k s) = replied s" "replied (onWalletJoined meta caps s) = replied s"
    "replied (onAccountsChanged_b as s) = replied s" "replied (onChainChanged_b hexId s) = replied s" "replied (disconnect_b s) = replied s"
    "replied (deliver_b i ok s) = replied s" "replied (run_permq ok s) = replied s" "replied (run_actq ok s) = replied s"
    by (simp_all add: deferredTimeout_def onWalletJoined_def onAccountsChanged_b_def onChainChanged_b_def disconnect_b_def deliver_b_def
      run_permq_def run_actq_def Let_def is_reply_def actq split: option.split prod.split list.split)
qed









end
