(* ===== verification/Spec2Isabelle.thy ===== *)
theory Spec2Isabelle
  imports Relay_Theorems Transport_Theorems End_To_End Evm_Theorems Ext_Replies
begin

text \<open>
  WalletPair connects a dApp and a wallet through an untrusted WebSocket relay.  The dApp shows a
  pairing URI; the wallet reads it and sends a join frame; both derive the same keys; from then on
  the dApp sends sealed requests, the wallet sealed responses and events.  This development models the
  relay of \<^verbatim>\<open>walletpair-websocket-relay-cf-worker/src\<close>, the SDK of \<^verbatim>\<open>walletpair-sdk/src\<close> and
  the worker of the browser extension of \<^verbatim>\<open>walletpair-extension/src\<close>.

  \<^bold>\<open>Theories.\<close>
  \<^item> \<open>Prelude\<close>, \<open>JsMap\<close>, \<open>JsValue\<close>, \<open>JsJson\<close>: the parts of JavaScript the sources use.  Strings are lists of bytes of
    their UTF-8 form, with UTF-16 lengths where the code counts them; \<^verbatim>\<open>Map\<close> and \<^verbatim>\<open>Set\<close> are lists in
    insertion order; values are the datatype \<open>jsval\<close>; \<^verbatim>\<open>JSON.stringify\<close> and \<^verbatim>\<open>JSON.parse\<close> are functions on it
    with their round trip.  Errors are the left summand of \<open>res\<close>.
  \<^item> \<open>Base64url\<close>, \<open>Protocol_Types\<close>, \<open>Relay_Protocol\<close>: the encoding of keys, the wire messages and close reasons
    of \<^verbatim>\<open>types.ts\<close>, and \<^verbatim>\<open>protocol.ts\<close> of the relay (validation, parsing, frame builders, state table).
  \<^item> \<open>Event_System\<close>: labelled transition systems, reachability, runs, and the locales \<open>inductive_invariant\<close>
    and \<open>monotone_system\<close>.
  \<^item> \<open>Relay_Channel\<close>, \<open>Relay_Invariant\<close>, \<open>Relay_Properties\<close>, \<open>Relay_Theorems\<close>: the durable object of \<^verbatim>\<open>channel.ts\<close> as a
    record of sockets, storage, alarm and channel state, one function per handler, and its step relation
    (connections, messages, disconnects, alarms, evictions).  Every send may fail, as the code allows.
  \<^item> \<open>Crypto\<close>, \<open>Crypto_Theorems\<close>, \<open>PairingUri\<close>: \<^verbatim>\<open>crypto.ts\<close>.  The packages it imports (X25519, HKDF, HMAC, SHA-256,
    ChaCha20-Poly1305, hex, canonical JSON) are the fields of the record \<open>noble\<close>; \<open>noble_spec\<close> states the
    documented behaviour the theorems rely on, and \<open>demo_noble\<close> is an instance of it.
  \<^item> \<open>Session_Base\<close>: what \<^verbatim>\<open>wallet-session.ts\<close> and \<^verbatim>\<open>dapp-session.ts\<close> share.  A method is a function from the
    session record to a new record and a result; \<open>env\<close> carries the clock and the random values it draws.
    What it does to the outside (frames, events of the emitter, saves, connects, encryptions) is appended to
    a trace.  A method that awaits a promise leaves a numbered continuation, which a later step completes or
    fails; timers are fields with their due time.
  \<^item> \<open>Wallet_Session\<close>, \<open>Wallet_Handlers\<close>: \<^verbatim>\<open>wallet-session.ts\<close>, ending in \<open>wallet_step\<close> with one event per method,
    message, timer and promise.  \<open>Dapp_Session\<close>, \<open>Dapp_Handlers\<close>: \<^verbatim>\<open>dapp-session.ts\<close>, ending in \<open>dapp_step\<close>.
  \<^item> \<open>Send_Ledger\<close>: the locale \<open>send_ledger\<close>, the accounting of sequence numbers, interpreted by \<open>Wallet_Invariant\<close> and
    \<open>Dapp_Invariant\<close>.  \<open>Dapp_Promises\<close>: the accounting of promises.  \<open>Wallet_Invariant\<close>, \<open>Dapp_Runs\<close>: every step of a
    session keeps the invariant.  \<open>Session_Recovery\<close>: signed snapshots and the locale \<open>retry_rounds\<close>.
  \<^item> \<open>Ws_Transport\<close>, \<open>Transport_Theorems\<close>: \<^verbatim>\<open>ws-transport.ts\<close>, with one record per socket for the variables its closures share;
    sockets may overlap.
  \<^item> \<open>Wallet_Theorems\<close>, \<open>Dapp_Theorems\<close>, \<open>Dapp_Recovery\<close>: the properties of the two sessions.
  \<^item> \<open>End_To_End\<close>: both sessions together.
  \<^item> \<open>Provider_Errors\<close>, \<open>Evm_Mapper\<close>, \<open>Evm_Provider\<close>, \<open>Evm_Theorems\<close>: \<^verbatim>\<open>errors.ts\<close> and \<^verbatim>\<open>evm/eip1193.ts\<close>.  A request is a program
    (\<open>prog\<close>) that reads and writes the provider and awaits the wallet, the RPC provider, an endpoint or the directory
    of endpoints; \<open>run_p\<close> runs it against a list of answers, each with the provider found when the answer
    arrives, so other requests and events may have changed it.  \<open>Programs\<close> holds the programs and their runs.
  \<^item> \<open>Ext_Storage\<close>, \<open>Ext_Background\<close>, \<open>Ext_Theorems\<close>, \<open>Ext_Replies\<close>: of \<^verbatim>\<open>walletpair-extension/src\<close> the store (\<^verbatim>\<open>lib/storage.ts\<close>), the RPC proxy and
    the service worker (\<^verbatim>\<open>entrypoints/background.ts\<close>), whose requests are programs too; \<open>bg_step\<close> interleaves them with the
    events of the session, timers, the popup's messages, the lock queues of the store and restarts of the worker.

  \<^bold>\<open>What is shown.\<close>  Of the relay: its state is well formed in memory and in storage in every reachable state,
  also across evictions; a channel connects only by an accept of its dApp; frames are forwarded
  unchanged to the addressed role; refused data only closes the sender.  Of the cryptographic layer: sealed
  payloads open to what was sealed, additional data is injective, different numbers give different texts, both
  sides compute one secret, URIs and snapshots are read back.  Of the sessions, for every run between two
  changes of identity and any interleaving of frames, timers, calls and saves: no sequence number
  is used twice and each is covered by a saved counter first; replays have no effect; tables are
  bounded; only granted methods reach the wallet application and only wallets with the declared scope
  reach the dApp application; every promise of a request is settled exactly once or still waits with its
  deadline armed; reconnecting ends; a repeated request is answered from the cache.  Of the
  transport: frames leave in order, no connect promise is settled twice, what one side sends the other delivers.  Of both
  together: the handshake gives both sides the same keys, and a request sent again has the same hash.  Of the EVM
  provider: reads stay off the wallet while an endpoint answers, every request settles within six calls, a transaction
  and its chain agree, a switched chain is visible at once, and rejections keep their numeric code.  Of the extension:
  an origin reaches the wallet, and hears of it, only after the wallet answered an account request of that origin;
  others are refused; no page is answered twice; the activity log is bounded.

  \<^bold>\<open>Bounds.\<close>  All functions are total; loops over lists are structural, the eviction of the caches has a measure.
  There is no fuel.  Numbers of JavaScript are exact rationals, \<open>None\<close> where they may be \<^verbatim>\<open>NaN\<close>.  Counters are unbounded integers, with the limits of the code (\<open>MAX_SEND_SEQ\<close>, \<open>MAX_SEQ\<close>)
  written out; bytes are 8-bit words.

  \<^bold>\<open>Assumptions on the environment.\<close>  The transport's \<^verbatim>\<open>send\<close> does not throw; event listeners do not call back into the
  session while it runs; a read of \<^verbatim>\<open>chrome.storage\<close> returns what it holds when the read is answered; \<^verbatim>\<open>save\<close> either always or never returns a promise (\<open>pmode\<close>).

  \<^bold>\<open>Not modelled.\<close>  Console output and the sink of the disconnect log; wiping of key buffers after use, beyond
  the fields that become null; the listener lists of the emitter; a custom method mapper and the network
  behind \<^verbatim>\<open>fetch\<close>; the wagmi connector; of the extension the confirmation popup, which no code opens, the injected provider,
  content scripts and pages; the examples and the web site; the relay written in Rust.
\<close>

end
